(* ===== verification/AV_Prelude.thy ===== *)
theory AV_Prelude
  imports Main "HOL-Library.Sublist" "HOL-Library.Char_ord" "HOL-Library.List_Lexorder"
    "HOL-Library.Code_Target_Numeral"
begin

text \<open>
  What the component theories share.

  \<^item> A Rust \<open>String\<close>, \<open>&str\<close>, \<open>Vec<u8>\<close> and \<open>&[u8]\<close> are all the sequence of their bytes: a HOL
    \<^typ>\<open>string\<close>, whose characters are the 256 byte values. \<open>len()\<close> is \<^const>\<open>length\<close>, and operations
    on Unicode scalar values (\<open>chars()\<close>, \<open>trim()\<close>) go through the UTF-8 chunks of the string.
  \<^item> A Rust \<open>Result<T, E>\<close> is the sum \<open>'e + 'a\<close> with \<^const>\<open>Inl\<close> for \<open>Err\<close>. The operator \<open>?\<close> is
    \<open>rbind\<close>, \<open>Option::context\<close> is \<open>ok_or\<close>, and \<open>bail!\<close> under a condition is an \<open>if\<close> with \<^const>\<open>Inl\<close>
    in its first branch.
  \<^item> The functions of \<open>core::str\<close>, \<open>core::slice\<close> and \<open>core::char\<close> that the sources call, with the
    names they have there.
\<close>

section \<open>Types and collections of facts\<close>

type_synonym bytes = string

named_theorems result_iff
  \<open>when a computation over results returns a value\<close>

section \<open>Results\<close>

definition rbind :: "'e + 'a \<Rightarrow> ('a \<Rightarrow> 'e + 'b) \<Rightarrow> 'e + 'b" where
  "rbind m f = (case m of Inl e \<Rightarrow> Inl e | Inr x \<Rightarrow> f x)"

definition ok_or :: "'e \<Rightarrow> 'a option \<Rightarrow> 'e + 'a" where
  "ok_or e x = (case x of None \<Rightarrow> Inl e | Some y \<Rightarrow> Inr y)"

definition is_ok :: "'e + 'a \<Rightarrow> bool" where
  "is_ok m = (case m of Inl _ \<Rightarrow> False | Inr _ \<Rightarrow> True)"

definition with_context :: "'e2 \<Rightarrow> 'e + 'a \<Rightarrow> 'e2 + 'a" where
  "with_context e m = (case m of Inl _ \<Rightarrow> Inl e | Inr x \<Rightarrow> Inr x)"

definition map_error :: "('e \<Rightarrow> 'f) \<Rightarrow> 'e + 'a \<Rightarrow> 'f + 'a" where
  "map_error f m = (case m of Inl e \<Rightarrow> Inl (f e) | Inr x \<Rightarrow> Inr x)"

definition ok_opt :: "'e + 'a \<Rightarrow> 'a option" where
  "ok_opt m = (case m of Inl _ \<Rightarrow> None | Inr x \<Rightarrow> Some x)"

text \<open>A \<open>for\<close> loop whose body may return early with an error, with and without loop state.\<close>

fun for_each :: "('a \<Rightarrow> 'e + unit) \<Rightarrow> 'a list \<Rightarrow> 'e + unit" where
  "for_each f [] = Inr ()"
| "for_each f (x # xs) = rbind (f x) (\<lambda>_. for_each f xs)"

fun fold_result :: "('s \<Rightarrow> 'a \<Rightarrow> 'e + 's) \<Rightarrow> 's \<Rightarrow> 'a list \<Rightarrow> 'e + 's" where
  "fold_result f s [] = Inr s"
| "fold_result f s (x # xs) = rbind (f s x) (\<lambda>s'. fold_result f s' xs)"

text \<open>\<open>collect::<Result<Vec<_>>>()\<close>: the first error, or all the values.\<close>

fun collect_result :: "('e + 'a) list \<Rightarrow> 'e + 'a list" where
  "collect_result [] = Inr []"
| "collect_result (m # ms) = rbind m (\<lambda>x. rbind (collect_result ms) (\<lambda>xs. Inr (x # xs)))"

lemma rbind_simps [simp]:
  "rbind (Inl e) f = Inl e"
  "rbind (Inr x) f = f x"
  by (simp_all add: rbind_def)

lemma ok_or_simps [simp]:
  "ok_or e None = Inl e"
  "ok_or e (Some x) = Inr x"
  by (simp_all add: ok_or_def)

lemma is_ok_simps [simp]:
  "\<not> is_ok (Inl e)"
  "is_ok (Inr x)"
  by (simp_all add: is_ok_def)

lemma with_context_simps [simp]:
  "with_context e (Inl e') = Inl e"
  "with_context e (Inr x) = Inr x"
  by (simp_all add: with_context_def)

lemma map_error_simps [simp]:
  "map_error f (Inl e) = Inl (f e)"
  "map_error f (Inr x) = Inr x"
  by (simp_all add: map_error_def)

lemma ok_opt_simps [simp]:
  "ok_opt (Inl e) = None"
  "ok_opt (Inr x) = Some x"
  by (simp_all add: ok_opt_def)

lemma rbind_Inr_iff [result_iff]: "rbind m f = Inr y \<longleftrightarrow> (\<exists>x. m = Inr x \<and> f x = Inr y)"
  by (cases m) auto

lemma ok_or_Inr_iff [result_iff]: "ok_or e m = Inr x \<longleftrightarrow> m = Some x"
  by (cases m) auto

lemma with_context_Inr_iff [result_iff]: "with_context e m = Inr x \<longleftrightarrow> m = Inr x"
  by (cases m) auto

lemma map_error_Inr_iff [result_iff]: "map_error f m = Inr x \<longleftrightarrow> m = Inr x"
  by (cases m) auto

lemma bail_Inr_iff [result_iff]: "(if b then Inl e else m) = Inr x \<longleftrightarrow> \<not> b \<and> m = Inr x"
  by auto

lemma is_ok_iff: "is_ok m \<longleftrightarrow> (\<exists>x. m = Inr x)"
  by (cases m) auto

lemma is_ok_unit: "is_ok (m :: 'e + unit) \<longleftrightarrow> m = Inr ()"
  by (cases m) auto

lemma ok_opt_Some_iff [result_iff]: "ok_opt m = Some x \<longleftrightarrow> m = Inr x"
  by (cases m) auto

lemma for_each_Inr_iff [result_iff]:
  "for_each f xs = Inr u \<longleftrightarrow> (\<forall>x\<in>set xs. f x = Inr ())"
  by (induction xs) (auto simp: rbind_Inr_iff)

lemma fold_result_append:
  "fold_result f s (xs @ ys) = rbind (fold_result f s xs) (\<lambda>s'. fold_result f s' ys)"
proof (induction xs arbitrary: s)
  case Nil
  show ?case by simp
next
  case (Cons x xs)
  then show ?case by (cases "f s x") auto
qed

lemma collect_result_Inr_iff [result_iff]:
  "collect_result ms = Inr xs \<longleftrightarrow> ms = map Inr xs"
proof (induction ms arbitrary: xs)
  case Nil
  show ?case by auto
next
  case (Cons m ms)
  then show ?case by (cases xs) (auto simp: rbind_Inr_iff)
qed

section \<open>Bytes\<close>

abbreviation byte :: "char \<Rightarrow> nat" where
  "byte c \<equiv> of_char c"

definition is_ascii_lowercase :: "char \<Rightarrow> bool" where
  "is_ascii_lowercase c \<longleftrightarrow> 97 \<le> byte c \<and> byte c \<le> 122"

definition is_ascii_uppercase :: "char \<Rightarrow> bool" where
  "is_ascii_uppercase c \<longleftrightarrow> 65 \<le> byte c \<and> byte c \<le> 90"

definition is_ascii_digit :: "char \<Rightarrow> bool" where
  "is_ascii_digit c \<longleftrightarrow> 48 \<le> byte c \<and> byte c \<le> 57"

definition is_ascii_alphabetic :: "char \<Rightarrow> bool" where
  "is_ascii_alphabetic c \<longleftrightarrow> is_ascii_lowercase c \<or> is_ascii_uppercase c"

definition is_ascii_alphanumeric :: "char \<Rightarrow> bool" where
  "is_ascii_alphanumeric c \<longleftrightarrow> is_ascii_alphabetic c \<or> is_ascii_digit c"

definition is_ascii_hexdigit :: "char \<Rightarrow> bool" where
  "is_ascii_hexdigit c \<longleftrightarrow> is_ascii_digit c \<or> (97 \<le> byte c \<and> byte c \<le> 102) \<or> (65 \<le> byte c \<and> byte c \<le> 70)"

definition is_ascii_control :: "char \<Rightarrow> bool" where
  "is_ascii_control c \<longleftrightarrow> byte c < 32 \<or> byte c = 127"

text \<open>\<open>u8::is_ascii_whitespace\<close>: tab, line feed, form feed, carriage return and space.\<close>

definition is_ascii_whitespace :: "char \<Rightarrow> bool" where
  "is_ascii_whitespace c \<longleftrightarrow> byte c = 9 \<or> byte c = 10 \<or> byte c = 12 \<or> byte c = 13 \<or> byte c = 32"

text \<open>Letters change case in bit 5, the bit of value 32.\<close>

fun ascii_lower :: "char \<Rightarrow> char" where
  "ascii_lower (Char b0 b1 b2 b3 b4 b5 b6 b7) =
     (if is_ascii_uppercase (Char b0 b1 b2 b3 b4 b5 b6 b7) then Char b0 b1 b2 b3 b4 True b6 b7
      else Char b0 b1 b2 b3 b4 b5 b6 b7)"

fun ascii_upper :: "char \<Rightarrow> char" where
  "ascii_upper (Char b0 b1 b2 b3 b4 b5 b6 b7) =
     (if is_ascii_lowercase (Char b0 b1 b2 b3 b4 b5 b6 b7) then Char b0 b1 b2 b3 b4 False b6 b7
      else Char b0 b1 b2 b3 b4 b5 b6 b7)"

definition to_ascii_lowercase :: "string \<Rightarrow> string" where
  "to_ascii_lowercase s = map ascii_lower s"

definition to_ascii_uppercase :: "string \<Rightarrow> string" where
  "to_ascii_uppercase s = map ascii_upper s"

definition eq_ignore_ascii_case :: "string \<Rightarrow> string \<Rightarrow> bool" where
  "eq_ignore_ascii_case a b \<longleftrightarrow> to_ascii_lowercase a = to_ascii_lowercase b"

lemmas ascii_class_defs =
  is_ascii_lowercase_def is_ascii_uppercase_def is_ascii_digit_def is_ascii_alphabetic_def
  is_ascii_alphanumeric_def is_ascii_hexdigit_def is_ascii_control_def is_ascii_whitespace_def


lemma byte_Char:
  "byte (Char b0 b1 b2 b3 b4 b5 b6 b7) =
     of_bool b0 + 2 * of_bool b1 + 4 * of_bool b2 + 8 * of_bool b3
     + 16 * of_bool b4 + 32 * of_bool b5 + 64 * of_bool b6 + 128 * of_bool b7"
  by (simp add: of_char_def)

lemma ascii_lower_not_upper [simp]: "\<not> is_ascii_uppercase (ascii_lower c)"
  by (cases c) (auto simp: is_ascii_uppercase_def byte_Char split: if_splits)

lemma ascii_lower_id: "\<not> is_ascii_uppercase c \<Longrightarrow> ascii_lower c = c"
  by (cases c) simp

lemma byte_ascii_lower: "byte (ascii_lower c) = (if is_ascii_uppercase c then byte c + 32 else byte c)"
  by (cases c) (auto simp: is_ascii_uppercase_def byte_Char)

lemma ascii_lower_class [simp]:
  "is_ascii_alphanumeric (ascii_lower c) = is_ascii_alphanumeric c"
  "is_ascii_digit (ascii_lower c) = is_ascii_digit c"
  by (auto simp: is_ascii_alphanumeric_def is_ascii_alphabetic_def is_ascii_lowercase_def
      is_ascii_uppercase_def is_ascii_digit_def byte_ascii_lower)

lemma ascii_lower_eq_iff: "\<not> is_ascii_lowercase d \<Longrightarrow> \<not> is_ascii_uppercase d \<Longrightarrow> ascii_lower c = d \<longleftrightarrow> c = d"
  by (auto simp: is_ascii_lowercase_def is_ascii_uppercase_def byte_ascii_lower ascii_lower_id
      dest!: arg_cong [of _ _ byte] split: if_splits)

lemma ascii_lower_idem [simp]: "ascii_lower (ascii_lower c) = ascii_lower c"
  by (simp add: ascii_lower_id)

lemma ascii_upper_lower [simp]: "ascii_upper (ascii_lower c) = ascii_upper c"
  by (cases c) (auto simp: is_ascii_lowercase_def is_ascii_uppercase_def byte_Char)

lemma eq_ignore_ascii_case_upper: "eq_ignore_ascii_case a b \<Longrightarrow> to_ascii_uppercase a = to_ascii_uppercase b"
  unfolding eq_ignore_ascii_case_def to_ascii_lowercase_def to_ascii_uppercase_def
  by (drule arg_cong [of _ _ "map ascii_upper"]) (simp add: comp_def)

lemma to_ascii_lowercase_simps [simp]:
  "to_ascii_lowercase [] = []"
  "to_ascii_lowercase (c # s) = ascii_lower c # to_ascii_lowercase s"
  "to_ascii_lowercase (s @ t) = to_ascii_lowercase s @ to_ascii_lowercase t"
  by (simp_all add: to_ascii_lowercase_def)

lemma to_ascii_lowercase_idem [simp]:
  "to_ascii_lowercase (to_ascii_lowercase s) = to_ascii_lowercase s"
  by (simp add: to_ascii_lowercase_def)

lemma length_to_ascii_lowercase [simp]: "length (to_ascii_lowercase s) = length s"
  by (simp add: to_ascii_lowercase_def)

section \<open>UTF-8\<close>

definition utf8_width :: "char \<Rightarrow> nat" where
  "utf8_width c = (if byte c < 128 then 1 else if byte c < 224 then 2 else if byte c < 240 then 3 else 4)"

text \<open>\<open>str::chars\<close>: the encodings of the scalar values of a string, one chunk for each.\<close>

function str_chars :: "string \<Rightarrow> string list" where
  "str_chars [] = []"
| "str_chars (c # cs) = (c # take (utf8_width c - 1) cs) # str_chars (drop (utf8_width c - 1) cs)"
  by pat_completeness auto
termination
  by (relation "measure length") (auto simp: less_Suc_eq_le)

lemma str_chars_ascii: "list_all (\<lambda>c. byte c < 128) s \<Longrightarrow> str_chars s = map (\<lambda>c. [c]) s"
  by (induction s) (simp_all add: utf8_width_def)

definition utf8_cont :: "char \<Rightarrow> bool" where
  "utf8_cont c \<longleftrightarrow> 128 \<le> byte c \<and> byte c \<le> 191"

text \<open>\<open>str::from_utf8\<close> succeeds: no overlong form, no surrogate, nothing above U+10FFFF.\<close>

fun utf8_valid :: "bytes \<Rightarrow> bool" where
  "utf8_valid [] = True"
| "utf8_valid (a # r1) =
    (if byte a < 128 then utf8_valid r1
     else (case r1 of [] \<Rightarrow> False | b # r2 \<Rightarrow>
       if 194 \<le> byte a \<and> byte a \<le> 223 then utf8_cont b \<and> utf8_valid r2
       else (case r2 of [] \<Rightarrow> False | c # r3 \<Rightarrow>
         if 224 \<le> byte a \<and> byte a \<le> 239 then
           utf8_cont b \<and> utf8_cont c
           \<and> (byte a = 224 \<longrightarrow> 160 \<le> byte b) \<and> (byte a = 237 \<longrightarrow> byte b \<le> 159) \<and> utf8_valid r3
         else (case r3 of [] \<Rightarrow> False | d # r4 \<Rightarrow>
           240 \<le> byte a \<and> byte a \<le> 244 \<and> utf8_cont b \<and> utf8_cont c \<and> utf8_cont d
           \<and> (byte a = 240 \<longrightarrow> 144 \<le> byte b) \<and> (byte a = 244 \<longrightarrow> byte b \<le> 143) \<and> utf8_valid r4))))"

text \<open>\<open>char::is_control\<close>: the category Cc, which is U+0000 to U+001F and U+007F to U+009F.\<close>

definition char_is_control :: "string \<Rightarrow> bool" where
  "char_is_control ch =
    (case map byte ch of
       [a] \<Rightarrow> a < 32 \<or> a = 127
     | [a, b] \<Rightarrow> a = 194 \<and> 128 \<le> b \<and> b \<le> 159
     | _ \<Rightarrow> False)"

text \<open>\<open>char::is_whitespace\<close>: the property White_Space.\<close>

definition char_is_whitespace :: "string \<Rightarrow> bool" where
  "char_is_whitespace ch =
    (case map byte ch of
       [a] \<Rightarrow> (9 \<le> a \<and> a \<le> 13) \<or> a = 32
     | [a, b] \<Rightarrow> a = 194 \<and> (b = 133 \<or> b = 160)
     | [a, b, c] \<Rightarrow>
         (a = 225 \<and> b = 154 \<and> c = 128)
         \<or> (a = 226 \<and> b = 128 \<and> ((128 \<le> c \<and> c \<le> 138) \<or> c = 168 \<or> c = 169 \<or> c = 175))
         \<or> (a = 226 \<and> b = 129 \<and> c = 159)
         \<or> (a = 227 \<and> b = 128 \<and> c = 128)
     | _ \<Rightarrow> False)"

definition has_control :: "string \<Rightarrow> bool" where
  "has_control s = list_ex char_is_control (str_chars s)"

definition has_whitespace :: "string \<Rightarrow> bool" where
  "has_whitespace s = list_ex char_is_whitespace (str_chars s)"

definition trim :: "string \<Rightarrow> string" where
  "trim s = concat (rev (dropWhile char_is_whitespace (rev (dropWhile char_is_whitespace (str_chars s)))))"

section \<open>The functions of strings and slices\<close>

text \<open>\<open>str::split\<close>, \<open>split_once\<close> and \<open>rsplit_once\<close> at an ASCII character.\<close>

fun split_on :: "char \<Rightarrow> string \<Rightarrow> string list" where
  "split_on d [] = [[]]"
| "split_on d (c # cs) =
    (if c = d then [] # split_on d cs
     else case split_on d cs of [] \<Rightarrow> [[c]] | x # xs \<Rightarrow> (c # x) # xs)"

fun split_once :: "char \<Rightarrow> string \<Rightarrow> (string \<times> string) option" where
  "split_once d [] = None"
| "split_once d (c # cs) =
    (if c = d then Some ([], cs)
     else case split_once d cs of None \<Rightarrow> None | Some (a, b) \<Rightarrow> Some (c # a, b))"

definition rsplit_once :: "char \<Rightarrow> string \<Rightarrow> (string \<times> string) option" where
  "rsplit_once d s =
    (case split_once d (rev s) of None \<Rightarrow> None | Some (a, b) \<Rightarrow> Some (rev b, rev a))"

definition strip_prefix :: "string \<Rightarrow> string \<Rightarrow> string option" where
  "strip_prefix p s = (if prefix p s then Some (drop (length p) s) else None)"

definition strip_suffix :: "string \<Rightarrow> string \<Rightarrow> string option" where
  "strip_suffix p s = (if suffix p s then Some (take (length s - length p) s) else None)"

definition trim_start_matches :: "char \<Rightarrow> string \<Rightarrow> string" where
  "trim_start_matches c s = dropWhile (\<lambda>x. x = c) s"

definition trim_end_matches :: "char \<Rightarrow> string \<Rightarrow> string" where
  "trim_end_matches c s = rev (dropWhile (\<lambda>x. x = c) (rev s))"

text \<open>
  \<open>slice::windows\<close> and \<open>Iterator::position\<close>. A window of width 0 panics in Rust; every caller tests
  for the empty pattern first, and the model gives no window.
\<close>

fun windows :: "nat \<Rightarrow> 'a list \<Rightarrow> 'a list list" where
  "windows n [] = []"
| "windows n (x # xs) =
    (if 0 < n \<and> n \<le> Suc (length xs) then take n (x # xs) # windows n xs else [])"

fun position :: "('a \<Rightarrow> bool) \<Rightarrow> 'a list \<Rightarrow> nat option" where
  "position P [] = None"
| "position P (x # xs) = (if P x then Some 0 else map_option Suc (position P xs))"


lemma split_on_not_Nil [simp]: "split_on d s \<noteq> []"
  by (cases s) (auto split: list.splits)

lemma split_on_append: "split_on d (xs @ d # ys) = split_on d xs @ split_on d ys"
  by (induction xs) (auto split: list.splits)

lemma split_on_no_delim: "d \<notin> set s \<Longrightarrow> split_on d s = [s]"
  by (induction s) auto

lemma split_on_free: "x \<in> set (split_on d s) \<Longrightarrow> d \<notin> set x"
  by (induction s arbitrary: x) (fastforce split: if_splits list.splits)+

lemma split_once_append [simp]: "d \<notin> set a \<Longrightarrow> split_once d (a @ d # b) = Some (a, b)"
  by (induction a) auto

lemma split_once_SomeD: "split_once d s = Some (a, b) \<Longrightarrow> d \<notin> set a \<and> a @ d # b = s"
  by (induction s arbitrary: a) (auto split: if_splits option.splits)

lemma split_once_Some_iff: "split_once d s = Some (a, b) \<longleftrightarrow> d \<notin> set a \<and> s = a @ d # b"
  using split_once_SomeD [of d s a b] by auto

lemma split_once_None_iff: "split_once d s = None \<longleftrightarrow> d \<notin> set s"
  by (induction s) (auto split: option.splits)

lemma rsplit_once_Some_iff: "rsplit_once d s = Some (a, b) \<longleftrightarrow> d \<notin> set b \<and> s = a @ d # b"
proof -
  have "rsplit_once d s = Some (a, b) \<longleftrightarrow> split_once d (rev s) = Some (rev b, rev a)"
    by (auto simp: rsplit_once_def split: option.splits)
  also have "\<dots> \<longleftrightarrow> d \<notin> set b \<and> rev s = rev (a @ d # b)"
    by (simp add: split_once_Some_iff)
  finally show ?thesis
    by (simp only: rev_is_rev_conv)
qed

lemma strip_prefix_Some_iff [simp]: "strip_prefix p s = Some t \<longleftrightarrow> s = p @ t"
  by (auto simp: strip_prefix_def prefix_def)

section \<open>Occurrences of a pattern\<close>

lemma not_in_prefix_before: "c \<notin> set p \<Longrightarrow> p @ v = xs @ c # ys \<Longrightarrow> prefix p xs"
  by (auto simp: append_eq_append_conv2 append_eq_Cons_conv prefix_def)

lemma sublist_split_at:
  assumes "c \<notin> set p"
  shows "sublist p (xs @ c # ys) \<longleftrightarrow> sublist p xs \<or> sublist p ys"
proof (induction xs)
  case Nil
  have "prefix p (c # ys) \<Longrightarrow> p = []"
    using assms by (cases p) auto
  then show ?case by (auto simp: sublist_Cons_right)
next
  case (Cons x xs)
  have "prefix p ((x # xs) @ c # ys) \<longleftrightarrow> prefix p (x # xs)"
    using assms by (metis not_in_prefix_before prefix_append prefix_def)
  then show ?case
    using Cons by (auto simp: sublist_Cons_right)
qed

lemma position_None_iff: "position P xs = None \<longleftrightarrow> (\<forall>x\<in>set xs. \<not> P x)"
  by (induction xs) auto

lemma windows_Nil_iff: "windows n xs = [] \<longleftrightarrow> n = 0 \<or> length xs < n"
  by (cases xs) auto

lemma windows_zero [simp]: "windows 0 xs = []"
  by (cases xs) auto

lemma take_eq_prefix: "take (length p) xs = p \<longleftrightarrow> prefix p xs"
  by (metis append_eq_conv_conj prefix_def take_is_prefix)

lemma set_windows: "0 < n \<Longrightarrow> w \<in> set (windows n xs) \<longleftrightarrow> sublist w xs \<and> length w = n"
proof (induction xs)
  case Nil
  then show ?case by auto
next
  case (Cons x xs)
  show ?case
  proof (cases "n \<le> Suc (length xs)")
    case True
    have "w = take n (x # xs) \<longleftrightarrow> prefix w (x # xs) \<and> length w = n"
      using True take_eq_prefix [of w "x # xs"] by auto
    then show ?thesis
      using Cons True by (auto simp: sublist_Cons_right)
  next
    case False
    then show ?thesis by (auto dest: sublist_length_le)
  qed
qed

text \<open>The first window equal to a pattern is its first occurrence.\<close>

definition find_window :: "'a list \<Rightarrow> 'a list \<Rightarrow> nat option" where
  "find_window p xs = position (\<lambda>w. w = p) (windows (length p) xs)"

lemma find_window_None_iff: "p \<noteq> [] \<Longrightarrow> find_window p xs = None \<longleftrightarrow> \<not> sublist p xs"
  by (auto simp: find_window_def position_None_iff set_windows)

lemma find_window_Nil [simp]: "find_window [] xs = None"
  by (simp add: find_window_def)

lemma find_window_Cons:
  "p \<noteq> [] \<Longrightarrow> find_window p (x # xs) =
     (if prefix p (x # xs) then Some 0 else map_option Suc (find_window p xs))"
proof (cases "length p \<le> Suc (length xs)")
  case True
  assume "p \<noteq> []"
  then show ?thesis
    using True take_eq_prefix [of p "x # xs"] by (simp add: find_window_def)
next
  case False
  assume "p \<noteq> []"
  have "\<not> prefix p (x # xs)"
    using False by (auto dest: prefix_length_le)
  moreover have "windows (length p) xs = []"
    using False by (simp add: windows_Nil_iff)
  ultimately show ?thesis
    using False by (simp add: find_window_def)
qed

lemma find_window_Some:
  "find_window p xs = Some i \<Longrightarrow>
     \<exists>v. take i xs @ p @ v = xs \<and> i + length p \<le> length xs \<and> \<not> sublist p (take i xs)"
proof (cases "p = []")
  case False
  assume "find_window p xs = Some i"
  then show ?thesis
  proof (induction xs arbitrary: i)
    case Nil
    then show ?case by (simp add: find_window_def)
  next
    case (Cons x xs)
    show ?case
    proof (cases "prefix p (x # xs)")
      case True
      with Cons.prems False have "i = 0" by (simp add: find_window_Cons)
      with True prefix_length_le [OF True] False show ?thesis by (auto simp: prefix_def)
    next
      case no: False
      with Cons.prems False obtain j where j: "find_window p xs = Some j" "i = Suc j"
        by (auto simp: find_window_Cons)
      from Cons.IH [OF j(1)] obtain v where
        v: "take j xs @ p @ v = xs" "j + length p \<le> length xs" "\<not> sublist p (take j xs)"
        by blast
      have "\<not> prefix p (x # take j xs)"
        using no prefix_order.trans [of p "x # take j xs" "x # xs"] by (auto simp: take_is_prefix)
      with v j(2) show ?thesis
        by (auto simp: sublist_Cons_right)
    qed
  qed
qed simp


section \<open>Scanning a list for valid and unique entries\<close>

text \<open>
  The loop that several validators share: for each entry, run the checks, then insert its key into a
  set and fail if it was there already (\<open>if !unique.insert(key) { bail!(..) }\<close>).
\<close>

fun scan_unique :: "('a \<Rightarrow> 'e + unit) \<Rightarrow> ('a \<Rightarrow> 'e) \<Rightarrow> ('a \<Rightarrow> 'k) \<Rightarrow> 'k set \<Rightarrow> 'a list \<Rightarrow> 'e + unit" where
  "scan_unique chk dup key seen [] = Inr ()"
| "scan_unique chk dup key seen (x # xs) =
    rbind (chk x) (\<lambda>_.
      if key x \<in> seen then Inl (dup x)
      else scan_unique chk dup key (insert (key x) seen) xs)"

lemma scan_unique_Inr_iff [result_iff]:
  "scan_unique chk dup key seen xs = Inr u \<longleftrightarrow>
     (\<forall>x\<in>set xs. chk x = Inr ()) \<and> distinct (map key xs) \<and> key ` set xs \<inter> seen = {}"
  by (induction xs arbitrary: seen) (auto simp: rbind_Inr_iff)

section \<open>Splitting and joining\<close>

fun join_on :: "char \<Rightarrow> string list \<Rightarrow> string" where
  "join_on d [] = []"
| "join_on d [x] = x"
| "join_on d (x # y # ys) = x @ d # join_on d (y # ys)"

lemma join_on_Cons: "xs \<noteq> [] \<Longrightarrow> join_on d (x # xs) = x @ d # join_on d xs"
  by (cases xs) auto

lemma join_split_on [simp]: "join_on d (split_on d s) = s"
proof (induction s)
  case (Cons c s)
  show ?case
  proof (cases "c = d")
    case True
    with Cons show ?thesis by (simp add: join_on_Cons)
  next
    case False
    then obtain x xs where x: "split_on d s = x # xs"
      by (cases "split_on d s") auto
    with Cons False show ?thesis by (cases xs) auto
  qed
qed simp

lemma join_on_append: "xs \<noteq> [] \<Longrightarrow> ys \<noteq> [] \<Longrightarrow> join_on d (xs @ ys) = join_on d xs @ d # join_on d ys"
  by (induction xs rule: join_on.induct) (auto simp: join_on_Cons)

lemma split_on_map:
  "(\<And>c. f c = d \<longleftrightarrow> c = d) \<Longrightarrow> split_on d (map f s) = map (map f) (split_on d s)"
  by (induction s) (auto split: list.splits)

lemma last_split_on_Nil: "last (split_on d (s @ [d])) = []"
  by (simp add: split_on_append)


section \<open>Invariants of step relations\<close>

text \<open>A component with steps and an invariant that every step keeps.\<close>

locale invariant_system =
  fixes step :: "'s \<Rightarrow> 's \<Rightarrow> bool"
    and inv :: "'s \<Rightarrow> bool"
  assumes step_inv: "inv s \<Longrightarrow> step s t \<Longrightarrow> inv t"
begin

lemma steps_inv: "step\<^sup>*\<^sup>* s t \<Longrightarrow> inv s \<Longrightarrow> inv t"
proof (induction rule: rtranclp_induct)
  case (step t u)
  from step.IH [OF step.prems] step.hyps(2) show ?case by (rule step_inv)
qed

text \<open>A property of states that every step from an invariant state keeps is kept by runs.\<close>

lemma steps_stable:
  assumes "step\<^sup>*\<^sup>* s t" and "inv s" and "P s"
    and "\<And>s t. inv s \<Longrightarrow> step s t \<Longrightarrow> P s \<Longrightarrow> P t"
  shows "P t"
  using assms(1)
proof (induction rule: rtranclp_induct)
  case base
  show ?case by (rule assms(3))
next
  case (step t u)
  from step.hyps(1) assms(2) have "inv t" by (rule steps_inv)
  then show ?case using step.hyps(2) step.IH by (rule assms(4))
qed

end

end
