(* ===== verification/AV_Crates.thy ===== *)
theory AV_Crates
  imports AV_Prelude
begin

text \<open>
  The third-party crates the sources call. Their code is not part of the repository, so every
  function of theirs is a field of the record \<open>crates\<close>, which the definitions of the components take
  as an argument. \<open>'u\<close> is the type of a parsed \<open>url::Url\<close>. What a property relies on is one of the
  named laws of the section below, each a documented behaviour of the crate; no law is used unless it
  is a hypothesis of the property.

  The types of the \<open>http\<close> crate that the sources handle by their public interface are modelled
  as data: a \<open>HeaderMap\<close> is a multimap from lower-case names to values in order of arrival, and a
  \<open>HeaderValue\<close> is its bytes with the sensitivity mark.
\<close>

section \<open>Data of the crates\<close>

datatype header_value = HeaderValue (hv_bytes: bytes) (hv_sensitive: bool)

type_synonym header_map = "string \<Rightarrow> header_value list"

definition hm_new :: header_map where
  "hm_new = (\<lambda>_. [])"

definition hm_get_all :: "header_map \<Rightarrow> string \<Rightarrow> header_value list" where
  "hm_get_all m n = m n"

definition hm_get :: "header_map \<Rightarrow> string \<Rightarrow> header_value option" where
  "hm_get m n = (case m n of [] \<Rightarrow> None | v # _ \<Rightarrow> Some v)"

definition hm_contains_key :: "header_map \<Rightarrow> string \<Rightarrow> bool" where
  "hm_contains_key m n \<longleftrightarrow> m n \<noteq> []"

definition hm_insert :: "string \<Rightarrow> header_value \<Rightarrow> header_map \<Rightarrow> header_map" where
  "hm_insert n v m = m(n := [v])"

definition hm_remove :: "string \<Rightarrow> header_map \<Rightarrow> header_map" where
  "hm_remove n m = m(n := [])"

lemmas hm_defs = hm_new_def hm_get_all_def hm_get_def hm_contains_key_def hm_insert_def hm_remove_def

text \<open>\<open>http::Uri\<close>, as far as the sources look at it.\<close>

record uri =
  uri_scheme :: "string option"
  uri_authority :: "string option"
  uri_path :: string
  uri_query :: "string option"

text \<open>\<open>url::Host\<close>; the sources distinguish a domain from an address and look no further.\<close>

datatype url_host = Domain string | Ipv4 nat | Ipv6 nat

section \<open>Functions of the crates\<close>

record 'u crates =
  url_parse :: "string \<Rightarrow> 'u option"
  url_scheme :: "'u \<Rightarrow> string"
  url_host_str :: "'u \<Rightarrow> string option"
  url_port :: "'u \<Rightarrow> nat option"
  url_port_or_known_default :: "'u \<Rightarrow> nat option"
  url_username :: "'u \<Rightarrow> string"
  url_password :: "'u \<Rightarrow> string option"
  url_path :: "'u \<Rightarrow> string"
  url_query :: "'u \<Rightarrow> string option"
  url_fragment :: "'u \<Rightarrow> string option"
  url_set_path :: "string \<Rightarrow> 'u \<Rightarrow> 'u"
  url_clear_query :: "'u \<Rightarrow> 'u"
  url_extend_pairs :: "(string \<times> string) list \<Rightarrow> 'u \<Rightarrow> 'u"
  form_parse :: "bytes \<Rightarrow> (string \<times> string) list"
  byte_serialize :: "bytes \<Rightarrow> string"
  host_parse :: "string \<Rightarrow> url_host option"
  header_name_from_bytes :: "bytes \<Rightarrow> string option"
  header_value_from_bytes :: "bytes \<Rightarrow> header_value option"
  header_value_from_str :: "string \<Rightarrow> header_value option"
  header_value_to_str :: "header_value \<Rightarrow> string option"
  base64_standard :: "bytes \<Rightarrow> string"
  base64_standard_no_pad :: "bytes \<Rightarrow> string"
  base64_url_safe :: "bytes \<Rightarrow> string"
  base64_url_safe_no_pad :: "bytes \<Rightarrow> string"
  base64_standard_decode :: "bytes \<Rightarrow> bytes option"
  sha256 :: "bytes \<Rightarrow> bytes"
  json_to_string :: "string \<Rightarrow> string option"

section \<open>Documented laws of the crates\<close>

text \<open>\<open>HeaderName::from_bytes\<close> normalises a name to lower case.\<close>

definition header_name_law :: "('u, 'z) crates_scheme \<Rightarrow> bool" where
  "header_name_law cr \<longleftrightarrow>
     (\<forall>b n. header_name_from_bytes cr b = Some n \<longrightarrow> n = to_ascii_lowercase b)"

text \<open>The \<open>HeaderValue\<close> constructors copy the bytes they are given and mark nothing sensitive.\<close>

definition header_value_law :: "('u, 'z) crates_scheme \<Rightarrow> bool" where
  "header_value_law cr \<longleftrightarrow>
     (\<forall>b v. header_value_from_bytes cr b = Some v \<longrightarrow> v = HeaderValue b False)
     \<and> (\<forall>b v. header_value_from_str cr b = Some v \<longrightarrow> v = HeaderValue b False)"

lemma header_value_law_from_str:
  "header_value_law cr \<Longrightarrow> header_value_from_str cr b = Some v \<Longrightarrow> hv_bytes v = b"
  unfolding header_value_law_def by (metis header_value.sel(1))

text \<open>Replacing the path or the query of a URL leaves its origin and credentials as they are.\<close>

definition url_edit_law :: "('u, 'z) crates_scheme \<Rightarrow> bool" where
  "url_edit_law cr \<longleftrightarrow>
     (\<forall>u p q. \<forall>v \<in> {url_set_path cr p u, url_clear_query cr u, url_extend_pairs cr q u}.
        url_scheme cr v = url_scheme cr u \<and> url_host_str cr v = url_host_str cr u
        \<and> url_port_or_known_default cr v = url_port_or_known_default cr u
        \<and> url_username cr v = url_username cr u \<and> url_password cr v = url_password cr u
        \<and> url_fragment cr v = url_fragment cr u)"

lemma url_edit_lawD:
  assumes "url_edit_law cr"
  shows
    "url_scheme cr (url_set_path cr p u) = url_scheme cr u"
    "url_host_str cr (url_set_path cr p u) = url_host_str cr u"
    "url_port_or_known_default cr (url_set_path cr p u) = url_port_or_known_default cr u"
    "url_username cr (url_set_path cr p u) = url_username cr u"
    "url_password cr (url_set_path cr p u) = url_password cr u"
    "url_fragment cr (url_set_path cr p u) = url_fragment cr u"
    "url_scheme cr (url_clear_query cr u) = url_scheme cr u"
    "url_host_str cr (url_clear_query cr u) = url_host_str cr u"
    "url_port_or_known_default cr (url_clear_query cr u) = url_port_or_known_default cr u"
    "url_username cr (url_clear_query cr u) = url_username cr u"
    "url_password cr (url_clear_query cr u) = url_password cr u"
    "url_fragment cr (url_clear_query cr u) = url_fragment cr u"
    "url_scheme cr (url_extend_pairs cr q u) = url_scheme cr u"
    "url_host_str cr (url_extend_pairs cr q u) = url_host_str cr u"
    "url_port_or_known_default cr (url_extend_pairs cr q u) = url_port_or_known_default cr u"
    "url_username cr (url_extend_pairs cr q u) = url_username cr u"
    "url_password cr (url_extend_pairs cr q u) = url_password cr u"
    "url_fragment cr (url_extend_pairs cr q u) = url_fragment cr u"
  using assms unfolding url_edit_law_def by blast+

text \<open>SHA-256 returns 32 bytes.\<close>

definition sha256_law :: "('u, 'z) crates_scheme \<Rightarrow> bool" where
  "sha256_law cr \<longleftrightarrow> (\<forall>b. length (sha256 cr b) = 32)"

text \<open>\<open>Host::parse\<close> gives a domain in lower case, and parses its own output to itself.\<close>

definition host_parse_law :: "('u, 'z) crates_scheme \<Rightarrow> bool" where
  "host_parse_law cr \<longleftrightarrow>
     (\<forall>s d. host_parse cr s = Some (Domain d) \<longrightarrow>
        to_ascii_lowercase d = d \<and> host_parse cr d = Some (Domain d))"

end
