(* ===== verification/Environment.thy ===== *)
theory Environment
  imports AV_Crates
begin

text \<open>
  The environment of the server, and actions that run in it. An action takes a state and returns a result
  with the state after it. What the server asks of the outside is a request; the reply to it is a function
  of all requests sent before, so the theorems hold for every service and every sequence of failures. Each
  reading of a clock, a file or the random generator takes a fresh tick, so no two readings need agree.

  Times are nanoseconds since the Unix epoch (\<^verbatim>\<open>SystemTime\<close>) or since an arbitrary start (\<^verbatim>\<open>Instant\<close>).
\<close>

section \<open>JSON values, requests and replies\<close>

text \<open>\<^verbatim>\<open>serde_json::Value\<close>. A number is its text, an object the list of its fields in key order.\<close>

datatype json =
  JNull | JBool bool | JNumber string | JString string | JArray "json list" | JObject "(string \<times> json) list"

text \<open>
  One request per call of a service: the URL, the namespace header of OpenBao, the token, and the fields of
  the JSON body, the form or the query. A lease of Infisical is addressed below the URL by its identifier.
\<close>

datatype backend_request =
  OpenBaoLogin string "string option" "(string \<times> string) list"
| OpenBaoRead string "string option" string
| OpenBaoRenew string "string option" string string nat
| OpenBaoRevoke string "string option" string string
| InfisicalLogin string "(string \<times> string) list"
| InfisicalRead string string "(string \<times> string) list"
| InfisicalCreate string string "(string \<times> string) list"
| InfisicalRenew string string string "(string \<times> string) list"
| InfisicalRevoke string string string "(string \<times> string) list"
| GoogleAccess string
| OidcDiscovery string
| OidcKeys string
| GithubToken string "(string \<times> string) list"
| GithubIdentity string string
| GithubMembership string string

text \<open>
  A reply is a transport failure or a status with a body. A body is what \<^verbatim>\<open>serde\<close> makes of it for the type
  that the code asks for, or undecodable.
\<close>

datatype reply_body =
  Undecodable
| AuthBody string nat
| SecretBody json string bool nat
| LeaseBody string bool nat
| SecretsBody "(string \<times> string) list"
| DynamicBody string string json
| DynamicLeaseBody string string
| PayloadBody "(bytes \<times> int option) option"
| DiscoveryBody string string string string "string option"
| JwksBody "(string option \<times> string) list"
| AccessTokenBody string
| AccountBody nat
| MembershipBody string

datatype backend_reply = NoReply | Reply nat reply_body

definition is_success :: "nat \<Rightarrow> bool" where
  "is_success status = (200 \<le> status \<and> status < 300)"

record env =
  env_clock :: "nat \<Rightarrow> int"
  env_instant :: "nat \<Rightarrow> int"
  env_file :: "nat \<Rightarrow> string \<Rightarrow> string option"
  env_random :: "nat \<Rightarrow> bytes"
  env_store_up :: "nat \<Rightarrow> bool"
  env_slot :: "nat \<Rightarrow> bool"
  env_backend :: "backend_request list \<Rightarrow> backend_request \<Rightarrow> backend_reply"
  env_rfc3339 :: "string \<Rightarrow> int option"

text \<open>The decimal text of a number, as \<open>format!("{}", n)\<close> prints it.\<close>

definition decimal_digit :: "nat \<Rightarrow> char" where
  "decimal_digit n = char_of (48 + n)"

fun decimal :: "nat \<Rightarrow> string" where
  "decimal n = (if n < 10 then [decimal_digit n] else decimal (n div 10) @ [decimal_digit (n mod 10)])"

declare decimal.simps [simp del]

section \<open>State and actions\<close>

record cached_token =
  ct_value :: string
  ct_expires_at :: int

record io =
  io_ticks :: nat
  io_sent :: "backend_request list"
  io_tokens :: "string \<Rightarrow> cached_token option"

type_synonym ('s, 'a) act = "'s \<Rightarrow> 'a \<times> 's"

definition act_return :: "'a \<Rightarrow> ('s, 'a) act" where
  "act_return x s = (x, s)"

definition act_bind :: "('s, 'a) act \<Rightarrow> ('a \<Rightarrow> ('s, 'b) act) \<Rightarrow> ('s, 'b) act" where
  "act_bind m f s = (case m s of (x, s') \<Rightarrow> f x s')"

text \<open>The \<open>?\<close> operator: an error ends the action.\<close>

definition act_try :: "('s, 'e + 'a) act \<Rightarrow> ('a \<Rightarrow> ('s, 'e + 'b) act) \<Rightarrow> ('s, 'e + 'b) act" where
  "act_try m f s = (case m s of (Inl e, s') \<Rightarrow> (Inl e, s') | (Inr x, s') \<Rightarrow> f x s')"

definition act_map_err :: "('e \<Rightarrow> 'f) \<Rightarrow> ('s, 'e + 'a) act \<Rightarrow> ('s, 'f + 'a) act" where
  "act_map_err f m s = (case m s of (r, s') \<Rightarrow> (map_error f r, s'))"

definition tick :: "(nat \<Rightarrow> 'a) \<Rightarrow> ('z io_scheme, 'a) act" where
  "tick f s = (f (io_ticks s), s\<lparr>io_ticks := Suc (io_ticks s)\<rparr>)"

abbreviation clock_now :: "env \<Rightarrow> ('z io_scheme, int) act" where
  "clock_now e \<equiv> tick (env_clock e)"

abbreviation instant_now :: "env \<Rightarrow> ('z io_scheme, int) act" where
  "instant_now e \<equiv> tick (env_instant e)"

definition send :: "env \<Rightarrow> backend_request \<Rightarrow> ('z io_scheme, backend_reply) act" where
  "send e request s = (env_backend e (io_sent s) request, s\<lparr>io_sent := io_sent s @ [request]\<rparr>)"

text \<open>Seconds as nanoseconds, and \<open>Duration::as_secs\<close>.\<close>

definition secs :: "int \<Rightarrow> int" where
  "secs n = n * 1000000000"

definition as_secs :: "int \<Rightarrow> int" where
  "as_secs t = t div 1000000000"

text \<open>\<open>SystemTime::checked_add\<close>: the seconds of a time are an \<open>i64\<close>.\<close>

definition checked_add :: "int \<Rightarrow> int \<Rightarrow> int option" where
  "checked_add t d = (if as_secs (t + d) < 2 ^ 63 then Some (t + d) else None)"

section \<open>Rules for actions\<close>

lemma act_return_run [simp]: "act_return x s = (x, s)"
  by (simp add: act_return_def)

lemma act_bind_run [simp]: "act_bind m f s = (case m s of (x, s') \<Rightarrow> f x s')"
  by (simp add: act_bind_def)

lemma act_map_err_run [simp]: "act_map_err f m s = (case m s of (r, s') \<Rightarrow> (map_error f r, s'))"
  by (simp add: act_map_err_def)

lemma act_try_Inr: "act_try m f s = (Inr y, s'') \<longleftrightarrow> (\<exists>x s'. m s = (Inr x, s') \<and> f x s' = (Inr y, s''))"
  by (auto simp: act_try_def split: prod.splits sum.splits)

lemma tick_run [simp]: "tick f s = (f (io_ticks s), s\<lparr>io_ticks := Suc (io_ticks s)\<rparr>)"
  by (simp add: tick_def)

lemma send_run [simp]: "send e r s = (env_backend e (io_sent s) r, s\<lparr>io_sent := io_sent s @ [r]\<rparr>)"
  by (simp add: send_def)

text \<open>
  An action \<^emph>\<open>obeys\<close> a relation of states if every run of it does; a reflexive and transitive relation that
  the steps of an action obey, the action obeys. Frames and growth of the log are such relations.
\<close>

definition obeys :: "('s \<Rightarrow> 's \<Rightarrow> bool) \<Rightarrow> ('s, 'a) act \<Rightarrow> bool" where
  "obeys R m \<longleftrightarrow> (\<forall>s. R s (snd (m s)))"

lemma obeysI: "(\<And>s. R s (snd (m s))) \<Longrightarrow> obeys R m"
  by (simp add: obeys_def)

lemma obeysD: "obeys R m \<Longrightarrow> m s = (x, s') \<Longrightarrow> R s s'"
  by (metis obeys_def snd_conv)

locale frame_relation =
  fixes R :: "'s \<Rightarrow> 's \<Rightarrow> bool"
  assumes refl: "R s s"
    and trans: "R s t \<Longrightarrow> R t u \<Longrightarrow> R s u"
begin

lemma return_obeys: "obeys R (act_return x)"
  by (rule obeysI) (simp add: refl)

lemma pair_obeys: "obeys R (Pair x)"
  by (rule obeysI) (simp add: refl)

lemma bind_obeys:
  assumes "obeys R m" and "\<And>x. obeys R (f x)"
  shows "obeys R (act_bind m f)"
proof (rule obeysI)
  fix s
  obtain x t where "m s = (x, t)" by (cases "m s")
  then show "R s (snd (act_bind m f s))"
    using obeysD [OF assms(1)] obeysD [OF assms(2)] trans by (auto split: prod.splits) (metis prod.collapse)
qed

lemma try_obeys:
  assumes "obeys R m" and "\<And>x. obeys R (f x)"
  shows "obeys R (act_try m f)"
proof -
  have "act_try m f = act_bind m (\<lambda>r. case r of Inl e \<Rightarrow> act_return (Inl e) | Inr x \<Rightarrow> f x)"
    by (rule ext) (simp add: act_try_def split: prod.splits sum.splits)
  moreover have "obeys R (case r of Inl e \<Rightarrow> act_return (Inl e) | Inr x \<Rightarrow> f x)" for r
    by (cases r) (simp_all add: return_obeys assms(2))
  ultimately show ?thesis using bind_obeys [OF assms(1)] by metis
qed

lemma map_err_obeys:
  assumes "obeys R m"
  shows "obeys R (act_map_err g m)"
proof -
  have "act_map_err g m = act_bind m (\<lambda>r. act_return (map_error g r))" by (rule ext) simp
  then show ?thesis using bind_obeys [OF assms return_obeys] by simp
qed

lemma if_obeys: "obeys R m \<Longrightarrow> obeys R n \<Longrightarrow> obeys R (if b then m else n)"
  by simp

lemma option_obeys: "obeys R m \<Longrightarrow> (\<And>x. obeys R (f x)) \<Longrightarrow> obeys R (case x of None \<Rightarrow> m | Some y \<Rightarrow> f y)"
  by (cases x) simp_all

lemma sum_obeys: "(\<And>x. obeys R (f x)) \<Longrightarrow> (\<And>x. obeys R (g x)) \<Longrightarrow> obeys R (case x of Inl y \<Rightarrow> f y | Inr y \<Rightarrow> g y)"
  by (cases x) simp_all

lemmas obeys_rules = return_obeys pair_obeys bind_obeys try_obeys map_err_obeys if_obeys option_obeys sum_obeys

end

text \<open>The relation for the connectors: they touch nothing but the ticks, the log and the token cache, and the
  log only grows.\<close>

definition io_extends :: "'z io_scheme \<Rightarrow> 'z io_scheme \<Rightarrow> bool" where
  "io_extends s t \<longleftrightarrow>
     t = s\<lparr>io_ticks := io_ticks t, io_sent := io_sent t, io_tokens := io_tokens t\<rparr>
     \<and> (\<exists>more. io_sent t = io_sent s @ more)"

interpretation io_frame: frame_relation io_extends
proof
  fix s t u :: "'z io_scheme"
  show "io_extends s s" by (simp add: io_extends_def)
  assume "io_extends s t" "io_extends t u"
  then show "io_extends s u"
    unfolding io_extends_def by (cases s; cases t; cases u) auto
qed

lemma tick_io: "obeys io_extends (tick f)"
  by (rule obeysI) (simp add: io_extends_def)

lemma send_io: "obeys io_extends (send e r)"
  by (rule obeysI) (simp add: io_extends_def)

end
