(* ===== verification/Connectors.thy ===== *)
theory Connectors
  imports Environment "HOL-Library.AList" "HOL-Library.Word"
begin

unbundle bit_operations_syntax

text \<open>
  The secret backends: \<^verbatim>\<open>src/connector.rs\<close>, \<^verbatim>\<open>src/openbao.rs\<close>, \<^verbatim>\<open>src/infisical.rs\<close> and
  \<^verbatim>\<open>src/google_secret_manager.rs\<close>, with the profile types of \<^verbatim>\<open>src/config.rs\<close>. A connector is known by its
  name, under which the state holds its cached token. A \<^verbatim>\<open>BTreeMap\<close> is an association list with distinct keys.
\<close>

section \<open>Configuration and data\<close>

record profile_export_config =
  pe_resource :: string
  pe_field :: string

record dynamic_secret_config =
  ds_name :: string
  ds_project_slug :: string
  ds_ttl_seconds :: nat

record profile_config =
  pf_connector :: string
  pf_project_id :: string
  pf_environment :: string
  pf_secret_path :: string
  pf_allowed_keys :: "string list"
  pf_exports :: "(string \<times> profile_export_config) list"
  pf_dynamic_secret :: "dynamic_secret_config option"

text \<open>The fields are those of the source, in order: \<^verbatim>\<open>role_id_file, secret_id_file, mount_path\<close>;
  \<^verbatim>\<open>role, token_file, mount_path\<close>; \<^verbatim>\<open>token_file\<close>.\<close>

datatype openbao_auth =
  OpenBaoAppRole string string string
| OpenBaoKubernetes string string string
| OpenBaoToken string

record openbao_config =
  ob_base_url :: string
  ob_namespace :: string
  ob_auth :: openbao_auth

text \<open>\<^verbatim>\<open>identity_id, token_file\<close>; \<^verbatim>\<open>client_id_file, client_secret_file\<close>; \<^verbatim>\<open>token_file\<close>.\<close>

datatype infisical_auth =
  InfisicalKubernetes string string
| InfisicalUniversal string string
| InfisicalToken string

record infisical_config =
  inf_base_url :: string
  inf_auth :: infisical_auth

record openbao_lease =
  obl_id :: string
  obl_renewable :: bool
  obl_expires_at :: int
  obl_renew_increment :: nat

record infisical_lease =
  infl_id :: string
  infl_project_slug :: string
  infl_environment :: string
  infl_path :: string
  infl_expires_at :: int
  infl_renew_increment :: nat

datatype backend_lease = OpenBaoL openbao_lease | InfisicalL infisical_lease

fun lease_expires_at :: "backend_lease \<Rightarrow> int" where
  "lease_expires_at (OpenBaoL lease) = obl_expires_at lease"
| "lease_expires_at (InfisicalL lease) = infl_expires_at lease"

fun lease_renewable :: "backend_lease \<Rightarrow> bool" where
  "lease_renewable (OpenBaoL lease) = obl_renewable lease"
| "lease_renewable (InfisicalL _) = True"

record secret_acquisition =
  sa_values :: "(string \<times> string) list"
  sa_lease :: "backend_lease option"

datatype connector =
  InfisicalC infisical_config
| OpenBaoC openbao_config
| GoogleSecretManagerC

datatype backend_error =
  InvalidBaseUrl | InsecureBaseUrl | SecretFileUnreadable | SecretFileEmpty
| TransportFailed | StatusFailed nat | BodyUndecodable | EmptyToken | InstantOverflow
| UnexpectedLease | InvalidLeaseId | DurationOutOfBounds | ClockRange | NotRenewable | DifferentLeaseId
| DataNotObject | NotScalar string

datatype expiry_error = ExpiryInvalid | ExpiryBeforeEpoch | ExpiryClockRange | ExpiryPast | ExpiryOutOfBounds

datatype payload_error =
  PayloadMissing | PayloadEmpty | PayloadTooLong | ChecksumMissing | ChecksumInvalid | ChecksumMismatch | PayloadNotText

datatype connector_error =
  BackendE backend_error
| ExpiryE expiry_error
| PayloadE payload_error
| BackendMismatch
| ExportMissing string
| ConnectorMissing | ConnectorBusy | LeaseUnsupported
| DynamicSecretMissing

text \<open>The decoding of scalar fields, the same in both backends (\<open>Value::to_string\<close> for booleans and numbers).\<close>

fun decode_scalars :: "(string \<Rightarrow> bool) \<Rightarrow> (string \<times> json) list \<Rightarrow> connector_error + (string \<times> string) list" where
  "decode_scalars keep [] = Inr []"
| "decode_scalars keep ((key, v) # others) =
    (if \<not> keep key then decode_scalars keep others
     else case v of
       JString s \<Rightarrow> rbind (decode_scalars keep others) (\<lambda>decoded. Inr ((key, s) # decoded))
     | JBool b \<Rightarrow> rbind (decode_scalars keep others) (\<lambda>decoded. Inr ((key, if b then ''true'' else ''false'') # decoded))
     | JNumber n \<Rightarrow> rbind (decode_scalars keep others) (\<lambda>decoded. Inr ((key, n) # decoded))
     | JNull \<Rightarrow> decode_scalars keep others
     | _ \<Rightarrow> Inl (BackendE (NotScalar key)))"

definition read_secret_file :: "env \<Rightarrow> string \<Rightarrow> ('z io_scheme, connector_error + string) act" where
  "read_secret_file e path =
    act_bind (tick (\<lambda>n. env_file e n path)) (\<lambda>contents.
      case contents of
        None \<Rightarrow> act_return (Inl (BackendE SecretFileUnreadable))
      | Some text' \<Rightarrow>
          if trim text' = [] then act_return (Inl (BackendE SecretFileEmpty)) else act_return (Inr (trim text')))"

text \<open>A cached token that has not expired, and the store of a new one: \<open>Instant + Duration\<close> panics out of range.\<close>

definition cached_token_now :: "env \<Rightarrow> string \<Rightarrow> ('z io_scheme, string option) act" where
  "cached_token_now e name s =
    (case io_tokens s name of
       None \<Rightarrow> (None, s)
     | Some token \<Rightarrow>
         act_bind (instant_now e) (\<lambda>now.
           act_return (if now < ct_expires_at token then Some (ct_value token) else None)) s)"

definition cache_token :: "env \<Rightarrow> string \<Rightarrow> string \<Rightarrow> nat \<Rightarrow> ('z io_scheme, connector_error + string) act" where
  "cache_token e name token lifetime =
    act_bind (instant_now e) (\<lambda>now s.
      case checked_add now (secs (int lifetime)) of
        None \<Rightarrow> (Inl (BackendE InstantOverflow), s)
      | Some t \<Rightarrow> (Inr token, s\<lparr>io_tokens := (io_tokens s)(name := Some \<lparr>ct_value = token, ct_expires_at = t\<rparr>)\<rparr>))"

section \<open>OpenBao\<close>

definition trim_matches :: "char \<Rightarrow> string \<Rightarrow> string" where
  "trim_matches c s = trim_end_matches c (trim_start_matches c s)"

definition openbao_new :: "('u, 'c) crates_scheme \<Rightarrow> openbao_config \<Rightarrow> bool \<Rightarrow> connector_error + connector" where
  "openbao_new cr config allow_insecure_http =
    (case url_parse cr (ob_base_url config) of
       None \<Rightarrow> Inl (BackendE InvalidBaseUrl)
     | Some base \<Rightarrow>
         if url_scheme cr base \<noteq> ''https'' \<and> \<not> (url_scheme cr base = ''http'' \<and> allow_insecure_http)
         then Inl (BackendE InsecureBaseUrl)
         else Inr (OpenBaoC config))"

definition with_namespace :: "openbao_config \<Rightarrow> string option" where
  "with_namespace config = (if ob_namespace config = [] then None else Some (ob_namespace config))"

definition openbao_url :: "openbao_config \<Rightarrow> string \<Rightarrow> string" where
  "openbao_url config path = trim_end_matches CHR ''/'' (ob_base_url config) @ path"

text \<open>The credentials of a login. A token file is used as it is and never reaches this point.\<close>

definition openbao_login_body :: "env \<Rightarrow> openbao_auth \<Rightarrow> ('z io_scheme, connector_error + string \<times> (string \<times> string) list) act" where
  "openbao_login_body e auth =
    (case auth of
       OpenBaoAppRole role_id_file secret_id_file mount_path \<Rightarrow>
         act_try (read_secret_file e role_id_file) (\<lambda>role_id.
         act_try (read_secret_file e secret_id_file) (\<lambda>secret_id.
           act_return (Inr (mount_path, [(''role_id'', role_id), (''secret_id'', secret_id)]))))
     | OpenBaoKubernetes role token_file mount_path \<Rightarrow>
         act_try (read_secret_file e token_file) (\<lambda>jwt.
           act_return (Inr (mount_path, [(''role'', role), (''jwt'', jwt)])))
     | OpenBaoToken token_file \<Rightarrow> act_return (Inl (BackendE SecretFileUnreadable)))"

definition openbao_login :: "env \<Rightarrow> string \<Rightarrow> openbao_config \<Rightarrow> ('z io_scheme, connector_error + string) act" where
  "openbao_login e name config =
    act_try (openbao_login_body e (ob_auth config)) (\<lambda>(mount_path, body).
    act_bind (send e (OpenBaoLogin (openbao_url config (''/v1/auth/'' @ trim_matches CHR ''/'' mount_path @ ''/login''))
                        (with_namespace config) body)) (\<lambda>reply.
      case reply of
        Reply status body \<Rightarrow>
          if \<not> is_success status then act_return (Inl (BackendE (StatusFailed status)))
          else (case body of
            AuthBody client_token lease_duration \<Rightarrow>
              if client_token = [] then act_return (Inl (BackendE EmptyToken))
              else cache_token e name client_token (max (lease_duration - 30) 1)
          | _ \<Rightarrow> act_return (Inl (BackendE BodyUndecodable)))
      | NoReply \<Rightarrow> act_return (Inl (BackendE TransportFailed))))"

definition openbao_authenticate :: "env \<Rightarrow> string \<Rightarrow> openbao_config \<Rightarrow> ('z io_scheme, connector_error + string) act" where
  "openbao_authenticate e name config =
    (case ob_auth config of
       OpenBaoToken token_file \<Rightarrow> read_secret_file e token_file
     | _ \<Rightarrow>
         act_bind (cached_token_now e name) (\<lambda>cached.
           case cached of
             Some token \<Rightarrow> act_return (Inr token)
           | None \<Rightarrow> openbao_login e name config))"


definition validate_lease_id :: "string \<Rightarrow> connector_error + unit" where
  "validate_lease_id lease_id =
    (if lease_id = [] \<or> 4096 < length lease_id \<or> has_control lease_id then Inl (BackendE InvalidLeaseId) else Inr ())"

definition lease_expiry :: "env \<Rightarrow> nat \<Rightarrow> ('z io_scheme, connector_error + int) act" where
  "lease_expiry e lease_duration =
    (if \<not> (1 \<le> lease_duration \<and> lease_duration \<le> 24 * 60 * 60) then act_return (Inl (BackendE DurationOutOfBounds))
     else act_bind (clock_now e) (\<lambda>now.
       act_return (ok_or (BackendE ClockRange) (checked_add now (secs (int lease_duration))))))"

text \<open>\<open>root.get("data").and_then(Value::as_object).unwrap_or(root)\<close>, then the allowed scalar fields.\<close>

definition decode_secret_data :: "json \<Rightarrow> string list \<Rightarrow> connector_error + (string \<times> string) list" where
  "decode_secret_data data allowed_keys =
    (case data of
       JObject root \<Rightarrow>
         decode_scalars (\<lambda>key. allowed_keys = [] \<or> key \<in> set allowed_keys)
           (case map_of root ''data'' of Some (JObject inner) \<Rightarrow> inner | _ \<Rightarrow> root)
     | _ \<Rightarrow> Inl (BackendE DataNotObject))"

definition decode_secret_response ::
    "env \<Rightarrow> profile_config \<Rightarrow> json \<Rightarrow> string \<Rightarrow> bool \<Rightarrow> nat \<Rightarrow> ('z io_scheme, connector_error + secret_acquisition) act" where
  "decode_secret_response e profile data lease_id renewable lease_duration =
    act_try (act_return (decode_secret_data data (pf_allowed_keys profile))) (\<lambda>decoded.
      case pf_dynamic_secret profile of
        None \<Rightarrow>
          if lease_id \<noteq> [] \<or> renewable \<or> lease_duration > 0 then act_return (Inl (BackendE UnexpectedLease))
          else act_return (Inr \<lparr>sa_values = decoded, sa_lease = None\<rparr>)
      | Some dynamic \<Rightarrow>
          act_try (act_return (validate_lease_id lease_id)) (\<lambda>_.
          act_try (lease_expiry e lease_duration) (\<lambda>expires_at.
            act_return (Inr \<lparr>sa_values = decoded,
              sa_lease = Some (OpenBaoL \<lparr>obl_id = lease_id, obl_renewable = renewable, obl_expires_at = expires_at,
                                         obl_renew_increment = ds_ttl_seconds dynamic\<rparr>)\<rparr>))))"

definition openbao_acquire ::
    "env \<Rightarrow> string \<Rightarrow> openbao_config \<Rightarrow> profile_config \<Rightarrow> ('z io_scheme, connector_error + secret_acquisition) act" where
  "openbao_acquire e name config profile =
    act_try (openbao_authenticate e name config) (\<lambda>token.
    act_bind (send e (OpenBaoRead (openbao_url config (''/v1/'' @ trim_matches CHR ''/'' (pf_secret_path profile)))
                        (with_namespace config) token)) (\<lambda>reply.
      case reply of
        NoReply \<Rightarrow> act_return (Inl (BackendE TransportFailed))
      | Reply status body \<Rightarrow>
          if status = 404 then act_return (Inr \<lparr>sa_values = [], sa_lease = None\<rparr>)
          else if \<not> is_success status then act_return (Inl (BackendE (StatusFailed status)))
          else (case body of
            SecretBody data lease_id renewable lease_duration \<Rightarrow>
              decode_secret_response e profile data lease_id renewable lease_duration
          | _ \<Rightarrow> act_return (Inl (BackendE BodyUndecodable)))))"

text \<open>
  \<open>renew\<close> changes the lease in place: on an error after \<open>lease.renewable = ..\<close> the lease keeps the new flag. It
  returns the result with the lease after the call.
\<close>

definition openbao_renew ::
    "env \<Rightarrow> string \<Rightarrow> openbao_config \<Rightarrow> openbao_lease \<Rightarrow> ('z io_scheme, (connector_error + unit) \<times> openbao_lease) act" where
  "openbao_renew e name config lease =
    (if \<not> obl_renewable lease then act_return (Inl (BackendE NotRenewable), lease)
     else act_bind (openbao_authenticate e name config) (\<lambda>auth.
       case auth of
         Inl err \<Rightarrow> act_return (Inl err, lease)
       | Inr token \<Rightarrow>
           act_bind (send e (OpenBaoRenew (openbao_url config ''/v1/sys/leases/renew'') (with_namespace config) token
                               (obl_id lease) (obl_renew_increment lease))) (\<lambda>reply.
             case reply of
               NoReply \<Rightarrow> act_return (Inl (BackendE TransportFailed), lease)
             | Reply status body \<Rightarrow>
                 if \<not> is_success status then act_return (Inl (BackendE (StatusFailed status)), lease)
                 else (case body of
                   LeaseBody lease_id renewable lease_duration \<Rightarrow>
                     (case validate_lease_id lease_id of
                        Inl err \<Rightarrow> act_return (Inl err, lease)
                      | Inr _ \<Rightarrow>
                          if lease_id \<noteq> obl_id lease then act_return (Inl (BackendE DifferentLeaseId), lease)
                          else
                            let lease = lease\<lparr>obl_renewable := renewable\<rparr> in
                            act_bind (lease_expiry e lease_duration) (\<lambda>expiry.
                              case expiry of
                                Inl err \<Rightarrow> act_return (Inl err, lease)
                              | Inr t \<Rightarrow> act_return (Inr (), lease\<lparr>obl_expires_at := t\<rparr>)))
                 | _ \<Rightarrow> act_return (Inl (BackendE BodyUndecodable), lease)))))"

definition openbao_revoke :: "env \<Rightarrow> string \<Rightarrow> openbao_config \<Rightarrow> openbao_lease \<Rightarrow> ('z io_scheme, connector_error + unit) act" where
  "openbao_revoke e name config lease =
    act_try (openbao_authenticate e name config) (\<lambda>token.
    act_bind (send e (OpenBaoRevoke (openbao_url config ''/v1/sys/leases/revoke'') (with_namespace config) token
                        (obl_id lease))) (\<lambda>reply.
      case reply of
        NoReply \<Rightarrow> act_return (Inl (BackendE TransportFailed))
      | Reply status _ \<Rightarrow>
          if \<not> is_success status \<and> status \<noteq> 404 then act_return (Inl (BackendE (StatusFailed status)))
          else act_return (Inr ())))"


section \<open>Infisical\<close>

definition infisical_new :: "('u, 'c) crates_scheme \<Rightarrow> infisical_config \<Rightarrow> bool \<Rightarrow> connector_error + connector" where
  "infisical_new cr config allow_insecure_http =
    (case url_parse cr (inf_base_url config) of
       None \<Rightarrow> Inl (BackendE InvalidBaseUrl)
     | Some base \<Rightarrow>
         if url_scheme cr base \<noteq> ''https'' \<and> \<not> (url_scheme cr base = ''http'' \<and> allow_insecure_http)
         then Inl (BackendE InsecureBaseUrl)
         else Inr (InfisicalC config))"

definition infisical_url :: "infisical_config \<Rightarrow> string \<Rightarrow> string" where
  "infisical_url config path = trim_end_matches CHR ''/'' (inf_base_url config) @ path"

definition infisical_login ::
    "env \<Rightarrow> string \<Rightarrow> infisical_config \<Rightarrow> string \<Rightarrow> (string \<times> string) list \<Rightarrow> ('z io_scheme, connector_error + string) act" where
  "infisical_login e name config path login =
    act_bind (send e (InfisicalLogin (infisical_url config path) login)) (\<lambda>reply.
      case reply of
        NoReply \<Rightarrow> act_return (Inl (BackendE TransportFailed))
      | Reply status body \<Rightarrow>
          if \<not> is_success status then act_return (Inl (BackendE (StatusFailed status)))
          else (case body of
            AuthBody access_token expires_in \<Rightarrow> cache_token e name access_token (max (expires_in - 60) 1)
          | _ \<Rightarrow> act_return (Inl (BackendE BodyUndecodable))))"

definition infisical_authenticate :: "env \<Rightarrow> string \<Rightarrow> infisical_config \<Rightarrow> ('z io_scheme, connector_error + string) act" where
  "infisical_authenticate e name config =
    act_bind (cached_token_now e name) (\<lambda>cached.
      case cached of
        Some token \<Rightarrow> act_return (Inr token)
      | None \<Rightarrow>
          (case inf_auth config of
             InfisicalKubernetes identity_id token_file \<Rightarrow>
               act_try (read_secret_file e token_file) (\<lambda>jwt.
                 infisical_login e name config ''/api/v1/auth/kubernetes-auth/login''
                   [(''identityId'', identity_id), (''jwt'', jwt)])
           | InfisicalUniversal client_id_file client_secret_file \<Rightarrow>
               act_try (read_secret_file e client_id_file) (\<lambda>client_id.
               act_try (read_secret_file e client_secret_file) (\<lambda>client_secret.
                 infisical_login e name config ''/api/v1/auth/universal-auth/login''
                   [(''clientId'', client_id), (''clientSecret'', client_secret)]))
           | InfisicalToken token_file \<Rightarrow> read_secret_file e token_file))"

definition decode_dynamic_data :: "json \<Rightarrow> connector_error + (string \<times> string) list" where
  "decode_dynamic_data data =
    (case data of JObject root \<Rightarrow> decode_scalars (\<lambda>_. True) root | _ \<Rightarrow> Inl (BackendE DataNotObject))"

definition validate_dynamic_lease_id :: "string \<Rightarrow> connector_error + unit" where
  "validate_dynamic_lease_id lease_id =
    (if lease_id = [] \<or> 128 < length lease_id
        \<or> \<not> list_all (\<lambda>c. is_ascii_alphanumeric c \<or> c = CHR ''-'') lease_id
     then Inl (BackendE InvalidLeaseId) else Inr ())"

definition parse_dynamic_expiry :: "env \<Rightarrow> string \<Rightarrow> ('z io_scheme, connector_error + int) act" where
  "parse_dynamic_expiry e expire_at =
    (case env_rfc3339 e expire_at of
       None \<Rightarrow> act_return (Inl (ExpiryE ExpiryInvalid))
     | Some timestamp \<Rightarrow>
         if timestamp < 0 then act_return (Inl (ExpiryE ExpiryBeforeEpoch))
         else (case checked_add 0 (secs timestamp) of
           None \<Rightarrow> act_return (Inl (ExpiryE ExpiryClockRange))
         | Some expiry \<Rightarrow>
             act_bind (clock_now e) (\<lambda>now.
               if expiry < now then act_return (Inl (ExpiryE ExpiryPast))
               else if expiry - now > secs (24 * 60 * 60 + 60) then act_return (Inl (ExpiryE ExpiryOutOfBounds))
               else act_return (Inr expiry))))"

text \<open>\<open>dynamic_lease_url\<close> checks the identifier again and parses the base URL; the request keeps both apart.\<close>

definition dynamic_lease_url :: "('u, 'c) crates_scheme \<Rightarrow> infisical_config \<Rightarrow> string \<Rightarrow> connector_error + string" where
  "dynamic_lease_url cr config lease_id =
    rbind (validate_dynamic_lease_id lease_id) (\<lambda>_.
      let base = infisical_url config ''/api/v1/dynamic-secrets/leases/''
      in if url_parse cr base = None then Inl (BackendE InvalidBaseUrl) else Inr base)"

definition infisical_acquire_dynamic ::
    "env \<Rightarrow> string \<Rightarrow> infisical_config \<Rightarrow> profile_config \<Rightarrow> ('z io_scheme, connector_error + secret_acquisition) act" where
  "infisical_acquire_dynamic e name config profile =
    (case pf_dynamic_secret profile of
       None \<Rightarrow> act_return (Inl DynamicSecretMissing)
     | Some dynamic \<Rightarrow>
         act_try (infisical_authenticate e name config) (\<lambda>token.
         act_bind (send e (InfisicalCreate (infisical_url config ''/api/v1/dynamic-secrets/leases'') token
             [(''dynamicSecretName'', ds_name dynamic), (''projectSlug'', ds_project_slug dynamic),
              (''environmentSlug'', pf_environment profile), (''ttl'', decimal (ds_ttl_seconds dynamic) @ ''s''),
              (''path'', pf_secret_path profile)])) (\<lambda>reply.
           case reply of
             NoReply \<Rightarrow> act_return (Inl (BackendE TransportFailed))
           | Reply status body \<Rightarrow>
               if \<not> is_success status then act_return (Inl (BackendE (StatusFailed status)))
               else (case body of
                 DynamicBody lease_id expire_at data \<Rightarrow>
                   act_try (act_return (validate_dynamic_lease_id lease_id)) (\<lambda>_.
                   act_try (parse_dynamic_expiry e expire_at) (\<lambda>expires_at.
                   act_try (act_return (decode_dynamic_data data)) (\<lambda>decoded.
                     act_return (Inr \<lparr>sa_values = decoded,
                       sa_lease = Some (InfisicalL \<lparr>infl_id = lease_id, infl_project_slug = ds_project_slug dynamic,
                         infl_environment = pf_environment profile, infl_path = pf_secret_path profile,
                         infl_expires_at = expires_at, infl_renew_increment = ds_ttl_seconds dynamic\<rparr>)\<rparr>))))
               | _ \<Rightarrow> act_return (Inl (BackendE BodyUndecodable))))))"

definition infisical_acquire ::
    "('u, 'c) crates_scheme \<Rightarrow> env \<Rightarrow> string \<Rightarrow> infisical_config \<Rightarrow> profile_config \<Rightarrow> ('z io_scheme, connector_error + secret_acquisition) act" where
  "infisical_acquire cr e name config profile =
    (if pf_dynamic_secret profile \<noteq> None then infisical_acquire_dynamic e name config profile
     else act_try (infisical_authenticate e name config) (\<lambda>token.
       let url = infisical_url config ''/api/v3/secrets/raw'' in
       if url_parse cr url = None then act_return (Inl (BackendE InvalidBaseUrl))
       else act_bind (send e (InfisicalRead url token
           [(''workspaceId'', pf_project_id profile), (''environment'', pf_environment profile),
            (''secretPath'', pf_secret_path profile), (''include_imports'', ''true'')])) (\<lambda>reply.
         case reply of
           NoReply \<Rightarrow> act_return (Inl (BackendE TransportFailed))
         | Reply status body \<Rightarrow>
             if status = 404 then act_return (Inr \<lparr>sa_values = [], sa_lease = None\<rparr>)
             else if \<not> is_success status then act_return (Inl (BackendE (StatusFailed status)))
             else (case body of
               SecretsBody secrets \<Rightarrow>
                 act_return (Inr \<lparr>sa_values =
                   foldl (\<lambda>m (key, v). if pf_allowed_keys profile = [] \<or> key \<in> set (pf_allowed_keys profile)
                                       then AList.update key v m else m) [] secrets,
                   sa_lease = None\<rparr>)
             | _ \<Rightarrow> act_return (Inl (BackendE BodyUndecodable))))))"


definition infisical_renew ::
    "('u, 'c) crates_scheme \<Rightarrow> env \<Rightarrow> string \<Rightarrow> infisical_config \<Rightarrow> infisical_lease \<Rightarrow> ('z io_scheme, (connector_error + unit) \<times> infisical_lease) act" where
  "infisical_renew cr e name config lease =
    act_bind (infisical_authenticate e name config) (\<lambda>auth.
      case rbind auth (\<lambda>token. rbind (dynamic_lease_url cr config (infl_id lease)) (\<lambda>url. Inr (token, url))) of
        Inl err \<Rightarrow> act_return (Inl err, lease)
      | Inr (token, url) \<Rightarrow>
          act_bind (send e (InfisicalRenew url token (infl_id lease)
              [(''projectSlug'', infl_project_slug lease), (''environmentSlug'', infl_environment lease),
               (''ttl'', decimal (infl_renew_increment lease) @ ''s''), (''path'', infl_path lease)])) (\<lambda>reply.
            case reply of
              NoReply \<Rightarrow> act_return (Inl (BackendE TransportFailed), lease)
            | Reply status body \<Rightarrow>
                if \<not> is_success status then act_return (Inl (BackendE (StatusFailed status)), lease)
                else (case body of
                  DynamicLeaseBody lease_id expire_at \<Rightarrow>
                    (case validate_dynamic_lease_id lease_id of
                       Inl err \<Rightarrow> act_return (Inl err, lease)
                     | Inr _ \<Rightarrow>
                         if lease_id \<noteq> infl_id lease then act_return (Inl (BackendE DifferentLeaseId), lease)
                         else act_bind (parse_dynamic_expiry e expire_at) (\<lambda>expiry.
                           case expiry of
                             Inl err \<Rightarrow> act_return (Inl err, lease)
                           | Inr t \<Rightarrow> act_return (Inr (), lease\<lparr>infl_expires_at := t\<rparr>)))
                | _ \<Rightarrow> act_return (Inl (BackendE BodyUndecodable), lease))))"

definition infisical_revoke ::
    "('u, 'c) crates_scheme \<Rightarrow> env \<Rightarrow> string \<Rightarrow> infisical_config \<Rightarrow> infisical_lease \<Rightarrow> ('z io_scheme, connector_error + unit) act" where
  "infisical_revoke cr e name config lease =
    act_try (infisical_authenticate e name config) (\<lambda>token.
    act_try (act_return (dynamic_lease_url cr config (infl_id lease))) (\<lambda>url.
    act_bind (send e (InfisicalRevoke url token (infl_id lease)
        [(''projectSlug'', infl_project_slug lease), (''environmentSlug'', infl_environment lease),
         (''path'', infl_path lease), (''isForced'', ''false'')])) (\<lambda>reply.
      case reply of
        NoReply \<Rightarrow> act_return (Inl (BackendE TransportFailed))
      | Reply status _ \<Rightarrow>
          if \<not> is_success status \<and> status \<noteq> 404 then act_return (Inl (BackendE (StatusFailed status)))
          else act_return (Inr ()))))"

section \<open>Google Secret Manager\<close>

text \<open>
  The checksum of a payload: one byte folds into the register by eight steps that shift right and add the
  reversed Castagnoli polynomial when the low bit was set.
\<close>

definition crc32c_bit :: "32 word \<Rightarrow> 32 word" where
  "crc32c_bit crc = drop_bit 1 crc XOR (0x82f63b78 AND (0 - (crc AND 1)))"

definition crc32c_byte :: "32 word \<Rightarrow> char \<Rightarrow> 32 word" where
  "crc32c_byte crc c = (crc32c_bit ^^ 8) (crc XOR of_nat (byte c))"

definition crc32c :: "bytes \<Rightarrow> 32 word" where
  "crc32c data = NOT (foldl crc32c_byte (NOT 0) data)"

definition max_secret_bytes :: nat where
  "max_secret_bytes = 64 * 1024"

definition google_payload :: "(bytes \<times> int option) option \<Rightarrow> connector_error + string" where
  "google_payload payload =
    (case payload of
       None \<Rightarrow> Inl (PayloadE PayloadMissing)
     | Some (data, checksum) \<Rightarrow>
         if data = [] then Inl (PayloadE PayloadEmpty)
         else if max_secret_bytes < length data then Inl (PayloadE PayloadTooLong)
         else (case checksum of
           None \<Rightarrow> Inl (PayloadE ChecksumMissing)
         | Some expected \<Rightarrow>
             if expected < 0 \<or> 2 ^ 32 \<le> expected then Inl (PayloadE ChecksumInvalid)
             else if crc32c data \<noteq> of_int expected then Inl (PayloadE ChecksumMismatch)
             else if \<not> utf8_valid data then Inl (PayloadE PayloadNotText)
             else Inr data))"

definition google_access :: "env \<Rightarrow> string \<Rightarrow> ('z io_scheme, connector_error + string) act" where
  "google_access e resource =
    act_bind (send e (GoogleAccess resource)) (\<lambda>reply.
      case reply of
        Reply _ (PayloadBody payload) \<Rightarrow> act_return (google_payload payload)
      | _ \<Rightarrow> act_return (Inl (BackendE TransportFailed)))"

fun google_access_all ::
    "env \<Rightarrow> (string \<times> profile_export_config) list \<Rightarrow> ('z io_scheme, connector_error + (string \<times> string) list) act" where
  "google_access_all e [] = act_return (Inr [])"
| "google_access_all e ((local_name, export) # exports) =
    act_try (google_access e (pe_resource export)) (\<lambda>v.
    act_try (google_access_all e exports) (\<lambda>rest.
      act_return (Inr ((local_name, v) # rest))))"

definition google_acquire :: "env \<Rightarrow> profile_config \<Rightarrow> ('z io_scheme, connector_error + secret_acquisition) act" where
  "google_acquire e profile =
    act_try (google_access_all e (pf_exports profile)) (\<lambda>found.
      act_return (Inr \<lparr>sa_values = found, sa_lease = None\<rparr>))"

section \<open>Connectors\<close>

definition export_source :: "string \<times> profile_export_config \<Rightarrow> string" where
  "export_source = (\<lambda>(local_name, export). if pe_field export = [] then local_name else pe_field export)"

fun export_fields ::
    "(string \<times> profile_export_config) list \<Rightarrow> (string \<times> string) list \<Rightarrow> connector_error + (string \<times> string) list" where
  "export_fields [] found = Inr []"
| "export_fields ((local_name, export) # exports) found =
    (case map_of found (export_source (local_name, export)) of
       None \<Rightarrow> Inl (ExportMissing (export_source (local_name, export)))
     | Some v \<Rightarrow>
         rbind (export_fields exports (AList.delete (export_source (local_name, export)) found)) (\<lambda>exported.
           Inr ((local_name, v) # exported)))"

definition apply_exports :: "(string \<times> string) list \<Rightarrow> profile_config \<Rightarrow> connector_error + (string \<times> string) list" where
  "apply_exports found profile =
    (if pf_exports profile = [] then Inr found else export_fields (pf_exports profile) found)"

fun backend_acquire ::
    "('u, 'c) crates_scheme \<Rightarrow> env \<Rightarrow> string \<Rightarrow> connector \<Rightarrow> profile_config \<Rightarrow> ('z io_scheme, connector_error + secret_acquisition) act" where
  "backend_acquire cr e name (InfisicalC config) profile = infisical_acquire cr e name config profile"
| "backend_acquire cr e name (OpenBaoC config) profile = openbao_acquire e name config profile"
| "backend_acquire cr e name GoogleSecretManagerC profile = google_acquire e profile"

definition connector_acquire ::
    "('u, 'c) crates_scheme \<Rightarrow> env \<Rightarrow> string \<Rightarrow> connector \<Rightarrow> profile_config \<Rightarrow> ('z io_scheme, connector_error + secret_acquisition) act" where
  "connector_acquire cr e name connector profile =
    act_try (backend_acquire cr e name connector profile) (\<lambda>acquisition.
    act_try (act_return (apply_exports (sa_values acquisition) profile)) (\<lambda>exported.
      act_return (Inr (acquisition\<lparr>sa_values := exported\<rparr>))))"

fun connector_renew ::
    "('u, 'c) crates_scheme \<Rightarrow> env \<Rightarrow> string \<Rightarrow> connector \<Rightarrow> backend_lease \<Rightarrow> ('z io_scheme, (connector_error + unit) \<times> backend_lease) act" where
  "connector_renew cr e name (OpenBaoC config) (OpenBaoL lease) =
    act_bind (openbao_renew e name config lease) (\<lambda>(r, lease). act_return (r, OpenBaoL lease))"
| "connector_renew cr e name (InfisicalC config) (InfisicalL lease) =
    act_bind (infisical_renew cr e name config lease) (\<lambda>(r, lease). act_return (r, InfisicalL lease))"
| "connector_renew cr e name _ lease = act_return (Inl BackendMismatch, lease)"

fun connector_revoke ::
    "('u, 'c) crates_scheme \<Rightarrow> env \<Rightarrow> string \<Rightarrow> connector \<Rightarrow> backend_lease \<Rightarrow> ('z io_scheme, connector_error + unit) act" where
  "connector_revoke cr e name (OpenBaoC config) (OpenBaoL lease) = openbao_revoke e name config lease"
| "connector_revoke cr e name (InfisicalC config) (InfisicalL lease) = infisical_revoke cr e name config lease"
| "connector_revoke cr e name _ lease = act_return (Inl BackendMismatch)"

end
