(* ===== verification/Connector_Properties.thy ===== *)
theory Connector_Properties
  imports Connectors
begin

text \<open>
  What the connectors guarantee: they touch nothing but their own state and append to the log of requests, a
  renewal keeps the identity of a lease, a revocation that succeeds was acknowledged by the backend, only
  configured fields leave a profile, and the checksum of Google Secret Manager finds a corrupted byte.
\<close>

section \<open>Frames\<close>

lemma read_secret_file_io: "obeys io_extends (read_secret_file e path)"
  unfolding read_secret_file_def by (intro io_frame.obeys_rules tick_io)

lemma cached_token_now_io: "obeys io_extends (cached_token_now e name)"
  by (rule obeysI) (auto simp: cached_token_now_def io_extends_def split: option.splits)

lemma cache_token_io: "obeys io_extends (cache_token e name token lifetime)"
  by (rule obeysI) (auto simp: cache_token_def io_extends_def split: option.splits)

lemmas io_rules = io_frame.obeys_rules tick_io send_io read_secret_file_io cached_token_now_io cache_token_io

lemma openbao_login_body_io: "obeys io_extends (openbao_login_body e auth)"
  unfolding openbao_login_body_def by (cases auth) (simp_all, (intro io_rules)+)

lemma openbao_login_io: "obeys io_extends (openbao_login e name config)"
  unfolding openbao_login_def
  by (intro io_rules openbao_login_body_io) (auto intro!: io_rules split: backend_reply.split reply_body.split prod.split)


lemma openbao_authenticate_io: "obeys io_extends (openbao_authenticate e name config)"
  unfolding openbao_authenticate_def
  by (cases "ob_auth config") (simp_all, (intro io_rules openbao_login_io)+)

lemma infisical_login_io: "obeys io_extends (infisical_login e name config path login)"
  unfolding infisical_login_def
  by (intro io_rules) (auto intro!: io_rules split: backend_reply.split reply_body.split)

lemma infisical_authenticate_io: "obeys io_extends (infisical_authenticate e name config)"
  unfolding infisical_authenticate_def
  by (cases "inf_auth config") (simp_all, (intro io_rules infisical_login_io)+)

lemma lease_expiry_io: "obeys io_extends (lease_expiry e d)"
  unfolding lease_expiry_def by (intro io_rules)

lemma parse_dynamic_expiry_io: "obeys io_extends (parse_dynamic_expiry e t)"
  unfolding parse_dynamic_expiry_def by (intro io_rules)

lemmas auth_rules = openbao_authenticate_io infisical_authenticate_io lease_expiry_io parse_dynamic_expiry_io

lemma google_access_all_io: "obeys io_extends (google_access_all e exports)"
proof (induction e exports rule: google_access_all.induct)
  case (2 e local_name export exports)
  have "obeys io_extends (google_access e resource)" for resource
    unfolding google_access_def by (intro io_rules) (auto intro!: io_rules split: backend_reply.split reply_body.split)
  then show ?case by (auto intro!: io_rules 2)
qed (auto intro: io_rules)

lemma decode_secret_response_io: "obeys io_extends (decode_secret_response e profile data lease_id renewable d)"
  unfolding decode_secret_response_def by (intro io_rules auth_rules)

lemma backend_acquire_io: "obeys io_extends (backend_acquire cr e name connector profile)"
proof (cases connector)
  case (InfisicalC config)
  have "obeys io_extends (infisical_acquire_dynamic e name config profile)"
    unfolding infisical_acquire_dynamic_def
    by (intro io_rules auth_rules) (auto intro!: io_rules auth_rules split: backend_reply.split reply_body.split)
  with InfisicalC show ?thesis
    by (auto simp: infisical_acquire_def Let_def intro!: io_rules auth_rules split: backend_reply.split reply_body.split)
next
  case (OpenBaoC config)
  then show ?thesis
    by (auto simp: openbao_acquire_def intro!: io_rules auth_rules decode_secret_response_io
        split: backend_reply.split reply_body.split)
next
  case GoogleSecretManagerC
  then show ?thesis by (auto simp: google_acquire_def intro!: io_rules google_access_all_io)
qed

lemma connector_acquire_io: "obeys io_extends (connector_acquire cr e name connector profile)"
  unfolding connector_acquire_def by (intro io_rules backend_acquire_io)

lemma openbao_renew_io: "obeys io_extends (openbao_renew e name config lease)"
  unfolding openbao_renew_def Let_def
  by (auto intro!: io_rules auth_rules split: backend_reply.split reply_body.split)

lemma infisical_renew_io: "obeys io_extends (infisical_renew cr e name config lease)"
  unfolding infisical_renew_def Let_def
  by (auto intro!: io_rules auth_rules split: backend_reply.split reply_body.split prod.split)

lemma connector_renew_io: "obeys io_extends (connector_renew cr e name connector lease)"
  by (cases "(cr, e, name, connector, lease)" rule: connector_renew.cases)
    (auto intro!: io_rules openbao_renew_io infisical_renew_io split: prod.split)

lemma connector_revoke_io: "obeys io_extends (connector_revoke cr e name connector lease)"
  by (cases "(cr, e, name, connector, lease)" rule: connector_revoke.cases)
    (auto simp: openbao_revoke_def infisical_revoke_def intro!: io_rules auth_rules split: backend_reply.split)

section \<open>Leases keep their identity, and a revocation that succeeds was acknowledged\<close>

text \<open>The kind and identifier of a lease, and the lease that a request revokes.\<close>

fun lease_key :: "backend_lease \<Rightarrow> bool \<times> string" where
  "lease_key (OpenBaoL lease) = (True, obl_id lease)"
| "lease_key (InfisicalL lease) = (False, infl_id lease)"

fun revoked_key :: "backend_request \<Rightarrow> (bool \<times> string) option" where
  "revoked_key (OpenBaoRevoke _ _ _ lease_id) = Some (True, lease_id)"
| "revoked_key (InfisicalRevoke _ _ lease_id _) = Some (False, lease_id)"
| "revoked_key _ = None"

fun acknowledged :: "backend_reply \<Rightarrow> bool" where
  "acknowledged (Reply status _) = (is_success status \<or> status = 404)"
| "acknowledged NoReply = False"

text \<open>Some revocation of the lease in the log was answered with success, or that the lease is unknown.\<close>

definition lease_revoked :: "env \<Rightarrow> backend_request list \<Rightarrow> backend_lease \<Rightarrow> bool" where
  "lease_revoked e log lease \<longleftrightarrow>
     (\<exists>pre request post. log = pre @ request # post \<and> revoked_key request = Some (lease_key lease)
        \<and> acknowledged (env_backend e pre request))"

lemma lease_revoked_extends: "lease_revoked e log lease \<Longrightarrow> lease_revoked e (log @ others) lease"
  unfolding lease_revoked_def by fastforce

lemma lease_revokedI:
  "log = pre @ [request] \<Longrightarrow> revoked_key request = Some (lease_key lease) \<Longrightarrow>
     acknowledged (env_backend e pre request) \<Longrightarrow> lease_revoked e log lease"
  unfolding lease_revoked_def by blast

lemma lease_revoked_key: "lease_key l = lease_key l' \<Longrightarrow> lease_revoked e log l = lease_revoked e log l'"
  unfolding lease_revoked_def by simp

lemma acknowledged_run:
  "(case reply of NoReply \<Rightarrow> act_return (Inl a)
    | Reply status _ \<Rightarrow> if \<not> is_success status \<and> status \<noteq> 404 then act_return (Inl (b status)) else act_return (Inr ())) s
   = (Inr (), s') \<longleftrightarrow> acknowledged reply \<and> s' = s"
  by (cases reply) auto

lemma connector_revoke_Inr:
  assumes "connector_revoke cr e name connector lease s = (Inr (), s')"
  shows "lease_revoked e (io_sent s') lease"
proof (cases "(cr, e, name, connector, lease)" rule: connector_revoke.cases)
  case (1 cr' e' name' config l)
  with assms show ?thesis
    by (auto simp: openbao_revoke_def act_try_Inr acknowledged_run intro!: lease_revokedI)
next
  case (2 cr' e' name' config l)
  with assms show ?thesis
    by (auto simp: infisical_revoke_def act_try_Inr acknowledged_run intro!: lease_revokedI)
qed (use assms in auto)


lemma openbao_renew_id: "openbao_renew e name config lease s = ((r, lease'), s') \<Longrightarrow> obl_id lease' = obl_id lease"
  unfolding openbao_renew_def Let_def
  by (auto split: if_splits prod.splits sum.splits backend_reply.splits reply_body.splits)

lemma infisical_renew_id: "infisical_renew cr e name config lease s = ((r, lease'), s') \<Longrightarrow> infl_id lease' = infl_id lease"
  unfolding infisical_renew_def Let_def
  by (auto split: if_splits prod.splits sum.splits backend_reply.splits reply_body.splits)

lemma connector_renew_key:
  assumes "connector_renew cr e name connector lease s = ((r, lease'), s')"
  shows "lease_key lease' = lease_key lease"
  by (cases "(cr, e, name, connector, lease)" rule: connector_renew.cases)
    (use assms in \<open>auto split: prod.splits dest: openbao_renew_id infisical_renew_id\<close>)

section \<open>Exports\<close>

lemma export_fields_iff:
  "export_fields exports found = Inr out \<longleftrightarrow>
     distinct (map export_source exports)
     \<and> (\<forall>ex\<in>set exports. map_of found (export_source ex) \<noteq> None)
     \<and> out = map (\<lambda>ex. (fst ex, the (map_of found (export_source ex)))) exports"
proof (induction exports arbitrary: found out)
  case (Cons ex exports)
  obtain local_name export where ex: "ex = (local_name, export)" by (cases ex)
  let ?src = "export_source (local_name, export)"
  have keep: "map_of (AList.delete ?src found) (export_source x) = map_of found (export_source x)"
    if "?src \<notin> export_source ` set exports" "x \<in> set exports" for x
  proof -
    have "export_source x \<noteq> ?src" using that by (metis imageI)
    then show ?thesis by (simp add: delete_conv')
  qed
  show ?case
  proof (cases "map_of found ?src")
    case None
    then show ?thesis by (simp add: ex)
  next
    case (Some v)
    show ?thesis
    proof (cases "?src \<in> export_source ` set exports")
      case True
      then have "\<exists>x\<in>set exports. map_of (AList.delete ?src found) (export_source x) = None"
        by (auto simp: delete_conv')
      with True Some show ?thesis by (auto simp: ex result_iff Cons.IH)
    next
      case False
      with Some keep show ?thesis by (auto simp: ex result_iff Cons.IH)
    qed
  qed
qed auto

section \<open>CRC32C\<close>

lemma crc32c_bit_if: "crc32c_bit x = (if odd x then drop_bit 1 x XOR 0x82f63b78 else drop_bit 1 x)"
proof (cases "odd x")
  case True
  then have "x AND 1 = 1" by (simp add: and_one_eq odd_iff_mod_2_eq_one)
  then show ?thesis using True by (simp add: crc32c_bit_def)
next
  case False
  then have "x AND 1 = 0" by (simp add: and_one_eq even_iff_mod_2_eq_zero)
  then show ?thesis using False by (simp add: crc32c_bit_def)
qed

lemma crc32c_bit_top: "bit (crc32c_bit x) 31 = odd x"
proof -
  have top: "bit (drop_bit (Suc 0) x) 31 = False"
    using bit_imp_le_length [of x 32] by (auto simp: bit_drop_bit_eq)
  have poly: "bit (0x82f63b78 :: 32 word) 31 = True" by simp
  show ?thesis unfolding crc32c_bit_if by (simp add: bit_xor_iff top poly)
qed

text \<open>The register steps are injective, so two payloads that differ in one byte have different checksums.\<close>

lemma xor_cancel: "a XOR c = b XOR c \<Longrightarrow> a = (b :: 32 word)"
  by (metis xor.assoc xor.right_neutral xor_self_eq)

lemma crc32c_bit_inj: "inj crc32c_bit"
proof (rule injI)
  fix x y
  assume eq: "crc32c_bit x = crc32c_bit y"
  then have low: "odd x = odd y" by (metis crc32c_bit_top)
  with eq have "drop_bit 1 x = drop_bit 1 y"
    by (auto simp: crc32c_bit_if dest: xor_cancel split: if_splits)
  then have "bit x (Suc n) = bit y (Suc n)" for n
    by (metis bit_drop_bit_eq comp_apply plus_1_eq_Suc)
  with low show "x = y" by (metis bit_0 bit_eqI not0_implies_Suc)
qed

lemma crc32c_byte_eq: "crc32c_byte x c = crc32c_byte y d \<Longrightarrow> x XOR of_nat (byte c) = y XOR of_nat (byte d)"
  unfolding crc32c_byte_def by (rule injD [OF inj_fn [OF crc32c_bit_inj]])

lemma byte_word_inj:
  assumes "of_nat (byte c) = (of_nat (byte d) :: 32 word)"
  shows "c = d"
proof -
  have "unat (of_nat (byte x) :: 32 word) = byte x" for x
  proof -
    have "byte x < 2 ^ 32" by (rule order.strict_trans [OF nat_of_char_less_256]) simp
    then show ?thesis by (simp only: unat_of_nat take_bit_nat_eq_self len_bit0 len_num1 mult_1_right) (simp add: take_bit_nat_eq_self)
  qed
  then show ?thesis using assms by (metis of_char_eq_iff)
qed

lemma crc32c_fold_inj: "foldl crc32c_byte x data = foldl crc32c_byte y data \<Longrightarrow> x = y"
proof (induction data arbitrary: x y)
  case (Cons c data)
  then have "crc32c_byte x c = crc32c_byte y c" by simp
  then show ?case by (rule xor_cancel [OF crc32c_byte_eq])
qed simp

lemma crc32c_byte_differs:
  assumes "c \<noteq> d"
  shows "crc32c (pre @ c # post) \<noteq> crc32c (pre @ d # post)"
proof
  let ?r = "foldl crc32c_byte (NOT 0) pre"
  assume "crc32c (pre @ c # post) = crc32c (pre @ d # post)"
  then have "foldl crc32c_byte (crc32c_byte ?r c) post = foldl crc32c_byte (crc32c_byte ?r d) post"
    by (simp add: crc32c_def)
  then have "?r XOR of_nat (byte c) = ?r XOR of_nat (byte d)" by (rule crc32c_byte_eq [OF crc32c_fold_inj])
  then have "of_nat (byte c) = (of_nat (byte d) :: 32 word)" 
    using xor_cancel [of "of_nat (byte c)" ?r "of_nat (byte d)"] by (simp only: xor.commute)
  with assms show False using byte_word_inj by blast
qed

end
