(* ===== verification/Store.thy ===== *)
theory Store
  imports AV_Crates "HOL-Library.AList"
begin

text \<open>
  The managed store, \<^verbatim>\<open>src/store.rs\<close>. The database is a record of its tables. A table with a primary key is
  the association list of its rows; \<open>INSERT .. ON CONFLICT DO UPDATE\<close> is \<^const>\<open>AList.update\<close>, a plain
  \<open>INSERT\<close> fails on a duplicate key, \<open>UPDATE .. WHERE\<close> and \<open>DELETE .. WHERE\<close> touch the rows that match
  and count them. Roles and grant modes are stored as text, as the code stores them. A transaction that
  ends in an error leaves the database as it was, so an operation returns either an error or the new
  database with its answer. The clock is an argument. Time is an \<open>i64\<close> number of seconds, an \<^typ>\<open>int\<close>
  whose range \<open>now_unix_seconds\<close> checks.

  The PostgreSQL and the SQLite arm of an operation run the same statement unless the definition takes
  a \<open>backend\<close>. \<open>ORDER BY\<close> on text is the byte order of SQLite. Failures of the connection are not part
  of the model.
\<close>

section \<open>Data\<close>

datatype backend = Postgres | Sqlite

datatype role = Owner | Operator | Auditor | User

datatype grant_mode = ModeBoth | ModeProxy | ModeEnvironment

record basic_user = bu_username :: string bu_enabled :: bool

record agent = agent_name :: string agent_enabled :: bool

record principal_role_binding = prb_subject :: string prb_role :: role

record profile_grant =
  pg_profile :: string
  pg_subject :: string
  pg_mode :: grant_mode
  pg_expires :: "int option"

record audit_event =
  ae_created :: int
  ae_actor :: string
  ae_action :: string
  ae_profile :: "string option"
  ae_route :: "string option"
  ae_executable_basename :: "string option"

record proxy_session =
  ps_session_id :: string
  ps_subject :: string
  ps_profile :: string
  ps_expires :: int

text \<open>The rows behind the primary keys.\<close>

record basic_user_row = bur_password_hash :: string bur_enabled :: bool

record agent_row = agr_token_hash :: bytes agr_enabled :: bool

record grant_row = gr_mode :: string gr_expires :: "int option"

record session_row =
  sr_token_hash :: bytes
  sr_subject :: string
  sr_profile :: string
  sr_expires :: int
  sr_revoked :: bool

record store_db =
  t_owners :: "string list"
  t_owner_bootstrap :: "string option"
  t_principal_roles :: "(string \<times> string) list"
  t_basic_users :: "(string \<times> basic_user_row) list"
  t_agents :: "(string \<times> agent_row) list"
  t_profile_grants :: "(string \<times> string) list"
  t_capability_grants :: "((string \<times> string) \<times> grant_row) list"
  t_audit_events :: "audit_event list"
  t_proxy_sessions :: "(string \<times> session_row) list"
  t_proxy_session_bounds :: "(string \<times> int) list"

datatype store_error =
  InvalidPrincipalSubject | LastOwner | InvalidPrincipalRole | InvalidGrantMode
| ClockBeforeEpoch | ClockOutOfRange | ConstraintViolation
| AgentNameInvalid | AgentHashLength | GrantExpiryPast
| SessionFieldsInvalid | SessionHashLength | SessionExpiryPast | SessionMaximumBeforeExpiry
| SessionIdentityInvalid | RenewalExpiryPast

section \<open>Statements\<close>

definition update_where :: "('k \<Rightarrow> 'r \<Rightarrow> bool) \<Rightarrow> ('r \<Rightarrow> 'r) \<Rightarrow> ('k \<times> 'r) list \<Rightarrow> ('k \<times> 'r) list" where
  "update_where P f t = map (\<lambda>(k, r). (k, if P k r then f r else r)) t"

definition delete_where :: "('k \<Rightarrow> 'r \<Rightarrow> bool) \<Rightarrow> ('k \<times> 'r) list \<Rightarrow> ('k \<times> 'r) list" where
  "delete_where P t = filter (\<lambda>(k, r). \<not> P k r) t"

definition rows_affected :: "('k \<Rightarrow> 'r \<Rightarrow> bool) \<Rightarrow> ('k \<times> 'r) list \<Rightarrow> nat" where
  "rows_affected P t = length (filter (\<lambda>(k, r). P k r) t)"

definition insert_ignore :: "'k \<Rightarrow> 'r \<Rightarrow> ('k \<times> 'r) list \<Rightarrow> ('k \<times> 'r) list" where
  "insert_ignore k r t = (if map_of t k = None then t @ [(k, r)] else t)"

definition fetch_where :: "('k \<Rightarrow> 'r \<Rightarrow> bool) \<Rightarrow> ('k \<times> 'r) list \<Rightarrow> ('k \<times> 'r) option" where
  "fetch_where P t = find (\<lambda>(k, r). P k r) t"

definition now_unix_seconds :: "int \<Rightarrow> store_error + int" where
  "now_unix_seconds clock =
    (if clock < 0 then Inl ClockBeforeEpoch
     else if 2 ^ 63 \<le> clock then Inl ClockOutOfRange
     else Inr clock)"

section \<open>Roles\<close>

fun role_as_str :: "role \<Rightarrow> string" where
  "role_as_str Owner = ''owner''"
| "role_as_str Operator = ''operator''"
| "role_as_str Auditor = ''auditor''"
| "role_as_str User = ''user''"

definition role_parse :: "string \<Rightarrow> store_error + role" where
  "role_parse s =
    (if s = ''owner'' then Inr Owner
     else if s = ''operator'' then Inr Operator
     else if s = ''auditor'' then Inr Auditor
     else if s = ''user'' then Inr User
     else Inl InvalidPrincipalRole)"

definition can_operate :: "role \<Rightarrow> bool" where
  "can_operate r \<longleftrightarrow> r = Owner \<or> r = Operator"

definition can_audit :: "role \<Rightarrow> bool" where
  "can_audit r \<longleftrightarrow> r = Owner \<or> r = Auditor"

definition principal_role :: "store_db \<Rightarrow> string \<Rightarrow> store_error + role" where
  "principal_role db subject =
    (case map_of (t_principal_roles db) subject of
       None \<Rightarrow> Inr User
     | Some role \<Rightarrow> role_parse role)"

definition is_owner :: "store_db \<Rightarrow> string \<Rightarrow> store_error + bool" where
  "is_owner db subject = rbind (principal_role db subject) (\<lambda>r. Inr (r = Owner))"

definition list_principal_roles :: "store_db \<Rightarrow> store_error + principal_role_binding list" where
  "list_principal_roles db =
    collect_result
      (map (\<lambda>(subject, role). rbind (role_parse role) (\<lambda>r. Inr \<lparr>prb_subject = subject, prb_role = r\<rparr>))
        (sort_key fst (t_principal_roles db)))"

definition owner_count :: "store_db \<Rightarrow> nat" where
  "owner_count db = rows_affected (\<lambda>_ role. role = ''owner'') (t_principal_roles db)"

text \<open>\<open>set_principal_role\<close>: the tests it makes, the writes it makes, and both in one transaction.\<close>

definition set_principal_role_check :: "store_db \<Rightarrow> string \<Rightarrow> role \<Rightarrow> store_error + unit" where
  "set_principal_role_check db subject role =
    (if map_of (t_principal_roles db) subject = Some ''owner'' \<and> role \<noteq> Owner \<and> owner_count db \<le> 1
     then Inl LastOwner else Inr ())"

definition set_principal_role_write :: "store_db \<Rightarrow> string \<Rightarrow> role \<Rightarrow> store_db" where
  "set_principal_role_write db subject role =
    db\<lparr>t_principal_roles := AList.update subject (role_as_str role) (t_principal_roles db),
       t_owners :=
         (if role = Owner
          then (if subject \<in> set (t_owners db) then t_owners db else t_owners db @ [subject])
          else filter (\<lambda>s. s \<noteq> subject) (t_owners db))\<rparr>"

definition set_principal_role :: "store_db \<Rightarrow> string \<Rightarrow> role \<Rightarrow> store_error + store_db" where
  "set_principal_role db subject role =
    (if subject = [] \<or> 1024 < length subject \<or> has_control subject then Inl InvalidPrincipalSubject
     else rbind (set_principal_role_check db subject role) (\<lambda>_.
       Inr (set_principal_role_write db subject role)))"


section \<open>Basic users and agents\<close>

definition basic_password_hash :: "store_db \<Rightarrow> string \<Rightarrow> string option" where
  "basic_password_hash db username =
    (case map_of (t_basic_users db) username of
       None \<Rightarrow> None
     | Some row \<Rightarrow> if bur_enabled row then Some (bur_password_hash row) else None)"

definition list_basic_users :: "store_db \<Rightarrow> basic_user list" where
  "list_basic_users db =
    map (\<lambda>(username, row). \<lparr>bu_username = username, bu_enabled = bur_enabled row\<rparr>)
      (sort_key fst (t_basic_users db))"

definition upsert_basic_user :: "store_db \<Rightarrow> string \<Rightarrow> string \<Rightarrow> store_db" where
  "upsert_basic_user db username password_hash =
    db\<lparr>t_basic_users :=
         AList.update username \<lparr>bur_password_hash = password_hash, bur_enabled = True\<rparr> (t_basic_users db)\<rparr>"

definition set_basic_user_enabled :: "store_db \<Rightarrow> string \<Rightarrow> bool \<Rightarrow> store_db \<times> bool" where
  "set_basic_user_enabled db username enabled =
    (db\<lparr>t_basic_users :=
          update_where (\<lambda>k _. k = username) (\<lambda>row. row\<lparr>bur_enabled := enabled\<rparr>) (t_basic_users db)\<rparr>,
     rows_affected (\<lambda>k _. k = username) (t_basic_users db) = 1)"

definition list_agents :: "store_db \<Rightarrow> agent list" where
  "list_agents db =
    map (\<lambda>(name, row). \<lparr>agent_name = name, agent_enabled = agr_enabled row\<rparr>) (sort_key fst (t_agents db))"

definition validate_agent_token :: "string \<Rightarrow> bytes \<Rightarrow> store_error + unit" where
  "validate_agent_token name token_hash =
    (if name = [] \<or> 128 < length name
        \<or> \<not> list_all (\<lambda>c. is_ascii_alphanumeric c \<or> c = CHR ''-'' \<or> c = CHR ''_'') name
     then Inl AgentNameInvalid
     else if length token_hash \<noteq> 32 then Inl AgentHashLength
     else Inr ())"

text \<open>The subject of an agent, \<open>format!("agent:{name}")\<close>.\<close>

definition agent_subject :: "string \<Rightarrow> string" where
  "agent_subject name = ''agent:'' @ name"

definition create_agent :: "store_db \<Rightarrow> string \<Rightarrow> bytes \<Rightarrow> store_error + store_db" where
  "create_agent db name token_hash =
    rbind (validate_agent_token name token_hash) (\<lambda>_.
      if map_of (t_agents db) name \<noteq> None \<or> list_ex (\<lambda>(_, row). agr_token_hash row = token_hash) (t_agents db)
      then Inl ConstraintViolation
      else Inr (db\<lparr>t_agents := t_agents db @ [(name, \<lparr>agr_token_hash = token_hash, agr_enabled = True\<rparr>)]\<rparr>))"

text \<open>\<open>UPDATE av_proxy_sessions SET revoked = TRUE WHERE subject = .. AND revoked = FALSE\<close>.\<close>

definition revoke_subject_sessions :: "string \<Rightarrow> store_db \<Rightarrow> store_db" where
  "revoke_subject_sessions subject db =
    db\<lparr>t_proxy_sessions :=
         update_where (\<lambda>_ row. sr_subject row = subject \<and> \<not> sr_revoked row)
           (\<lambda>row. row\<lparr>sr_revoked := True\<rparr>) (t_proxy_sessions db)\<rparr>"

definition rotate_agent_token :: "store_db \<Rightarrow> string \<Rightarrow> bytes \<Rightarrow> store_error + (store_db \<times> bool)" where
  "rotate_agent_token db name token_hash =
    rbind (validate_agent_token name token_hash) (\<lambda>_.
      if map_of (t_agents db) name \<noteq> None
         \<and> list_ex (\<lambda>(k, row). k \<noteq> name \<and> agr_token_hash row = token_hash) (t_agents db)
      then Inl ConstraintViolation
      else Inr
        (revoke_subject_sessions (agent_subject name)
           (db\<lparr>t_agents :=
                 update_where (\<lambda>k _. k = name)
                   (\<lambda>row. row\<lparr>agr_token_hash := token_hash, agr_enabled := True\<rparr>) (t_agents db)\<rparr>),
         rows_affected (\<lambda>k _. k = name) (t_agents db) = 1))"

definition set_agent_enabled :: "store_db \<Rightarrow> string \<Rightarrow> bool \<Rightarrow> store_db \<times> bool" where
  "set_agent_enabled db name enabled =
    (let db' = db\<lparr>t_agents :=
                    update_where (\<lambda>k _. k = name) (\<lambda>row. row\<lparr>agr_enabled := enabled\<rparr>) (t_agents db)\<rparr>
     in (if enabled then db' else revoke_subject_sessions (agent_subject name) db',
         rows_affected (\<lambda>k _. k = name) (t_agents db) = 1))"

definition delete_agent :: "store_db \<Rightarrow> string \<Rightarrow> store_db \<times> bool" where
  "delete_agent db name =
    (let db1 = db\<lparr>t_capability_grants :=
                    delete_where (\<lambda>(subject, _) _. subject = agent_subject name) (t_capability_grants db)\<rparr>;
         db2 = revoke_subject_sessions (agent_subject name) db1
     in (db2\<lparr>t_agents := delete_where (\<lambda>k _. k = name) (t_agents db2)\<rparr>,
         rows_affected (\<lambda>k _. k = name) (t_agents db2) = 1))"

definition agent_for_token_hash :: "store_db \<Rightarrow> bytes \<Rightarrow> string option" where
  "agent_for_token_hash db token_hash =
    (if length token_hash \<noteq> 32 then None
     else map_option fst (fetch_where (\<lambda>_ row. agr_token_hash row = token_hash \<and> agr_enabled row) (t_agents db)))"

section \<open>Grants\<close>

fun mode_as_str :: "grant_mode \<Rightarrow> string" where
  "mode_as_str ModeBoth = ''both''"
| "mode_as_str ModeProxy = ''proxy''"
| "mode_as_str ModeEnvironment = ''environment''"

definition mode_from_database :: "string \<Rightarrow> store_error + grant_mode" where
  "mode_from_database s =
    (if s = ''both'' then Inr ModeBoth
     else if s = ''proxy'' then Inr ModeProxy
     else if s = ''environment'' then Inr ModeEnvironment
     else Inl InvalidGrantMode)"

definition unexpired :: "int \<Rightarrow> grant_row \<Rightarrow> bool" where
  "unexpired now row = (case gr_expires row of None \<Rightarrow> True | Some e \<Rightarrow> e > now)"

definition profile_allowed :: "int \<Rightarrow> store_db \<Rightarrow> string \<Rightarrow> string \<Rightarrow> store_error + bool" where
  "profile_allowed clock db subject profile =
    rbind (now_unix_seconds clock) (\<lambda>now.
      Inr (rows_affected (\<lambda>(s, p) row. s = subject \<and> p = profile \<and> unexpired now row)
             (t_capability_grants db) > 0))"

definition profile_allowed_for ::
    "int \<Rightarrow> store_db \<Rightarrow> string \<Rightarrow> string \<Rightarrow> grant_mode \<Rightarrow> store_error + bool" where
  "profile_allowed_for clock db subject profile mode =
    rbind (now_unix_seconds clock) (\<lambda>now.
      Inr (rows_affected (\<lambda>(s, p) row. s = subject \<and> p = profile \<and> unexpired now row
               \<and> (gr_mode row = ''both'' \<or> gr_mode row = mode_as_str mode))
             (t_capability_grants db) > 0))"

definition list_allowed_profiles :: "int \<Rightarrow> store_db \<Rightarrow> string \<Rightarrow> store_error + string list" where
  "list_allowed_profiles clock db subject =
    rbind (now_unix_seconds clock) (\<lambda>now.
      Inr (sort (map (\<lambda>((_, p), _). p)
        (filter (\<lambda>((s, _), row). s = subject \<and> unexpired now row) (t_capability_grants db)))))"

definition list_allowed_profiles_for ::
    "int \<Rightarrow> store_db \<Rightarrow> string \<Rightarrow> grant_mode \<Rightarrow> store_error + string list" where
  "list_allowed_profiles_for clock db subject mode =
    rbind (now_unix_seconds clock) (\<lambda>now.
      Inr (sort (map (\<lambda>((_, p), _). p)
        (filter (\<lambda>((s, _), row). s = subject \<and> unexpired now row
                   \<and> (gr_mode row = ''both'' \<or> gr_mode row = mode_as_str mode))
          (t_capability_grants db)))))"

definition grant_of_row :: "(string \<times> string) \<times> grant_row \<Rightarrow> store_error + profile_grant" where
  "grant_of_row = (\<lambda>((subject, profile), row).
     rbind (mode_from_database (gr_mode row)) (\<lambda>mode.
       Inr \<lparr>pg_profile = profile, pg_subject = subject, pg_mode = mode, pg_expires = gr_expires row\<rparr>))"

definition list_profile_grants :: "store_db \<Rightarrow> string \<Rightarrow> store_error + profile_grant list" where
  "list_profile_grants db profile =
    collect_result (map grant_of_row
      (sort_key (\<lambda>((s, _), _). s) (filter (\<lambda>((_, p), _). p = profile) (t_capability_grants db))))"

definition list_subject_grants :: "store_db \<Rightarrow> string \<Rightarrow> store_error + profile_grant list" where
  "list_subject_grants db subject =
    collect_result (map grant_of_row
      (sort_key (\<lambda>((_, p), _). p) (filter (\<lambda>((s, _), _). s = subject) (t_capability_grants db))))"

definition grant_profile_mode ::
    "int \<Rightarrow> store_db \<Rightarrow> string \<Rightarrow> string \<Rightarrow> grant_mode \<Rightarrow> int option \<Rightarrow> store_error + store_db" where
  "grant_profile_mode clock db subject profile mode expires =
    rbind (case expires of
             None \<Rightarrow> Inr ()
           | Some e \<Rightarrow> rbind (now_unix_seconds clock) (\<lambda>now. if e \<le> now then Inl GrantExpiryPast else Inr ())) (\<lambda>_.
      Inr (db\<lparr>t_capability_grants :=
                AList.update (subject, profile) \<lparr>gr_mode = mode_as_str mode, gr_expires = expires\<rparr>
                  (t_capability_grants db)\<rparr>))"

definition grant_profile :: "int \<Rightarrow> store_db \<Rightarrow> string \<Rightarrow> string \<Rightarrow> store_error + store_db" where
  "grant_profile clock db subject profile = grant_profile_mode clock db subject profile ModeBoth None"

definition revoke_profile :: "store_db \<Rightarrow> string \<Rightarrow> string \<Rightarrow> store_db \<times> bool" where
  "revoke_profile db subject profile =
    (db\<lparr>t_capability_grants := delete_where (\<lambda>k _. k = (subject, profile)) (t_capability_grants db)\<rparr>,
     rows_affected (\<lambda>k _. k = (subject, profile)) (t_capability_grants db) = 1)"


section \<open>Audit events\<close>

definition list_audit_events :: "store_db \<Rightarrow> int \<Rightarrow> audit_event list" where
  "list_audit_events db limit =
    (let limit = max 1 (min 500 limit)
     in take (nat limit) (sort_key (\<lambda>e. - ae_created e) (t_audit_events db)))"

definition record_audit ::
    "int \<Rightarrow> store_db \<Rightarrow> string \<Rightarrow> string \<Rightarrow> string option \<Rightarrow> string option \<Rightarrow> string option \<Rightarrow> store_error + store_db" where
  "record_audit clock db actor action profile route executable_basename =
    rbind (now_unix_seconds clock) (\<lambda>now.
      Inr (db\<lparr>t_audit_events :=
                t_audit_events db
                @ [\<lparr>ae_created = now, ae_actor = actor, ae_action = action, ae_profile = profile,
                    ae_route = route, ae_executable_basename = executable_basename\<rparr>]\<rparr>))"

section \<open>Proxy sessions\<close>

definition invalid_session_text :: "nat \<Rightarrow> string \<Rightarrow> bool" where
  "invalid_session_text limit s \<longleftrightarrow> s = [] \<or> limit < length s \<or> has_control s"

definition validate_proxy_session ::
    "int \<Rightarrow> string \<Rightarrow> bytes \<Rightarrow> string \<Rightarrow> string \<Rightarrow> int \<Rightarrow> int \<Rightarrow> store_error + unit" where
  "validate_proxy_session clock session_id token_hash subject profile expires maximum =
    (if invalid_session_text 256 session_id \<or> invalid_session_text 1024 subject
        \<or> invalid_session_text 256 profile
     then Inl SessionFieldsInvalid
     else if length token_hash \<noteq> 32 then Inl SessionHashLength
     else rbind (now_unix_seconds clock) (\<lambda>now.
       if expires \<le> now then Inl SessionExpiryPast
       else if maximum < expires then Inl SessionMaximumBeforeExpiry
       else Inr ()))"

definition create_proxy_session ::
    "int \<Rightarrow> store_db \<Rightarrow> string \<Rightarrow> bytes \<Rightarrow> string \<Rightarrow> string \<Rightarrow> int \<Rightarrow> int \<Rightarrow> store_error + store_db" where
  "create_proxy_session clock db session_id token_hash subject profile expires maximum =
    rbind (validate_proxy_session clock session_id token_hash subject profile expires maximum) (\<lambda>_.
      if map_of (t_proxy_sessions db) session_id \<noteq> None
         \<or> list_ex (\<lambda>(_, row). sr_token_hash row = token_hash) (t_proxy_sessions db)
         \<or> map_of (t_proxy_session_bounds db) session_id \<noteq> None
      then Inl ConstraintViolation
      else Inr (db\<lparr>t_proxy_sessions :=
                     t_proxy_sessions db
                     @ [(session_id, \<lparr>sr_token_hash = token_hash, sr_subject = subject, sr_profile = profile,
                                      sr_expires = expires, sr_revoked = False\<rparr>)],
                   t_proxy_session_bounds := t_proxy_session_bounds db @ [(session_id, maximum)]\<rparr>))"

definition session_of_row :: "string \<times> session_row \<Rightarrow> proxy_session" where
  "session_of_row = (\<lambda>(session_id, row).
     \<lparr>ps_session_id = session_id, ps_subject = sr_subject row, ps_profile = sr_profile row,
      ps_expires = sr_expires row\<rparr>)"

definition active_proxy_session :: "int \<Rightarrow> store_db \<Rightarrow> bytes \<Rightarrow> store_error + proxy_session option" where
  "active_proxy_session clock db token_hash =
    (if length token_hash \<noteq> 32 then Inr None
     else rbind (now_unix_seconds clock) (\<lambda>now.
       Inr (map_option session_of_row
         (fetch_where (\<lambda>_ row. sr_token_hash row = token_hash \<and> \<not> sr_revoked row \<and> sr_expires row > now)
           (t_proxy_sessions db)))))"

text \<open>
  The renewal. PostgreSQL joins the session with its bound and sets the smaller of the two times;
  SQLite tests for the bound with \<open>EXISTS\<close> and computes the minimum with a subselect.
\<close>

definition renew_row_matches :: "string \<Rightarrow> string \<Rightarrow> int \<Rightarrow> string \<Rightarrow> session_row \<Rightarrow> bool" where
  "renew_row_matches session_id subject now k row \<longleftrightarrow>
     k = session_id \<and> sr_subject row = subject \<and> \<not> sr_revoked row \<and> sr_expires row > now"

fun renew_sessions ::
    "backend \<Rightarrow> store_db \<Rightarrow> string \<Rightarrow> string \<Rightarrow> int \<Rightarrow> int \<Rightarrow> (string \<times> session_row) list" where
  "renew_sessions Postgres db session_id subject requested now =
    map (\<lambda>(k, row).
          case find (\<lambda>(b, m). renew_row_matches session_id subject now k row \<and> b = k \<and> m > now)
                 (t_proxy_session_bounds db) of
            Some (_, m) \<Rightarrow> (k, row\<lparr>sr_expires := min requested m\<rparr>)
          | None \<Rightarrow> (k, row))
      (t_proxy_sessions db)"
| "renew_sessions Sqlite db session_id subject requested now =
    map (\<lambda>(k, row).
          if renew_row_matches session_id subject now k row
             \<and> list_ex (\<lambda>(b, m). b = k \<and> m > now) (t_proxy_session_bounds db)
          then (k, row\<lparr>sr_expires := min requested (the (map_of (t_proxy_session_bounds db) k))\<rparr>)
          else (k, row))
      (t_proxy_sessions db)"

definition renewable :: "store_db \<Rightarrow> string \<Rightarrow> string \<Rightarrow> int \<Rightarrow> bool" where
  "renewable db session_id subject now =
    list_ex (\<lambda>(k, row). renew_row_matches session_id subject now k row
               \<and> list_ex (\<lambda>(b, m). b = k \<and> m > now) (t_proxy_session_bounds db))
      (t_proxy_sessions db)"

definition renew_proxy_session_for_subject ::
    "backend \<Rightarrow> int \<Rightarrow> store_db \<Rightarrow> string \<Rightarrow> string \<Rightarrow> int \<Rightarrow> store_error + (store_db \<times> proxy_session option)" where
  "renew_proxy_session_for_subject be clock db session_id subject requested =
    (if invalid_session_text 256 session_id \<or> invalid_session_text 1024 subject
     then Inl SessionIdentityInvalid
     else rbind (now_unix_seconds clock) (\<lambda>now.
       if requested \<le> now then Inl RenewalExpiryPast
       else
         let db' = db\<lparr>t_proxy_sessions := renew_sessions be db session_id subject requested now\<rparr>
         in Inr (db',
                 if renewable db session_id subject now
                 then map_option (\<lambda>row. session_of_row (session_id, row)) (map_of (t_proxy_sessions db') session_id)
                 else None)))"

definition revoke_proxy_session :: "store_db \<Rightarrow> string \<Rightarrow> store_db \<times> bool" where
  "revoke_proxy_session db session_id =
    (db\<lparr>t_proxy_sessions :=
          update_where (\<lambda>k row. k = session_id \<and> \<not> sr_revoked row) (\<lambda>row. row\<lparr>sr_revoked := True\<rparr>)
            (t_proxy_sessions db)\<rparr>,
     rows_affected (\<lambda>k row. k = session_id \<and> \<not> sr_revoked row) (t_proxy_sessions db) = 1)"

definition revoke_proxy_session_for_subject :: "store_db \<Rightarrow> string \<Rightarrow> string \<Rightarrow> store_db \<times> bool" where
  "revoke_proxy_session_for_subject db session_id subject =
    (db\<lparr>t_proxy_sessions :=
          update_where (\<lambda>k row. k = session_id \<and> sr_subject row = subject \<and> \<not> sr_revoked row)
            (\<lambda>row. row\<lparr>sr_revoked := True\<rparr>) (t_proxy_sessions db)\<rparr>,
     rows_affected (\<lambda>k row. k = session_id \<and> sr_subject row = subject \<and> \<not> sr_revoked row)
       (t_proxy_sessions db) = 1)"

section \<open>Startup\<close>

text \<open>
  \<open>migrate\<close>: the tables are created if they are missing, which changes nothing here; the owners are
  written into the role table, and the grants of the older table that are missing in the newer one are
  inserted there.
\<close>

definition migrate :: "store_db \<Rightarrow> store_db" where
  "migrate db =
    db\<lparr>t_principal_roles :=
         foldl (\<lambda>t subject. AList.update subject ''owner'' t) (t_principal_roles db) (t_owners db),
       t_capability_grants :=
         foldl (\<lambda>t (subject, profile). insert_ignore (subject, profile) \<lparr>gr_mode = ''both'', gr_expires = None\<rparr> t)
           (t_capability_grants db) (t_profile_grants db)\<rparr>"

definition owner_role_if_listed :: "string \<Rightarrow> store_db \<Rightarrow> store_db" where
  "owner_role_if_listed subject db =
    (if subject \<in> set (t_owners db)
     then db\<lparr>t_principal_roles := AList.update subject ''owner'' (t_principal_roles db)\<rparr>
     else db)"

definition insert_owner :: "string \<Rightarrow> store_db \<Rightarrow> store_db" where
  "insert_owner subject db =
    (if subject \<in> set (t_owners db) then db else db\<lparr>t_owners := t_owners db @ [subject]\<rparr>)"

text \<open>\<open>bootstrap_owner\<close>: PostgreSQL inserts the owner from the rows the first insert returned, SQLite
  looks at the number of rows it affected.\<close>

fun bootstrap_owner :: "backend \<Rightarrow> store_db \<Rightarrow> string \<Rightarrow> store_db" where
  "bootstrap_owner Postgres db subject =
    (let inserted = (case t_owner_bootstrap db of None \<Rightarrow> [subject] | Some _ \<Rightarrow> []);
         db1 = (case t_owner_bootstrap db of
                  None \<Rightarrow> db\<lparr>t_owner_bootstrap := Some subject\<rparr>
                | Some _ \<Rightarrow> db);
         db2 = foldl (\<lambda>d s. insert_owner s d) db1 inserted
     in owner_role_if_listed subject db2)"
| "bootstrap_owner Sqlite db subject =
    (let (db1, inserted) =
           (case t_owner_bootstrap db of
              None \<Rightarrow> (db\<lparr>t_owner_bootstrap := Some subject\<rparr>, 1::nat)
            | Some _ \<Rightarrow> (db, 0));
         db2 = (if inserted = 1 then insert_owner subject db1 else db1)
     in owner_role_if_listed subject db2)"

text \<open>The part of \<open>Store::connect\<close> that follows once a connection is open.\<close>

definition connect_database :: "backend \<Rightarrow> string \<Rightarrow> store_db \<Rightarrow> store_db" where
  "connect_database be initial_owner_oidc_subject db =
    (if initial_owner_oidc_subject \<noteq> [] then bootstrap_owner be (migrate db) initial_owner_oidc_subject
     else migrate db)"

definition empty_db :: store_db where
  "empty_db =
    \<lparr>t_owners = [], t_owner_bootstrap = None, t_principal_roles = [], t_basic_users = [], t_agents = [],
     t_profile_grants = [], t_capability_grants = [], t_audit_events = [], t_proxy_sessions = [],
     t_proxy_session_bounds = []\<rparr>"

end
