(* ===== verification/Leases.thy ===== *)
theory Leases
  imports Connector_Properties Store
begin

text \<open>
  The server state and the leases of dynamic secrets, \<^verbatim>\<open>src/server.rs\<close>: the registry of active leases, the
  calls of the session service that hand out, renew and revoke them, the leases owned by proxy requests and
  the cleanup at shutdown. The registry is an association list with distinct handles. A call of the managed
  store can fail at any time; \<open>env_store_up\<close> says when it does.
\<close>

section \<open>State\<close>

record active_dynamic_lease =
  ad_subject :: string
  ad_profile :: string
  ad_connector :: string
  ad_lease :: backend_lease

record server = io +
  sv_leases :: "(string \<times> active_dynamic_lease) list"
  sv_db :: "store_db option"

text \<open>The parts of the configuration that do not change while the server runs.\<close>

record app =
  app_connectors :: "(string \<times> connector) list"
  app_profiles :: "(string \<times> profile_config) list"

datatype rpc_code =
  Unauthenticated | PermissionDenied | NotFound | AlreadyExists | InvalidArgument | FailedPrecondition
| ResourceExhausted | Internal

datatype rpc_error = RpcError (rpc_code: rpc_code) (rpc_message: string)

datatype store_failure = StoreDown | StoreFailed store_error

section \<open>The managed store\<close>

definition store_query :: "env \<Rightarrow> (int \<Rightarrow> store_error + 'a) \<Rightarrow> ('z server_scheme, store_failure + 'a) act" where
  "store_query e query =
    act_bind (tick (env_store_up e)) (\<lambda>up.
      if \<not> up then act_return (Inl StoreDown)
      else act_bind (clock_now e) (\<lambda>now. act_return (map_error StoreFailed (query (as_secs now)))))"

definition store_update :: "env \<Rightarrow> (int \<Rightarrow> store_error + store_db \<times> 'a) \<Rightarrow> ('z server_scheme, store_failure + 'a) act" where
  "store_update e change =
    act_try (store_query e change) (\<lambda>(db, x) s. (Inr x, s\<lparr>sv_db := Some db\<rparr>))"

definition profile_permitted ::
    "env \<Rightarrow> string \<Rightarrow> string \<Rightarrow> grant_mode \<Rightarrow> ('z server_scheme, store_failure + bool) act" where
  "profile_permitted e subject profile mode s =
    (case sv_db s of
       None \<Rightarrow> (Inr True, s)
     | Some db \<Rightarrow> store_query e (\<lambda>clock. profile_allowed_for clock db subject profile mode) s)"

definition audit_event_act ::
    "env \<Rightarrow> string \<Rightarrow> string \<Rightarrow> string option \<Rightarrow> string option \<Rightarrow> string option \<Rightarrow> ('z server_scheme, store_failure + unit) act" where
  "audit_event_act e actor action profile route executable_basename s =
    (case sv_db s of
       None \<Rightarrow> (Inr (), s)
     | Some db \<Rightarrow>
         store_update e (\<lambda>clock.
           rbind (record_audit clock db actor action profile route executable_basename) (\<lambda>db'. Inr (db', ()))) s)"

definition permitted_profile_names :: "env \<Rightarrow> app \<Rightarrow> string \<Rightarrow> ('z server_scheme, store_failure + string list) act" where
  "permitted_profile_names e app subject s =
    (case sv_db s of
       None \<Rightarrow> (Inr (map fst (app_profiles app)), s)
     | Some db \<Rightarrow>
         act_try (store_query e (\<lambda>clock. list_allowed_profiles clock db subject)) (\<lambda>names.
           act_return (Inr (filter (\<lambda>p. map_of (app_profiles app) p \<noteq> None) names))) s)"

section \<open>The registry\<close>

definition max_active_dynamic_leases :: nat where
  "max_active_dynamic_leases = 1024"

definition random_browser_token :: "('u, 'c) crates_scheme \<Rightarrow> env \<Rightarrow> ('z io_scheme, string) act" where
  "random_browser_token cr e = tick (\<lambda>n. base64_url_safe_no_pad cr (env_random e n))"

fun select_handle :: "('u, 'c) crates_scheme \<Rightarrow> env \<Rightarrow> nat \<Rightarrow> ('z server_scheme, string option) act" where
  "select_handle cr e 0 = act_return None"
| "select_handle cr e (Suc n) =
    act_bind (random_browser_token cr e) (\<lambda>token s.
      if map_of (sv_leases s) (''av_lease_'' @ token) = None then (Some (''av_lease_'' @ token), s)
      else select_handle cr e n s)"

definition retain_unexpired :: "int \<Rightarrow> ('z server_scheme, unit) act" where
  "retain_unexpired now s =
    ((), s\<lparr>sv_leases := filter (\<lambda>(_, item). lease_expires_at (ad_lease item) > now) (sv_leases s)\<rparr>)"

definition registry_insert ::
    "('u, 'c) crates_scheme \<Rightarrow> env \<Rightarrow> active_dynamic_lease \<Rightarrow> ('z server_scheme, active_dynamic_lease + string) act" where
  "registry_insert cr e item =
    act_bind (clock_now e) (\<lambda>now.
    act_bind (retain_unexpired now) (\<lambda>_ s.
      if max_active_dynamic_leases \<le> length (sv_leases s) then (Inl item, s)
      else act_bind (select_handle cr e 8) (\<lambda>selected s.
        case selected of
          None \<Rightarrow> (Inl item, s)
        | Some handle \<Rightarrow> (Inr handle, s\<lparr>sv_leases := AList.update handle item (sv_leases s)\<rparr>)) s))"

definition take_for_subject ::
    "env \<Rightarrow> string \<Rightarrow> string \<Rightarrow> ('z server_scheme, active_dynamic_lease option) act" where
  "take_for_subject e handle subject s =
    (case map_of (sv_leases s) handle of
       None \<Rightarrow> (None, s)
     | Some item \<Rightarrow>
         if ad_subject item \<noteq> subject then (None, s)
         else act_bind (clock_now e) (\<lambda>now s.
           if lease_expires_at (ad_lease item) \<le> now then (None, s)
           else (Some item, s\<lparr>sv_leases := AList.delete handle (sv_leases s)\<rparr>)) s)"

definition restore :: "string \<Rightarrow> active_dynamic_lease \<Rightarrow> ('z server_scheme, active_dynamic_lease + unit) act" where
  "restore handle lease s =
    (if map_of (sv_leases s) handle \<noteq> None then (Inl lease, s)
     else (Inr (), s\<lparr>sv_leases := AList.update handle lease (sv_leases s)\<rparr>))"

definition drain :: "('z server_scheme, active_dynamic_lease list) act" where
  "drain s = (map snd (sort_key fst (sv_leases s)), s\<lparr>sv_leases := []\<rparr>)"

section \<open>Leases\<close>

definition revoke_dynamic_lease ::
    "('u, 'c) crates_scheme \<Rightarrow> env \<Rightarrow> app \<Rightarrow> active_dynamic_lease \<Rightarrow> ('z server_scheme, connector_error + unit) act" where
  "revoke_dynamic_lease cr e app active =
    (case map_of (app_connectors app) (ad_connector active) of
       None \<Rightarrow> act_return (Inl ConnectorMissing)
     | Some connector \<Rightarrow> connector_revoke cr e (ad_connector active) connector (ad_lease active))"

definition dynamic_lease_expiry :: "backend_lease \<Rightarrow> unit + int" where
  "dynamic_lease_expiry lease =
    (if lease_expires_at lease < 0 then Inl ()
     else if 2 ^ 63 \<le> as_secs (lease_expires_at lease) then Inl ()
     else Inr (as_secs (lease_expires_at lease)))"

definition validate_dynamic_lease_handle :: "string \<Rightarrow> rpc_error + unit" where
  "validate_dynamic_lease_handle handle =
    (case strip_prefix ''av_lease_'' handle of
       None \<Rightarrow> Inl (RpcError InvalidArgument ''dynamic lease handle is invalid'')
     | Some token \<Rightarrow>
         if length token \<noteq> 43
            \<or> \<not> list_all (\<lambda>c. is_ascii_alphanumeric c \<or> c = CHR ''-'' \<or> c = CHR ''_'') token
         then Inl (RpcError InvalidArgument ''dynamic lease handle is invalid'')
         else Inr ())"

definition acquire_secrets ::
    "('u, 'c) crates_scheme \<Rightarrow> env \<Rightarrow> app \<Rightarrow> profile_config \<Rightarrow> ('z server_scheme, connector_error + secret_acquisition) act" where
  "acquire_secrets cr e app profile =
    act_bind (tick (env_slot e)) (\<lambda>slot.
      if \<not> slot then act_return (Inl ConnectorBusy)
      else case map_of (app_connectors app) (pf_connector profile) of
        None \<Rightarrow> act_return (Inl ConnectorMissing)
      | Some connector \<Rightarrow> connector_acquire cr e (pf_connector profile) connector profile)"

definition fetch_secrets ::
    "('u, 'c) crates_scheme \<Rightarrow> env \<Rightarrow> app \<Rightarrow> profile_config \<Rightarrow> ('z server_scheme, connector_error + (string \<times> string) list) act" where
  "fetch_secrets cr e app profile =
    act_try (acquire_secrets cr e app profile) (\<lambda>acquisition.
      case map_of (app_connectors app) (pf_connector profile) of
        None \<Rightarrow> act_return (Inl ConnectorMissing)
      | Some connector \<Rightarrow>
          (case sa_lease acquisition of
             Some lease \<Rightarrow>
               act_bind (connector_revoke cr e (pf_connector profile) connector lease) (\<lambda>_.
                 act_return (Inl LeaseUnsupported))
           | None \<Rightarrow> act_return (Inr (sa_values acquisition))))"


section \<open>The session service\<close>

text \<open>
  The calls of the session service that concern leases. \<open>who\<close> is the subject that authentication found, if any
  (\<open>authorize_connect\<close>). An error of a revocation is logged and goes no further.
\<close>

definition authorize_connect :: "string option \<Rightarrow> ('s, rpc_error + string) act" where
  "authorize_connect who = act_return (ok_or (RpcError Unauthenticated ''authentication required'') who)"

abbreviation store_unavailable :: "store_failure \<Rightarrow> rpc_error" where
  "store_unavailable \<equiv> \<lambda>_. RpcError Internal ''managed store unavailable''"

abbreviation audit_unavailable :: "store_failure \<Rightarrow> rpc_error" where
  "audit_unavailable \<equiv> \<lambda>_. RpcError Internal ''audit persistence unavailable''"

definition valid_executable_basename :: "string \<Rightarrow> bool" where
  "valid_executable_basename v \<longleftrightarrow>
     v \<noteq> [] \<and> length v \<le> 255 \<and> CHR ''/'' \<notin> set v \<and> CHR 0x5C \<notin> set v \<and> \<not> has_control v"

record profile_environment =
  env_values :: "(string \<times> string) list"
  env_lease_id :: string
  env_expires_unix_seconds :: int

record profile_environment_lease =
  pel_lease_id :: string
  pel_expires_unix_seconds :: int
  pel_revoked :: bool

definition register_environment_lease ::
    "('u, 'c) crates_scheme \<Rightarrow> env \<Rightarrow> app \<Rightarrow> string \<Rightarrow> string \<Rightarrow> string \<Rightarrow> backend_lease option
     \<Rightarrow> ('z server_scheme, rpc_error + string \<times> int) act" where
  "register_environment_lease cr e app subject profile_name connector lease =
    (case lease of
       None \<Rightarrow> act_return (Inr ([], 0))
     | Some lease \<Rightarrow>
         let active = \<lparr>ad_subject = subject, ad_profile = profile_name, ad_connector = connector, ad_lease = lease\<rparr> in
         (case dynamic_lease_expiry lease of
            Inl _ \<Rightarrow>
              act_bind (revoke_dynamic_lease cr e app active) (\<lambda>_.
                act_return (Inl (RpcError Internal ''profile environment unavailable'')))
          | Inr expires \<Rightarrow>
              act_bind (registry_insert cr e active) (\<lambda>inserted.
                case inserted of
                  Inr handle \<Rightarrow> act_return (Inr (handle, expires))
                | Inl active \<Rightarrow>
                    act_bind (revoke_dynamic_lease cr e app active) (\<lambda>_.
                      act_return (Inl (RpcError ResourceExhausted ''active dynamic lease limit reached''))))))"

text \<open>What happens to the lease when the audit event of its delivery cannot be stored.\<close>

definition withdraw_environment_lease ::
    "('u, 'c) crates_scheme \<Rightarrow> env \<Rightarrow> app \<Rightarrow> string \<Rightarrow> string \<Rightarrow> ('z server_scheme, unit) act" where
  "withdraw_environment_lease cr e app lease_id subject =
    (if lease_id = [] then act_return ()
     else act_bind (take_for_subject e lease_id subject) (\<lambda>taken.
       case taken of
         None \<Rightarrow> act_return ()
       | Some active \<Rightarrow> act_bind (revoke_dynamic_lease cr e app active) (\<lambda>_. act_return ())))"

definition get_profile_environment ::
    "('u, 'c) crates_scheme \<Rightarrow> env \<Rightarrow> app \<Rightarrow> string option \<Rightarrow> string \<Rightarrow> string
     \<Rightarrow> ('z server_scheme, rpc_error + profile_environment) act" where
  "get_profile_environment cr e app who profile_name executable =
    act_try (authorize_connect who) (\<lambda>subject.
    act_try (act_return (ok_or (RpcError NotFound ''profile not found'') (map_of (app_profiles app) profile_name))) (\<lambda>profile.
    act_try (act_map_err store_unavailable (profile_permitted e subject profile_name ModeEnvironment)) (\<lambda>permitted.
      if \<not> permitted then act_return (Inl (RpcError PermissionDenied ''profile access is not granted''))
      else if \<not> valid_executable_basename executable
      then act_return (Inl (RpcError InvalidArgument ''executable_basename must be a basename without control characters''))
      else
        act_try (act_map_err (\<lambda>_. RpcError Internal ''profile environment unavailable'') (acquire_secrets cr e app profile)) (\<lambda>acquisition.
        act_try (register_environment_lease cr e app subject profile_name (pf_connector profile) (sa_lease acquisition)) (\<lambda>(lease_id, expires).
        act_bind (audit_event_act e subject ''profile_lease'' (Some profile_name) None (Some executable)) (\<lambda>audited.
          case audited of
            Inl _ \<Rightarrow>
              act_bind (withdraw_environment_lease cr e app lease_id subject) (\<lambda>_.
                act_return (Inl (RpcError Internal ''audit persistence unavailable'')))
          | Inr _ \<Rightarrow>
              act_return (Inr \<lparr>env_values = sort_key fst (sa_values acquisition), env_lease_id = lease_id,
                              env_expires_unix_seconds = expires\<rparr>)))))))"

definition revoke_profile_environment_lease ::
    "('u, 'c) crates_scheme \<Rightarrow> env \<Rightarrow> app \<Rightarrow> string option \<Rightarrow> string
     \<Rightarrow> ('z server_scheme, rpc_error + profile_environment_lease) act" where
  "revoke_profile_environment_lease cr e app who handle =
    act_try (authorize_connect who) (\<lambda>subject.
    act_try (act_return (validate_dynamic_lease_handle handle)) (\<lambda>_.
    act_bind (take_for_subject e handle subject) (\<lambda>taken.
      case taken of
        None \<Rightarrow> act_return (Inl (RpcError NotFound ''active dynamic lease not found''))
      | Some active \<Rightarrow>
          act_bind (revoke_dynamic_lease cr e app active) (\<lambda>revoked.
            case revoked of
              Inl _ \<Rightarrow>
                act_bind (restore handle active) (\<lambda>_.
                  act_return (Inl (RpcError Internal ''dynamic lease revocation failed'')))
            | Inr _ \<Rightarrow>
                act_try (act_map_err audit_unavailable
                  (audit_event_act e subject ''profile_lease_revoked'' (Some (ad_profile active)) None None)) (\<lambda>_.
                  act_return (Inr \<lparr>pel_lease_id = handle, pel_expires_unix_seconds = 0, pel_revoked = True\<rparr>))))))"


text \<open>The steps of a renewal once the lease is taken and its connector is known.\<close>

definition finish_environment_renewal ::
    "('u, 'c) crates_scheme \<Rightarrow> env \<Rightarrow> app \<Rightarrow> string \<Rightarrow> string \<Rightarrow> active_dynamic_lease
     \<Rightarrow> ('z server_scheme, rpc_error + profile_environment_lease) act" where
  "finish_environment_renewal cr e app subject handle active =
    (case dynamic_lease_expiry (ad_lease active) of
       Inl _ \<Rightarrow>
         act_bind (revoke_dynamic_lease cr e app active) (\<lambda>revoked.
           case revoked of
             Inl _ \<Rightarrow>
               act_bind (restore handle active) (\<lambda>_.
                 act_return (Inl (RpcError Internal ''dynamic lease expiry is invalid'')))
           | Inr _ \<Rightarrow> act_return (Inl (RpcError Internal ''dynamic lease expiry is invalid'')))
     | Inr expires \<Rightarrow>
         act_bind (audit_event_act e subject ''profile_lease_renewed'' (Some (ad_profile active)) None None) (\<lambda>audited.
           case audited of
             Inl _ \<Rightarrow>
               act_bind (revoke_dynamic_lease cr e app active) (\<lambda>_.
                 act_return (Inl (RpcError Internal ''audit persistence unavailable'')))
           | Inr _ \<Rightarrow>
               act_bind (restore handle active) (\<lambda>restored.
                 case restored of
                   Inl active \<Rightarrow>
                     act_bind (revoke_dynamic_lease cr e app active) (\<lambda>_.
                       act_return (Inl (RpcError Internal ''dynamic lease registry unavailable'')))
                 | Inr _ \<Rightarrow>
                     act_return (Inr \<lparr>pel_lease_id = handle, pel_expires_unix_seconds = expires, pel_revoked = False\<rparr>))))"

definition renew_environment_lease_with ::
    "('u, 'c) crates_scheme \<Rightarrow> env \<Rightarrow> app \<Rightarrow> string \<Rightarrow> string \<Rightarrow> connector \<Rightarrow> active_dynamic_lease
     \<Rightarrow> ('z server_scheme, rpc_error + profile_environment_lease) act" where
  "renew_environment_lease_with cr e app subject handle connector active =
    (if \<not> lease_renewable (ad_lease active)
     then act_bind (connector_revoke cr e (ad_connector active) connector (ad_lease active)) (\<lambda>_.
       act_return (Inl (RpcError FailedPrecondition ''dynamic lease is not renewable'')))
     else act_bind (connector_renew cr e (ad_connector active) connector (ad_lease active)) (\<lambda>(renewed, lease).
       let active = active\<lparr>ad_lease := lease\<rparr> in
       (case renewed of
          Inl _ \<Rightarrow>
            act_bind (connector_revoke cr e (ad_connector active) connector (ad_lease active)) (\<lambda>revoked.
              case revoked of
                Inl _ \<Rightarrow>
                  act_bind (restore handle active) (\<lambda>_.
                    act_return (Inl (RpcError Internal ''dynamic lease renewal failed'')))
              | Inr _ \<Rightarrow> act_return (Inl (RpcError Internal ''dynamic lease renewal failed'')))
        | Inr _ \<Rightarrow> finish_environment_renewal cr e app subject handle active)))"

definition renew_profile_environment_lease ::
    "('u, 'c) crates_scheme \<Rightarrow> env \<Rightarrow> app \<Rightarrow> string option \<Rightarrow> string
     \<Rightarrow> ('z server_scheme, rpc_error + profile_environment_lease) act" where
  "renew_profile_environment_lease cr e app who handle =
    act_try (authorize_connect who) (\<lambda>subject.
    act_try (act_return (validate_dynamic_lease_handle handle)) (\<lambda>_.
    act_bind (take_for_subject e handle subject) (\<lambda>taken.
      case taken of
        None \<Rightarrow> act_return (Inl (RpcError NotFound ''active dynamic lease not found''))
      | Some active \<Rightarrow>
          act_try (act_map_err store_unavailable (profile_permitted e subject (ad_profile active) ModeEnvironment)) (\<lambda>permitted.
            if \<not> permitted
            then act_bind (revoke_dynamic_lease cr e app active) (\<lambda>_.
              act_return (Inl (RpcError PermissionDenied ''profile access is not granted'')))
            else (case map_of (app_connectors app) (ad_connector active) of
              None \<Rightarrow>
                act_bind (restore handle active) (\<lambda>_.
                  act_return (Inl (RpcError Internal ''profile connector unavailable'')))
            | Some connector \<Rightarrow> renew_environment_lease_with cr e app subject handle connector active)))))"

section \<open>Leases owned by a proxy request\<close>

datatype lease_error =
  LeaseNotFound | LeaseConnector connector_error | LeaseNotRenewable | LeaseExpiryInvalid | LeaseLimit | LeaseRegistry

record dynamic_lease_owner =
  dlo_handle :: string
  dlo_subject :: string
  dlo_expires_at :: int

definition acquire_owned_proxy_secrets ::
    "('u, 'c) crates_scheme \<Rightarrow> env \<Rightarrow> app \<Rightarrow> string \<Rightarrow> profile_config \<Rightarrow> string
     \<Rightarrow> ('z server_scheme, lease_error + (string \<times> string) list \<times> dynamic_lease_owner option) act" where
  "acquire_owned_proxy_secrets cr e app profile_name profile subject =
    act_try (act_map_err LeaseConnector (acquire_secrets cr e app profile)) (\<lambda>acquisition.
      case sa_lease acquisition of
        None \<Rightarrow> act_return (Inr (sa_values acquisition, None))
      | Some lease \<Rightarrow>
          let active = \<lparr>ad_subject = subject, ad_profile = profile_name, ad_connector = pf_connector profile, ad_lease = lease\<rparr> in
          (case dynamic_lease_expiry lease of
             Inl _ \<Rightarrow>
               act_bind (revoke_dynamic_lease cr e app active) (\<lambda>_. act_return (Inl LeaseExpiryInvalid))
           | Inr _ \<Rightarrow>
               act_bind (registry_insert cr e active) (\<lambda>inserted.
                 case inserted of
                   Inl active \<Rightarrow>
                     act_bind (revoke_dynamic_lease cr e app active) (\<lambda>_. act_return (Inl LeaseLimit))
                 | Inr handle \<Rightarrow>
                     act_return (Inr (sa_values acquisition,
                       Some \<lparr>dlo_handle = handle, dlo_subject = subject, dlo_expires_at = lease_expires_at lease\<rparr>)))))"

definition revoke_or_restore ::
    "('u, 'c) crates_scheme \<Rightarrow> env \<Rightarrow> app \<Rightarrow> string \<Rightarrow> active_dynamic_lease \<Rightarrow> ('z server_scheme, connector_error + unit) act" where
  "revoke_or_restore cr e app handle active =
    act_bind (revoke_dynamic_lease cr e app active) (\<lambda>revoked.
      case revoked of
        Inl err \<Rightarrow> act_bind (restore handle active) (\<lambda>_. act_return (Inl err))
      | Inr _ \<Rightarrow> act_return (Inr ()))"

definition renew_registered_dynamic_lease ::
    "('u, 'c) crates_scheme \<Rightarrow> env \<Rightarrow> app \<Rightarrow> string \<Rightarrow> string \<Rightarrow> ('z server_scheme, lease_error + int) act" where
  "renew_registered_dynamic_lease cr e app handle subject =
    act_bind (take_for_subject e handle subject) (\<lambda>taken.
      case taken of
        None \<Rightarrow> act_return (Inl LeaseNotFound)
      | Some active \<Rightarrow>
          (case map_of (app_connectors app) (ad_connector active) of
             None \<Rightarrow> act_bind (restore handle active) (\<lambda>_. act_return (Inl (LeaseConnector ConnectorMissing)))
           | Some connector \<Rightarrow>
               if \<not> lease_renewable (ad_lease active)
               then act_bind (revoke_or_restore cr e app handle active) (\<lambda>revoked.
                 act_return (case revoked of Inl err \<Rightarrow> Inl (LeaseConnector err) | Inr _ \<Rightarrow> Inl LeaseNotRenewable))
               else act_bind (connector_renew cr e (ad_connector active) connector (ad_lease active)) (\<lambda>(renewed, lease).
                 let active = active\<lparr>ad_lease := lease\<rparr> in
                 (case renewed of
                    Inl err \<Rightarrow>
                      act_bind (revoke_or_restore cr e app handle active) (\<lambda>_. act_return (Inl (LeaseConnector err)))
                  | Inr _ \<Rightarrow>
                      (case dynamic_lease_expiry lease of
                         Inl _ \<Rightarrow>
                           act_bind (revoke_or_restore cr e app handle active) (\<lambda>_. act_return (Inl LeaseExpiryInvalid))
                       | Inr _ \<Rightarrow>
                           act_bind (restore handle active) (\<lambda>restored.
                             case restored of
                               Inl active \<Rightarrow>
                                 act_bind (revoke_dynamic_lease cr e app active) (\<lambda>_. act_return (Inl LeaseRegistry))
                             | Inr _ \<Rightarrow> act_return (Inr (lease_expires_at lease))))))))"

definition revoke_registered_dynamic_lease ::
    "('u, 'c) crates_scheme \<Rightarrow> env \<Rightarrow> app \<Rightarrow> string \<Rightarrow> string \<Rightarrow> ('z server_scheme, connector_error + unit) act" where
  "revoke_registered_dynamic_lease cr e app handle subject =
    act_bind (take_for_subject e handle subject) (\<lambda>taken.
      case taken of
        None \<Rightarrow> act_return (Inr ())
      | Some active \<Rightarrow> revoke_or_restore cr e app handle active)"

text \<open>The owner: \<open>renew\<close> keeps the new expiry, \<open>revoke\<close> and \<open>drop\<close> give the lease back unless its handle is gone.\<close>

definition owner_renew ::
    "('u, 'c) crates_scheme \<Rightarrow> env \<Rightarrow> app \<Rightarrow> dynamic_lease_owner \<Rightarrow> ('z server_scheme, lease_error + dynamic_lease_owner) act" where
  "owner_renew cr e app owner =
    act_try (renew_registered_dynamic_lease cr e app (dlo_handle owner) (dlo_subject owner)) (\<lambda>expires_at.
      act_return (Inr (owner\<lparr>dlo_expires_at := expires_at\<rparr>)))"

definition owner_drop :: "('u, 'c) crates_scheme \<Rightarrow> env \<Rightarrow> app \<Rightarrow> dynamic_lease_owner \<Rightarrow> ('z server_scheme, unit) act" where
  "owner_drop cr e app owner =
    (if dlo_handle owner = [] then act_return ()
     else act_bind (revoke_registered_dynamic_lease cr e app (dlo_handle owner) (dlo_subject owner)) (\<lambda>_. act_return ()))"

definition owner_revoke ::
    "('u, 'c) crates_scheme \<Rightarrow> env \<Rightarrow> app \<Rightarrow> dynamic_lease_owner \<Rightarrow> ('z server_scheme, connector_error + unit) act" where
  "owner_revoke cr e app owner =
    act_bind (revoke_registered_dynamic_lease cr e app (dlo_handle owner) (dlo_subject owner)) (\<lambda>revoked.
      case revoked of
        Inr _ \<Rightarrow> act_return (Inr ())
      | Inl err \<Rightarrow> act_bind (owner_drop cr e app owner) (\<lambda>_. act_return (Inl err)))"

definition dynamic_proxy_renewal_delay :: "env \<Rightarrow> int \<Rightarrow> ('z io_scheme, unit + int) act" where
  "dynamic_proxy_renewal_delay e expires_at =
    act_bind (clock_now e) (\<lambda>now.
      act_return (if expires_at < now then Inl () else Inr (secs (max (as_secs (expires_at - now) div 2) 1))))"

section \<open>Shutdown\<close>

text \<open>
  The leases of the registry are revoked in the order of their handles. The deadline cuts the cleanup short
  after \<open>finished\<close> revocations.
\<close>

fun revoke_each ::
    "('u, 'c) crates_scheme \<Rightarrow> env \<Rightarrow> app \<Rightarrow> active_dynamic_lease list \<Rightarrow> ('z server_scheme, unit) act" where
  "revoke_each cr e app [] = act_return ()"
| "revoke_each cr e app (active # leases) =
    act_bind (revoke_dynamic_lease cr e app active) (\<lambda>_. revoke_each cr e app leases)"

definition revoke_all_dynamic_leases ::
    "('u, 'c) crates_scheme \<Rightarrow> env \<Rightarrow> app \<Rightarrow> nat \<Rightarrow> ('z server_scheme, unit) act" where
  "revoke_all_dynamic_leases cr e app finished =
    act_bind drain (\<lambda>leases. revoke_each cr e app (take finished leases))"

end
