(* ===== verification/Sample_Crates.thy ===== *)
theory Sample_Crates
  imports AV_Crates
begin

text \<open>
  One concrete instance of the record of crate functions, \<open>sample_crates\<close>, on which the witnesses of
  the component theories evaluate the model. It covers plain \<open>http\<close> and \<open>https\<close> URLs without
  credentials, the base64 alphabets, form encoding and JSON strings; the digest is a stand-in of the
  right length. It shows that the named laws of the crates can hold together and is not used
  anywhere else.
\<close>

section \<open>The instance\<close>

record sample_url =
  su_scheme :: string
  su_host :: string
  su_port :: "nat option"
  su_path :: string
  su_query :: "string option"

fun sample_digits :: "nat \<Rightarrow> string \<Rightarrow> nat option" where
  "sample_digits n [] = Some n"
| "sample_digits n (c # cs) =
    (if is_ascii_digit c then sample_digits (10 * n + (byte c - 48)) cs else None)"

definition sample_url_make :: "string \<Rightarrow> string \<Rightarrow> sample_url option" where
  "sample_url_make scheme s =
    (let (front, query) =
           (case split_once CHR ''?'' s of None \<Rightarrow> (s, None) | Some (a, q) \<Rightarrow> (a, Some q));
         (auth, path) =
           (case split_once CHR ''/'' front of
              None \<Rightarrow> (front, ''/'')
            | Some (a, p) \<Rightarrow> (a, CHR ''/'' # p));
         (host, port) =
           (case rsplit_once CHR '':'' auth of
              None \<Rightarrow> (auth, None)
            | Some (h, p) \<Rightarrow> (h, sample_digits 0 p))
     in if host = [] \<or> CHR ''@'' \<in> set auth \<or> CHR ''#'' \<in> set s then None
        else Some \<lparr>su_scheme = scheme, su_host = to_ascii_lowercase host, su_port = port,
                   su_path = path, su_query = query\<rparr>)"

definition sample_url_parse :: "string \<Rightarrow> sample_url option" where
  "sample_url_parse s =
    (case strip_prefix ''https://'' s of
       Some r \<Rightarrow> sample_url_make ''https'' r
     | None \<Rightarrow> (case strip_prefix ''http://'' s of
                 Some r \<Rightarrow> sample_url_make ''http'' r
               | None \<Rightarrow> None))"

definition sample_known_port :: "sample_url \<Rightarrow> nat option" where
  "sample_known_port u =
    (case su_port u of
       Some p \<Rightarrow> Some p
     | None \<Rightarrow> if su_scheme u = ''https'' then Some 443 else Some 80)"

definition sample_extend_pairs :: "(string \<times> string) list \<Rightarrow> sample_url \<Rightarrow> sample_url" where
  "sample_extend_pairs ps u =
    u\<lparr>su_query := Some (concat (map (\<lambda>(n, v). n @ ''='' @ v @ ''&'') ps))\<rparr>"

definition sample_form_parse :: "bytes \<Rightarrow> (string \<times> string) list" where
  "sample_form_parse q =
    map (\<lambda>kv. case split_once CHR ''='' kv of None \<Rightarrow> (kv, []) | Some (k, v) \<Rightarrow> (k, v))
      (filter (\<lambda>kv. kv \<noteq> []) (split_on CHR ''&'' q))"

definition sample_hex :: "nat \<Rightarrow> char" where
  "sample_hex n = ''0123456789ABCDEF'' ! (n mod 16)"

definition sample_byte_serialize :: "bytes \<Rightarrow> string" where
  "sample_byte_serialize b =
    concat (map (\<lambda>c. if is_ascii_alphanumeric c \<or> c \<in> set ''*-._'' then [c]
                     else if c = CHR '' '' then ''+''
                     else [CHR ''%'', sample_hex (byte c div 16), sample_hex (byte c)]) b)"

definition sample_host_parse :: "string \<Rightarrow> url_host option" where
  "sample_host_parse s =
    (if s = [] \<or> \<not> list_all (\<lambda>c. is_ascii_alphanumeric c \<or> c = CHR ''-'' \<or> c = CHR ''.'') s then None
     else if list_all (\<lambda>c. is_ascii_digit c \<or> c = CHR ''.'') s then Some (Ipv4 0)
     else Some (Domain (to_ascii_lowercase s)))"

definition sample_header_name :: "bytes \<Rightarrow> string option" where
  "sample_header_name b =
    (if b \<noteq> [] \<and> list_all (\<lambda>c. is_ascii_alphanumeric c \<or> c \<in> set ''!#$%&*+-.^_|~'') b
     then Some (to_ascii_lowercase b) else None)"

definition sample_header_value :: "bytes \<Rightarrow> header_value option" where
  "sample_header_value b =
    (if list_all (\<lambda>c. byte c = 9 \<or> 32 \<le> byte c \<and> byte c \<noteq> 127) b
     then Some (HeaderValue b False) else None)"

definition sample_to_str :: "header_value \<Rightarrow> string option" where
  "sample_to_str v =
    (if list_all (\<lambda>c. byte c = 9 \<or> 32 \<le> byte c \<and> byte c < 127) (hv_bytes v)
     then Some (hv_bytes v) else None)"

fun sample_base64 :: "string \<Rightarrow> bool \<Rightarrow> nat list \<Rightarrow> string" where
  "sample_base64 al pad [] = []"
| "sample_base64 al pad [a] =
    [al ! (a div 4), al ! (a mod 4 * 16)] @ (if pad then ''=='' else [])"
| "sample_base64 al pad [a, b] =
    [al ! (a div 4), al ! (a mod 4 * 16 + b div 16), al ! (b mod 16 * 4)] @ (if pad then ''='' else [])"
| "sample_base64 al pad (a # b # c # r) =
    [al ! (a div 4), al ! (a mod 4 * 16 + b div 16), al ! (b mod 16 * 4 + c div 64), al ! (c mod 64)]
    @ sample_base64 al pad r"

definition base64_alphabet :: string where
  "base64_alphabet = ''ABCDEFGHIJKLMNOPQRSTUVWXYZabcdefghijklmnopqrstuvwxyz0123456789+/''"

definition base64_url_alphabet :: string where
  "base64_url_alphabet = ''ABCDEFGHIJKLMNOPQRSTUVWXYZabcdefghijklmnopqrstuvwxyz0123456789-_''"

definition sample_json :: "string \<Rightarrow> string option" where
  "sample_json s =
    Some (CHR 0x22 # concat (map (\<lambda>c. if c = CHR 0x22 \<or> c = CHR 0x5C then [CHR 0x5C, c] else [c]) s)
          @ [CHR 0x22])"

definition sample_crates :: "sample_url crates" where
  "sample_crates =
    \<lparr>url_parse = sample_url_parse,
     url_scheme = su_scheme,
     url_host_str = (\<lambda>u. Some (su_host u)),
     url_port = su_port,
     url_port_or_known_default = sample_known_port,
     url_username = (\<lambda>_. []),
     url_password = (\<lambda>_. None),
     url_path = su_path,
     url_query = su_query,
     url_fragment = (\<lambda>_. None),
     url_set_path = (\<lambda>p u. u\<lparr>su_path := p\<rparr>),
     url_clear_query = (\<lambda>u. u\<lparr>su_query := None\<rparr>),
     url_extend_pairs = sample_extend_pairs,
     form_parse = sample_form_parse,
     byte_serialize = sample_byte_serialize,
     host_parse = sample_host_parse,
     header_name_from_bytes = sample_header_name,
     header_value_from_bytes = sample_header_value,
     header_value_from_str = sample_header_value,
     header_value_to_str = sample_to_str,
     base64_standard = (\<lambda>b. sample_base64 base64_alphabet True (map byte b)),
     base64_standard_no_pad = (\<lambda>b. sample_base64 base64_alphabet False (map byte b)),
     base64_url_safe = (\<lambda>b. sample_base64 base64_url_alphabet True (map byte b)),
     base64_url_safe_no_pad = (\<lambda>b. sample_base64 base64_url_alphabet False (map byte b)),
     base64_standard_decode = (\<lambda>b. if length b = 24 then Some (take 16 b) else None),
     sha256 = (\<lambda>b. take 32 (b @ replicate 32 CHR 0x00)),
     json_to_string = sample_json\<rparr>"

section \<open>The laws hold for the instance\<close>

lemma sample_header_name_law: "header_name_law sample_crates"
  by (simp add: header_name_law_def sample_crates_def sample_header_name_def)

lemma sample_header_value_law: "header_value_law sample_crates"
  by (auto simp: header_value_law_def sample_crates_def sample_header_value_def split: if_splits)

lemma sample_url_edit_law: "url_edit_law sample_crates"
  by (simp add: url_edit_law_def sample_crates_def sample_known_port_def sample_extend_pairs_def)

lemma sample_sha256_law: "sha256_law sample_crates"
  by (auto simp: sha256_law_def sample_crates_def min_def)

lemma sample_host_parse_law: "host_parse_law sample_crates"
  by (auto simp: host_parse_law_def sample_crates_def sample_host_parse_def to_ascii_lowercase_def
      list_all_iff ascii_lower_eq_iff ascii_class_defs [of "CHR ''-''"] ascii_class_defs [of "CHR ''.''"] split: if_splits)

end
