(* ===== verification/Redaction.thy ===== *)
theory Redaction
  imports AV_Crates Sample_Crates
begin

text \<open>
  Response redaction, \<^verbatim>\<open>crates/av-credential-proxy/src/redaction.rs\<close>: the patterns made from a
  set of credentials, the buffered pass over a complete body (\<open>RedactionSet::redact_bytes\<close>), and the
  incremental pass over a stream of chunks (\<open>StreamingRedactor\<close>).

  The buffered and the streaming redactor keep one contract, the locale \<open>response_redactor\<close>: no
  pattern survives, and a body without patterns passes unchanged. The streaming redactor is also shown
  to give the same bytes for every way of cutting the response into chunks.
\<close>

section \<open>Definitions\<close>

definition redacted_marker :: bytes where
  "redacted_marker = ''[REDACTED]''"

record redaction_set =
  patterns :: "bytes list"
  maximum_pattern_length :: nat

text \<open>
  The loop of \<open>redact_exact\<close> over \<open>rest = body[offset..]\<close>: find the next window equal to the secret,
  copy what precedes it, write the marker, go on behind it.
\<close>

function redact_exact_loop :: "bytes \<Rightarrow> bytes \<Rightarrow> bytes \<Rightarrow> bytes" where
  "redact_exact_loop secret rest output =
    (case find_window secret rest of
       Some i \<Rightarrow>
         redact_exact_loop secret (drop (i + length secret) rest)
           (output @ take i rest @ redacted_marker)
     | None \<Rightarrow> output @ rest)"
  by pat_completeness auto
termination
proof (relation "measure (\<lambda>(_, rest, _). length rest)")
  fix secret rest out :: bytes and i
  assume *: "find_window secret rest = Some i"
  then have "0 < length secret" by (cases secret) auto
  moreover from * have "i + length secret \<le> length rest"
    by (auto dest: find_window_Some)
  ultimately show "((secret, drop (i + length secret) rest, out @ take i rest @ redacted_marker),
      secret, rest, out) \<in> measure (\<lambda>(_, rest, _). length rest)"
    by (simp del: length_greater_0_conv)
qed simp

definition redact_exact :: "bytes \<Rightarrow> bytes \<Rightarrow> bytes" where
  "redact_exact body secret =
    (if secret = [] \<or> length body < length secret then body
     else redact_exact_loop secret body [])"

text \<open>\<open>lowercase_percent_hex\<close>: the two bytes behind a percent sign go to lower case.\<close>

fun lowercase_percent_hex :: "string \<Rightarrow> string" where
  "lowercase_percent_hex (a # b # c # rest) =
    (if a = CHR ''%'' then a # ascii_lower b # ascii_lower c # lowercase_percent_hex rest
     else a # lowercase_percent_hex (b # c # rest))"
| "lowercase_percent_hex bs = bs"

text \<open>\<open>sort_by_key(|value| Reverse(value.len()))\<close> is a stable sort, as \<^const>\<open>sort_key\<close> is; \<open>dedup\<close> drops
  a value equal to the one before it.\<close>

definition sort_longest_first :: "bytes list \<Rightarrow> bytes list" where
  "sort_longest_first vs = sort_key (\<lambda>v. - int (length v)) vs"

definition credential_encodings :: "('u, 'z) crates_scheme \<Rightarrow> bytes \<Rightarrow> bytes list" where
  "credential_encodings cr secret =
    (let percent_encoded = byte_serialize cr secret;
         encodings =
           [secret,
            base64_standard cr secret,
            base64_standard_no_pad cr secret,
            base64_url_safe cr secret,
            base64_url_safe_no_pad cr secret,
            percent_encoded,
            lowercase_percent_hex percent_encoded];
         encodings =
           (if utf8_valid secret then
              case json_to_string cr secret of
                Some json \<Rightarrow> encodings @ [take (length json - 2) (drop 1 json)]
              | None \<Rightarrow> encodings
            else encodings)
     in remdups_adj (sort_longest_first encodings))"

definition redaction_set_new :: "('u, 'z) crates_scheme \<Rightarrow> bytes list \<Rightarrow> redaction_set" where
  "redaction_set_new cr secrets =
    (let ps = filter (\<lambda>p. p \<noteq> []) (concat (map (credential_encodings cr) secrets));
         ps = remdups_adj (sort_longest_first ps)
     in \<lparr>patterns = ps,
         maximum_pattern_length = (if ps = [] then 1 else Max (set (map length ps)))\<rparr>)"

definition redaction_is_empty :: "redaction_set \<Rightarrow> bool" where
  "redaction_is_empty r \<longleftrightarrow> patterns r = []"

definition redact_bytes :: "redaction_set \<Rightarrow> bytes \<Rightarrow> bytes" where
  "redact_bytes r body = foldl redact_exact body (patterns r)"

definition redact_header :: "('u, 'z) crates_scheme \<Rightarrow> redaction_set \<Rightarrow> header_value \<Rightarrow> header_value option"
  where
  "redact_header cr r v = header_value_from_bytes cr (redact_bytes r (hv_bytes v))"

record streaming_redactor =
  sr_pending :: bytes
  sr_patterns :: "bytes list"
  sr_maximum_pattern_length :: nat

definition into_streaming :: "redaction_set \<Rightarrow> streaming_redactor" where
  "into_streaming r =
    \<lparr>sr_pending = [], sr_patterns = patterns r,
     sr_maximum_pattern_length = maximum_pattern_length r\<rparr>"

text \<open>
  The loop of \<open>emit\<close>. With an empty pattern it would never end, and then the model has no value;
  that it always returns for the redactors the program builds is a theorem.
\<close>

partial_function (option) emit_loop ::
    "bytes list \<Rightarrow> bytes \<Rightarrow> nat \<Rightarrow> nat \<Rightarrow> bytes \<Rightarrow> (nat \<times> bytes) option" where
  "emit_loop ps pending safe_limit consumed output =
    (if consumed < safe_limit then
       case find (\<lambda>p. prefix p (drop consumed pending)) ps of
         Some p \<Rightarrow> emit_loop ps pending safe_limit (consumed + length p) (output @ redacted_marker)
       | None \<Rightarrow> emit_loop ps pending safe_limit (consumed + 1) (output @ [pending ! consumed])
     else Some (consumed, output))"

definition emit :: "bool \<Rightarrow> streaming_redactor \<Rightarrow> (streaming_redactor \<times> bytes) option" where
  "emit finished s =
    (let pending = sr_pending s;
         safe_limit =
           (if finished then length pending
            else length pending - (sr_maximum_pattern_length s - 1))
     in case emit_loop (sr_patterns s) pending safe_limit 0 [] of
          None \<Rightarrow> None
        | Some (consumed, output) \<Rightarrow> Some (s\<lparr>sr_pending := drop consumed pending\<rparr>, output))"

definition push :: "bytes \<Rightarrow> streaming_redactor \<Rightarrow> (streaming_redactor \<times> bytes) option" where
  "push chunk s = emit False (s\<lparr>sr_pending := sr_pending s @ chunk\<rparr>)"

definition finish :: "streaming_redactor \<Rightarrow> (streaming_redactor \<times> bytes) option" where
  "finish s = emit True s"


text \<open>A caller pushes the chunks as they arrive and finishes the stream; \<open>run_stream\<close> is what it has sent
  on at the end.\<close>

fun run_stream :: "streaming_redactor \<Rightarrow> bytes list \<Rightarrow> bytes option" where
  "run_stream s [] = map_option snd (finish s)"
| "run_stream s (chunk # chunks) =
    (case push chunk s of
       None \<Rightarrow> None
     | Some (s', out) \<Rightarrow> map_option (\<lambda>rest. out @ rest) (run_stream s' chunks))"

declare redact_exact_loop.simps [simp del] and emit_loop.simps [code]

section \<open>The contract of a redactor\<close>

text \<open>A pattern that the marker cannot reproduce: it has no bracket and does not occur in the word
  between the brackets.\<close>

definition avoids_marker :: "bytes \<Rightarrow> bool" where
  "avoids_marker p \<longleftrightarrow> CHR ''['' \<notin> set p \<and> CHR '']'' \<notin> set p \<and> \<not> sublist p ''REDACTED''"

lemma sublist_marker:
  assumes "avoids_marker p"
  shows "sublist p (xs @ redacted_marker @ ys) \<longleftrightarrow> sublist p xs \<or> sublist p ys"
proof -
  have eq: "xs @ redacted_marker @ ys = xs @ CHR ''['' # (''REDACTED'' @ CHR '']'' # ys)"
    by (simp add: redacted_marker_def)
  show ?thesis
    unfolding eq using assms
    by (simp only: sublist_split_at avoids_marker_def not_False_eq_True simp_thms)
qed

lemma avoids_marker_not_Nil: "avoids_marker p \<Longrightarrow> p \<noteq> []"
  by (auto simp: avoids_marker_def)

locale response_redactor =
  fixes pats :: "'r \<Rightarrow> bytes list"
    and wf :: "'r \<Rightarrow> bool"
    and redact :: "'r \<Rightarrow> bytes \<Rightarrow> bytes"
  assumes no_pattern:
      "wf r \<Longrightarrow> p \<in> set (pats r) \<Longrightarrow> avoids_marker p \<Longrightarrow> \<not> sublist p (redact r body)"
    and untouched:
      "wf r \<Longrightarrow> (\<And>p. p \<in> set (pats r) \<Longrightarrow> \<not> sublist p body) \<Longrightarrow> redact r body = body"
begin

lemma redact_idem:
  assumes "wf r" and "\<And>p. p \<in> set (pats r) \<Longrightarrow> avoids_marker p"
  shows "redact r (redact r body) = redact r body"
  by (rule untouched [OF assms(1)]) (simp add: no_pattern assms)

lemma reflected_pattern_changes:
  assumes "wf r" and "p \<in> set (pats r)" and "avoids_marker p" and "sublist p body"
  shows "redact r body \<noteq> body"
  using no_pattern [OF assms(1,2,3), of body] assms(4) by auto

end

section \<open>The buffered redactor\<close>

lemma redact_exact_loop_None:
  "find_window secret rest = None \<Longrightarrow> redact_exact_loop secret rest out = out @ rest"
  by (subst redact_exact_loop.simps) simp

lemma find_window_shrinks:
  "find_window secret rest = Some i \<Longrightarrow> length (drop (i + length secret) rest) < length rest"
  by (cases secret) (auto dest!: find_window_Some)

lemma redact_exact_loop_acc:
  "redact_exact_loop secret rest out = out @ redact_exact_loop secret rest []"
proof (induction "length rest" arbitrary: rest out rule: less_induct)
  case less
  show ?case
  proof (cases "find_window secret rest")
    case None
    then show ?thesis by (simp add: redact_exact_loop_None)
  next
    case (Some i)
    from less [OF find_window_shrinks [OF Some], of "out @ take i rest @ redacted_marker"]
      less [OF find_window_shrinks [OF Some], of "take i rest @ redacted_marker"]
    show ?thesis
      by (subst (1 2) redact_exact_loop.simps) (simp add: Some)
  qed
qed

lemma redact_exact_loop_Some:
  "find_window secret rest = Some i \<Longrightarrow>
     redact_exact_loop secret rest [] =
       take i rest @ redacted_marker @ redact_exact_loop secret (drop (i + length secret) rest) []"
  by (subst redact_exact_loop.simps) (simp, subst redact_exact_loop_acc, simp)

lemma redact_exact_loop_clean:
  assumes "avoids_marker p" and "p = secret \<or> \<not> sublist p rest"
  shows "\<not> sublist p (redact_exact_loop secret rest [])"
  using assms(2)
proof (induction "length rest" arbitrary: rest rule: less_induct)
  case less
  show ?case
  proof (cases "find_window secret rest")
    case None
    with less.prems avoids_marker_not_Nil [OF assms(1)] show ?thesis
      by (auto simp: redact_exact_loop_None find_window_None_iff)
  next
    case (Some i)
    let ?rest = "drop (i + length secret) rest"
    have "sublist ?rest rest" and "sublist (take i rest) rest"
      by (simp_all add: sublist_drop sublist_take)
    with less.prems have "p = secret \<or> \<not> sublist p ?rest" and "p = secret \<or> \<not> sublist p (take i rest)"
      by (auto dest: sublist_order.order.trans)
    with less.hyps [OF find_window_shrinks [OF Some]] find_window_Some [OF Some] show ?thesis
      by (auto simp: redact_exact_loop_Some [OF Some] sublist_marker [OF assms(1)])
  qed
qed

lemma redact_exact_clean:
  assumes "avoids_marker p" and "p = secret \<or> \<not> sublist p body"
  shows "\<not> sublist p (redact_exact body secret)"
proof (cases "secret = [] \<or> length body < length secret")
  case True
  with assms show ?thesis
    by (auto simp: redact_exact_def avoids_marker_def dest: sublist_length_le)
next
  case False
  with redact_exact_loop_clean [OF assms] show ?thesis
    by (simp add: redact_exact_def)
qed

lemma redact_exact_untouched: "\<not> sublist secret body \<Longrightarrow> redact_exact body secret = body"
  by (cases "secret = []") (auto simp: redact_exact_def redact_exact_loop_None find_window_None_iff)

lemma foldl_redact_exact_keeps:
  "avoids_marker p \<Longrightarrow> \<not> sublist p body \<Longrightarrow> \<not> sublist p (foldl redact_exact body ps)"
  by (induction ps arbitrary: body) (auto simp: redact_exact_clean)

lemma foldl_redact_exact_clean:
  "avoids_marker p \<Longrightarrow> p \<in> set ps \<Longrightarrow> \<not> sublist p (foldl redact_exact body ps)"
  by (induction ps arbitrary: body) (auto simp: redact_exact_clean foldl_redact_exact_keeps)

lemma foldl_redact_exact_untouched:
  "(\<And>p. p \<in> set ps \<Longrightarrow> \<not> sublist p body) \<Longrightarrow> foldl redact_exact body ps = body"
  by (induction ps) (auto simp: redact_exact_untouched)

interpretation buffered: response_redactor patterns "\<lambda>_. True" redact_bytes
  by unfold_locales
    (auto simp: redact_bytes_def foldl_redact_exact_clean foldl_redact_exact_untouched)

section \<open>The patterns of a set of credentials\<close>

definition redaction_set_inv :: "redaction_set \<Rightarrow> bool" where
  "redaction_set_inv r \<longleftrightarrow>
     (\<forall>p\<in>set (patterns r). p \<noteq> [] \<and> length p \<le> maximum_pattern_length r)
     \<and> 1 \<le> maximum_pattern_length r
     \<and> sorted_wrt (\<lambda>p q. length q \<le> length p) (patterns r)"

lemma set_sort_longest_first [simp]: "set (sort_longest_first vs) = set vs"
  by (simp add: sort_longest_first_def)

lemma sorted_wrt_remdups_adj: "sorted_wrt R xs \<Longrightarrow> sorted_wrt R (remdups_adj xs)"
  by (induction xs rule: remdups_adj.induct) auto

lemma sorted_longest_first: "sorted_wrt (\<lambda>p q. length q \<le> length p) (sort_longest_first vs)"
proof -
  have "sorted_wrt (\<lambda>x y. - int (length x) \<le> - int (length y)) (sort_longest_first vs)"
    using sorted_sort_key [of "\<lambda>v. - int (length v)" vs]
    by (simp add: sort_longest_first_def sorted_map)
  then show ?thesis
    by (rule sorted_wrt_mono_rel [rotated]) auto
qed

lemma set_patterns_new:
  "set (patterns (redaction_set_new cr secrets)) =
     (\<Union>s\<in>set secrets. set (credential_encodings cr s)) - {[]}"
  by (auto simp: redaction_set_new_def Let_def)

lemma Max_length_pos:
  assumes "ps \<noteq> []" and "[] \<notin> set ps"
  shows "Suc 0 \<le> Max (length ` set ps)"
proof -
  from assms(1) have "hd ps \<in> set ps" by simp
  with assms(2) have "Suc 0 \<le> length (hd ps)" by (cases "hd ps") auto
  also from \<open>hd ps \<in> set ps\<close> have "length (hd ps) \<le> Max (length ` set ps)" by simp
  finally show ?thesis .
qed

lemma redaction_set_new_inv: "redaction_set_inv (redaction_set_new cr secrets)"
proof -
  define ps where
    "ps = remdups_adj (sort_longest_first (filter (\<lambda>p. p \<noteq> []) (concat (map (credential_encodings cr) secrets))))"
  have "redaction_set_new cr secrets =
      \<lparr>patterns = ps, maximum_pattern_length = (if ps = [] then 1 else Max (set (map length ps)))\<rparr>"
    by (simp add: redaction_set_new_def Let_def ps_def)
  moreover have "[] \<notin> set ps" and "sorted_wrt (\<lambda>p q. length q \<le> length p) ps"
    by (simp_all add: ps_def sorted_wrt_remdups_adj sorted_longest_first)
  ultimately show ?thesis
    by (auto simp: redaction_set_inv_def Max_length_pos)
qed

lemma secret_in_encodings: "secret \<in> set (credential_encodings cr secret)"
  by (simp add: credential_encodings_def Let_def split: option.splits)


section \<open>The streaming redactor\<close>

text \<open>The reference for a whole response: at each position, the first pattern of the list that starts
  there is replaced, and otherwise the byte is copied.\<close>

function redact_stream :: "bytes list \<Rightarrow> bytes \<Rightarrow> bytes" where
  "redact_stream ps [] = []"
| "redact_stream ps (x # xs) =
    (case find (\<lambda>p. prefix p (x # xs)) ps of
       Some p \<Rightarrow> redacted_marker @ redact_stream ps (drop (length p - 1) xs)
     | None \<Rightarrow> x # redact_stream ps xs)"
  by pat_completeness auto
termination
  by (relation "measure (\<lambda>(_, xs). length xs)") (auto simp: less_Suc_eq_le)

lemma redact_stream_Some:
  "find (\<lambda>p. prefix p xs) ps = Some p \<Longrightarrow> p \<noteq> [] \<Longrightarrow>
     redact_stream ps xs = redacted_marker @ redact_stream ps (drop (length p) xs)"
  by (cases xs; cases p) (auto dest: find_Some_iff [THEN iffD1])

lemma redact_stream_None:
  "find (\<lambda>p. prefix p xs) ps = None \<Longrightarrow> xs \<noteq> [] \<Longrightarrow>
     redact_stream ps xs = hd xs # redact_stream ps (tl xs)"
  by (cases xs) auto

lemma prefix_append_short: "length p \<le> length xs \<Longrightarrow> prefix p (xs @ ys) \<longleftrightarrow> prefix p xs"
  by (auto simp: prefix_append)

lemma find_prefix_append:
  "(\<And>p. p \<in> set ps \<Longrightarrow> length p \<le> length xs) \<Longrightarrow>
     find (\<lambda>p. prefix p (xs @ ys)) ps = find (\<lambda>p. prefix p xs) ps"
  by (rule find_cong) (simp_all add: prefix_append_short)

text \<open>One run of the loop: it returns, stops at or behind the limit, and what it wrote is what the
  reference writes for the bytes it took, whatever follows them.\<close>

lemma emit_loop_step_Some:
  "consumed < lim \<Longrightarrow> find (\<lambda>p. prefix p (drop consumed pending)) ps = Some p \<Longrightarrow>
     emit_loop ps pending lim consumed out =
     emit_loop ps pending lim (consumed + length p) (out @ redacted_marker)"
  by (subst emit_loop.simps) simp

lemma emit_loop_step_None:
  "consumed < lim \<Longrightarrow> find (\<lambda>p. prefix p (drop consumed pending)) ps = None \<Longrightarrow>
     emit_loop ps pending lim consumed out =
     emit_loop ps pending lim (consumed + 1) (out @ [pending ! consumed])"
  by (subst emit_loop.simps) simp

lemma emit_loop_spec:
  assumes ne: "[] \<notin> set ps" and lim: "lim \<le> length pending" and c: "consumed \<le> length pending"
  shows "\<exists>c' out'. emit_loop ps pending lim consumed out = Some (c', out @ out')
     \<and> lim \<le> c' \<and> c' \<le> length pending
     \<and> (\<forall>ys. ys = [] \<or> (\<forall>p\<in>set ps. lim + length p \<le> length pending + 1) \<longrightarrow>
          redact_stream ps (drop consumed pending @ ys) = out' @ redact_stream ps (drop c' pending @ ys))"
  using c
proof (induction "lim - consumed" arbitrary: consumed out rule: less_induct)
  case less
  let ?rest = "drop consumed pending"
  show ?case
  proof (cases "consumed < lim")
    case False
    with less.prems show ?thesis
      by (subst emit_loop.simps) auto
  next
    case True
    then have rest: "?rest \<noteq> []" using lim by simp
    have ext: "find (\<lambda>p. prefix p (?rest @ ys)) ps = find (\<lambda>p. prefix p ?rest) ps"
      if "ys = [] \<or> (\<forall>p\<in>set ps. lim + length p \<le> length pending + 1)" for ys
      using that True by (cases "ys = []") (auto intro!: find_prefix_append)
    show ?thesis
    proof (cases "find (\<lambda>p. prefix p ?rest) ps")
      case None
      have "lim - (consumed + 1) < lim - consumed" and "consumed + 1 \<le> length pending"
        using True lim by simp_all
      from less.hyps [OF this, of "out @ [pending ! consumed]"] show ?thesis
        using True rest ext
        by (auto simp: emit_loop_step_None [OF True None] None redact_stream_None
            hd_drop_conv_nth tl_drop drop_Suc [symmetric] simp flip: drop_Suc)
    next
      case (Some p)
      then have p: "p \<in> set ps" "prefix p ?rest" by (auto simp: find_Some_iff)
      with ne have "p \<noteq> []" by auto
      then have "lim - (consumed + length p) < lim - consumed"
        using True by (cases p) auto
      moreover have "consumed + length p \<le> length pending"
        using prefix_length_le [OF p(2)] less.prems by simp
      ultimately show ?thesis
        using less.hyps [of "consumed + length p" "out @ redacted_marker"] ext \<open>p \<noteq> []\<close> p(2)
        by (auto simp: emit_loop_step_Some [OF True Some] Some redact_stream_Some prefix_length_le
            add.commute)
    qed
  qed
qed


text \<open>The invariant of the streaming redactor.\<close>

definition streaming_inv :: "streaming_redactor \<Rightarrow> bool" where
  "streaming_inv s \<longleftrightarrow>
     (\<forall>p\<in>set (sr_patterns s). p \<noteq> [] \<and> length p \<le> sr_maximum_pattern_length s)
     \<and> 1 \<le> sr_maximum_pattern_length s"

lemma into_streaming_inv: "redaction_set_inv r \<Longrightarrow> streaming_inv (into_streaming r)"
  by (auto simp: redaction_set_inv_def streaming_inv_def into_streaming_def)

lemma push_spec:
  assumes "streaming_inv s"
  obtains s' out where "push chunk s = Some (s', out)" and "streaming_inv s'"
    and "sr_patterns s' = sr_patterns s"
    and "length (sr_pending s') < sr_maximum_pattern_length s'"
    and "\<And>ys. redact_stream (sr_patterns s) (sr_pending s @ chunk @ ys)
           = out @ redact_stream (sr_patterns s) (sr_pending s' @ ys)"
proof -
  define pending where "pending = sr_pending s @ chunk"
  define lim where "lim = length pending - (sr_maximum_pattern_length s - 1)"
  let ?max = "sr_maximum_pattern_length s"
  have ne: "[] \<notin> set (sr_patterns s)" and max: "1 \<le> ?max"
    and len: "\<And>p. p \<in> set (sr_patterns s) \<Longrightarrow> length p \<le> ?max"
    using assms by (auto simp: streaming_inv_def)
  have "lim \<le> length pending" by (simp add: lim_def)
  from emit_loop_spec [OF ne this, of 0 "[]"] obtain c' out where
    loop: "emit_loop (sr_patterns s) pending lim 0 [] = Some (c', out)" "lim \<le> c'" and
    spec: "\<And>ys. ys = [] \<or> (\<forall>p\<in>set (sr_patterns s). lim + length p \<le> length pending + 1) \<Longrightarrow>
      redact_stream (sr_patterns s) (pending @ ys) = out @ redact_stream (sr_patterns s) (drop c' pending @ ys)"
    by (simp only: drop_0 append_Nil) blast
  have all: "redact_stream (sr_patterns s) (pending @ ys)
      = out @ redact_stream (sr_patterns s) (drop c' pending @ ys)" for ys
  proof (cases "lim = 0")
    case True
    with loop(1) have "c' = 0" and "out = []"
      by (simp_all add: emit_loop.simps)
    then show ?thesis by simp
  next
    case False
    then have "lim + length p \<le> length pending + 1" if "p \<in> set (sr_patterns s)" for p
      using len [OF that] max by (simp add: lim_def)
    then show ?thesis by (intro spec) blast
  qed
  show thesis
  proof (rule that)
    show "push chunk s = Some (s\<lparr>sr_pending := drop c' pending\<rparr>, out)"
      using loop(1) by (simp add: push_def emit_def Let_def pending_def lim_def)
    show "streaming_inv (s\<lparr>sr_pending := drop c' pending\<rparr>)"
      using assms by (simp add: streaming_inv_def)
    show "length (sr_pending (s\<lparr>sr_pending := drop c' pending\<rparr>))
        < sr_maximum_pattern_length (s\<lparr>sr_pending := drop c' pending\<rparr>)"
      using loop(2) max by (simp add: lim_def)
    show "redact_stream (sr_patterns s) (sr_pending s @ chunk @ ys)
        = out @ redact_stream (sr_patterns s) (sr_pending (s\<lparr>sr_pending := drop c' pending\<rparr>) @ ys)" for ys
      using all [of ys] by (simp add: pending_def)
  qed simp
qed

lemma finish_spec:
  assumes "streaming_inv s"
  shows "finish s = Some (s\<lparr>sr_pending := []\<rparr>, redact_stream (sr_patterns s) (sr_pending s))"
proof -
  have ne: "[] \<notin> set (sr_patterns s)"
    using assms by (auto simp: streaming_inv_def)
  from emit_loop_spec [OF ne, of "length (sr_pending s)" "sr_pending s" 0 "[]"] obtain out where
    "emit_loop (sr_patterns s) (sr_pending s) (length (sr_pending s)) 0 [] = Some (length (sr_pending s), out)"
    and "redact_stream (sr_patterns s) (sr_pending s) = out"
    by auto
  then show ?thesis
    by (simp add: finish_def emit_def Let_def)
qed

lemma run_stream_spec:
  "streaming_inv s \<Longrightarrow>
     run_stream s chunks = Some (redact_stream (sr_patterns s) (sr_pending s @ concat chunks))"
proof (induction chunks arbitrary: s)
  case Nil
  then show ?case by (simp add: finish_spec)
next
  case (Cons chunk chunks)
  from Cons.prems obtain s' out where
    "push chunk s = Some (s', out)" "streaming_inv s'" "sr_patterns s' = sr_patterns s"
    "\<And>ys. redact_stream (sr_patterns s) (sr_pending s @ chunk @ ys)
       = out @ redact_stream (sr_patterns s) (sr_pending s' @ ys)"
    by (rule push_spec) blast
  with Cons.IH [of s'] show ?case by simp
qed

text \<open>Reading the reference backwards: a bracket-free start of the output is a start of the input.\<close>

lemma prefix_redact_stream:
  "CHR ''['' \<notin> set p \<Longrightarrow> prefix p (redact_stream ps xs) \<Longrightarrow> prefix p xs"
proof (induction ps xs arbitrary: p rule: redact_stream.induct)
  case (2 ps x xs)
  then show ?case
    by (cases p) (auto simp: redacted_marker_def split: option.splits)
qed simp

lemma redact_stream_clean:
  "avoids_marker p \<Longrightarrow> p \<in> set ps \<Longrightarrow> \<not> sublist p (redact_stream ps xs)"
proof (induction ps xs rule: redact_stream.induct)
  case (1 ps)
  then show ?case by (auto dest: avoids_marker_not_Nil)
next
  case (2 ps x xs)
  show ?case
  proof (cases "find (\<lambda>p. prefix p (x # xs)) ps")
    case (Some q)
    with 2 show ?thesis
      using sublist_marker [OF 2(3), of "[]"] avoids_marker_not_Nil [OF 2(3)] by simp
  next
    case None
    with 2(4) have "\<not> prefix p (x # xs)" by (auto simp: find_None_iff)
    moreover have "CHR ''['' \<notin> set p" using 2(3) by (simp add: avoids_marker_def)
    ultimately have "\<not> prefix p (redact_stream ps (x # xs))"
      using prefix_redact_stream by blast
    with None 2 show ?thesis by (simp add: sublist_Cons_right)
  qed
qed

lemma redact_stream_untouched:
  "(\<And>p. p \<in> set ps \<Longrightarrow> \<not> sublist p xs) \<Longrightarrow> redact_stream ps xs = xs"
proof (induction ps xs rule: redact_stream.induct)
  case (2 ps x xs)
  then have "find (\<lambda>p. prefix p (x # xs)) ps = None"
    by (auto simp: find_None_iff)
  with 2 show ?case by (simp add: sublist_Cons_right)
qed simp

text \<open>The streaming redactor over one chunk keeps the contract as well.\<close>

definition stream_bytes :: "redaction_set \<Rightarrow> bytes \<Rightarrow> bytes" where
  "stream_bytes r body = the (run_stream (into_streaming r) [body])"

lemma stream_bytes_eq: "redaction_set_inv r \<Longrightarrow> stream_bytes r body = redact_stream (patterns r) body"
  by (simp add: stream_bytes_def run_stream_spec into_streaming_inv del: run_stream.simps)
    (simp add: into_streaming_def)

interpretation streaming: response_redactor patterns redaction_set_inv stream_bytes
  by unfold_locales (auto simp: stream_bytes_eq redact_stream_clean redact_stream_untouched)


section \<open>Properties\<close>

text \<open>
  A redacted response body contains no credential of the set, neither raw nor in any of the
  recognised encodings (base64 in four forms, percent encoding in either case, JSON escaping). The
  credential must not itself be a piece of the replacement text.
\<close>

lemma redact_bytes_hides_credentials:
  assumes "secret \<in> set secrets"
    and "p \<in> set (credential_encodings cr secret)"
    and "avoids_marker p"
  shows "\<not> sublist p (redact_bytes (redaction_set_new cr secrets) body)"
proof (rule buffered.no_pattern [OF TrueI _ assms(3)])
  show "p \<in> set (patterns (redaction_set_new cr secrets))"
    using assms avoids_marker_not_Nil by (auto simp: set_patterns_new)
qed

lemma avoids_marker_sample: "avoids_marker ''s3+t''"
  by (simp add: avoids_marker_def sublist_Cons_right)

text \<open>
  C1. The streaming redactor built from a set of credentials always returns, and what it sends on is
  the one-pass reference over the whole response: the result does not depend on how the response is cut
  into chunks, so a credential split over a chunk boundary is treated like any other.
\<close>

theorem run_stream_chunking:
  "run_stream (into_streaming (redaction_set_new cr secrets)) chunks =
     Some (redact_stream (patterns (redaction_set_new cr secrets)) (concat chunks))"
  using run_stream_spec [OF into_streaming_inv [OF redaction_set_new_inv], of cr secrets chunks]
  by (simp add: into_streaming_def)

text \<open>
  No credential of the set, raw or encoded, is in what the streaming redactor sends on, whatever
  the chunks are.
\<close>

lemma run_stream_hides_credentials:
  assumes "secret \<in> set secrets"
    and "p \<in> set (credential_encodings cr secret)"
    and "avoids_marker p"
  shows "\<exists>out. run_stream (into_streaming (redaction_set_new cr secrets)) chunks = Some out \<and> \<not> sublist p out"
proof -
  let ?r = "redaction_set_new cr secrets"
  have inv: "redaction_set_inv ?r" by (rule redaction_set_new_inv)
  have "p \<in> set (patterns ?r)"
    using assms avoids_marker_not_Nil by (auto simp: set_patterns_new)
  with inv have "\<not> sublist p (stream_bytes ?r (concat chunks))"
    using assms(3) by (rule streaming.no_pattern)
  moreover have "run_stream (into_streaming ?r) chunks = Some (stream_bytes ?r (concat chunks))"
    using run_stream_spec [OF into_streaming_inv [OF inv], of chunks]
    by (simp add: stream_bytes_eq [OF inv] into_streaming_def)
  ultimately show ?thesis by blast
qed

text \<open>
  Between two chunks the redactor holds back fewer bytes than its longest pattern, and it keeps its
  invariant, so its memory is bounded by the credentials and not by the response.
\<close>

lemma push_retains_overlap:
  assumes "streaming_inv s"
  shows "\<exists>s' out. push chunk s = Some (s', out) \<and> streaming_inv s'
    \<and> sr_patterns s' = sr_patterns s
    \<and> length (sr_pending s') < sr_maximum_pattern_length s'"
  using push_spec [OF assms, of chunk] by metis

text \<open>
  The pattern set holds every non-empty credential and encoding and nothing else, in order of
  decreasing length, and records their maximal length.
\<close>

lemma redaction_set_new_patterns:
  "set (patterns (redaction_set_new cr secrets)) =
     {p. p \<noteq> [] \<and> (\<exists>s\<in>set secrets. p \<in> set (credential_encodings cr s))}
   \<and> {s. s \<in> set secrets \<and> s \<noteq> []} \<subseteq> set (patterns (redaction_set_new cr secrets))
   \<and> redaction_set_inv (redaction_set_new cr secrets)"
  by (auto simp: set_patterns_new redaction_set_new_inv secret_in_encodings)

end
