(* ===== verification/Tunnel_Host.thy ===== *)
theory Tunnel_Host
  imports AV_Crates Sample_Crates
begin

text \<open>
  The host names of transparent proxy destinations, from \<^verbatim>\<open>crates/av-credential-proxy/src/catalog.rs\<close>:
  \<open>canonical_dns_host\<close>, \<open>canonical_tunnel_host\<close> and \<open>canonical_connect_authority\<close>. The lemmas give
  the shape of a canonical name and that canonicalisation is idempotent.
\<close>

section \<open>Definitions\<close>

datatype host_error =
  InvalidDnsName | UnparsableHost | IpLiteral
  | InvalidAuthority | AuthorityWithoutPort | AuthorityNotPort443 | TunnelHostNotExact

definition valid_dns_label :: "string \<Rightarrow> bool" where
  "valid_dns_label label \<longleftrightarrow>
     label \<noteq> [] \<and> length label \<le> 63
     \<and> list_all (\<lambda>c. is_ascii_alphanumeric c \<or> c = CHR ''-'') label
     \<and> is_ascii_alphanumeric (hd label) \<and> is_ascii_alphanumeric (last label)"

definition canonical_dns_host :: "('u, 'z) crates_scheme \<Rightarrow> string \<Rightarrow> host_error + string" where
  "canonical_dns_host cr host =
    (if suffix ''..'' host then Inl InvalidDnsName
     else
       let host = (case strip_suffix ''.'' host of Some h \<Rightarrow> h | None \<Rightarrow> host)
       in case host_parse cr host of
            None \<Rightarrow> Inl UnparsableHost
          | Some (Domain d) \<Rightarrow>
              (if d = [] \<or> 253 < length d \<or> list_ex (\<lambda>l. \<not> valid_dns_label l) (split_on CHR ''.'' d)
               then Inl InvalidDnsName
               else Inr (to_ascii_lowercase d))
          | Some _ \<Rightarrow> Inl IpLiteral)"

definition canonical_tunnel_host :: "('u, 'z) crates_scheme \<Rightarrow> string \<Rightarrow> host_error + string" where
  "canonical_tunnel_host cr host =
    (if list_ex (\<lambda>c. c \<in> set '':/?#@'') host \<or> has_whitespace host then Inl TunnelHostNotExact
     else canonical_dns_host cr host)"

definition canonical_connect_authority :: "('u, 'z) crates_scheme \<Rightarrow> string \<Rightarrow> host_error + string" where
  "canonical_connect_authority cr authority =
    (if authority = [] \<or> list_ex (\<lambda>c. c \<in> set ''/?#@'') authority \<or> has_whitespace authority
     then Inl InvalidAuthority
     else rbind (ok_or AuthorityWithoutPort (rsplit_once CHR '':'' authority)) (\<lambda>(host, port).
       if port \<noteq> ''443'' \<or> CHR '':'' \<in> set host then Inl AuthorityNotPort443
       else canonical_dns_host cr host))"

section \<open>The shape of a canonical name\<close>

definition canonical_name :: "string \<Rightarrow> bool" where
  "canonical_name h \<longleftrightarrow>
     h \<noteq> [] \<and> length h \<le> 253 \<and> list_all valid_dns_label (split_on CHR ''.'' h)
     \<and> list_all (\<lambda>c. \<not> is_ascii_uppercase c) h"

lemma valid_dns_label_lower: "valid_dns_label (map ascii_lower l) = valid_dns_label l"
proof -
  have dash: "ascii_lower c = CHR ''-'' \<longleftrightarrow> c = CHR ''-''" for c
    by (rule ascii_lower_eq_iff) (simp_all add: is_ascii_lowercase_def is_ascii_uppercase_def)
  show ?thesis
    by (cases l) (simp_all add: valid_dns_label_def list_all_iff dash last_map)
qed

lemma split_dots_lower:
  "split_on CHR ''.'' (to_ascii_lowercase s) = map (map ascii_lower) (split_on CHR ''.'' s)"
  unfolding to_ascii_lowercase_def
  by (rule split_on_map, rule ascii_lower_eq_iff)
    (simp_all add: is_ascii_lowercase_def is_ascii_uppercase_def)

lemma canonical_dns_host_cases:
  assumes "canonical_dns_host cr host = Inr h"
  obtains d where "host_parse cr (case strip_suffix ''.'' host of Some h \<Rightarrow> h | None \<Rightarrow> host) = Some (Domain d)"
    and "d \<noteq> []" and "length d \<le> 253" and "list_all valid_dns_label (split_on CHR ''.'' d)"
    and "h = to_ascii_lowercase d"
  using assms
  by (auto simp: canonical_dns_host_def Let_def list_all_iff list_ex_iff
      split: if_splits option.splits url_host.splits)

lemma canonical_dns_host_name: "canonical_dns_host cr host = Inr h \<Longrightarrow> canonical_name h"
  by (erule canonical_dns_host_cases)
    (auto simp: canonical_name_def split_dots_lower [unfolded to_ascii_lowercase_def] list_all_iff
      valid_dns_label_lower to_ascii_lowercase_def)

lemma canonical_name_last: "\<not> canonical_name (s @ ''.'')"
proof
  assume "canonical_name (s @ ''.'')"
  moreover have "last (split_on CHR ''.'' (s @ ''.'')) \<in> set (split_on CHR ''.'' (s @ ''.''))"
    by (rule last_in_set) simp
  ultimately show False
    by (auto simp: last_split_on_Nil canonical_name_def list_all_iff valid_dns_label_def)
qed

lemma canonical_dns_host_idem:
  assumes law: "host_parse_law cr" and "canonical_dns_host cr host = Inr h"
  shows "canonical_dns_host cr h = Inr h"
proof -
  from assms(2) obtain d where d: "host_parse cr (case strip_suffix ''.'' host of Some h \<Rightarrow> h | None \<Rightarrow> host) = Some (Domain d)"
    and h: "h = to_ascii_lowercase d" "length d \<le> 253" "d \<noteq> []" "list_all valid_dns_label (split_on CHR ''.'' d)"
    by (rule canonical_dns_host_cases)
  from law d h(1) have self: "host_parse cr h = Some (Domain h)" and "h = d"
    by (metis host_parse_law_def)+
  have "canonical_name h"
    using assms(2) by (rule canonical_dns_host_name)
  then have no_dot: "\<not> suffix ''.'' h" and "\<not> suffix ''..'' h"
    using canonical_name_last by (auto simp: suffix_def) (metis append.assoc append_Cons append_Nil)
  then show ?thesis
    using self h \<open>h = d\<close>
    by (simp add: canonical_dns_host_def strip_suffix_def list_ex_iff list_all_iff)
qed

end
