(* ===== verification/Policy.thy ===== *)
theory Policy
  imports Redaction Tunnel_Host
begin

text \<open>
  The route policy of the credential proxy, \<^verbatim>\<open>crates/av-credential-proxy/src/policy.rs\<close>: validation of a
  configured route at startup, validation of each request against its route, construction of the
  credential header, the body substitutions, the outbound header map and the target URL, and the
  WebSocket handshake.

  A \<open>BTreeMap\<close> of the configuration is the list of its entries in key order. A \<open>CredentialSource\<close> is a
  function from keys to values. Every \<open>bail!\<close> is a constructor of one of the error types; the texts
  of the messages are left out.
\<close>

section \<open>Data\<close>

datatype proxy_injection_config =
  InjBearer (inj_secret_key: string)
| InjHeader (inj_secret_key: string) (inj_header: string) (inj_prefix: string)
| InjBasic (inj_username: string) (inj_password_secret_key: string)

datatype proxy_response_mode = Buffered | Streaming

record proxy_websocket_config =
  ws_allowed_origins :: "string list"
  ws_allow_missing_origin :: bool
  ws_allowed_subprotocols :: "string list"
  ws_max_duration_seconds :: nat
  ws_max_message_bytes :: nat
  ws_max_total_bytes :: nat

record proxy_route_config =
  rt_profile :: string
  rt_base_url :: string
  rt_secret_key :: string
  rt_header :: string
  rt_header_prefix :: string
  rt_injection :: "proxy_injection_config option"
  rt_body_substitutions :: "(string \<times> string) list"
  rt_allowed_methods :: "string list"
  rt_allowed_exact_paths :: "string list"
  rt_allowed_path_prefixes :: "string list"
  rt_allowed_request_headers :: "string list"
  rt_allowed_response_headers :: "string list"
  rt_allowed_query_parameters :: "string list"
  rt_allowed_content_types :: "string list"
  rt_max_body_bytes :: nat
  rt_response_mode :: proxy_response_mode
  rt_max_response_bytes :: nat
  rt_websocket :: "proxy_websocket_config option"

record proxy_tunnel_config =
  tn_profile :: string
  tn_host :: string
  tn_allow_private_ips :: bool

type_synonym credential_source = "string \<Rightarrow> string option"

record validated_proxy_request =
  vr_normalized_path :: string
  vr_query :: "(string \<times> string) list"

record prepared_credentials =
  pc_injection_name :: string
  pc_injection_value :: header_value
  pc_body :: bytes
  pc_redaction :: redaction_set

datatype name_error = PolicyNameInvalid | BindingInvalid | CredentialKeyInvalid

datatype list_error =
  UnsafeHeader string | RepeatedHeader string | InvalidEntry string | RepeatedEntry string

datatype injection_error =
  LegacyInjectionIncomplete | MixedInjection | PrefixHasControl | BasicUsernameInvalid
| InjectionKeyInvalid | InjectionHeaderKind | InjectionHeaderInvalid

datatype websocket_policy_error =
  WebSocketNeedsHttps | WebSocketNeedsGet | WebSocketNeedsOrigins | WebSocketPolicyTooLarge
| WebSocketOriginInvalid | WebSocketSubprotocols list_error | WebSocketLimits

datatype route_error =
  RouteNameInvalid | ProfileInvalid | BaseUrlNotUrl | BaseUrlNotHttps | BaseUrlHasExtras
| RouteUnconstrained | MaxBodyBytesRange | MaxResponseBytesRange | NonCrudMethod
| UnsafePathPolicy | RouteInjection injection_error | RouteList list_error
| TooManySubstitutions | SubstitutionsNeedContentTypes | InvalidPlaceholder
| SubstitutionKeyInvalid | RouteWebSocket websocket_policy_error | TunnelHostInvalid

datatype request_error =
  MethodNotAllowed | PathTraversal | PathNotAllowed | BodyTooLarge
| ContentTypeCount | ContentTypeInvalid | ContentTypeNotAllowed
| PercentEncodingInvalid | QueryControl | QueryNotAllowed | QueryDuplicate

datatype target_error =
  NotOriginForm | HostHeaderCount | ProxyAuthorizationPresent | NotStandardHttps
| HostHeaderInvalid | HostHeaderMalformed | HostMismatch | BaseUrlDisappeared | BaseUrlUnsafe

datatype credential_error =
  RequestBodyTooLarge | CredentialUnavailable | UsernameInvalid | HeaderKind | HeaderNameInvalid
| HeaderValueInvalid | TooManyBodySubstitutions | PlaceholderInvalid | PlaceholderNotOnce
| PlaceholderDisappeared | SubstitutedBodyTooLarge | OutboundHeaders list_error

datatype handshake_error =
  UpgradeHeadersInvalid | HeaderNotOnce | HeaderNotText | HeaderRepeated | WebSocketKeyInvalid
| OriginNotAllowed | OriginRequired | SubprotocolNotAllowed | SubprotocolListInvalid

section \<open>Names, paths and tokens\<close>

definition has_url_credentials :: "('u, 'z) crates_scheme \<Rightarrow> 'u \<Rightarrow> bool" where
  "has_url_credentials cr u \<longleftrightarrow> url_username cr u \<noteq> [] \<or> url_password cr u \<noteq> None"

definition validate_policy_name :: "string \<Rightarrow> name_error + unit" where
  "validate_policy_name name =
    (if name = []
        \<or> \<not> list_all (\<lambda>c. is_ascii_lowercase c \<or> is_ascii_digit c \<or> c = CHR ''-'') name
     then Inl PolicyNameInvalid else Inr ())"

definition validate_binding :: "string \<Rightarrow> name_error + unit" where
  "validate_binding s =
    (if s = [] \<or> 256 < length s \<or> has_control s then Inl BindingInvalid else Inr ())"

definition validate_credential_key :: "string \<Rightarrow> name_error + unit" where
  "validate_credential_key s =
    (case s of
       [] \<Rightarrow> Inl CredentialKeyInvalid
     | first # rest \<Rightarrow>
         if \<not> (first = CHR ''_'' \<or> is_ascii_alphabetic first)
            \<or> \<not> list_all (\<lambda>c. c = CHR ''_'' \<or> is_ascii_alphanumeric c) rest
         then Inl CredentialKeyInvalid else Inr ())"

definition safe_policy_path :: "string \<Rightarrow> bool" where
  "safe_policy_path path \<longleftrightarrow>
     prefix ''/'' path
     \<and> \<not> list_ex (\<lambda>c. c = CHR ''?'' \<or> c = CHR ''#'' \<or> c = CHR 0x5C \<or> c = CHR ''%'') path
     \<and> \<not> sublist ''//'' path
     \<and> \<not> has_control path
     \<and> \<not> list_ex (\<lambda>segment. segment = ''.'' \<or> segment = ''..'') (split_on CHR ''/'' path)"

definition path_matches_prefix :: "string \<Rightarrow> string \<Rightarrow> bool" where
  "path_matches_prefix path configured_prefix =
    (let normalized_prefix =
           CHR ''/'' # trim_end_matches CHR ''/'' (trim_start_matches CHR ''/'' configured_prefix)
     in if normalized_prefix = ''/'' then True
        else path = normalized_prefix
          \<or> (case strip_prefix normalized_prefix path of
               None \<Rightarrow> False
             | Some remainder \<Rightarrow> prefix ''/'' remainder))"

definition reject_mixed_legacy_injection :: "proxy_route_config \<Rightarrow> injection_error + unit" where
  "reject_mixed_legacy_injection route =
    (if rt_secret_key route \<noteq> [] \<or> rt_header route \<noteq> [] \<or> rt_header_prefix route \<noteq> []
     then Inl MixedInjection else Inr ())"

definition valid_http_token :: "string \<Rightarrow> bool" where
  "valid_http_token s \<longleftrightarrow>
     s \<noteq> []
     \<and> list_all (\<lambda>c. is_ascii_alphanumeric c \<or> c = CHR 0x27 \<or> c \<in> set ''!#$%&*+-.^_`|~'') s"

definition valid_body_placeholder :: "string \<Rightarrow> bool" where
  "valid_body_placeholder s =
    (case strip_prefix ''__AV_SECRET_'' s of
       None \<Rightarrow> False
     | Some r \<Rightarrow>
         (case strip_suffix ''__'' r of
            None \<Rightarrow> False
          | Some name \<Rightarrow>
              name \<noteq> [] \<and> length s \<le> 128
              \<and> list_all (\<lambda>c. is_ascii_uppercase c \<or> is_ascii_digit c \<or> c = CHR ''_'') name))"

text \<open>\<open>validate_percent_encoding\<close>: the loop over \<open>bytes[index..]\<close>.\<close>

fun validate_percent_encoding :: "string \<Rightarrow> request_error + unit" where
  "validate_percent_encoding [] = Inr ()"
| "validate_percent_encoding (c # cs) =
    (if c = CHR ''%'' then
       (case cs of
          a # b # rest \<Rightarrow>
            if \<not> is_ascii_hexdigit a \<or> \<not> is_ascii_hexdigit b then Inl PercentEncodingInvalid
            else validate_percent_encoding rest
        | _ \<Rightarrow> Inl PercentEncodingInvalid)
     else validate_percent_encoding cs)"

definition default_allowed_request_headers :: "string list" where
  "default_allowed_request_headers = [''accept'', ''content-type'', ''if-match'', ''if-none-match'']"

definition default_allowed_response_headers :: "string list" where
  "default_allowed_response_headers = [''content-type'', ''etag'', ''last-modified'', ''retry-after'']"

definition default_proxy_max_body_bytes :: nat where
  "default_proxy_max_body_bytes = 1024 * 1024"

definition default_proxy_max_response_bytes :: nat where
  "default_proxy_max_response_bytes = 4 * 1024 * 1024"

definition default_websocket_max_duration_seconds :: nat where
  "default_websocket_max_duration_seconds = 5 * 60"

definition default_websocket_max_message_bytes :: nat where
  "default_websocket_max_message_bytes = 1024 * 1024"

definition default_websocket_max_total_bytes :: nat where
  "default_websocket_max_total_bytes = 64 * 1024 * 1024"


section \<open>Validation of a route\<close>

definition forbidden_headers :: "string list" where
  "forbidden_headers =
    [''authorization'', ''connection'', ''content-length'', ''cookie'', ''forwarded'', ''host'',
     ''location'', ''proxy-authenticate'', ''proxy-authorization'', ''set-cookie'', ''te'', ''trailer'',
     ''transfer-encoding'', ''upgrade'', ''user-agent'', ''www-authenticate'', ''x-forwarded-for'',
     ''x-forwarded-host'', ''x-forwarded-port'', ''x-forwarded-proto'', ''x-http-method-override'',
     ''x-method-override'', ''x-original-url'', ''x-real-ip'', ''x-rewrite-url'']"

definition unsafe_header :: "('u, 'z) crates_scheme \<Rightarrow> string option \<Rightarrow> string \<Rightarrow> bool" where
  "unsafe_header cr injection_header configured \<longleftrightarrow>
     configured \<noteq> to_ascii_lowercase configured
     \<or> header_name_from_bytes cr configured = None
     \<or> to_ascii_lowercase configured \<in> set forbidden_headers
     \<or> (case injection_header of None \<Rightarrow> False | Some h \<Rightarrow> eq_ignore_ascii_case h configured)"

definition validate_proxy_header_allowlist ::
    "('u, 'z) crates_scheme \<Rightarrow> string list \<Rightarrow> string option \<Rightarrow> list_error + unit" where
  "validate_proxy_header_allowlist cr headers injection_header =
    scan_unique
      (\<lambda>configured. if unsafe_header cr injection_header configured then Inl (UnsafeHeader configured) else Inr ())
      RepeatedHeader to_ascii_lowercase {} headers"

definition validate_string_allowlist :: "(string \<Rightarrow> bool) \<Rightarrow> string list \<Rightarrow> list_error + unit" where
  "validate_string_allowlist valid vs =
    scan_unique (\<lambda>v. if \<not> valid v then Inl (InvalidEntry v) else Inr ()) RepeatedEntry (\<lambda>v. v) {} vs"

definition validate_websocket_origin :: "('u, 'z) crates_scheme \<Rightarrow> string \<Rightarrow> bool" where
  "validate_websocket_origin cr s =
    (case url_parse cr s of
       None \<Rightarrow> False
     | Some origin \<Rightarrow>
         \<not> ((url_scheme cr origin \<noteq> ''https'' \<and> url_scheme cr origin \<noteq> ''http'')
            \<or> url_host_str cr origin = None
            \<or> has_url_credentials cr origin
            \<or> url_query cr origin \<noteq> None
            \<or> url_fragment cr origin \<noteq> None
            \<or> (url_path cr origin \<noteq> [] \<and> url_path cr origin \<noteq> ''/'')))"

text \<open>The shared test of a Basic user name, at startup and again when the header is built.\<close>

definition invalid_basic_username :: "string \<Rightarrow> bool" where
  "invalid_basic_username username \<longleftrightarrow>
     username = [] \<or> 256 < length username \<or> CHR '':'' \<in> set username \<or> has_control username"

text \<open>\<open>validate_proxy_route\<close>, first part of the injection check: the header and the credential key.\<close>

definition route_injection_target :: "proxy_route_config \<Rightarrow> injection_error + (string \<times> string list)" where
  "route_injection_target route =
    (case rt_injection route of
       None \<Rightarrow>
         if rt_secret_key route = [] \<or> rt_header route = [] then Inl LegacyInjectionIncomplete
         else Inr (rt_header route, [rt_secret_key route])
     | Some (InjBearer secret_key) \<Rightarrow>
         rbind (reject_mixed_legacy_injection route) (\<lambda>_. Inr (''authorization'', [secret_key]))
     | Some (InjHeader secret_key hdr pre) \<Rightarrow>
         rbind (reject_mixed_legacy_injection route) (\<lambda>_.
           if has_control pre then Inl PrefixHasControl else Inr (hdr, [secret_key]))
     | Some (InjBasic username password_secret_key) \<Rightarrow>
         rbind (reject_mixed_legacy_injection route) (\<lambda>_.
           if invalid_basic_username username then Inl BasicUsernameInvalid
           else Inr (''authorization'', [password_secret_key])))"

definition not_injectable_header :: "string \<Rightarrow> bool" where
  "not_injectable_header h \<longleftrightarrow>
     \<not> eq_ignore_ascii_case h ''authorization'' \<and> \<not> prefix ''x-'' (to_ascii_lowercase h)"

definition validate_route_injection ::
    "('u, 'z) crates_scheme \<Rightarrow> proxy_route_config \<Rightarrow> injection_error + string" where
  "validate_route_injection cr route =
    rbind (route_injection_target route) (\<lambda>(injection_header, injection_secret_keys).
    rbind (for_each (\<lambda>k. with_context InjectionKeyInvalid (validate_credential_key k)) injection_secret_keys) (\<lambda>_.
      if not_injectable_header injection_header then Inl InjectionHeaderKind
      else rbind (ok_or InjectionHeaderInvalid (header_name_from_bytes cr injection_header)) (\<lambda>_.
        Inr injection_header)))"

definition validate_route_websocket ::
    "('u, 'z) crates_scheme \<Rightarrow> proxy_route_config \<Rightarrow> 'u \<Rightarrow> bool \<Rightarrow> proxy_websocket_config \<Rightarrow>
     websocket_policy_error + unit" where
  "validate_route_websocket cr route base transparent_proxy_configured websocket =
    (if \<not> transparent_proxy_configured \<or> url_scheme cr base \<noteq> ''https''
        \<or> url_port_or_known_default cr base \<noteq> Some 443
     then Inl WebSocketNeedsHttps
     else if \<not> list_ex (\<lambda>m. eq_ignore_ascii_case m ''GET'') (rt_allowed_methods route)
     then Inl WebSocketNeedsGet
     else if ws_allowed_origins websocket = [] \<and> \<not> ws_allow_missing_origin websocket
     then Inl WebSocketNeedsOrigins
     else if 32 < length (ws_allowed_origins websocket) \<or> 16 < length (ws_allowed_subprotocols websocket)
     then Inl WebSocketPolicyTooLarge
     else rbind (for_each (\<lambda>origin. if validate_websocket_origin cr origin then Inr ()
                                    else Inl WebSocketOriginInvalid) (ws_allowed_origins websocket)) (\<lambda>_.
       rbind (map_error WebSocketSubprotocols
                (validate_string_allowlist valid_http_token (ws_allowed_subprotocols websocket))) (\<lambda>_.
         if \<not> (1 \<le> ws_max_duration_seconds websocket \<and> ws_max_duration_seconds websocket \<le> 24 * 60 * 60)
            \<or> \<not> (1 \<le> ws_max_message_bytes websocket \<and> ws_max_message_bytes websocket \<le> 16 * 1024 * 1024)
            \<or> \<not> (1 \<le> ws_max_total_bytes websocket \<and> ws_max_total_bytes websocket \<le> 1024 * 1024 * 1024)
         then Inl WebSocketLimits else Inr ())))"

definition valid_query_parameter :: "string \<Rightarrow> bool" where
  "valid_query_parameter v \<longleftrightarrow>
     v \<noteq> [] \<and> list_all (\<lambda>c. is_ascii_alphanumeric c \<or> c = CHR ''-'' \<or> c = CHR ''_'' \<or> c = CHR ''.'') v"

definition valid_content_type :: "('u, 'z) crates_scheme \<Rightarrow> string \<Rightarrow> bool" where
  "valid_content_type cr v \<longleftrightarrow>
     v \<noteq> [] \<and> v = to_ascii_lowercase v \<and> CHR '';'' \<notin> set v
     \<and> split_once CHR ''/'' v \<noteq> None \<and> header_value_from_str cr v \<noteq> None"

definition crud_methods :: "string list" where
  "crud_methods = [''GET'', ''HEAD'', ''POST'', ''PUT'', ''PATCH'', ''DELETE'']"

definition validate_route_lists ::
    "('u, 'z) crates_scheme \<Rightarrow> proxy_route_config \<Rightarrow> string \<Rightarrow> route_error + unit" where
  "validate_route_lists cr route injection_header =
    rbind (map_error RouteList (validate_proxy_header_allowlist cr (rt_allowed_request_headers route) (Some injection_header))) (\<lambda>_.
    rbind (map_error RouteList (validate_proxy_header_allowlist cr (rt_allowed_response_headers route) None)) (\<lambda>_.
    rbind (map_error RouteList (validate_string_allowlist valid_query_parameter (rt_allowed_query_parameters route))) (\<lambda>_.
      if 16 < length (rt_body_substitutions route) then Inl TooManySubstitutions
      else if rt_body_substitutions route \<noteq> [] \<and> rt_allowed_content_types route = []
      then Inl SubstitutionsNeedContentTypes
      else rbind (for_each (\<lambda>(placeholder, secret_key).
               if \<not> valid_body_placeholder placeholder then Inl InvalidPlaceholder
               else with_context SubstitutionKeyInvalid (validate_credential_key secret_key))
             (rt_body_substitutions route)) (\<lambda>_.
        map_error RouteList (validate_string_allowlist (valid_content_type cr) (rt_allowed_content_types route))))))"

definition validate_proxy_route ::
    "('u, 'z) crates_scheme \<Rightarrow> string \<Rightarrow> proxy_route_config \<Rightarrow> bool \<Rightarrow> bool \<Rightarrow> route_error + unit" where
  "validate_proxy_route cr name route allow_insecure_http transparent_proxy_configured =
    rbind (with_context RouteNameInvalid (validate_policy_name name)) (\<lambda>_.
    rbind (with_context ProfileInvalid (validate_binding (rt_profile route))) (\<lambda>_.
    rbind (ok_or BaseUrlNotUrl (url_parse cr (rt_base_url route))) (\<lambda>base.
      if url_host_str cr base = None
         \<or> (url_scheme cr base \<noteq> ''https'' \<and> \<not> (url_scheme cr base = ''http'' \<and> allow_insecure_http))
      then Inl BaseUrlNotHttps
      else if has_url_credentials cr base \<or> url_query cr base \<noteq> None \<or> url_fragment cr base \<noteq> None
      then Inl BaseUrlHasExtras
      else if rt_allowed_methods route = []
         \<or> (rt_allowed_exact_paths route = [] \<and> rt_allowed_path_prefixes route = [])
      then Inl RouteUnconstrained
      else if \<not> (1 \<le> rt_max_body_bytes route \<and> rt_max_body_bytes route \<le> 4 * 1024 * 1024)
      then Inl MaxBodyBytesRange
      else if rt_max_response_bytes route = 0 \<or> 256 * 1024 * 1024 < rt_max_response_bytes route
      then Inl MaxResponseBytesRange
      else if list_ex (\<lambda>m. to_ascii_uppercase m \<notin> set crud_methods) (rt_allowed_methods route)
      then Inl NonCrudMethod
      else if list_ex (\<lambda>path. \<not> safe_policy_path path)
                (rt_allowed_exact_paths route @ rt_allowed_path_prefixes route)
      then Inl UnsafePathPolicy
      else rbind (map_error RouteInjection (validate_route_injection cr route)) (\<lambda>injection_header.
        rbind (validate_route_lists cr route injection_header) (\<lambda>_.
          case rt_websocket route of
            None \<Rightarrow> Inr ()
          | Some websocket \<Rightarrow>
              map_error RouteWebSocket
                (validate_route_websocket cr route base transparent_proxy_configured websocket))))))"

definition validate_proxy_tunnel ::
    "('u, 'z) crates_scheme \<Rightarrow> string \<Rightarrow> proxy_tunnel_config \<Rightarrow> route_error + unit" where
  "validate_proxy_tunnel cr name tunnel =
    rbind (with_context RouteNameInvalid (validate_policy_name name)) (\<lambda>_.
    rbind (with_context ProfileInvalid (validate_binding (tn_profile tunnel))) (\<lambda>_.
    rbind (with_context TunnelHostInvalid (canonical_tunnel_host cr (tn_host tunnel))) (\<lambda>_. Inr ())))"


section \<open>Validation of a request\<close>

definition enforce_proxy_content_type ::
    "('u, 'z) crates_scheme \<Rightarrow> proxy_route_config \<Rightarrow> header_map \<Rightarrow> nat \<Rightarrow> request_error + unit" where
  "enforce_proxy_content_type cr route headers body_len =
    (if body_len = 0 then Inr ()
     else
       let vs = hm_get_all headers ''content-type''
       in if length vs \<noteq> 1 then Inl ContentTypeCount
          else rbind (ok_or ContentTypeInvalid (header_value_to_str cr (hd vs))) (\<lambda>text.
            let content_type = to_ascii_lowercase (trim (hd (split_on CHR '';'' text)))
            in if content_type \<notin> set (rt_allowed_content_types route) then Inl ContentTypeNotAllowed
               else Inr ()))"

definition validate_proxy_query ::
    "('u, 'z) crates_scheme \<Rightarrow> proxy_route_config \<Rightarrow> string option \<Rightarrow> request_error + (string \<times> string) list" where
  "validate_proxy_query cr route query =
    (case query of
       None \<Rightarrow> Inr []
     | Some q \<Rightarrow>
         if q = [] then Inr []
         else rbind (validate_percent_encoding q) (\<lambda>_.
           let pairs = form_parse cr q
           in rbind (scan_unique
                (\<lambda>(name, v).
                  if has_control name \<or> has_control v then Inl QueryControl
                  else if name \<notin> set (rt_allowed_query_parameters route) then Inl QueryNotAllowed
                  else Inr ())
                (\<lambda>_. QueryDuplicate) fst {} pairs) (\<lambda>_. Inr pairs)))"

definition validate_proxy_request ::
    "('u, 'z) crates_scheme \<Rightarrow> proxy_route_config \<Rightarrow> string \<Rightarrow> string option \<Rightarrow> string \<Rightarrow> header_map \<Rightarrow> nat \<Rightarrow>
     request_error + validated_proxy_request" where
  "validate_proxy_request cr route path query meth headers body_len =
    (if \<not> list_ex (\<lambda>allowed. eq_ignore_ascii_case allowed meth) (rt_allowed_methods route)
     then Inl MethodNotAllowed
     else
       let normalized_path = CHR ''/'' # trim_start_matches CHR ''/'' path
       in if \<not> safe_policy_path normalized_path then Inl PathTraversal
          else if normalized_path \<notin> set (rt_allowed_exact_paths route)
                  \<and> \<not> list_ex (path_matches_prefix normalized_path) (rt_allowed_path_prefixes route)
          then Inl PathNotAllowed
          else if rt_max_body_bytes route < body_len then Inl BodyTooLarge
          else rbind (enforce_proxy_content_type cr route headers body_len) (\<lambda>_.
            rbind (validate_proxy_query cr route query) (\<lambda>q.
              Inr \<lparr>vr_normalized_path = normalized_path, vr_query = q\<rparr>)))"

definition enforce_transparent_tunnel_target ::
    "('u, 'z) crates_scheme \<Rightarrow> proxy_route_config \<Rightarrow> uri \<Rightarrow> header_map \<Rightarrow> target_error + unit" where
  "enforce_transparent_tunnel_target cr route target headers =
    (if uri_scheme target \<noteq> None \<or> uri_authority target \<noteq> None \<or> \<not> prefix ''/'' (uri_path target)
     then Inl NotOriginForm
     else if length (hm_get_all headers ''host'') \<noteq> 1 then Inl HostHeaderCount
     else if hm_contains_key headers ''proxy-authorization'' then Inl ProxyAuthorizationPresent
     else rbind (ok_or BaseUrlDisappeared (url_parse cr (rt_base_url route))) (\<lambda>configured.
       if url_scheme cr configured \<noteq> ''https'' \<or> url_port_or_known_default cr configured \<noteq> Some 443
       then Inl NotStandardHttps
       else rbind (ok_or HostHeaderInvalid
              (case hm_get headers ''host'' of None \<Rightarrow> None | Some v \<Rightarrow> header_value_to_str cr v)) (\<lambda>supplied_host.
         rbind (ok_or HostHeaderMalformed (url_parse cr (''https://'' @ supplied_host))) (\<lambda>supplied.
           if url_username cr supplied \<noteq> []
              \<or> url_password cr supplied \<noteq> None
              \<or> url_port_or_known_default cr supplied \<noteq> Some 443
              \<or> url_host_str cr supplied \<noteq> url_host_str cr configured
              \<or> url_path cr supplied \<noteq> ''/''
              \<or> url_query cr supplied \<noteq> None
              \<or> url_fragment cr supplied \<noteq> None
           then Inl HostMismatch
           else Inr ()))))"

section \<open>Credentials\<close>

definition build_proxy_injection ::
    "('u, 'z) crates_scheme \<Rightarrow> proxy_route_config \<Rightarrow> credential_source \<Rightarrow>
     credential_error + (string \<times> header_value \<times> bytes list)" where
  "build_proxy_injection cr route credentials =
    rbind
      (case rt_injection route of
         None \<Rightarrow>
           rbind (ok_or CredentialUnavailable (credentials (rt_secret_key route))) (\<lambda>secret.
             Inr (rt_header route, rt_header_prefix route @ secret, [secret]))
       | Some (InjBearer secret_key) \<Rightarrow>
           rbind (ok_or CredentialUnavailable (credentials secret_key)) (\<lambda>secret.
             Inr (''authorization'', ''Bearer '' @ secret, [secret]))
       | Some (InjHeader secret_key hdr pre) \<Rightarrow>
           rbind (ok_or CredentialUnavailable (credentials secret_key)) (\<lambda>secret.
             Inr (hdr, pre @ secret, [secret]))
       | Some (InjBasic username password_secret_key) \<Rightarrow>
           if invalid_basic_username username then Inl UsernameInvalid
           else rbind (ok_or CredentialUnavailable (credentials password_secret_key)) (\<lambda>password.
             let pair = username @ '':'' @ password
             in Inr (''authorization'', ''Basic '' @ base64_standard cr pair, [password, pair])))
      (\<lambda>(name, v, sensitive_values).
        if not_injectable_header name then Inl HeaderKind
        else rbind (ok_or HeaderNameInvalid (header_name_from_bytes cr name)) (\<lambda>name.
          rbind (ok_or HeaderValueInvalid (header_value_from_str cr v)) (\<lambda>hv.
            Inr (name, HeaderValue (hv_bytes hv) True, sensitive_values @ [v]))))"

text \<open>\<open>saturating_add\<close> on the 64-bit \<open>usize\<close>.\<close>

definition usize_saturating_add :: "nat \<Rightarrow> nat \<Rightarrow> nat" where
  "usize_saturating_add a b = min (a + b) (2 ^ 64 - 1)"

definition count_windows :: "bytes \<Rightarrow> bytes \<Rightarrow> nat" where
  "count_windows p body = length (filter (\<lambda>w. w = p) (windows (length p) body))"

text \<open>The loop of \<open>apply_body_substitutions\<close> over the entries of the map.\<close>

fun apply_substitution_loop ::
    "nat \<Rightarrow> credential_source \<Rightarrow> (string \<times> string) list \<Rightarrow> bytes \<Rightarrow> bytes list \<Rightarrow>
     credential_error + (bytes \<times> bytes list)" where
  "apply_substitution_loop limit credentials [] out sensitive_values = Inr (out, sensitive_values)"
| "apply_substitution_loop limit credentials ((placeholder, secret_key) # rest) out sensitive_values =
    (if \<not> valid_body_placeholder placeholder then Inl PlaceholderInvalid
     else rbind (ok_or CredentialUnavailable (credentials secret_key)) (\<lambda>secret.
       if count_windows placeholder out \<noteq> 1 then Inl PlaceholderNotOnce
       else rbind (ok_or PlaceholderDisappeared (find_window placeholder out)) (\<lambda>i.
         if limit < usize_saturating_add (length out - length placeholder) (length secret)
         then Inl SubstitutedBodyTooLarge
         else apply_substitution_loop limit credentials rest
                (take i out @ secret @ drop (i + length placeholder) out)
                (sensitive_values @ [secret]))))"

definition apply_body_substitutions ::
    "proxy_route_config \<Rightarrow> credential_source \<Rightarrow> bytes \<Rightarrow> credential_error + (bytes \<times> bytes list)" where
  "apply_body_substitutions route credentials body =
    (if 16 < length (rt_body_substitutions route) then Inl TooManyBodySubstitutions
     else apply_substitution_loop (rt_max_body_bytes route) credentials (rt_body_substitutions route) body [])"

definition prepare_credentials ::
    "('u, 'z) crates_scheme \<Rightarrow> proxy_route_config \<Rightarrow> credential_source \<Rightarrow> bytes \<Rightarrow>
     credential_error + prepared_credentials" where
  "prepare_credentials cr route credentials body =
    (if rt_max_body_bytes route < length body then Inl RequestBodyTooLarge
     else rbind (build_proxy_injection cr route credentials) (\<lambda>(name, v, sensitive_values).
       rbind (apply_body_substitutions route credentials body) (\<lambda>(body, body_sensitive_values).
         Inr \<lparr>pc_injection_name = name, pc_injection_value = v, pc_body = body,
              pc_redaction = redaction_set_new cr (sensitive_values @ body_sensitive_values)\<rparr>)))"

definition prepare_websocket_credentials ::
    "('u, 'z) crates_scheme \<Rightarrow> proxy_route_config \<Rightarrow> credential_source \<Rightarrow> credential_error + prepared_credentials"
  where
  "prepare_websocket_credentials cr route credentials =
    rbind (build_proxy_injection cr route credentials) (\<lambda>(name, v, sensitive_values).
      Inr \<lparr>pc_injection_name = name, pc_injection_value = v, pc_body = [],
           pc_redaction = redaction_set_new cr sensitive_values\<rparr>)"

text \<open>The loop of \<open>prepare_outbound_headers\<close> that copies the allowed headers.\<close>

fun copy_allowed_headers ::
    "('u, 'z) crates_scheme \<Rightarrow> header_map \<Rightarrow> string list \<Rightarrow> header_map \<Rightarrow> credential_error + header_map" where
  "copy_allowed_headers cr inbound [] outbound = Inr outbound"
| "copy_allowed_headers cr inbound (configured # rest) outbound =
    rbind (ok_or HeaderNameInvalid (header_name_from_bytes cr configured)) (\<lambda>name.
      case hm_get inbound name of
        Some v \<Rightarrow> copy_allowed_headers cr inbound rest (hm_insert name v outbound)
      | None \<Rightarrow> copy_allowed_headers cr inbound rest outbound)"

definition prepare_outbound_headers ::
    "('u, 'z) crates_scheme \<Rightarrow> proxy_route_config \<Rightarrow> header_map \<Rightarrow> prepared_credentials \<Rightarrow>
     credential_error + header_map" where
  "prepare_outbound_headers cr route inbound prepared =
    rbind (map_error OutboundHeaders
        (validate_proxy_header_allowlist cr (rt_allowed_request_headers route) (Some (pc_injection_name prepared)))) (\<lambda>_.
    rbind (copy_allowed_headers cr inbound (rt_allowed_request_headers route) hm_new) (\<lambda>outbound.
      Inr (hm_insert (pc_injection_name prepared) (pc_injection_value prepared)
             (hm_remove (pc_injection_name prepared) outbound))))"

definition build_target_url ::
    "('u, 'z) crates_scheme \<Rightarrow> proxy_route_config \<Rightarrow> validated_proxy_request \<Rightarrow> target_error + 'u" where
  "build_target_url cr route request =
    rbind (ok_or BaseUrlDisappeared (url_parse cr (rt_base_url route))) (\<lambda>target.
      if (url_scheme cr target \<noteq> ''https'' \<and> url_scheme cr target \<noteq> ''http'')
         \<or> url_host_str cr target = None
         \<or> has_url_credentials cr target
         \<or> url_query cr target \<noteq> None
         \<or> url_fragment cr target \<noteq> None
      then Inl BaseUrlUnsafe
      else
        let target_path = trim_end_matches CHR ''/'' (url_path cr target) @ vr_normalized_path request;
            target = url_set_path cr target_path target;
            target = url_clear_query cr target
        in Inr (if vr_query request \<noteq> [] then url_extend_pairs cr (vr_query request) target else target))"


section \<open>WebSocket handshakes\<close>

definition header_contains_token :: "('u, 'z) crates_scheme \<Rightarrow> header_map \<Rightarrow> string \<Rightarrow> string \<Rightarrow> bool" where
  "header_contains_token cr headers name expected =
    list_ex (\<lambda>v. case header_value_to_str cr v of
                   None \<Rightarrow> False
                 | Some text \<Rightarrow>
                     list_ex (\<lambda>token. eq_ignore_ascii_case (trim token) expected) (split_on CHR '','' text))
      (hm_get_all headers name)"

definition single_header_text ::
    "('u, 'z) crates_scheme \<Rightarrow> header_map \<Rightarrow> string \<Rightarrow> handshake_error + string" where
  "single_header_text cr headers name =
    (let vs = hm_get_all headers name
     in if length vs \<noteq> 1 then Inl HeaderNotOnce
        else ok_or HeaderNotText (header_value_to_str cr (hd vs)))"

definition single_header_equals :: "('u, 'z) crates_scheme \<Rightarrow> header_map \<Rightarrow> string \<Rightarrow> string \<Rightarrow> bool" where
  "single_header_equals cr headers name expected =
    (case single_header_text cr headers name of
       Inl _ \<Rightarrow> False
     | Inr v \<Rightarrow> eq_ignore_ascii_case v expected)"

definition single_optional_header_text ::
    "('u, 'z) crates_scheme \<Rightarrow> header_map \<Rightarrow> string \<Rightarrow> handshake_error + string option" where
  "single_optional_header_text cr headers name =
    (case hm_get_all headers name of
       [] \<Rightarrow> Inr None
     | [v] \<Rightarrow> rbind (ok_or HeaderNotText (header_value_to_str cr v)) (\<lambda>text. Inr (Some text))
     | _ \<Rightarrow> Inl HeaderRepeated)"

definition is_websocket_attempt :: "('u, 'z) crates_scheme \<Rightarrow> header_map \<Rightarrow> bool" where
  "is_websocket_attempt cr headers \<longleftrightarrow>
     list_ex (hm_contains_key headers)
       [''upgrade'', ''sec-websocket-key'', ''sec-websocket-version'', ''sec-websocket-protocol'',
        ''sec-websocket-extensions'']
     \<or> header_contains_token cr headers ''connection'' ''upgrade''"

definition websocket_subprotocols ::
    "('u, 'z) crates_scheme \<Rightarrow> header_map \<Rightarrow> handshake_error + string list" where
  "websocket_subprotocols cr headers =
    rbind (single_optional_header_text cr headers ''sec-websocket-protocol'') (\<lambda>v.
      case v of
        None \<Rightarrow> Inr []
      | Some text \<Rightarrow>
          let protocols = map trim (split_on CHR '','' text)
          in rbind (scan_unique
               (\<lambda>protocol. if \<not> valid_http_token protocol then Inl SubprotocolListInvalid else Inr ())
               (\<lambda>_. SubprotocolListInvalid) (\<lambda>protocol. protocol) {} protocols) (\<lambda>_. Inr protocols))"

definition validate_websocket_handshake ::
    "('u, 'z) crates_scheme \<Rightarrow> header_map \<Rightarrow> proxy_websocket_config \<Rightarrow> handshake_error + unit" where
  "validate_websocket_handshake cr headers policy =
    (if \<not> header_contains_token cr headers ''connection'' ''upgrade''
        \<or> \<not> single_header_equals cr headers ''upgrade'' ''websocket''
        \<or> \<not> single_header_equals cr headers ''sec-websocket-version'' ''13''
        \<or> hm_contains_key headers ''sec-websocket-extensions''
     then Inl UpgradeHeadersInvalid
     else rbind (single_header_text cr headers ''sec-websocket-key'') (\<lambda>key.
       if \<not> (case base64_standard_decode cr key of None \<Rightarrow> False | Some decoded \<Rightarrow> length decoded = 16)
       then Inl WebSocketKeyInvalid
       else rbind (single_optional_header_text cr headers ''origin'') (\<lambda>origin.
         rbind (case origin of
                  Some origin \<Rightarrow>
                    if origin \<notin> set (ws_allowed_origins policy) then Inl OriginNotAllowed else Inr ()
                | None \<Rightarrow> if \<not> ws_allow_missing_origin policy then Inl OriginRequired else Inr ()) (\<lambda>_.
           rbind (websocket_subprotocols cr headers) (\<lambda>requested.
             if list_ex (\<lambda>protocol. protocol \<notin> set (ws_allowed_subprotocols policy)) requested
             then Inl SubprotocolNotAllowed
             else Inr ())))))"

end
