(* ===== verification/Policy_Properties.thy ===== *)
theory Policy_Properties
  imports Policy
begin

text \<open>
  What the route policy guarantees: paths are matched on whole segments, an admitted request stays
  inside its route, the outbound headers are the allowed ones and the credential, every secret that
  leaves is covered by the redaction set, and a body substitution replaces exactly one placeholder.
\<close>

section \<open>Paths\<close>

text \<open>The segments of a path: what stands between slashes.\<close>

definition path_segments :: "string \<Rightarrow> string list" where
  "path_segments s = filter (\<lambda>x. x \<noteq> []) (split_on CHR ''/'' s)"

lemma path_segments_Nil [simp]: "path_segments [] = []"
  by (simp add: path_segments_def)

lemma path_segments_append: "path_segments (a @ CHR ''/'' # b) = path_segments a @ path_segments b"
  by (simp add: path_segments_def split_on_append)

lemma path_segments_slash [simp]: "path_segments (CHR ''/'' # b) = path_segments b"
  using path_segments_append [of "[]" b] by simp

lemma path_segments_trim_start [simp]: "path_segments (trim_start_matches CHR ''/'' s) = path_segments s"
  unfolding trim_start_matches_def by (induction s) auto

lemma path_segments_trim_end [simp]: "path_segments (trim_end_matches CHR ''/'' s) = path_segments s"
proof (induction s rule: rev_induct)
  case (snoc c s)
  then show ?case
    using path_segments_append [of s "[]"] by (cases "c = CHR ''/''") (auto simp: trim_end_matches_def)
qed (simp add: trim_end_matches_def)

lemma Nil_in_split_on:
  assumes "[] \<in> set (split_on d t)"
  shows "t = [] \<or> hd t = d \<or> last t = d \<or> sublist [d, d] t"
proof -
  from assms obtain xs ys where split: "split_on d t = xs @ [] # ys"
    by (meson split_list)
  have t: "t = join_on d (xs @ [] # ys)"
    using join_split_on [of d t] by (simp add: split)
  consider "xs = []" "ys = []" | "xs = []" "ys \<noteq> []" | "xs \<noteq> []" "ys = []" | "xs \<noteq> []" "ys \<noteq> []"
    by blast
  then show ?thesis
  proof cases
    case 4
    then have "t = join_on d xs @ [d, d] @ join_on d ys"
      using t join_on_append [of xs "[] # ys" d] by (simp add: join_on_Cons)
    then show ?thesis by (auto simp: sublist_def)
  qed (use t join_on_append [of xs "[] # ys" d] in \<open>auto simp: join_on_Cons\<close>)
qed

lemma path_segments_eq_split:
  "t \<noteq> [] \<Longrightarrow> hd t \<noteq> CHR ''/'' \<Longrightarrow> last t \<noteq> CHR ''/'' \<Longrightarrow> \<not> sublist ''//'' t \<Longrightarrow>
     path_segments t = split_on CHR ''/'' t"
  using Nil_in_split_on [of "CHR ''/''" t] by (auto simp: path_segments_def intro!: filter_True)

lemma split_on_path_segments:
  assumes "q = [] \<or> hd q \<noteq> CHR ''/''" and "\<not> sublist ''//'' q"
  shows "\<exists>tail. split_on CHR ''/'' q = path_segments q @ tail"
proof (cases "q = [] \<or> last q \<noteq> CHR ''/''")
  case True
  with assms path_segments_eq_split [of q] show ?thesis by (cases "q = []") auto
next
  case False
  then obtain q' where q: "q = q' @ CHR ''/'' # []"
    by (metis append_butlast_last_id)
  with assms have "q' \<noteq> []" and "hd q' \<noteq> CHR ''/''" by (auto simp: hd_append split: if_splits)
  moreover have "last q' \<noteq> CHR ''/''"
  proof
    assume "last q' = CHR ''/''"
    with \<open>q' \<noteq> []\<close> have "q = butlast q' @ ''//'' @ []"
      using append_butlast_last_id [of q'] by (simp add: q)
    with assms(2) show False by (auto simp: sublist_def)
  qed
  moreover have "sublist q' q" by (simp add: q)
  with assms(2) have "\<not> sublist ''//'' q'"
    using sublist_order.order.trans by blast
  ultimately have "path_segments q' = split_on CHR ''/'' q'"
    by (rule path_segments_eq_split)
  then show ?thesis
    by (simp add: q split_on_append path_segments_append)
qed

lemma trimmed_shape:
  assumes "t = trim_end_matches CHR ''/'' (trim_start_matches CHR ''/'' s)" and "t \<noteq> []"
  shows "hd t \<noteq> CHR ''/''" and "last t \<noteq> CHR ''/''" and "sublist t s"
proof -
  let ?P = "\<lambda>x. x = CHR ''/''" and ?a = "dropWhile (\<lambda>x. x = CHR ''/'') s"
  have rt: "rev t = dropWhile ?P (rev ?a)"
    by (simp add: assms(1) trim_end_matches_def trim_start_matches_def)
  then have "rev ?a = takeWhile ?P (rev ?a) @ rev t" by simp
  then have a: "?a = t @ rev (takeWhile ?P (rev ?a))" by (metis rev_append rev_rev_ident)
  then have "?a \<noteq> []" and "hd ?a = hd t"
    using assms(2) by (metis append_is_Nil_conv, metis hd_append2)
  then show "hd t \<noteq> CHR ''/''"
    using hd_dropWhile [of ?P s] by simp
  show "last t \<noteq> CHR ''/''"
    using hd_dropWhile [of ?P "rev ?a"] rt assms(2) by (metis hd_rev rev_is_Nil_conv)
  have "sublist t ?a" by (subst a) simp
  moreover have "sublist ?a s" by (rule suffix_imp_sublist) (rule suffix_dropWhile)
  ultimately show "sublist t s" by (rule sublist_order.order.trans)
qed

lemma path_matches_prefix_segments:
  assumes "\<not> sublist ''//'' pre" and "\<not> sublist ''//'' (CHR ''/'' # q)"
  shows "path_matches_prefix (CHR ''/'' # q) pre \<longleftrightarrow> prefix (path_segments pre) (path_segments q)"
proof -
  define t where "t = trim_end_matches CHR ''/'' (trim_start_matches CHR ''/'' pre)"
  have segs: "path_segments pre = path_segments t" by (simp add: t_def)
  have match: "path_matches_prefix (CHR ''/'' # q) pre \<longleftrightarrow> t = [] \<or> q = t \<or> (\<exists>r. q = t @ CHR ''/'' # r)"
    by (auto simp: path_matches_prefix_def Let_def t_def [symmetric] strip_prefix_def prefix_def)
  have q: "q = [] \<or> hd q \<noteq> CHR ''/''" "\<not> sublist ''//'' q"
    using assms(2) by (cases q; auto simp: sublist_Cons_right)+
  show ?thesis
  proof (cases "t = []")
    case False
    have "\<not> sublist ''//'' t"
      using assms(1) trimmed_shape(3) [OF t_def False] by (auto dest: sublist_order.order.trans)
    with trimmed_shape [OF t_def False] False have t: "path_segments t = split_on CHR ''/'' t"
      by (simp add: path_segments_eq_split)
    have "q = t \<or> (\<exists>r. q = t @ CHR ''/'' # r)" if "prefix (path_segments t) (path_segments q)"
    proof -
      from split_on_path_segments [OF q] that obtain rest where
        rest: "split_on CHR ''/'' q = split_on CHR ''/'' t @ rest"
        by (auto simp: t prefix_def)
      then have "q = join_on CHR ''/'' (split_on CHR ''/'' t @ rest)"
        using join_split_on [of "CHR ''/''" q] by simp
      then show ?thesis
        using join_on_append [of "split_on CHR ''/'' t" rest "CHR ''/''"]
        by (cases "rest = []") simp_all
    qed
    moreover have "prefix (path_segments t) (path_segments q)" if "q = t \<or> (\<exists>r. q = t @ CHR ''/'' # r)"
      using that by (auto simp: path_segments_append)
    ultimately show ?thesis
      using False unfolding match segs by blast
  qed (simp add: match segs)
qed


section \<open>Percent encoding\<close>

definition percent_ok :: "string \<Rightarrow> bool" where
  "percent_ok s \<longleftrightarrow>
     (\<forall>i < length s. s ! i = CHR ''%'' \<longrightarrow>
        i + 2 < length s \<and> is_ascii_hexdigit (s ! (i + 1)) \<and> is_ascii_hexdigit (s ! (i + 2)))"

lemma percent_ok_Nil [simp]: "percent_ok []"
  by (simp add: percent_ok_def)

lemma percent_ok_Cons:
  "percent_ok (c # cs) \<longleftrightarrow>
     (c = CHR ''%'' \<longrightarrow> 2 \<le> length cs \<and> is_ascii_hexdigit (cs ! 0) \<and> is_ascii_hexdigit (cs ! 1))
     \<and> percent_ok cs"
  unfolding percent_ok_def
  by (simp add: all_simps(5) less_Suc_eq_0_disj imp_disjL all_conj_distrib numeral_2_eq_2 Suc_le_eq
      cong: conj_cong) auto

lemma not_hex_percent: "\<not> is_ascii_hexdigit CHR ''%''"
  by (simp add: is_ascii_hexdigit_def is_ascii_digit_def)

lemma validate_percent_encoding_iff: "validate_percent_encoding s = Inr u \<longleftrightarrow> percent_ok s"
  by (induction s rule: validate_percent_encoding.induct)
    (auto simp: percent_ok_Cons not_hex_percent split: list.splits)

section \<open>Body substitutions\<close>

lemma count_windows_Cons:
  "p \<noteq> [] \<Longrightarrow> count_windows p (x # xs) = (if prefix p (x # xs) then 1 else 0) + count_windows p xs"
proof (cases "length p \<le> Suc (length xs)")
  case True
  then show "p \<noteq> [] \<Longrightarrow> ?thesis"
    using take_eq_prefix [of p "x # xs"] by (simp add: count_windows_def)
next
  case False
  then have "\<not> prefix p (x # xs)" and "windows (length p) xs = []"
    by (auto simp: windows_Nil_iff dest: prefix_length_le)
  with False show ?thesis by (simp add: count_windows_def)
qed

lemma count_windows_pos: "p \<noteq> [] \<Longrightarrow> sublist p xs \<Longrightarrow> 0 < count_windows p xs"
  by (auto simp: count_windows_def set_windows length_greater_0_conv filter_empty_conv)

text \<open>If a pattern occurs exactly once, the search finds that occurrence.\<close>

lemma find_window_unique:
  "p \<noteq> [] \<Longrightarrow> count_windows p (u @ p @ v) = 1 \<Longrightarrow> find_window p (u @ p @ v) = Some (length u)"
proof (induction u)
  case Nil
  then show ?case by (cases p) (simp_all add: find_window_Cons)
next
  case (Cons a u)
  have "0 < count_windows p (u @ p @ v)"
    using Cons.prems(1) by (rule count_windows_pos) simp
  with Cons show ?case
    by (auto simp: count_windows_Cons find_window_Cons split: if_splits)
qed

text \<open>The contract of the substitutions: one entry of the map after the other, each replacing the only
  occurrence of its placeholder, never exceeding the limit.\<close>

inductive substituted :: "nat \<Rightarrow> credential_source \<Rightarrow> (string \<times> string) list \<Rightarrow> bytes \<Rightarrow> bytes \<Rightarrow> bool"
  for limit :: nat and credentials :: credential_source where
  no_more: "substituted limit credentials [] body body"
| replace: "credentials key = Some secret \<Longrightarrow> count_windows placeholder (u @ placeholder @ v) = 1 \<Longrightarrow>
     length (u @ secret @ v) \<le> limit \<Longrightarrow>
     substituted limit credentials rest (u @ secret @ v) out \<Longrightarrow>
     substituted limit credentials ((placeholder, key) # rest) (u @ placeholder @ v) out"

inductive_cases substituted_NilE: "substituted limit credentials [] body out"
inductive_cases substituted_ConsE: "substituted limit credentials ((p, k) # rest) body out"

lemma valid_body_placeholder_not_Nil: "valid_body_placeholder p \<Longrightarrow> p \<noteq> []"
  by (auto simp: valid_body_placeholder_def strip_prefix_def)

lemma substituted_length: "substituted limit credentials subs body out \<Longrightarrow> subs \<noteq> [] \<Longrightarrow> length out \<le> limit"
proof (induction rule: substituted.induct)
  case (replace key secret placeholder u v rest out)
  then show ?case
    by (cases rest) (auto elim: substituted_NilE)
qed simp

lemma apply_substitution_loop_Cons_iff:
  assumes "limit < 2 ^ 64 - 1" and "valid_body_placeholder p"
  shows "apply_substitution_loop limit credentials ((p, k) # rest) body acc = Inr r \<longleftrightarrow>
    (\<exists>u v secret. body = u @ p @ v \<and> count_windows p body = 1 \<and> credentials k = Some secret
       \<and> length (u @ secret @ v) \<le> limit
       \<and> apply_substitution_loop limit credentials rest (u @ secret @ v) (acc @ [secret]) = Inr r)"
    (is "?L \<longleftrightarrow> ?R")
proof
  have sat: "limit < usize_saturating_add a b \<longleftrightarrow> limit < a + b" for a b
    using assms(1) by (auto simp: usize_saturating_add_def)
  {
    assume ?L
    then obtain secret i where *: "credentials k = Some secret" "count_windows p body = 1"
      "find_window p body = Some i" "length body - length p + length secret \<le> limit"
      "apply_substitution_loop limit credentials rest (take i body @ secret @ drop (i + length p) body)
         (acc @ [secret]) = Inr r"
      using assms(2) by (auto simp: result_iff sat not_less)
    from find_window_Some [OF *(3)] obtain v where v: "take i body @ p @ v = body" "i + length p \<le> length body"
      by blast
    have "v = drop (i + length p) body"
      using v by (metis append.assoc append_eq_conv_conj length_append length_take min.absorb2 add_leD1)
    with * v show ?R
      by (intro exI [of _ "take i body"] exI [of _ v] exI [of _ secret]) auto
  }
  {
    assume ?R
    then obtain u v secret where *: "body = u @ p @ v" "count_windows p body = 1" "credentials k = Some secret"
      "length (u @ secret @ v) \<le> limit"
      "apply_substitution_loop limit credentials rest (u @ secret @ v) (acc @ [secret]) = Inr r"
      by blast
    then have "find_window p body = Some (length u)"
      using find_window_unique valid_body_placeholder_not_Nil [OF assms(2)] by simp
    with * assms(2) show ?L
      by (simp add: sat)
  }
qed

lemma apply_substitution_loop_iff:
  assumes "limit < 2 ^ 64 - 1" and "\<forall>(p, k)\<in>set subs. valid_body_placeholder p"
  shows "apply_substitution_loop limit credentials subs body acc = Inr (out, vs) \<longleftrightarrow>
     substituted limit credentials subs body out \<and> vs = acc @ map (\<lambda>(p, k). the (credentials k)) subs"
  using assms(2)
proof (induction subs arbitrary: body acc)
  case Nil
  show ?case by (auto intro: substituted.intros elim: substituted_NilE)
next
  case (Cons s subs)
  obtain p k where s: "s = (p, k)" by (cases s)
  with Cons.prems have p: "valid_body_placeholder p" by simp
  show ?case
    unfolding s apply_substitution_loop_Cons_iff [OF assms(1) p]
    using Cons by (fastforce intro: substituted.intros elim: substituted_ConsE)
qed

lemma apply_substitution_loop_valid:
  "apply_substitution_loop limit credentials subs body acc = Inr r \<Longrightarrow> (p, k) \<in> set subs \<Longrightarrow>
     valid_body_placeholder p \<and> (\<exists>secret. credentials k = Some secret)"
  by (induction limit credentials subs body acc rule: apply_substitution_loop.induct)
    (fastforce simp: result_iff)+


lemma apply_substitution_loop_secrets:
  "apply_substitution_loop limit credentials subs body acc = Inr (out, vs) \<Longrightarrow>
     set acc \<subseteq> set vs \<and> (\<forall>(p, k)\<in>set subs. \<forall>secret. credentials k = Some secret \<longrightarrow> secret \<in> set vs)"
  by (induction limit credentials subs body acc rule: apply_substitution_loop.induct)
    (fastforce simp: result_iff)+

section \<open>Header lists\<close>

lemma validate_proxy_header_allowlist_iff:
  "validate_proxy_header_allowlist cr headers ih = Inr u \<longleftrightarrow>
     (\<forall>h\<in>set headers. \<not> unsafe_header cr ih h) \<and> distinct (map to_ascii_lowercase headers)"
  by (auto simp: validate_proxy_header_allowlist_def result_iff)

lemma unsafe_header_lower:
  "unsafe_header cr (Some (to_ascii_lowercase ih)) h = unsafe_header cr (Some ih) h"
  by (simp add: unsafe_header_def eq_ignore_ascii_case_def)

lemma copy_allowed_headers_spec:
  assumes "header_name_law cr" and "\<forall>h\<in>set allowed. to_ascii_lowercase h = h"
    and "copy_allowed_headers cr inbound allowed outbound = Inr result"
  shows "result n = (if n \<in> set allowed \<and> inbound n \<noteq> [] then [hd (inbound n)] else outbound n)"
  using assms(2,3)
proof (induction allowed arbitrary: outbound)
  case (Cons a allowed)
  then obtain name where name: "header_name_from_bytes cr a = Some name"
    by (auto simp: result_iff)
  with assms(1) Cons.prems(1) have "name = a"
    by (auto simp: header_name_law_def)
  with Cons name show ?case
    by (cases "inbound a") (auto simp: result_iff hm_defs)
qed simp

lemma copy_allowed_headers_total:
  "\<forall>h\<in>set allowed. header_name_from_bytes cr h \<noteq> None \<Longrightarrow>
     \<exists>result. copy_allowed_headers cr inbound allowed outbound = Inr result"
  by (induction allowed arbitrary: outbound) (auto split: option.splits)

lemma outbound_spec:
  assumes law: "header_name_law cr"
    and ok: "prepare_outbound_headers cr route inbound prepared = Inr outbound"
  shows "outbound (pc_injection_name prepared) = [pc_injection_value prepared]"
    and "n \<noteq> pc_injection_name prepared \<Longrightarrow> outbound n =
      (if n \<in> set (rt_allowed_request_headers route) \<and> inbound n \<noteq> [] then [hd (inbound n)] else [])"
    and "n \<in> set (rt_allowed_request_headers route) \<Longrightarrow> n \<notin> set forbidden_headers"
proof -
  let ?allowed = "rt_allowed_request_headers route"
  from ok obtain copied where
    safe: "\<forall>h\<in>set ?allowed. \<not> unsafe_header cr (Some (pc_injection_name prepared)) h" and
    copied: "copy_allowed_headers cr inbound ?allowed hm_new = Inr copied" and
    outb: "outbound = hm_insert (pc_injection_name prepared) (pc_injection_value prepared)
             (hm_remove (pc_injection_name prepared) copied)"
    by (auto simp: prepare_outbound_headers_def result_iff validate_proxy_header_allowlist_iff)
  have lower: "\<forall>h\<in>set ?allowed. to_ascii_lowercase h = h"
    using safe by (auto simp: unsafe_header_def)
  show "outbound (pc_injection_name prepared) = [pc_injection_value prepared]"
    by (simp add: outb hm_defs)
  show "outbound n = (if n \<in> set ?allowed \<and> inbound n \<noteq> [] then [hd (inbound n)] else [])"
    if "n \<noteq> pc_injection_name prepared"
    using copy_allowed_headers_spec [OF law lower copied, of n] that by (simp add: outb hm_defs)
  show "n \<in> set ?allowed \<Longrightarrow> n \<notin> set forbidden_headers"
    using safe lower by (auto simp: unsafe_header_def)
qed

section \<open>The credential header\<close>

text \<open>The header a route injects into, as the route validation and the header construction read it.\<close>

definition route_injection_header :: "proxy_route_config \<Rightarrow> string" where
  "route_injection_header route =
    (case rt_injection route of
       None \<Rightarrow> rt_header route
     | Some (InjBearer _) \<Rightarrow> ''authorization''
     | Some (InjHeader _ hdr _) \<Rightarrow> hdr
     | Some (InjBasic _ _) \<Rightarrow> ''authorization'')"

definition route_injection_key :: "proxy_route_config \<Rightarrow> string" where
  "route_injection_key route =
    (case rt_injection route of
       None \<Rightarrow> rt_secret_key route
     | Some (InjBearer k) \<Rightarrow> k
     | Some (InjHeader k _ _) \<Rightarrow> k
     | Some (InjBasic _ k) \<Rightarrow> k)"

definition route_secret_keys :: "proxy_route_config \<Rightarrow> string list" where
  "route_secret_keys route = route_injection_key route # map snd (rt_body_substitutions route)"

lemmas injection_splits = option.splits proxy_injection_config.splits if_splits

lemma route_injection_target_Inr:
  "route_injection_target route = Inr (hdr, ks) \<Longrightarrow>
     hdr = route_injection_header route \<and> ks = [route_injection_key route]"
  by (auto simp: route_injection_target_def route_injection_header_def route_injection_key_def result_iff
      split: injection_splits)

lemma validate_route_injection_Inr:
  "validate_route_injection cr route = Inr hdr \<Longrightarrow>
     hdr = route_injection_header route \<and> \<not> not_injectable_header hdr
     \<and> validate_credential_key (route_injection_key route) = Inr ()"
  by (auto simp: validate_route_injection_def result_iff dest!: route_injection_target_Inr)

lemma build_proxy_injection_Inr:
  assumes "build_proxy_injection cr route credentials = Inr (name, v, sensitive)"
  obtains secret hv where "credentials (route_injection_key route) = Some secret" and "secret \<in> set sensitive"
    and "header_name_from_bytes cr (route_injection_header route) = Some name"
    and "\<not> not_injectable_header (route_injection_header route)"
    and "header_value_from_str cr (last sensitive) = Some hv" and "v = HeaderValue (hv_bytes hv) True"
    and "sensitive \<noteq> []"
  using assms
  by (fastforce simp: build_proxy_injection_def route_injection_header_def route_injection_key_def
      result_iff Let_def split: injection_splits)

lemma not_injectable_header_lower:
  "not_injectable_header (to_ascii_lowercase h) = not_injectable_header h"
  by (simp add: not_injectable_header_def eq_ignore_ascii_case_def)


section \<open>Validated routes and requests\<close>

lemma validate_proxy_route_Inr:
  assumes "validate_proxy_route cr name route insecure transparent = Inr u"
  obtains base hdr where "url_parse cr (rt_base_url route) = Some base"
    and "url_scheme cr base = ''https'' \<or> url_scheme cr base = ''http'' \<and> insecure"
    and "url_host_str cr base \<noteq> None"
    and "rt_max_body_bytes route \<le> 4 * 1024 * 1024"
    and "\<forall>m\<in>set (rt_allowed_methods route). to_ascii_uppercase m \<in> set crud_methods"
    and "\<forall>path\<in>set (rt_allowed_exact_paths route) \<union> set (rt_allowed_path_prefixes route). safe_policy_path path"
    and "validate_route_injection cr route = Inr hdr"
    and "validate_route_lists cr route hdr = Inr ()"
  using assms
  by (fastforce simp: validate_proxy_route_def result_iff list_ex_iff)

lemma safe_policy_pathD:
  assumes "safe_policy_path p"
  shows "\<exists>q. p = CHR ''/'' # q" and "\<not> sublist ''//'' p"
    and "seg \<in> set (path_segments p) \<Longrightarrow> seg \<noteq> ''.'' \<and> seg \<noteq> ''..''"
  using assms by (auto simp: safe_policy_path_def prefix_def path_segments_def list_ex_iff)

lemma validate_proxy_query_Inr:
  "validate_proxy_query cr route query = Inr q \<Longrightarrow>
     distinct (map fst q) \<and> fst ` set q \<subseteq> set (rt_allowed_query_parameters route)
     \<and> (\<forall>(n, v)\<in>set q. \<not> has_control n \<and> \<not> has_control v)"
  by (fastforce simp: validate_proxy_query_def result_iff Let_def split: option.splits if_splits)

lemma validate_proxy_request_Inr:
  assumes "validate_proxy_request cr route path query meth headers body_len = Inr v"
  shows "\<exists>m\<in>set (rt_allowed_methods route). eq_ignore_ascii_case m meth"
    and "safe_policy_path (vr_normalized_path v)"
    and "vr_normalized_path v \<in> set (rt_allowed_exact_paths route)
      \<or> (\<exists>pre\<in>set (rt_allowed_path_prefixes route). path_matches_prefix (vr_normalized_path v) pre)"
    and "body_len \<le> rt_max_body_bytes route"
    and "enforce_proxy_content_type cr route headers body_len = Inr ()"
    and "validate_proxy_query cr route query = Inr (vr_query v)"
    and "vr_normalized_path v = CHR ''/'' # trim_start_matches CHR ''/'' path"
  using assms
  by (auto simp: validate_proxy_request_def result_iff Let_def list_ex_iff)

section \<open>A sample route\<close>

definition sample_route :: proxy_route_config where
  "sample_route =
    \<lparr>rt_profile = ''example'', rt_base_url = ''https://api.example.test/v1'', rt_secret_key = [], rt_header = [],
     rt_header_prefix = [], rt_injection = Some (InjBearer ''TOKEN''),
     rt_body_substitutions = [(''__AV_SECRET_PIN__'', ''PIN'')],
     rt_allowed_methods = [''GET'', ''post''], rt_allowed_exact_paths = [],
     rt_allowed_path_prefixes = [''/items/''], rt_allowed_request_headers = [''accept''],
     rt_allowed_response_headers = [''etag''], rt_allowed_query_parameters = [''page''],
     rt_allowed_content_types = [''text/plain''], rt_max_body_bytes = 1024,
     rt_response_mode = Buffered, rt_max_response_bytes = 4096, rt_websocket = None\<rparr>"

definition sample_credentials :: credential_source where
  "sample_credentials = [''TOKEN'' \<mapsto> ''s3+t'', ''PIN'' \<mapsto> ''77'']"

definition sample_headers :: header_map where
  "sample_headers =
    hm_insert ''content-type'' (HeaderValue ''text/plain; charset=utf-8'' False)
      (hm_insert ''accept'' (HeaderValue ''*/*'' False)
        (hm_insert ''authorization'' (HeaderValue ''Bearer mine'' False) hm_new))"

definition sample_prepared :: prepared_credentials where
  "sample_prepared =
    \<lparr>pc_injection_name = ''authorization'', pc_injection_value = HeaderValue ''Bearer s3+t'' True,
     pc_body = ''pin=77'', pc_redaction = redaction_set_new sample_crates [''s3+t'', ''Bearer s3+t'', ''77'']\<rparr>"

lemma sample_route_valid: "validate_proxy_route sample_crates ''route-1'' sample_route False False = Inr ()"
  by code_simp

lemma sample_request_valid:
  "validate_proxy_request sample_crates sample_route ''items/7'' (Some ''page=2'') ''POST'' sample_headers 20 =
     Inr \<lparr>vr_normalized_path = ''/items/7'', vr_query = [(''page'', ''2'')]\<rparr>"
  by code_simp

lemma sample_prepared_valid:
  "prepare_credentials sample_crates sample_route sample_credentials ''pin=__AV_SECRET_PIN__'' = Inr sample_prepared"
proof -
  have "build_proxy_injection sample_crates sample_route sample_credentials =
      Inr (''authorization'', HeaderValue ''Bearer s3+t'' True, [''s3+t'', ''Bearer s3+t''])"
    by code_simp
  moreover have "apply_body_substitutions sample_route sample_credentials ''pin=__AV_SECRET_PIN__'' =
      Inr (''pin=77'', [''77''])"
    by code_simp
  ultimately show ?thesis
    by (simp add: prepare_credentials_def sample_prepared_def) (simp add: sample_route_def)
qed


section \<open>Properties\<close>

text \<open>
  C2. A request that a validated route admits uses one of the six CRUD methods, has a canonical path
  without traversal segments that is an allowed path or lies below an allowed prefix counted in whole
  segments, has a body within the limit (itself at most 4 MiB), and carries only allowed query
  parameters, each once and free of control characters.
\<close>

theorem admitted_request_within_route:
  assumes "validate_proxy_route cr name route insecure transparent = Inr ()"
    and "validate_proxy_request cr route path query meth headers body_len = Inr v"
  shows "to_ascii_uppercase meth \<in> set crud_methods
    \<and> (vr_normalized_path v \<in> set (rt_allowed_exact_paths route)
       \<or> (\<exists>pre\<in>set (rt_allowed_path_prefixes route).
            prefix (path_segments pre) (path_segments (vr_normalized_path v))))
    \<and> set (path_segments (vr_normalized_path v)) \<inter> {''.'', ''..''} = {}
    \<and> body_len \<le> rt_max_body_bytes route \<and> rt_max_body_bytes route \<le> 4 * 1024 * 1024
    \<and> distinct (map fst (vr_query v)) \<and> fst ` set (vr_query v) \<subseteq> set (rt_allowed_query_parameters route)
    \<and> list_all (\<lambda>(n, x). \<not> has_control n \<and> \<not> has_control x) (vr_query v)"
proof -
  from assms(1) have route: "rt_max_body_bytes route \<le> 4 * 1024 * 1024"
    "\<forall>m\<in>set (rt_allowed_methods route). to_ascii_uppercase m \<in> set crud_methods"
    "\<forall>path\<in>set (rt_allowed_exact_paths route) \<union> set (rt_allowed_path_prefixes route). safe_policy_path path"
    by (auto elim: validate_proxy_route_Inr)
  note request = validate_proxy_request_Inr [OF assms(2)]
  from request(1) route(2) have "to_ascii_uppercase meth \<in> set crud_methods"
    by (metis eq_ignore_ascii_case_upper)
  moreover obtain q where q: "vr_normalized_path v = CHR ''/'' # q"
    using request(7) by blast
  have below: "prefix (path_segments pre) (path_segments (vr_normalized_path v))"
    if "pre \<in> set (rt_allowed_path_prefixes route)" "path_matches_prefix (vr_normalized_path v) pre" for pre
    using that route(3) safe_policy_pathD(2) [OF request(2)] path_matches_prefix_segments [of pre q]
    by (auto simp: q safe_policy_pathD(2))
  have "vr_normalized_path v \<in> set (rt_allowed_exact_paths route)
       \<or> (\<exists>pre\<in>set (rt_allowed_path_prefixes route).
            prefix (path_segments pre) (path_segments (vr_normalized_path v)))"
    using request(3) below by blast
  moreover have "set (path_segments (vr_normalized_path v)) \<inter> {''.'', ''..''} = {}"
    using safe_policy_pathD(3) [OF request(2)] by auto
  ultimately show ?thesis
    using route(1) request(4) validate_proxy_query_Inr [OF request(6)] by (simp add: list_all_iff)
qed

theorem admitted_request_within_route_witness:
  "validate_proxy_route sample_crates ''route-1'' sample_route False False = Inr ()
   \<and> prefix (path_segments ''/items/'') (path_segments ''/items/7'')
   \<and> to_ascii_uppercase ''POST'' \<in> set crud_methods"
  using admitted_request_within_route [OF sample_route_valid sample_request_valid]
  by (simp add: sample_route_valid) (simp add: sample_route_def)

text \<open>
  A configured prefix matches a path exactly when its segments are the first segments of the path:
  a prefix never matches inside a segment, and slashes at its ends do not matter.
\<close>

lemma path_matches_prefix_iff:
  assumes "safe_policy_path pre" and "safe_policy_path path"
  shows "path_matches_prefix path pre \<longleftrightarrow> prefix (path_segments pre) (path_segments path)"
proof -
  from safe_policy_pathD(1) [OF assms(2)] obtain q where "path = CHR ''/'' # q" by blast
  then show ?thesis
    using safe_policy_pathD(2) [OF assms(1)] safe_policy_pathD(2) [OF assms(2)]
    by (simp add: path_matches_prefix_segments)
qed

text \<open>
  The header map sent upstream holds the credential under the injection header, the first value of
  each allowed caller header, and nothing else; no forbidden header of the caller passes.
\<close>

lemma outbound_headers_exact:
  assumes "header_name_law cr"
    and "prepare_outbound_headers cr route inbound prepared = Inr outbound"
  shows "outbound (pc_injection_name prepared) = [pc_injection_value prepared]
    \<and> (\<forall>n. n \<noteq> pc_injection_name prepared \<longrightarrow>
         outbound n = (if n \<in> set (rt_allowed_request_headers route) \<and> inbound n \<noteq> []
                       then [hd (inbound n)] else []))
    \<and> (\<forall>n. n \<noteq> pc_injection_name prepared \<and> n \<in> set forbidden_headers \<longrightarrow> outbound n = [])"
  using outbound_spec [OF assms] by auto

text \<open>
  For a route that passed validation at startup, building the outbound headers from its prepared
  credentials cannot fail, and the injection header is \<open>authorization\<close> or an \<open>x-\<close> header.
\<close>

lemma validated_route_outbound_total:
  assumes law: "header_name_law cr"
    and "validate_proxy_route cr name route insecure transparent = Inr ()"
    and "prepare_credentials cr route credentials body = Inr prepared"
  shows "(\<exists>outbound. prepare_outbound_headers cr route inbound prepared = Inr outbound)
    \<and> (pc_injection_name prepared = ''authorization'' \<or> prefix ''x-'' (pc_injection_name prepared))"
proof -
  from assms(3) obtain v sensitive where
    "build_proxy_injection cr route credentials = Inr (pc_injection_name prepared, v, sensitive)"
    by (auto simp: prepare_credentials_def result_iff)
  then have "header_name_from_bytes cr (route_injection_header route) = Some (pc_injection_name prepared)"
    and inj: "\<not> not_injectable_header (route_injection_header route)"
    by (auto elim: build_proxy_injection_Inr)
  with law have name: "pc_injection_name prepared = to_ascii_lowercase (route_injection_header route)"
    by (simp add: header_name_law_def)
  from assms(2) have "validate_route_lists cr route (route_injection_header route) = Inr ()"
    by (auto elim!: validate_proxy_route_Inr dest: validate_route_injection_Inr)
  then have allowed: "validate_proxy_header_allowlist cr (rt_allowed_request_headers route)
      (Some (pc_injection_name prepared)) = Inr ()"
    by (auto simp: validate_route_lists_def result_iff validate_proxy_header_allowlist_iff name
        unsafe_header_lower)
  then have "\<forall>h\<in>set (rt_allowed_request_headers route). header_name_from_bytes cr h \<noteq> None"
    by (auto simp: validate_proxy_header_allowlist_iff unsafe_header_def)
  from copy_allowed_headers_total [OF this, of inbound hm_new] obtain copied where
    "copy_allowed_headers cr inbound (rt_allowed_request_headers route) hm_new = Inr copied" ..
  with allowed inj show ?thesis
    by (auto simp: prepare_outbound_headers_def name not_injectable_header_def eq_ignore_ascii_case_def
        to_ascii_lowercase_def)
qed

text \<open>
  Whatever secret a request carries upstream, be it the value of the injected header or the value of any
  credential key of the route (the injection key or the key of a body substitution), its recognised encodings
  are patterns of the prepared redaction set.
\<close>

lemma prepared_secret_pattern:
  assumes "header_value_law cr"
    and "prepare_credentials cr route credentials body = Inr prepared"
    and "secret = hv_bytes (pc_injection_value prepared)
      \<or> (\<exists>k\<in>set (route_secret_keys route). credentials k = Some secret)"
    and "p \<in> set (credential_encodings cr secret)" and "avoids_marker p"
  shows "p \<in> set (patterns (pc_redaction prepared))" and "redaction_set_inv (pc_redaction prepared)"
proof -
  from assms(2) obtain name v sensitive out body_sensitive where
    inj: "build_proxy_injection cr route credentials = Inr (name, v, sensitive)" and
    subst: "apply_body_substitutions route credentials body = Inr (out, body_sensitive)" and
    prepared: "pc_injection_value prepared = v"
      "pc_redaction prepared = redaction_set_new cr (sensitive @ body_sensitive)"
    by (auto simp: prepare_credentials_def result_iff)
  from subst have loop: "apply_substitution_loop (rt_max_body_bytes route) credentials
      (rt_body_substitutions route) body [] = Inr (out, body_sensitive)"
    by (simp add: apply_body_substitutions_def result_iff)
  have "secret \<in> set (sensitive @ body_sensitive)"
    using assms(3)
  proof (elim disjE bexE)
    assume "secret = hv_bytes (pc_injection_value prepared)"
    with inj prepared(1) have "secret = last sensitive" and "sensitive \<noteq> []"
      by (auto simp: header_value_law_from_str [OF assms(1)] elim!: build_proxy_injection_Inr)
    then show ?thesis by simp
  next
    fix k assume "k \<in> set (route_secret_keys route)" and k: "credentials k = Some secret"
    then consider "k = route_injection_key route" | p where "(p, k) \<in> set (rt_body_substitutions route)"
      by (auto simp: route_secret_keys_def)
    then show ?thesis
    proof cases
      case 1
      with inj k show ?thesis by (auto elim!: build_proxy_injection_Inr)
    next
      case 2
      with apply_substitution_loop_secrets [OF loop] k show ?thesis by force
    qed
  qed
  then show "p \<in> set (patterns (pc_redaction prepared))"
    using assms(4,5) avoids_marker_not_Nil by (auto simp: prepared(2) set_patterns_new)
  show "redaction_set_inv (pc_redaction prepared)"
    by (simp add: prepared(2) redaction_set_new_inv)
qed

lemma websocket_secret_pattern:
  assumes "header_value_law cr"
    and "prepare_websocket_credentials cr route credentials = Inr prepared"
    and "secret = hv_bytes (pc_injection_value prepared) \<or> credentials (route_injection_key route) = Some secret"
    and "p \<in> set (credential_encodings cr secret)" and "avoids_marker p"
  shows "p \<in> set (patterns (pc_redaction prepared))"
proof -
  from assms(2) obtain name v sensitive where
    inj: "build_proxy_injection cr route credentials = Inr (name, v, sensitive)" and
    prepared: "pc_injection_value prepared = v" "pc_redaction prepared = redaction_set_new cr sensitive"
    by (auto simp: prepare_websocket_credentials_def result_iff)
  have "secret \<in> set sensitive"
    using assms(3)
  proof
    assume "secret = hv_bytes (pc_injection_value prepared)"
    with inj prepared(1) have "secret = last sensitive" and "sensitive \<noteq> []"
      by (auto simp: header_value_law_from_str [OF assms(1)] elim!: build_proxy_injection_Inr)
    then show ?thesis by simp
  next
    assume "credentials (route_injection_key route) = Some secret"
    with inj show ?thesis by (auto elim!: build_proxy_injection_Inr)
  qed
  then show ?thesis
    using assms(4,5) avoids_marker_not_Nil by (auto simp: prepared(2) set_patterns_new)
qed

text \<open>
  C3. For a limit as a validated route has it, the body substitutions succeed exactly when each
  placeholder is well formed and occurs exactly once at its turn, its credential is there, and no
  intermediate body exceeds the limit; the result is the body with those occurrences replaced, and the
  sensitive values are the credentials used.
\<close>

theorem apply_body_substitutions_iff:
  assumes "rt_max_body_bytes route \<le> 4 * 1024 * 1024"
  shows "apply_body_substitutions route credentials body = Inr (out, vs) \<longleftrightarrow>
    length (rt_body_substitutions route) \<le> 16
    \<and> list_all (\<lambda>(p, k). valid_body_placeholder p) (rt_body_substitutions route)
    \<and> substituted (rt_max_body_bytes route) credentials (rt_body_substitutions route) body out
    \<and> vs = map (\<lambda>(p, k). the (credentials k)) (rt_body_substitutions route)"
proof -
  have limit: "rt_max_body_bytes route < 2 ^ 64 - 1"
    using assms by simp
  let ?subs = "rt_body_substitutions route"
  have "\<forall>(p, k)\<in>set ?subs. valid_body_placeholder p"
    if "apply_substitution_loop (rt_max_body_bytes route) credentials ?subs body [] = Inr (out, vs)"
    using apply_substitution_loop_valid [OF that] by auto
  then show ?thesis
    using apply_substitution_loop_iff [OF limit, of ?subs credentials body "[]" out vs]
    unfolding apply_body_substitutions_def list_all_iff bail_Inr_iff not_less append_Nil by blast
qed

theorem apply_body_substitutions_iff_witness:
  "rt_max_body_bytes sample_route \<le> 4 * 1024 * 1024
   \<and> substituted 1024 sample_credentials [(''__AV_SECRET_PIN__'', ''PIN'')] ''pin=__AV_SECRET_PIN__'' ''pin=77''"
proof -
  have "apply_body_substitutions sample_route sample_credentials ''pin=__AV_SECRET_PIN__'' = Inr (''pin=77'', [''77''])"
    by code_simp
  moreover have limit: "rt_max_body_bytes sample_route \<le> 4 * 1024 * 1024"
    by (simp add: sample_route_def)
  ultimately have "substituted (rt_max_body_bytes sample_route) sample_credentials
      (rt_body_substitutions sample_route) ''pin=__AV_SECRET_PIN__'' ''pin=77''"
    using apply_body_substitutions_iff [OF limit] by blast
  with limit show ?thesis by (simp add: sample_route_def)
qed

text \<open>
  The query check accepts a string exactly when every percent sign in it is followed by two
  hexadecimal digits.
\<close>

lemma validate_percent_encoding_correct:
  "validate_percent_encoding s = Inr () \<longleftrightarrow> percent_ok s"
  by (rule validate_percent_encoding_iff)


text \<open>
  An accepted WebSocket handshake asks for the protocol version 13 without extensions, sends a key
  that decodes to 16 bytes, has an allowed Origin (or none, where the policy permits that), and asks
  for distinct, allowed subprotocols only.
\<close>

lemma accepted_handshake_within_policy:
  assumes "validate_websocket_handshake cr headers policy = Inr ()"
  shows "headers ''sec-websocket-extensions'' = []
    \<and> single_header_equals cr headers ''sec-websocket-version'' ''13''
    \<and> (\<exists>hv key decoded. headers ''sec-websocket-key'' = [hv] \<and> header_value_to_str cr hv = Some key
         \<and> base64_standard_decode cr key = Some decoded \<and> length decoded = 16)
    \<and> (headers ''origin'' = [] \<and> ws_allow_missing_origin policy
       \<or> (\<exists>hv origin. headers ''origin'' = [hv] \<and> header_value_to_str cr hv = Some origin
            \<and> origin \<in> set (ws_allowed_origins policy)))
    \<and> (\<exists>protocols. websocket_subprotocols cr headers = Inr protocols \<and> distinct protocols
         \<and> set protocols \<subseteq> set (ws_allowed_subprotocols policy)
         \<and> list_all valid_http_token protocols)"
proof -
  from assms obtain key origin requested where
    upgrade: "headers ''sec-websocket-extensions'' = []"
      "single_header_equals cr headers ''sec-websocket-version'' ''13''" and
    key: "single_header_text cr headers ''sec-websocket-key'' = Inr key"
      "\<exists>decoded. base64_standard_decode cr key = Some decoded \<and> length decoded = 16" and
    origin: "single_optional_header_text cr headers ''origin'' = Inr origin"
      "origin = None \<and> ws_allow_missing_origin policy
       \<or> (\<exists>x. origin = Some x \<and> x \<in> set (ws_allowed_origins policy))" and
    requested: "websocket_subprotocols cr headers = Inr requested"
      "\<forall>x\<in>set requested. x \<in> set (ws_allowed_subprotocols policy)"
    by (fastforce simp: validate_websocket_handshake_def result_iff hm_contains_key_def list_ex_iff
        split: option.splits if_splits)
  have "\<exists>hv. headers ''sec-websocket-key'' = [hv] \<and> header_value_to_str cr hv = Some key"
    using key(1) by (cases "headers ''sec-websocket-key''")
      (auto simp: single_header_text_def Let_def result_iff hm_get_all_def)
  moreover have "headers ''origin'' = [] \<and> origin = None
      \<or> (\<exists>hv x. headers ''origin'' = [hv] \<and> header_value_to_str cr hv = Some x \<and> origin = Some x)"
    using origin(1) by (auto simp: single_optional_header_text_def result_iff hm_get_all_def split: list.splits)
  moreover have "distinct requested \<and> list_all valid_http_token requested"
    using requested(1) by (auto simp: websocket_subprotocols_def result_iff Let_def list_all_iff split: option.splits)
  ultimately show ?thesis
    using upgrade key(2) origin(2) requested by auto
qed

definition sample_websocket :: proxy_websocket_config where
  "sample_websocket =
    \<lparr>ws_allowed_origins = [''https://app.example.test''], ws_allow_missing_origin = False,
     ws_allowed_subprotocols = [''chat'', ''log''], ws_max_duration_seconds = 60,
     ws_max_message_bytes = 1024, ws_max_total_bytes = 4096\<rparr>"

definition sample_handshake :: header_map where
  "sample_handshake =
    hm_insert ''connection'' (HeaderValue ''keep-alive, Upgrade'' False)
      (hm_insert ''upgrade'' (HeaderValue ''websocket'' False)
        (hm_insert ''sec-websocket-version'' (HeaderValue ''13'' False)
          (hm_insert ''sec-websocket-key'' (HeaderValue ''AAAAAAAAAAAAAAAAAAAAAA=='' False)
            (hm_insert ''origin'' (HeaderValue ''https://app.example.test'' False)
              (hm_insert ''sec-websocket-protocol'' (HeaderValue ''chat, log'' False) hm_new)))))"

text \<open>
  The URL a request is sent to has the scheme, host and port of the configured base URL, is HTTP or
  HTTPS, and carries no credentials and no fragment: the caller's path and query cannot move the
  request to another origin.
\<close>

lemma target_url_origin_fixed:
  assumes "url_edit_law cr" and "build_target_url cr route request = Inr target"
  shows "\<exists>base. url_parse cr (rt_base_url route) = Some base
    \<and> url_scheme cr target = url_scheme cr base \<and> url_host_str cr target = url_host_str cr base
    \<and> url_port_or_known_default cr target = url_port_or_known_default cr base
    \<and> url_scheme cr target \<in> {''https'', ''http''} \<and> url_host_str cr target \<noteq> None
    \<and> \<not> has_url_credentials cr target \<and> url_fragment cr target = None"
  using assms(2)
  by (auto simp: build_target_url_def result_iff Let_def has_url_credentials_def
      url_edit_lawD [OF assms(1)] split: if_splits)

text \<open>
  A request inside an intercepted tunnel is accepted only in origin form, with exactly one Host
  header, no proxy credentials, and a Host that names the HTTPS host of the route the tunnel was opened
  for.
\<close>

lemma tunnel_target_bound_to_route:
  assumes "enforce_transparent_tunnel_target cr route target headers = Inr ()"
  shows "\<exists>hv host configured supplied.
     headers ''host'' = [hv] \<and> header_value_to_str cr hv = Some host
     \<and> url_parse cr (rt_base_url route) = Some configured \<and> url_parse cr (''https://'' @ host) = Some supplied
     \<and> url_scheme cr configured = ''https''
     \<and> url_host_str cr supplied = url_host_str cr configured
     \<and> url_port_or_known_default cr supplied = Some 443 \<and> url_port_or_known_default cr configured = Some 443
     \<and> headers ''proxy-authorization'' = [] \<and> uri_authority target = None \<and> prefix ''/'' (uri_path target)"
  using assms
  by (cases "headers ''host''")
    (auto simp: enforce_transparent_tunnel_target_def result_iff hm_defs split: if_splits)

end
