(* ===== verification/Catalog.thy ===== *)
theory Catalog
  imports Policy Policy_Properties
begin

text \<open>
  The catalog of transparent proxy destinations, \<^verbatim>\<open>crates/av-credential-proxy/src/catalog.rs\<close>: its
  construction from the configured routes and tunnels, the authorisation of a CONNECT request, and the
  session credential. The random bytes of \<open>OsRng\<close> are arguments.
\<close>

section \<open>Definitions\<close>

datatype transparent_destination =
  Injecting (td_name: string) (td_profile: string)
| Tunnel (td_name: string) (td_profile: string) (td_host: string) (td_allow_private_ips: bool)

definition td_mode :: "transparent_destination \<Rightarrow> string" where
  "td_mode d = (case d of Injecting _ _ \<Rightarrow> ''injecting'' | Tunnel _ _ _ _ \<Rightarrow> ''tunnel'')"

record transparent_route_catalog =
  destinations_by_host :: "(string \<times> transparent_destination) list"

datatype catalog_error =
  RouteUrlInvalid | RouteWithoutHost | CatalogHost host_error | SharedHost string

text \<open>The first loop of \<open>from_config\<close>: standard HTTPS routes, the others are skipped.\<close>

fun catalog_add_routes ::
    "('u, 'z) crates_scheme \<Rightarrow> (string \<times> proxy_route_config) list \<Rightarrow> (string \<times> transparent_destination) list \<Rightarrow>
     catalog_error + (string \<times> transparent_destination) list" where
  "catalog_add_routes cr [] acc = Inr acc"
| "catalog_add_routes cr ((route_name, route) # rest) acc =
    rbind (ok_or RouteUrlInvalid (url_parse cr (rt_base_url route))) (\<lambda>url.
      if url_scheme cr url \<noteq> ''https'' \<or> url_port_or_known_default cr url \<noteq> Some 443
      then catalog_add_routes cr rest acc
      else rbind (ok_or RouteWithoutHost (url_host_str cr url)) (\<lambda>h.
        rbind (map_error CatalogHost (canonical_dns_host cr h)) (\<lambda>host.
          if map_of acc host \<noteq> None then Inl (SharedHost host)
          else catalog_add_routes cr rest ((host, Injecting route_name (rt_profile route)) # acc))))"

fun catalog_add_tunnels ::
    "('u, 'z) crates_scheme \<Rightarrow> (string \<times> proxy_tunnel_config) list \<Rightarrow> (string \<times> transparent_destination) list \<Rightarrow>
     catalog_error + (string \<times> transparent_destination) list" where
  "catalog_add_tunnels cr [] acc = Inr acc"
| "catalog_add_tunnels cr ((tunnel_name, tunnel) # rest) acc =
    rbind (map_error CatalogHost (canonical_tunnel_host cr (tn_host tunnel))) (\<lambda>host.
      if map_of acc host \<noteq> None then Inl (SharedHost host)
      else catalog_add_tunnels cr rest
             ((host, Tunnel tunnel_name (tn_profile tunnel) host (tn_allow_private_ips tunnel)) # acc))"

definition from_config ::
    "('u, 'z) crates_scheme \<Rightarrow> (string \<times> proxy_route_config) list \<Rightarrow> (string \<times> proxy_tunnel_config) list \<Rightarrow>
     catalog_error + transparent_route_catalog" where
  "from_config cr routes tunnels =
    rbind (catalog_add_routes cr routes []) (\<lambda>acc.
    rbind (catalog_add_tunnels cr tunnels acc) (\<lambda>acc.
      Inr \<lparr>destinations_by_host = acc\<rparr>))"

definition destination_for_connect_authority ::
    "('u, 'z) crates_scheme \<Rightarrow> transparent_route_catalog \<Rightarrow> string \<Rightarrow> transparent_destination option" where
  "destination_for_connect_authority cr catalog authority =
    (case canonical_connect_authority cr authority of
       Inl _ \<Rightarrow> None
     | Inr host \<Rightarrow> map_of (destinations_by_host catalog) host)"

definition catalog_is_empty :: "transparent_route_catalog \<Rightarrow> bool" where
  "catalog_is_empty catalog \<longleftrightarrow> destinations_by_host catalog = []"

record proxy_session_credential =
  psc_session_id :: string
  psc_token :: string
  psc_token_hash :: bytes

definition proxy_session_token_hash :: "('u, 'z) crates_scheme \<Rightarrow> bytes \<Rightarrow> bytes" where
  "proxy_session_token_hash cr token = sha256 cr token"

definition mint_proxy_session_credential ::
    "('u, 'z) crates_scheme \<Rightarrow> bytes \<Rightarrow> bytes \<Rightarrow> proxy_session_credential" where
  "mint_proxy_session_credential cr session_id_bytes token_bytes =
    (let token = base64_url_safe_no_pad cr token_bytes
     in \<lparr>psc_session_id = base64_url_safe_no_pad cr session_id_bytes,
         psc_token = token,
         psc_token_hash = proxy_session_token_hash cr token\<rparr>)"

record authorized_connect =
  ac_destination :: transparent_destination
  ac_host :: string
  ac_token_hash :: bytes

datatype connect_error =
  NotConnect | NoAuthority | NoHostHeader | ConnectAuthority host_error | ConnectHostMismatch
| DestinationNotConfigured | ProxyCapabilityCount | ProxyAuthorizationText | NotBearer
| ProxyCapabilityMalformed

definition authorize_connect_request ::
    "('u, 'z) crates_scheme \<Rightarrow> string \<Rightarrow> uri \<Rightarrow> header_map \<Rightarrow> transparent_route_catalog \<Rightarrow>
     connect_error + authorized_connect" where
  "authorize_connect_request cr meth target headers catalog =
    (if meth \<noteq> ''CONNECT'' then Inl NotConnect
     else rbind (ok_or NoAuthority (uri_authority target)) (\<lambda>authority.
       rbind (ok_or NoHostHeader
          (case hm_get headers ''host'' of None \<Rightarrow> None | Some v \<Rightarrow> header_value_to_str cr v)) (\<lambda>host.
         if length (hm_get_all headers ''host'') \<noteq> 1 then Inl ConnectHostMismatch
         else rbind (map_error ConnectAuthority (canonical_connect_authority cr host)) (\<lambda>canonical_host.
           rbind (map_error ConnectAuthority (canonical_connect_authority cr authority)) (\<lambda>canonical_authority.
             if canonical_host \<noteq> canonical_authority then Inl ConnectHostMismatch
             else rbind (ok_or DestinationNotConfigured
                  (map_of (destinations_by_host catalog) canonical_authority)) (\<lambda>destination.
               let vs = hm_get_all headers ''proxy-authorization''
               in if length vs \<noteq> 1 then Inl ProxyCapabilityCount
                  else rbind (ok_or ProxyAuthorizationText (header_value_to_str cr (hd vs))) (\<lambda>v.
                    rbind (ok_or NotBearer
                        (case strip_prefix ''Bearer '' v of
                           None \<Rightarrow> None
                         | Some token \<Rightarrow> if token \<noteq> [] then Some token else None)) (\<lambda>token.
                      if list_ex (\<lambda>c. is_ascii_whitespace c \<or> is_ascii_control c) token
                      then Inl ProxyCapabilityMalformed
                      else Inr \<lparr>ac_destination = destination, ac_host = canonical_authority,
                                ac_token_hash = proxy_session_token_hash cr token\<rparr>))))))))"

section \<open>The catalog holds exactly the eligible destinations\<close>

text \<open>What a route or a tunnel of the configuration asks for.\<close>

definition route_destination ::
    "('u, 'z) crates_scheme \<Rightarrow> string \<times> proxy_route_config \<Rightarrow> string \<Rightarrow> transparent_destination \<Rightarrow> bool" where
  "route_destination cr nr host d \<longleftrightarrow>
     (\<exists>url h. url_parse cr (rt_base_url (snd nr)) = Some url \<and> url_scheme cr url = ''https''
        \<and> url_port_or_known_default cr url = Some 443 \<and> url_host_str cr url = Some h
        \<and> canonical_dns_host cr h = Inr host)
     \<and> d = Injecting (fst nr) (rt_profile (snd nr))"

definition tunnel_destination ::
    "('u, 'z) crates_scheme \<Rightarrow> string \<times> proxy_tunnel_config \<Rightarrow> string \<Rightarrow> transparent_destination \<Rightarrow> bool" where
  "tunnel_destination cr nt host d \<longleftrightarrow>
     canonical_tunnel_host cr (tn_host (snd nt)) = Inr host
     \<and> d = Tunnel (fst nt) (tn_profile (snd nt)) host (tn_allow_private_ips (snd nt))"

lemma catalog_add_routes_spec:
  "catalog_add_routes cr routes acc = Inr result \<Longrightarrow> distinct (map fst acc) \<Longrightarrow>
     distinct (map fst result)
     \<and> (\<forall>host d. (host, d) \<in> set result \<longleftrightarrow>
          (host, d) \<in> set acc \<or> (\<exists>nr\<in>set routes. route_destination cr nr host d))"
proof (induction cr routes acc rule: catalog_add_routes.induct)
  case (2 cr name route rest acc)
  from "2.prems"(1) obtain url where url: "url_parse cr (rt_base_url route) = Some url"
    by (auto simp: result_iff)
  show ?case
  proof (cases "url_scheme cr url \<noteq> ''https'' \<or> url_port_or_known_default cr url \<noteq> Some 443")
    case True
    with url have "\<not> route_destination cr (name, route) host d" for host d
      by (auto simp: route_destination_def)
    with True url 2 show ?thesis by auto
  next
    case False
    with "2.prems"(1) url obtain h host where h: "url_host_str cr url = Some h"
      "canonical_dns_host cr h = Inr host" "map_of acc host = None"
      and rest: "catalog_add_routes cr rest ((host, Injecting name (rt_profile route)) # acc) = Inr result"
      by (auto simp: result_iff)
    have "route_destination cr (name, route) host' d \<longleftrightarrow> host' = host \<and> d = Injecting name (rt_profile route)"
      for host' d
      using url False h by (auto simp: route_destination_def)
    moreover have "distinct (map fst ((host, Injecting name (rt_profile route)) # acc))"
      using "2.prems"(2) h(3) by (simp add: map_of_eq_None_iff)
    ultimately show ?thesis
      using "2.IH"(2) [OF False _ rest] h(3) by auto
  qed
qed simp

lemma catalog_add_tunnels_spec:
  "catalog_add_tunnels cr tunnels acc = Inr result \<Longrightarrow> distinct (map fst acc) \<Longrightarrow>
     distinct (map fst result)
     \<and> (\<forall>host d. (host, d) \<in> set result \<longleftrightarrow>
          (host, d) \<in> set acc \<or> (\<exists>nt\<in>set tunnels. tunnel_destination cr nt host d))"
proof (induction cr tunnels acc rule: catalog_add_tunnels.induct)
  case (2 cr name tunnel rest acc)
  from "2.prems"(1) obtain host where host: "canonical_tunnel_host cr (tn_host tunnel) = Inr host"
    "map_of acc host = None"
    and rest: "catalog_add_tunnels cr rest
      ((host, Tunnel name (tn_profile tunnel) host (tn_allow_private_ips tunnel)) # acc) = Inr result"
    by (auto simp: result_iff)
  have "tunnel_destination cr (name, tunnel) host' d \<longleftrightarrow>
      host' = host \<and> d = Tunnel name (tn_profile tunnel) host (tn_allow_private_ips tunnel)" for host' d
    using host by (auto simp: tunnel_destination_def)
  with 2 host rest show ?case
    by (auto simp: map_of_eq_None_iff)
qed simp


lemma from_config_spec:
  assumes "from_config cr routes tunnels = Inr catalog"
  shows "distinct (map fst (destinations_by_host catalog))"
    and "map_of (destinations_by_host catalog) host = Some d \<longleftrightarrow>
      (\<exists>nr\<in>set routes. route_destination cr nr host d) \<or> (\<exists>nt\<in>set tunnels. tunnel_destination cr nt host d)"
proof -
  from assms obtain acc where
    routes: "catalog_add_routes cr routes [] = Inr acc" and
    tunnels: "catalog_add_tunnels cr tunnels acc = Inr (destinations_by_host catalog)"
    by (auto simp: from_config_def result_iff)
  from catalog_add_routes_spec [OF routes] have acc: "distinct (map fst acc)"
    "\<And>host d. (host, d) \<in> set acc \<longleftrightarrow> (\<exists>nr\<in>set routes. route_destination cr nr host d)"
    by auto
  from catalog_add_tunnels_spec [OF tunnels acc(1)] acc(2)
  show *: "distinct (map fst (destinations_by_host catalog))"
    and "map_of (destinations_by_host catalog) host = Some d \<longleftrightarrow>
      (\<exists>nr\<in>set routes. route_destination cr nr host d) \<or> (\<exists>nt\<in>set tunnels. tunnel_destination cr nt host d)"
    by (auto simp: map_of_eq_Some_iff)
qed

lemma canonical_connect_authority_Inr:
  "canonical_connect_authority cr authority = Inr h \<Longrightarrow>
     \<exists>host. authority = host @ '':443'' \<and> CHR '':'' \<notin> set host \<and> canonical_dns_host cr host = Inr h"
  by (auto simp: canonical_connect_authority_def result_iff rsplit_once_Some_iff split: if_splits)

lemma canonical_tunnel_host_Inr: "canonical_tunnel_host cr host = Inr h \<Longrightarrow> canonical_dns_host cr host = Inr h"
  by (auto simp: canonical_tunnel_host_def split: if_splits)

lemma split_on_chars: "\<lbrakk>c \<in> set s; c \<noteq> d\<rbrakk> \<Longrightarrow> \<exists>x\<in>set (split_on d s). c \<in> set x"
  by (induction s) (auto split: list.splits)

lemma canonical_name_chars:
  assumes "canonical_name h" and "c \<in> set h"
  shows "is_ascii_alphanumeric c \<or> c = CHR ''-'' \<or> c = CHR ''.''"
  using assms split_on_chars [of c h "CHR ''.''"]
  by (fastforce simp: canonical_name_def list_all_iff valid_dns_label_def)

lemma canonical_name_authority:
  assumes "canonical_name h"
  shows "\<not> has_whitespace (h @ '':443'')" and "set h \<inter> set '':/?#@'' = {}"
proof -
  have chars: "byte c < 128 \<and> \<not> char_is_whitespace [c] \<and> c \<notin> set '':/?#@''" if "c \<in> set h" for c
    using canonical_name_chars [OF assms that]
    by (auto simp: is_ascii_alphanumeric_def is_ascii_alphabetic_def is_ascii_lowercase_def
        is_ascii_uppercase_def is_ascii_digit_def char_is_whitespace_def)
  then have "str_chars (h @ '':443'') = map (\<lambda>c. [c]) (h @ '':443'')"
    by (intro str_chars_ascii) (auto simp: list_all_iff)
  with chars show "\<not> has_whitespace (h @ '':443'')"
    by (auto simp: has_whitespace_def list_ex_iff char_is_whitespace_def)
  from chars show "set h \<inter> set '':/?#@'' = {}" by auto
qed

section \<open>Properties\<close>

text \<open>
  A catalog that is built has at most one destination for each host, and a host has a destination
  exactly when it is the canonical host of a configured standard HTTPS route or of a configured tunnel;
  the entry names that route or tunnel and its profile.
\<close>

lemma catalog_exact:
  assumes "from_config cr routes tunnels = Inr catalog"
  shows "distinct (map fst (destinations_by_host catalog))
    \<and> (\<forall>host d. map_of (destinations_by_host catalog) host = Some d \<longleftrightarrow>
         (\<exists>nr\<in>set routes. route_destination cr nr host d)
         \<or> (\<exists>nt\<in>set tunnels. tunnel_destination cr nt host d))"
  using from_config_spec [OF assms] by blast

definition sample_tunnel :: proxy_tunnel_config where
  "sample_tunnel = \<lparr>tn_profile = ''logs'', tn_host = ''Logs.Example.test'', tn_allow_private_ips = False\<rparr>"

definition sample_catalog :: transparent_route_catalog where
  "sample_catalog =
    \<lparr>destinations_by_host =
      [(''logs.example.test'', Tunnel ''logs'' ''logs'' ''logs.example.test'' False),
       (''api.example.test'', Injecting ''api'' ''example'')]\<rparr>"

lemma sample_catalog_valid:
  "from_config sample_crates [(''api'', sample_route)] [(''logs'', sample_tunnel)] = Inr sample_catalog"
  by code_simp

text \<open>
  C4. An authorised CONNECT request used the method CONNECT, named the same canonical host in its
  authority and in its only Host header, both with port 443, and carried exactly one bearer capability
  without white space or control characters; the destination is the catalog entry of that host and the
  digest is that of the capability.
\<close>

theorem authorized_connect_sound:
  assumes "authorize_connect_request cr meth target headers catalog = Inr ac"
  shows "meth = ''CONNECT''
    \<and> (\<exists>authority host_hv host.
         uri_authority target = Some authority \<and> headers ''host'' = [host_hv]
         \<and> header_value_to_str cr host_hv = Some host
         \<and> canonical_connect_authority cr authority = Inr (ac_host ac)
         \<and> canonical_connect_authority cr host = Inr (ac_host ac))
    \<and> map_of (destinations_by_host catalog) (ac_host ac) = Some (ac_destination ac)
    \<and> canonical_name (ac_host ac)
    \<and> (\<exists>hv token. headers ''proxy-authorization'' = [hv]
         \<and> header_value_to_str cr hv = Some (''Bearer '' @ token) \<and> token \<noteq> []
         \<and> \<not> list_ex (\<lambda>c. is_ascii_whitespace c \<or> is_ascii_control c) token
         \<and> ac_token_hash ac = proxy_session_token_hash cr token)"
proof -
  from assms obtain authority v host hv token where *:
    "meth = ''CONNECT''" "uri_authority target = Some authority" "headers ''host'' = [v]"
    "header_value_to_str cr v = Some host" "canonical_connect_authority cr host = Inr (ac_host ac)"
    "canonical_connect_authority cr authority = Inr (ac_host ac)"
    "map_of (destinations_by_host catalog) (ac_host ac) = Some (ac_destination ac)"
    "headers ''proxy-authorization'' = [hv]" "header_value_to_str cr hv = Some (''Bearer '' @ token)"
    "token \<noteq> []" "\<not> list_ex (\<lambda>c. is_ascii_whitespace c \<or> is_ascii_control c) token"
    "ac_token_hash ac = proxy_session_token_hash cr token"
    unfolding authorize_connect_request_def hm_get_def hm_get_all_def
    by (cases "headers ''host''"; cases "headers ''proxy-authorization''")
      (auto simp: result_iff Let_def split: if_splits option.splits)
  moreover from *(6) have "canonical_name (ac_host ac)"
    by (auto dest!: canonical_connect_authority_Inr canonical_dns_host_name)
  ultimately show ?thesis by blast
qed

theorem authorized_connect_sound_witness:
  "map_of (destinations_by_host sample_catalog) ''api.example.test'' = Some (Injecting ''api'' ''example'')
   \<and> (\<exists>ac. authorize_connect_request sample_crates ''CONNECT''
         \<lparr>uri_scheme = None, uri_authority = Some ''API.example.test.:443'', uri_path = [], uri_query = None\<rparr>
         (hm_insert ''host'' (HeaderValue ''api.example.test:443'' False)
           (hm_insert ''proxy-authorization'' (HeaderValue ''Bearer abc'' True) hm_new))
         sample_catalog = Inr ac \<and> canonical_name (ac_host ac))"
proof -
  let ?r = "authorize_connect_request sample_crates ''CONNECT''
         \<lparr>uri_scheme = None, uri_authority = Some ''API.example.test.:443'', uri_path = [], uri_query = None\<rparr>
         (hm_insert ''host'' (HeaderValue ''api.example.test:443'' False)
           (hm_insert ''proxy-authorization'' (HeaderValue ''Bearer abc'' True) hm_new))
         sample_catalog"
  have "is_ok ?r" by code_simp
  then obtain ac where ok: "?r = Inr ac" by (auto simp: is_ok_iff)
  from authorized_connect_sound [OF ok] ok show ?thesis
    by (auto simp: sample_catalog_def)
qed

text \<open>
  Canonical hosts are stable: the host a CONNECT authority stands for, written as an authority
  again, stands for itself, so looking a destination up twice cannot lead to another entry.
\<close>

lemma canonical_authority_roundtrip:
  assumes "host_parse_law cr" and "canonical_connect_authority cr authority = Inr h"
  shows "canonical_connect_authority cr (h @ '':443'') = Inr h"
proof -
  from assms(2) obtain host where "canonical_dns_host cr host = Inr h"
    by (auto dest: canonical_connect_authority_Inr)
  then have self: "canonical_dns_host cr h = Inr h" and name: "canonical_name h"
    using assms(1) by (blast intro: canonical_dns_host_idem canonical_dns_host_name)+
  have "rsplit_once CHR '':'' (h @ '':443'') = Some (h, ''443'')"
    by (simp add: rsplit_once_Some_iff)
  with self canonical_name_authority [OF name] show ?thesis
    by (auto simp: canonical_connect_authority_def list_ex_iff)
qed

end
