(* ===== verification/Tunnel_Address.thy ===== *)
theory Tunnel_Address
  imports AV_Prelude "HOL-Library.Word"
begin

unbundle bit_operations_syntax

text \<open>
  The classification of resolved tunnel addresses, \<open>tunnel_ip_allowed\<close> and \<open>ipv4_in_prefix\<close> of
  \<^verbatim>\<open>crates/av-credential-proxy/src/catalog.rs\<close>. An IPv4 address is its 32-bit word, an IPv6 address its
  eight 16-bit segments; the tests of \<open>std::net\<close> are written out as the standard library has them. The
  properties restate the bit tests as tables of address ranges.
\<close>

section \<open>Definitions\<close>

datatype ipv6_addr =
  Ipv6Addr "16 word" "16 word" "16 word" "16 word" "16 word" "16 word" "16 word" "16 word"

datatype ip_addr = IpV4 "32 word" | IpV6 ipv6_addr

definition octet0 :: "32 word \<Rightarrow> nat" where
  "octet0 a = unat a div 2 ^ 24"

definition octet1 :: "32 word \<Rightarrow> nat" where
  "octet1 a = unat a div 2 ^ 16 mod 256"

definition octet2 :: "32 word \<Rightarrow> nat" where
  "octet2 a = unat a div 2 ^ 8 mod 256"

definition ipv4_new :: "nat \<Rightarrow> nat \<Rightarrow> nat \<Rightarrow> nat \<Rightarrow> 32 word" where
  "ipv4_new a b c d = of_nat (a * 2 ^ 24 + b * 2 ^ 16 + c * 2 ^ 8 + d)"

text \<open>\<open>std::net::Ipv4Addr\<close>.\<close>

definition v4_is_unspecified :: "32 word \<Rightarrow> bool" where
  "v4_is_unspecified a \<longleftrightarrow> a = 0"

definition v4_is_loopback :: "32 word \<Rightarrow> bool" where
  "v4_is_loopback a \<longleftrightarrow> octet0 a = 127"

definition v4_is_link_local :: "32 word \<Rightarrow> bool" where
  "v4_is_link_local a \<longleftrightarrow> octet0 a = 169 \<and> octet1 a = 254"

definition v4_is_multicast :: "32 word \<Rightarrow> bool" where
  "v4_is_multicast a \<longleftrightarrow> 224 \<le> octet0 a \<and> octet0 a \<le> 239"

definition v4_is_broadcast :: "32 word \<Rightarrow> bool" where
  "v4_is_broadcast a \<longleftrightarrow> a = ipv4_new 255 255 255 255"

definition v4_is_documentation :: "32 word \<Rightarrow> bool" where
  "v4_is_documentation a \<longleftrightarrow>
     (octet0 a = 192 \<and> octet1 a = 0 \<and> octet2 a = 2)
     \<or> (octet0 a = 198 \<and> octet1 a = 51 \<and> octet2 a = 100)
     \<or> (octet0 a = 203 \<and> octet1 a = 0 \<and> octet2 a = 113)"

definition v4_is_private :: "32 word \<Rightarrow> bool" where
  "v4_is_private a \<longleftrightarrow>
     octet0 a = 10
     \<or> (octet0 a = 172 \<and> 16 \<le> octet1 a \<and> octet1 a \<le> 31)
     \<or> (octet0 a = 192 \<and> octet1 a = 168)"

text \<open>\<open>std::net::Ipv6Addr\<close>.\<close>

fun v6_to_ipv4_mapped :: "ipv6_addr \<Rightarrow> 32 word option" where
  "v6_to_ipv4_mapped (Ipv6Addr a b c d e f g h) =
    (if a = 0 \<and> b = 0 \<and> c = 0 \<and> d = 0 \<and> e = 0 \<and> f = 0xffff
     then Some (of_nat (unat g * 2 ^ 16 + unat h)) else None)"

fun v6_segment0 :: "ipv6_addr \<Rightarrow> 16 word" where
  "v6_segment0 (Ipv6Addr a b c d e f g h) = a"

fun v6_segment1 :: "ipv6_addr \<Rightarrow> 16 word" where
  "v6_segment1 (Ipv6Addr a b c d e f g h) = b"

definition v6_is_unspecified :: "ipv6_addr \<Rightarrow> bool" where
  "v6_is_unspecified a \<longleftrightarrow> a = Ipv6Addr 0 0 0 0 0 0 0 0"

definition v6_is_loopback :: "ipv6_addr \<Rightarrow> bool" where
  "v6_is_loopback a \<longleftrightarrow> a = Ipv6Addr 0 0 0 0 0 0 0 1"

definition v6_is_multicast :: "ipv6_addr \<Rightarrow> bool" where
  "v6_is_multicast a \<longleftrightarrow> v6_segment0 a AND 0xff00 = 0xff00"

definition v6_is_unicast_link_local :: "ipv6_addr \<Rightarrow> bool" where
  "v6_is_unicast_link_local a \<longleftrightarrow> v6_segment0 a AND 0xffc0 = 0xfe80"

definition v6_is_unique_local :: "ipv6_addr \<Rightarrow> bool" where
  "v6_is_unique_local a \<longleftrightarrow> v6_segment0 a AND 0xfe00 = 0xfc00"

text \<open>\<open>u32::MAX.checked_shl(n)\<close> has no value for a shift of 32 or more.\<close>

definition ipv4_in_prefix :: "32 word \<Rightarrow> 32 word \<Rightarrow> nat \<Rightarrow> bool" where
  "ipv4_in_prefix address network len =
    (let shift = 32 - len;
         mask = (if shift < 32 then push_bit shift (- 1) else 0)
     in address AND mask = network AND mask)"

definition tunnel_ipv4_allowed :: "32 word \<Rightarrow> bool \<Rightarrow> bool" where
  "tunnel_ipv4_allowed a allow_private_ips =
    (if v4_is_unspecified a
        \<or> v4_is_loopback a
        \<or> v4_is_link_local a
        \<or> v4_is_multicast a
        \<or> v4_is_broadcast a
        \<or> v4_is_documentation a
        \<or> octet0 a = 0
        \<or> 240 \<le> octet0 a
        \<or> ipv4_in_prefix a (ipv4_new 192 0 0 0) 24
     then False
     else allow_private_ips
       \<or> (\<not> v4_is_private a
          \<and> \<not> ipv4_in_prefix a (ipv4_new 100 64 0 0) 10
          \<and> \<not> ipv4_in_prefix a (ipv4_new 198 18 0 0) 15))"

definition tunnel_ip_allowed :: "ip_addr \<Rightarrow> bool \<Rightarrow> bool" where
  "tunnel_ip_allowed address allow_private_ips =
    (case address of
       IpV4 a \<Rightarrow> tunnel_ipv4_allowed a allow_private_ips
     | IpV6 a \<Rightarrow>
         (case v6_to_ipv4_mapped a of
            Some v4 \<Rightarrow> tunnel_ipv4_allowed v4 allow_private_ips
          | None \<Rightarrow>
              if v6_is_unspecified a
                 \<or> v6_is_loopback a
                 \<or> v6_is_multicast a
                 \<or> v6_is_unicast_link_local a
                 \<or> (v6_segment0 a = 0x2001 \<and> v6_segment1 a = 0x0db8)
                 \<or> (v6_segment0 a = 0x2001 \<and> v6_segment1 a = 0)
                 \<or> v6_segment0 a = 0x2002
              then False
              else if v6_is_unique_local a then allow_private_ips
              else v6_segment0 a AND 0xe000 = 0x2000))"

section \<open>Masks and prefixes\<close>

text \<open>Two words agree under a mask of high bits exactly when their quotients agree.\<close>

lemma and_high_mask_eq_iff:
  fixes v w :: "'a::len word"
  shows "v AND NOT (mask k) = w AND NOT (mask k) \<longleftrightarrow> unat v div 2 ^ k = unat w div 2 ^ k"
proof -
  have keep: "drop_bit k (u AND NOT (mask k)) = drop_bit k u" for u :: "'a word"
    by (rule bit_word_eqI) (auto simp: bit_simps dest: bit_imp_le_length)
  have clear: "u AND NOT (mask k) = push_bit k (drop_bit k u)" for u :: "'a word"
    by (rule bit_word_eqI) (auto simp: bit_simps dest: bit_imp_le_length)
  have "v AND NOT (mask k) = w AND NOT (mask k) \<longleftrightarrow> drop_bit k v = drop_bit k w"
    by (metis keep clear)
  also have "\<dots> \<longleftrightarrow> unat v div 2 ^ k = unat w div 2 ^ k"
    by (simp only: word_unat_eq_iff unat_drop_bit_eq) (simp add: drop_bit_eq_div)
  finally show ?thesis .
qed

lemma ipv4_in_prefix_iff:
  assumes "len \<le> 32"
  shows "ipv4_in_prefix a network len \<longleftrightarrow> unat a div 2 ^ (32 - len) = unat network div 2 ^ (32 - len)"
proof (cases "len = 0")
  case True
  have "unat x div 2 ^ 32 = 0" for x :: "32 word"
    using unsigned_less [of x, where 'a = nat] by simp
  with True show ?thesis by (simp add: ipv4_in_prefix_def)
next
  case False
  with assms show ?thesis by (simp add: ipv4_in_prefix_def Let_def and_high_mask_eq_iff)
qed


section \<open>Ranges\<close>

definition in_range :: "nat \<Rightarrow> nat \<times> nat \<Rightarrow> bool" where
  "in_range n r \<longleftrightarrow> fst r \<le> n \<and> n \<le> snd r"

text \<open>Never allowed: 0/8, 127/8, 169.254/16, 192.0.0/24, 192.0.2/24, 198.51.100/24, 203.0.113/24 and
  everything from 224/4 up.\<close>

definition denied_ipv4 :: "(nat \<times> nat) list" where
  "denied_ipv4 =
    [(0x00000000, 0x00ffffff), (0x7f000000, 0x7fffffff), (0xa9fe0000, 0xa9feffff),
     (0xc0000000, 0xc00000ff), (0xc0000200, 0xc00002ff), (0xc6336400, 0xc63364ff),
     (0xcb007100, 0xcb0071ff), (0xe0000000, 0xffffffff)]"

text \<open>Allowed on request only: 10/8, 100.64/10, 172.16/12, 192.168/16 and 198.18/15.\<close>

definition opt_in_ipv4 :: "(nat \<times> nat) list" where
  "opt_in_ipv4 =
    [(0x0a000000, 0x0affffff), (0x64400000, 0x647fffff), (0xac100000, 0xac1fffff),
     (0xc0a80000, 0xc0a8ffff), (0xc6120000, 0xc613ffff)]"

lemma div_eq_iff_range:
  assumes "0 < k"
  shows "n div k = m \<longleftrightarrow> m * k \<le> n \<and> n < m * k + (k::nat)"
proof
  assume "n div k = m"
  then show "m * k \<le> n \<and> n < m * k + k"
    using div_times_less_eq_dividend [of n k] dividend_less_div_times [OF assms, of n] by auto
next
  assume "m * k \<le> n \<and> n < m * k + k"
  then show "n div k = m"
    by (intro div_nat_eqI) (simp_all add: algebra_simps)
qed

lemma div_mod_joined:
  "n div (b * c) = x \<and> n div b mod c = y \<longleftrightarrow> (y < c \<or> c = 0 \<and> x = 0) \<and> n div b = x * c + (y::nat)"
proof -
  have "n div (b * c) = n div b div c"
    by (simp add: div_mult2_eq)
  then show ?thesis by (cases "c = 0") auto
qed

lemma octet01_iff: "octet0 a = x \<and> octet1 a = y \<longleftrightarrow> y < 256 \<and> unat a div 2 ^ 16 = x * 256 + y"
  using div_mod_joined [of "unat a" "2 ^ 16" 256 x y] by (auto simp: octet0_def octet1_def)

lemma octet012_iff:
  "octet0 a = x \<and> octet1 a = y \<and> octet2 a = z \<longleftrightarrow>
     y < 256 \<and> z < 256 \<and> unat a div 2 ^ 8 = (x * 256 + y) * 256 + z"
  using div_mod_joined [of "unat a" "2 ^ 8" 256 "x * 256 + y" z] octet01_iff [of a x y]
  by (auto simp: octet2_def)


lemma octet1_between_iff:
  "octet0 a = x \<and> lo \<le> octet1 a \<and> octet1 a \<le> hi \<and> hi < 256 \<longleftrightarrow>
     hi < 256 \<and> x * 256 + lo \<le> unat a div 2 ^ 16 \<and> unat a div 2 ^ 16 \<le> x * 256 + hi"
  using octet01_iff [of a x "octet1 a"] div_mod_joined [of "unat a" "2 ^ 16" 256 "octet0 a" "octet1 a"]
  by (auto simp: octet0_def octet1_def)

lemma unat_ipv4_new:
  assumes "a < 256" "b < 256" "c < 256" "d < 256"
  shows "unat (ipv4_new a b c d) = a * 2 ^ 24 + b * 2 ^ 16 + c * 2 ^ 8 + d"
  unfolding ipv4_new_def unat_of_nat by (rule mod_less) (use assms in simp)

text \<open>Each test of the code as a range.\<close>

lemma v4_ranges:
  fixes a :: "32 word"
  defines "n \<equiv> unat a"
  shows "v4_is_loopback a \<longleftrightarrow> in_range n (0x7f000000, 0x7fffffff)"
    and "v4_is_link_local a \<longleftrightarrow> in_range n (0xa9fe0000, 0xa9feffff)"
    and "v4_is_documentation a \<longleftrightarrow> in_range n (0xc0000200, 0xc00002ff)
      \<or> in_range n (0xc6336400, 0xc63364ff) \<or> in_range n (0xcb007100, 0xcb0071ff)"
    and "octet0 a = 0 \<longleftrightarrow> in_range n (0, 0x00ffffff)"
    and "v4_is_multicast a \<or> 240 \<le> octet0 a \<longleftrightarrow> in_range n (0xe0000000, 0xffffffff)"
    and "v4_is_private a \<longleftrightarrow> in_range n (0x0a000000, 0x0affffff)
      \<or> in_range n (0xac100000, 0xac1fffff) \<or> in_range n (0xc0a80000, 0xc0a8ffff)"
    and "ipv4_in_prefix a (ipv4_new 192 0 0 0) 24 \<longleftrightarrow> in_range n (0xc0000000, 0xc00000ff)"
    and "ipv4_in_prefix a (ipv4_new 100 64 0 0) 10 \<longleftrightarrow> in_range n (0x64400000, 0x647fffff)"
    and "ipv4_in_prefix a (ipv4_new 198 18 0 0) 15 \<longleftrightarrow> in_range n (0xc6120000, 0xc613ffff)"
proof -
  have bound: "n < 2 ^ 32" unfolding n_def using unsigned_less [of a, where 'a = nat] by simp
  have o0: "octet0 a = n div 2 ^ 24" by (simp add: octet0_def n_def)
  show "v4_is_loopback a \<longleftrightarrow> in_range n (0x7f000000, 0x7fffffff)"
    unfolding v4_is_loopback_def o0 by (auto simp: div_eq_iff_range in_range_def)
  show "v4_is_link_local a \<longleftrightarrow> in_range n (0xa9fe0000, 0xa9feffff)"
    unfolding v4_is_link_local_def octet01_iff n_def [symmetric] by (auto simp: div_eq_iff_range in_range_def)
  show "v4_is_documentation a \<longleftrightarrow> in_range n (0xc0000200, 0xc00002ff)
      \<or> in_range n (0xc6336400, 0xc63364ff) \<or> in_range n (0xcb007100, 0xcb0071ff)"
    unfolding v4_is_documentation_def octet012_iff n_def [symmetric] by (auto simp: div_eq_iff_range in_range_def)
  show "octet0 a = 0 \<longleftrightarrow> in_range n (0, 0x00ffffff)"
    unfolding o0 by (auto simp: div_eq_iff_range in_range_def)
  show "v4_is_multicast a \<or> 240 \<le> octet0 a \<longleftrightarrow> in_range n (0xe0000000, 0xffffffff)"
    unfolding v4_is_multicast_def o0 in_range_def using bound by auto
  have "v4_is_private a \<longleftrightarrow> octet0 a = 10 \<or> (octet0 a = 172 \<and> 16 \<le> octet1 a \<and> octet1 a \<le> 31 \<and> 31 < (256::nat))
      \<or> (octet0 a = 192 \<and> octet1 a = 168)"
    by (simp add: v4_is_private_def)
  then show "v4_is_private a \<longleftrightarrow> in_range n (0x0a000000, 0x0affffff)
      \<or> in_range n (0xac100000, 0xac1fffff) \<or> in_range n (0xc0a80000, 0xc0a8ffff)"
    unfolding octet1_between_iff octet01_iff n_def [symmetric] unfolding o0
    by (auto simp: div_eq_iff_range in_range_def)
  show "ipv4_in_prefix a (ipv4_new 192 0 0 0) 24 \<longleftrightarrow> in_range n (0xc0000000, 0xc00000ff)"
    and "ipv4_in_prefix a (ipv4_new 100 64 0 0) 10 \<longleftrightarrow> in_range n (0x64400000, 0x647fffff)"
    and "ipv4_in_prefix a (ipv4_new 198 18 0 0) 15 \<longleftrightarrow> in_range n (0xc6120000, 0xc613ffff)"
    by (auto simp: ipv4_in_prefix_iff unat_ipv4_new div_eq_iff_range in_range_def n_def)
qed


lemma tunnel_ipv4_allowed_iff:
  "tunnel_ipv4_allowed a b \<longleftrightarrow>
     \<not> list_ex (in_range (unat a)) denied_ipv4 \<and> (b \<or> \<not> list_ex (in_range (unat a)) opt_in_ipv4)"
proof -
  have broadcast: "v4_is_broadcast a \<Longrightarrow> 240 \<le> octet0 a"
    unfolding v4_is_broadcast_def octet0_def by (simp add: unat_ipv4_new)
  have unspecified: "v4_is_unspecified a \<Longrightarrow> octet0 a = 0"
    by (simp add: v4_is_unspecified_def octet0_def)
  have "tunnel_ipv4_allowed a b \<longleftrightarrow>
      \<not> (v4_is_loopback a \<or> v4_is_link_local a \<or> (v4_is_multicast a \<or> 240 \<le> octet0 a)
         \<or> v4_is_documentation a \<or> octet0 a = 0 \<or> ipv4_in_prefix a (ipv4_new 192 0 0 0) 24)
      \<and> (b \<or> \<not> (v4_is_private a \<or> ipv4_in_prefix a (ipv4_new 100 64 0 0) 10
                 \<or> ipv4_in_prefix a (ipv4_new 198 18 0 0) 15))"
    using broadcast unspecified by (auto simp: tunnel_ipv4_allowed_def)
  then show ?thesis
    unfolding v4_ranges by (simp add: denied_ipv4_def opt_in_ipv4_def) blast
qed

lemma segment_mask_iff:
  fixes s :: "16 word"
  shows "s AND 0xff00 = 0xff00 \<longleftrightarrow> unat s div 2 ^ 8 = 0xff"
    and "s AND 0xffc0 = 0xfe80 \<longleftrightarrow> unat s div 2 ^ 6 = 0x3fa"
    and "s AND 0xfe00 = 0xfc00 \<longleftrightarrow> unat s div 2 ^ 9 = 0x7e"
    and "s AND 0xe000 = 0x2000 \<longleftrightarrow> unat s div 2 ^ 13 = 1"
proof -
  have masks: "(0xff00 :: 16 word) = - 0x100" "(0xffc0 :: 16 word) = - 0x40"
    "(0xfe00 :: 16 word) = - 0x200" "(0xe000 :: 16 word) = - 0x2000"
    by simp_all
  show "s AND 0xff00 = 0xff00 \<longleftrightarrow> unat s div 2 ^ 8 = 0xff"
    and "s AND 0xffc0 = 0xfe80 \<longleftrightarrow> unat s div 2 ^ 6 = 0x3fa"
    and "s AND 0xfe00 = 0xfc00 \<longleftrightarrow> unat s div 2 ^ 9 = 0x7e"
    and "s AND 0xe000 = 0x2000 \<longleftrightarrow> unat s div 2 ^ 13 = 1"
    using and_high_mask_eq_iff [of s 8 "0xff00"] and_high_mask_eq_iff [of s 6 "0xfe80"]
      and_high_mask_eq_iff [of s 9 "0xfc00"] and_high_mask_eq_iff [of s 13 "0x2000"]
    by (simp_all add: mask_eq_decr_exp masks)
qed

section \<open>Properties\<close>

text \<open>
  An IPv4 address may be used for a tunnel exactly when it is in none of the ranges that are always
  denied, and outside the private, shared and benchmark ranges unless the tunnel opts in to them; an
  IPv4-mapped IPv6 address is judged as the IPv4 address it contains.
\<close>

lemma tunnel_ipv4_ranges:
  "(tunnel_ip_allowed (IpV4 a) opt_in \<longleftrightarrow>
     \<not> list_ex (in_range (unat a)) denied_ipv4 \<and> \<not> (\<not> opt_in \<and> list_ex (in_range (unat a)) opt_in_ipv4))
   \<and> tunnel_ip_allowed (IpV6 (Ipv6Addr 0 0 0 0 0 0xffff hi lo)) opt_in =
     tunnel_ip_allowed (IpV4 (of_nat (unat hi * 2 ^ 16 + unat lo))) opt_in"
  by (simp_all add: tunnel_ip_allowed_def tunnel_ipv4_allowed_iff)

text \<open>
  An IPv6 address that is not IPv4-mapped may be used for a tunnel exactly when it is a global
  unicast address (2000::/3) outside 2001::/32, 2001:db8::/32 and 2002::/16, or a unique local
  address (fc00::/7) and the tunnel opts in.
\<close>

lemma tunnel_ipv6_ranges:
  assumes "v6_to_ipv4_mapped a = None"
  shows "tunnel_ip_allowed (IpV6 a) opt_in \<longleftrightarrow>
    (opt_in \<and> 0xfc00 \<le> unat (v6_segment0 a) \<and> unat (v6_segment0 a) \<le> 0xfdff)
    \<or> (0x2000 \<le> unat (v6_segment0 a) \<and> unat (v6_segment0 a) \<le> 0x3fff
       \<and> v6_segment0 a \<noteq> 0x2002
       \<and> \<not> (v6_segment0 a = 0x2001 \<and> (v6_segment1 a = 0 \<or> v6_segment1 a = 0x0db8)))"
proof -
  have zero: "v6_is_unspecified a \<or> v6_is_loopback a \<Longrightarrow> unat (v6_segment0 a) = 0"
    by (auto simp: v6_is_unspecified_def v6_is_loopback_def)
  have "unat (v6_segment0 a) = unat (0x2002 :: 16 word)" if "v6_segment0 a = 0x2002"
    by (simp add: that)
  moreover have "unat (v6_segment0 a) = unat (0x2001 :: 16 word)" if "v6_segment0 a = 0x2001"
    by (simp add: that)
  ultimately show ?thesis
    using assms zero
    unfolding tunnel_ip_allowed_def v6_is_multicast_def v6_is_unicast_link_local_def v6_is_unique_local_def
      segment_mask_iff
    by (auto simp: div_eq_iff_range)
qed

end
