(* ===== verification/Net_Text.thy ===== *)
theory Net_Text
  imports Tunnel_Address
begin

text \<open>
  The text forms of addresses that the sources parse with the standard library: \<^verbatim>\<open>IpAddr\<close> and
  \<^verbatim>\<open>SocketAddr\<close>. A reader takes the text that is left and returns a value with the rest, as the parser of
  \<^verbatim>\<open>std::net\<close> does; a reader that fails consumes nothing. The lemmas show that the parser reads back every
  IPv4 address in its dotted form.
\<close>

section \<open>Numbers\<close>

definition digit_value :: "nat \<Rightarrow> char \<Rightarrow> nat option" where
  "digit_value radix c =
    (let v = (if is_ascii_digit c then byte c - 48
              else if is_ascii_lowercase c then byte c - 87
              else if is_ascii_uppercase c then byte c - 55
              else radix)
     in if v < radix then Some v else None)"

text \<open>The digits at the front, most significant first.\<close>

fun read_digits :: "nat \<Rightarrow> string \<Rightarrow> nat list \<times> string" where
  "read_digits radix [] = ([], [])"
| "read_digits radix (c # cs) =
    (case digit_value radix c of
       None \<Rightarrow> ([], c # cs)
     | Some v \<Rightarrow> (case read_digits radix cs of (vs, rest) \<Rightarrow> (v # vs, rest)))"

text \<open>\<open>read_number\<close>: at most \<open>max_digits\<close> digits, a value up to \<open>limit\<close>, and a leading zero only where allowed.\<close>

definition read_number :: "nat \<Rightarrow> nat option \<Rightarrow> bool \<Rightarrow> nat \<Rightarrow> string \<Rightarrow> (nat \<times> string) option" where
  "read_number radix max_digits allow_zero_prefix limit s =
    (let (vs, rest) = read_digits radix s;
         number = foldl (\<lambda>acc v. acc * radix + v) 0 vs
     in if vs = [] \<or> (case max_digits of None \<Rightarrow> False | Some m \<Rightarrow> m < length vs) \<or> limit < number
           \<or> (\<not> allow_zero_prefix \<and> hd s = CHR ''0'' \<and> 1 < length vs)
        then None else Some (number, rest))"

definition read_given_char :: "char \<Rightarrow> string \<Rightarrow> string option" where
  "read_given_char c s = (case s of [] \<Rightarrow> None | d # rest \<Rightarrow> if d = c then Some rest else None)"

text \<open>\<open>read_separator\<close>: the separator is expected before every item but the first.\<close>

definition read_separator :: "char \<Rightarrow> nat \<Rightarrow> (string \<Rightarrow> ('a \<times> string) option) \<Rightarrow> string \<Rightarrow> ('a \<times> string) option" where
  "read_separator sep index inner s =
    (if index = 0 then inner s else Option.bind (read_given_char sep s) inner)"

section \<open>Addresses\<close>

definition read_octet :: "string \<Rightarrow> (nat \<times> string) option" where
  "read_octet = read_number 10 (Some 3) False 255"

definition read_ipv4_addr :: "string \<Rightarrow> (32 word \<times> string) option" where
  "read_ipv4_addr s =
    Option.bind (read_octet s) (\<lambda>(a, s).
    Option.bind (read_separator CHR ''.'' 1 read_octet s) (\<lambda>(b, s).
    Option.bind (read_separator CHR ''.'' 2 read_octet s) (\<lambda>(c, s).
    Option.bind (read_separator CHR ''.'' 3 read_octet s) (\<lambda>(d, s).
      Some (ipv4_new a b c d, s)))))"

text \<open>\<open>read_groups\<close>: the groups read from index \<open>i\<close> on, whether they end in an IPv4 address, and the rest.\<close>

function read_groups :: "nat \<Rightarrow> nat \<Rightarrow> string \<Rightarrow> nat list \<times> bool \<times> string" where
  "read_groups limit i s =
    (if limit \<le> i then ([], False, s)
     else case (if Suc i < limit then read_separator CHR '':'' i read_ipv4_addr s else None) of
       Some (a, rest) \<Rightarrow> ([unat a div 2 ^ 16, unat a mod 2 ^ 16], True, rest)
     | None \<Rightarrow>
         (case read_separator CHR '':'' i (read_number 16 (Some 4) True 65535) s of
            None \<Rightarrow> ([], False, s)
          | Some (g, rest) \<Rightarrow> (case read_groups limit (Suc i) rest of (gs, v4, rest') \<Rightarrow> (g # gs, v4, rest'))))"
  by pat_completeness auto
termination by (relation "measure (\<lambda>(limit, i, _). limit - i)") auto

declare read_groups.simps [simp del]

definition ipv6_of_groups :: "nat list \<Rightarrow> ipv6_addr" where
  "ipv6_of_groups gs =
    Ipv6Addr (of_nat (gs ! 0)) (of_nat (gs ! 1)) (of_nat (gs ! 2)) (of_nat (gs ! 3))
      (of_nat (gs ! 4)) (of_nat (gs ! 5)) (of_nat (gs ! 6)) (of_nat (gs ! 7))"

definition read_ipv6_addr :: "string \<Rightarrow> (ipv6_addr \<times> string) option" where
  "read_ipv6_addr s =
    (case read_groups 8 0 s of (front, front_ipv4, rest) \<Rightarrow>
       if length front = 8 then Some (ipv6_of_groups front, rest)
       else if front_ipv4 then None
       else Option.bind (Option.bind (read_given_char CHR '':'' rest) (read_given_char CHR '':'')) (\<lambda>rest.
         case read_groups (8 - (length front + 1)) 0 rest of (tail, _, rest) \<Rightarrow>
           Some (ipv6_of_groups (front @ replicate (8 - length front - length tail) 0 @ tail), rest)))"

definition read_ip_addr :: "string \<Rightarrow> (ip_addr \<times> string) option" where
  "read_ip_addr s =
    (case read_ipv4_addr s of
       Some (a, rest) \<Rightarrow> Some (IpV4 a, rest)
     | None \<Rightarrow> map_option (map_prod IpV6 id) (read_ipv6_addr s))"

text \<open>\<open>parse_with\<close>: the whole text must be read.\<close>

definition parse_whole :: "(string \<Rightarrow> ('a \<times> string) option) \<Rightarrow> string \<Rightarrow> 'a option" where
  "parse_whole reader s = (case reader s of Some (x, []) \<Rightarrow> Some x | _ \<Rightarrow> None)"

definition parse_ip_addr :: "string \<Rightarrow> ip_addr option" where
  "parse_ip_addr = parse_whole read_ip_addr"

fun ip_is_loopback :: "ip_addr \<Rightarrow> bool" where
  "ip_is_loopback (IpV4 a) = v4_is_loopback a"
| "ip_is_loopback (IpV6 a) = v6_is_loopback a"

text \<open>A socket address: the address, the scope of an IPv6 address and the port.\<close>

record socket_addr =
  sk_ip :: ip_addr
  sk_scope :: nat
  sk_port :: nat

definition read_port :: "string \<Rightarrow> (nat \<times> string) option" where
  "read_port s = Option.bind (read_given_char CHR '':'' s) (read_number 10 None True 65535)"

definition read_scope :: "string \<Rightarrow> nat \<times> string" where
  "read_scope s =
    (case Option.bind (read_given_char CHR ''%'' s) (read_number 10 None True (2 ^ 32 - 1)) of
       None \<Rightarrow> (0, s)
     | Some (scope, rest) \<Rightarrow> (scope, rest))"

definition read_socket_addr_v4 :: "string \<Rightarrow> (socket_addr \<times> string) option" where
  "read_socket_addr_v4 s =
    Option.bind (read_ipv4_addr s) (\<lambda>(a, s).
    Option.bind (read_port s) (\<lambda>(port, s).
      Some (\<lparr>sk_ip = IpV4 a, sk_scope = 0, sk_port = port\<rparr>, s)))"

definition read_socket_addr_v6 :: "string \<Rightarrow> (socket_addr \<times> string) option" where
  "read_socket_addr_v6 s =
    Option.bind (read_given_char CHR ''['' s) (\<lambda>s.
    Option.bind (read_ipv6_addr s) (\<lambda>(a, s).
    case read_scope s of (scope, s) \<Rightarrow>
    Option.bind (read_given_char CHR '']'' s) (\<lambda>s.
    Option.bind (read_port s) (\<lambda>(port, s).
      Some (\<lparr>sk_ip = IpV6 a, sk_scope = scope, sk_port = port\<rparr>, s)))))"

definition parse_socket_addr :: "string \<Rightarrow> socket_addr option" where
  "parse_socket_addr =
    parse_whole (\<lambda>s. case read_socket_addr_v4 s of Some r \<Rightarrow> Some r | None \<Rightarrow> read_socket_addr_v6 s)"

section \<open>Reading back an IPv4 address\<close>

text \<open>The three digits at most of an octet, without leading zeros.\<close>

definition octet_text :: "nat \<Rightarrow> string" where
  "octet_text n =
    (if n < 10 then [char_of (48 + n)]
     else if n < 100 then [char_of (48 + n div 10), char_of (48 + n mod 10)]
     else [char_of (48 + n div 100), char_of (48 + n div 10 mod 10), char_of (48 + n mod 10)])"

definition ipv4_text :: "nat \<Rightarrow> nat \<Rightarrow> nat \<Rightarrow> nat \<Rightarrow> string" where
  "ipv4_text a b c d = octet_text a @ ''.'' @ octet_text b @ ''.'' @ octet_text c @ ''.'' @ octet_text d"

lemma byte_digit: "v < 10 \<Longrightarrow> byte (char_of (48 + v)) = 48 + v"
  by (simp add: of_char_of)

lemma digit_value_digit: "v < 10 \<Longrightarrow> digit_value 10 (char_of (48 + v)) = Some v"
  using byte_digit [of v] by (simp add: digit_value_def is_ascii_digit_def)

lemma read_digits_Cons: "v < 10 \<Longrightarrow> read_digits 10 (char_of (48 + v) # s) = (case read_digits 10 s of (vs, rest) \<Rightarrow> (v # vs, rest))"
  by (simp add: digit_value_digit)

lemma read_digits_stop: "\<not> (\<exists>c r. s = c # r \<and> digit_value 10 c \<noteq> None) \<Longrightarrow> read_digits 10 s = ([], s)"
  by (cases s) auto

lemma zero_digit_iff: "v < 10 \<Longrightarrow> char_of (48 + v) = CHR ''0'' \<longleftrightarrow> v = (0::nat)"
proof
  assume "v < 10" and "char_of (48 + v) = CHR ''0''"
  then show "v = 0" using byte_digit [of v] by simp
next
  have "char_of (48::nat) = CHR ''0''" by code_simp
  moreover assume "v = 0"
  ultimately show "char_of (48 + v) = CHR ''0''" by simp
qed

lemma octet_text_digits:
  assumes "n < 256" and "\<not> (\<exists>c r. s = c # r \<and> digit_value 10 c \<noteq> None)"
  shows "read_digits 10 (octet_text n @ s) =
    (if n < 10 then [n] else if n < 100 then [n div 10, n mod 10] else [n div 100, n div 10 mod 10, n mod 10], s)"
proof -
  have "n div 100 < 10" "n < 100 \<Longrightarrow> n div 10 < 10" using assms(1) by simp_all
  then show ?thesis
    using read_digits_stop [OF assms(2)] by (simp add: octet_text_def read_digits_Cons del: read_digits.simps(2))
qed

lemma read_octet_text:
  assumes "n < 256" and "\<not> (\<exists>c r. s = c # r \<and> digit_value 10 c \<noteq> None)"
  shows "read_octet (octet_text n @ s) = Some (n, s)"
proof -
  let ?vs = "if n < 10 then [n] else if n < 100 then [n div 10, n mod 10] else [n div 100, n div 10 mod 10, n mod 10]"
  have number: "foldl (\<lambda>acc v. acc * 10 + v) 0 ?vs = n"
  proof -
    have "n div 100 = n div 10 div 10" by (simp flip: div_mult2_eq)
    then show ?thesis by simp
  qed
  have nonzero: "hd (octet_text n @ s) = CHR ''0'' \<longrightarrow> n < 10"
  proof
    assume zero: "hd (octet_text n @ s) = CHR ''0''"
    show "n < 10"
    proof (rule ccontr)
      assume big: "\<not> n < 10"
      then have "hd (octet_text n @ s) = char_of (48 + (if n < 100 then n div 10 else n div 100))"
        by (simp add: octet_text_def)
      moreover have "(if n < 100 then n div 10 else n div 100) < 10" using assms(1) by (auto simp: less_mult_imp_div_less)
      ultimately have "(if n < 100 then n div 10 else n div 100) = 0" using zero zero_digit_iff by metis
      then show False using big by (simp split: if_splits)
    qed
  qed
  have "?vs \<noteq> [] \<and> length ?vs \<le> 3 \<and> (n < 10 \<longrightarrow> length ?vs = 1)" by simp
  then show ?thesis
    using number nonzero assms(1) octet_text_digits [OF assms]
    unfolding read_octet_def read_number_def by (auto simp del: One_nat_def)
qed

lemma dot_stops: "\<not> (\<exists>c r. CHR ''.'' # s = c # r \<and> digit_value 10 c \<noteq> None)"
  by (simp add: digit_value_def is_ascii_digit_def is_ascii_lowercase_def is_ascii_uppercase_def)

lemma parse_ipv4_text:
  assumes "a < 256" "b < 256" "c < 256" "d < 256"
  shows "parse_ip_addr (ipv4_text a b c d) = Some (IpV4 (ipv4_new a b c d))"
  using assms
  by (simp add: parse_ip_addr_def parse_whole_def read_ip_addr_def read_ipv4_addr_def ipv4_text_def
      read_octet_text [OF _ dot_stops] read_octet_text [where s = "[]", simplified] read_separator_def read_given_char_def)

end
