(* ===== verification/Configuration.thy ===== *)
theory Configuration
  imports Catalog Connectors Net_Text
begin

text \<open>
  The configuration of the server, \<^verbatim>\<open>src/config.rs\<close>: its data, the expansion of provider operations into
  proxy routes and the validation that runs before anything starts. A \<^verbatim>\<open>BTreeMap\<close> is the list of its entries
  in key order. The variables of the process environment are a function argument. The messages of errors
  are left out; an error that names a part carries the name.
\<close>

section \<open>Data\<close>

datatype config_mode = Static | Managed

datatype managed_postgres_ssl_mode = Require | VerifyCa | VerifyFull

record managed_postgres_config =
  mp_host :: string
  mp_port :: nat
  mp_database :: string
  mp_ssl_mode :: managed_postgres_ssl_mode
  mp_role :: string

record managed_config =
  mg_database_url_file :: string
  mg_database_credentials_file :: string
  mg_postgres :: "managed_postgres_config option"
  mg_database_reload_interval_seconds :: nat
  mg_initial_owner_oidc_subject :: string

datatype auth_mode = Oidc | Basic | OidcOrBasic | GithubOrBasic | Disabled

datatype oidc_signing_algorithm = Rs256 | Rs384 | Rs512 | Ps256 | Ps384 | Ps512 | Es256 | Es384 | EdDsa

record basic_user_config =
  buc_username :: string
  buc_password_hash_file :: string

record github_auth_config =
  gh_client_id :: string
  gh_client_secret_file :: string
  gh_allowed_user_ids :: "nat list"
  gh_allowed_organizations :: "string list"

record auth_config =
  ac_mode :: auth_mode
  ac_issuer :: string
  ac_client_id :: string
  ac_audiences :: "string list"
  ac_scopes :: "string list"
  ac_signing_algorithms :: "oidc_signing_algorithm list"
  ac_allowed_groups :: "string list"
  ac_group_claim :: string
  ac_basic_users :: "basic_user_config list"
  ac_github :: "github_auth_config option"

text \<open>\<^verbatim>\<open>ConnectorConfig\<close>: a connector keeps nothing but its configuration.\<close>

type_synonym connector_config = connector

fun connector_base_url :: "connector_config \<Rightarrow> string option" where
  "connector_base_url (OpenBaoC config) = Some (ob_base_url config)"
| "connector_base_url (InfisicalC config) = Some (inf_base_url config)"
| "connector_base_url GoogleSecretManagerC = None"

fun connector_kind :: "connector_config \<Rightarrow> string" where
  "connector_kind (OpenBaoC _) = ''openbao''"
| "connector_kind (InfisicalC _) = ''infisical''"
| "connector_kind GoogleSecretManagerC = ''google_secret_manager''"

datatype provider_operation_config =
  CloudflareAccountTokenVerify (po_profile: string) (po_account_id: string) (po_secret_key: string)

record transparent_proxy_config =
  tp_listen :: string
  tp_proxy_url :: string
  tp_transport_tls_certificate_file :: string
  tp_transport_tls_private_key_file :: string
  tp_ca_certificate_file :: string
  tp_ca_private_key_file :: string
  tp_session_ttl_seconds :: nat
  tp_session_max_lifetime_seconds :: nat

record config =
  cf_listen :: string
  cf_public_url :: string
  cf_mode :: config_mode
  cf_managed :: "managed_config option"
  cf_auth :: auth_config
  cf_connectors :: "(string \<times> connector_config) list"
  cf_profiles :: "(string \<times> profile_config) list"
  cf_provider_operations :: "(string \<times> provider_operation_config) list"
  cf_proxy_routes :: "(string \<times> proxy_route_config) list"
  cf_proxy_tunnels :: "(string \<times> proxy_tunnel_config) list"
  cf_transparent_proxy :: "transparent_proxy_config option"
  cf_max_connector_concurrency :: nat
  cf_api_rate_limit_per_second :: nat
  cf_api_rate_limit_burst :: nat

text \<open>Every \<^verbatim>\<open>bail!\<close> and every failed \<^verbatim>\<open>context\<close> of the validation.\<close>

datatype origin_error = PublicUrlInvalid | PublicUrlNotHttps | PublicUrlNotOrigin

datatype managed_error =
  ManagedUnused | ManagedMissing | ManagedSourceCount | ManagedUrlPath | ManagedCredentialsPath
| ManagedPostgresMissing | ManagedPostgresText | ManagedPostgresRole | ManagedPostgresUnused
| ManagedReloadRange | ManagedReloadUnsupported | ManagedOwnerEmpty

datatype auth_config_error =
  OidcClientMissing | OidcGroupsMissing | OidcIssuerInvalid | OidcIssuerUntrusted
| GithubMissing | GithubNotLocal | GithubIncomplete | GithubOrganizationInvalid | DisabledAuthNotLocal
| GithubUnused | BasicUsersMissing | BasicUserNameInvalid | BasicUserRepeated | BasicHashFilePath
| OidcAlgorithmsMissing

datatype connector_config_error =
  ConnectorName | ConnectorUrlInvalid | ConnectorUrlExtras | ConnectorUrlNotHttps
| IdentityIdEmpty | NamespaceInvalid | MountPathInvalid | KubernetesRoleEmpty | CredentialFilePath

datatype profile_config_error =
  ProfileName | ProfileConnectorUnknown | ProfileEnvironmentMissing | ProfileProjectMissing
| InfisicalSecretPath | OpenBaoSecretPath | GoogleDynamic | GoogleExportsMissing | GoogleExtraFields
| DynamicTtlRange | DynamicExportsMissing | DynamicInfisicalFields | DynamicInfisicalName | DynamicOpenBaoFields

datatype export_error = ExportName | ExportGoogleResource | ExportResource | ExportAllowedKeys | ExportField

datatype transparent_error =
  TransparentUnmanaged | TransparentListen | ApiListen | TransparentListenerShared | ProxyUrlInvalid
| ProxyUrlNotOrigin | TransparentFiles | SessionTtlRange | SessionLifetimeRange | TransparentUnused
| TransparentCatalog catalog_error | TransparentCatalogEmpty

datatype config_error =
  OperationConflict string | OperationAccountId string
| OriginE origin_error | ManagedE managed_error | AuthE auth_config_error
| ConcurrencyRange | RateLimitRange | RateBurstRange
| ConnectorE string connector_config_error | ProfileE string profile_config_error | ExportE string string export_error
| RouteProfileUnknown string | RouteE string route_error | TunnelProfileUnknown string | TunnelE string route_error
| TransparentE transparent_error

section \<open>Text\<close>

text \<open>\<open>str::trim_matches\<close>.\<close>

definition trim_matches :: "(char \<Rightarrow> bool) \<Rightarrow> string \<Rightarrow> string" where
  "trim_matches P s = rev (dropWhile P (rev (dropWhile P s)))"

text \<open>\<open>Path::is_absolute\<close>, and the components by which absolute paths compare.\<close>

definition is_absolute :: "string \<Rightarrow> bool" where
  "is_absolute path \<longleftrightarrow> prefix ''/'' path"

definition path_components :: "string \<Rightarrow> string list" where
  "path_components path = filter (\<lambda>part. part \<noteq> [] \<and> part \<noteq> ''.'') (split_on CHR ''/'' path)"

definition is_loopback_host :: "string \<Rightarrow> bool" where
  "is_loopback_host host \<longleftrightarrow>
     eq_ignore_ascii_case host ''localhost''
     \<or> (case parse_ip_addr host of None \<Rightarrow> False | Some address \<Rightarrow> ip_is_loopback address)"

definition valid_postgres_identifier :: "string \<Rightarrow> bool" where
  "valid_postgres_identifier v =
    (case v of
       [] \<Rightarrow> False
     | c # cs \<Rightarrow>
         (is_ascii_lowercase c \<or> c = CHR ''_'') \<and> length v \<le> 63
         \<and> list_all (\<lambda>d. is_ascii_lowercase d \<or> is_ascii_digit d \<or> d = CHR ''_'') cs)"

definition validate_name :: "string \<Rightarrow> bool" where
  "validate_name name \<longleftrightarrow>
     name \<noteq> [] \<and> list_all (\<lambda>c. is_ascii_lowercase c \<or> is_ascii_digit c \<or> c = CHR ''-'') name"

definition validate_environment_name :: "string \<Rightarrow> bool" where
  "validate_environment_name v =
    (case v of
       [] \<Rightarrow> False
     | c # cs \<Rightarrow>
         (c = CHR ''_'' \<or> is_ascii_alphabetic c)
         \<and> list_all (\<lambda>d. d = CHR ''_'' \<or> is_ascii_alphanumeric d) cs)"

definition validate_backend_field_name :: "string \<Rightarrow> bool" where
  "validate_backend_field_name v \<longleftrightarrow>
     v \<noteq> [] \<and> length v \<le> 256
     \<and> list_all (\<lambda>c. is_ascii_alphanumeric c \<or> c = CHR ''_'' \<or> c = CHR ''-'' \<or> c = CHR ''.'') v"

definition valid_resource_segment :: "string \<Rightarrow> bool" where
  "valid_resource_segment segment \<longleftrightarrow>
     segment \<noteq> []
     \<and> list_all (\<lambda>c. is_ascii_alphanumeric c \<or> c = CHR ''-'' \<or> c = CHR ''_'' \<or> c = CHR ''.'') segment"

definition valid_google_secret_resource :: "string \<Rightarrow> bool" where
  "valid_google_secret_resource v =
    (case split_on CHR ''/'' v of
       [p, project, s, secret, w, version] \<Rightarrow>
         p = ''projects'' \<and> s = ''secrets'' \<and> w = ''versions''
         \<and> valid_resource_segment project \<and> valid_resource_segment secret \<and> valid_resource_segment version
     | [p, project, l, location, s, secret, w, version] \<Rightarrow>
         p = ''projects'' \<and> l = ''locations'' \<and> s = ''secrets'' \<and> w = ''versions''
         \<and> valid_resource_segment project \<and> valid_resource_segment location
         \<and> valid_resource_segment secret \<and> valid_resource_segment version
     | _ \<Rightarrow> False)"

definition valid_github_organization :: "string \<Rightarrow> bool" where
  "valid_github_organization organization \<longleftrightarrow>
     1 \<le> length organization \<and> length organization \<le> 39
     \<and> is_ascii_alphanumeric (hd organization) \<and> is_ascii_alphanumeric (last organization)
     \<and> list_all (\<lambda>c. is_ascii_alphanumeric c \<or> c = CHR ''-'') organization"

definition validate_openbao_mount_path :: "string \<Rightarrow> bool" where
  "validate_openbao_mount_path mount_path =
    (let normalized = trim_matches (\<lambda>c. c = CHR ''/'') mount_path
     in normalized \<noteq> []
        \<and> list_all (\<lambda>segment. segment \<noteq> []
              \<and> list_all (\<lambda>c. is_ascii_alphanumeric c \<or> c = CHR ''-'' \<or> c = CHR ''_'') segment)
            (split_on CHR ''/'' normalized))"

definition validate_openbao_secret_path :: "string \<Rightarrow> bool" where
  "validate_openbao_secret_path secret_path =
    (let normalized = trim_matches (\<lambda>c. c = CHR ''/'') secret_path;
         lower = to_ascii_lowercase normalized
     in normalized \<noteq> []
        \<and> \<not> list_ex (\<lambda>c. c = CHR ''?'' \<or> c = CHR ''#'' \<or> c = CHR 0x5C) secret_path
        \<and> \<not> sublist ''%2e'' lower \<and> \<not> sublist ''%2f'' lower \<and> \<not> sublist ''%5c'' lower
        \<and> list_all (\<lambda>segment. segment \<noteq> [] \<and> segment \<noteq> ''.'' \<and> segment \<noteq> ''..'') (split_on CHR ''/'' normalized))"

section \<open>Provider operations\<close>

definition valid_cloudflare_account_id :: "string \<Rightarrow> bool" where
  "valid_cloudflare_account_id account_id \<longleftrightarrow>
     length account_id = 32
     \<and> list_all (\<lambda>c. is_ascii_digit c \<or> (byte CHR ''a'' \<le> byte c \<and> byte c \<le> byte CHR ''f'')) account_id"

fun provider_route :: "provider_operation_config \<Rightarrow> proxy_route_config" where
  "provider_route (CloudflareAccountTokenVerify profile account_id secret_key) =
    \<lparr>rt_profile = profile,
     rt_base_url = ''https://api.cloudflare.com'',
     rt_secret_key = [],
     rt_header = [],
     rt_header_prefix = [],
     rt_injection = Some (InjBearer secret_key),
     rt_body_substitutions = [],
     rt_allowed_methods = [''GET''],
     rt_allowed_exact_paths = [''/client/v4/accounts/'' @ account_id @ ''/tokens/verify''],
     rt_allowed_path_prefixes = [],
     rt_allowed_request_headers = [''accept''],
     rt_allowed_response_headers = [''content-type''],
     rt_allowed_query_parameters = [],
     rt_allowed_content_types = [],
     rt_max_body_bytes = 1024,
     rt_response_mode = Buffered,
     rt_max_response_bytes = 1024 * 1024,
     rt_websocket = None\<rparr>"

text \<open>\<open>BTreeMap::insert\<close> into the entries in key order.\<close>

fun sorted_insert :: "string \<Rightarrow> 'a \<Rightarrow> (string \<times> 'a) list \<Rightarrow> (string \<times> 'a) list" where
  "sorted_insert k v [] = [(k, v)]"
| "sorted_insert k v ((k', v') # others) =
    (if k = k' then (k, v) # others
     else if k < k' then (k, v) # (k', v') # others
     else (k', v') # sorted_insert k v others)"

fun expand_operations ::
    "(string \<times> provider_operation_config) list \<Rightarrow> (string \<times> proxy_route_config) list
     \<Rightarrow> config_error + (string \<times> proxy_route_config) list" where
  "expand_operations [] routes = Inr routes"
| "expand_operations ((name, operation) # operations) routes =
    (if map_of routes name \<noteq> None then Inl (OperationConflict name)
     else if \<not> valid_cloudflare_account_id (po_account_id operation) then Inl (OperationAccountId name)
     else expand_operations operations (sorted_insert name (provider_route operation) routes))"

definition expand_provider_operations :: "config \<Rightarrow> config_error + config" where
  "expand_provider_operations config =
    rbind (expand_operations (cf_provider_operations config) (cf_proxy_routes config)) (\<lambda>routes.
      Inr (config\<lparr>cf_provider_operations := [], cf_proxy_routes := routes\<rparr>))"

section \<open>Validation\<close>

type_synonym variables = "string \<Rightarrow> string option"

text \<open>Where a condition of the code ends the validation with an error.\<close>

definition reject_if :: "bool \<Rightarrow> 'e \<Rightarrow> 'e + unit" where
  "reject_if b e = (if b then Inl e else Inr ())"

definition url_host_is_loopback :: "('u, 'z) crates_scheme \<Rightarrow> 'u \<Rightarrow> bool" where
  "url_host_is_loopback cr url = (case url_host_str cr url of None \<Rightarrow> False | Some host \<Rightarrow> is_loopback_host host)"

definition validate_public_url :: "('u, 'z) crates_scheme \<Rightarrow> config \<Rightarrow> origin_error + 'u" where
  "validate_public_url cr config =
    rbind (ok_or PublicUrlInvalid (url_parse cr (cf_public_url config))) (\<lambda>public_url.
      if url_scheme cr public_url \<noteq> ''https'' \<and> \<not> url_host_is_loopback cr public_url then Inl PublicUrlNotHttps
      else if url_host_str cr public_url = None \<or> has_url_credentials cr public_url
           \<or> url_query cr public_url \<noteq> None \<or> url_fragment cr public_url \<noteq> None
           \<or> url_path cr public_url \<notin> {[], ''/''}
      then Inl PublicUrlNotOrigin
      else Inr public_url)"

definition validate_managed_postgres :: "managed_postgres_config \<Rightarrow> managed_error + unit" where
  "validate_managed_postgres config =
    (if trim (mp_host config) = [] \<or> has_control (mp_host config)
        \<or> trim (mp_database config) = [] \<or> has_control (mp_database config)
     then Inl ManagedPostgresText
     else if \<not> valid_postgres_identifier (mp_role config) then Inl ManagedPostgresRole
     else Inr ())"

definition validate_managed_source :: "managed_config \<Rightarrow> managed_error + unit" where
  "validate_managed_source managed =
    (let has_url = mg_database_url_file managed \<noteq> [];
         has_credentials = mg_database_credentials_file managed \<noteq> []
     in
     rbind (reject_if (has_url = has_credentials) ManagedSourceCount) (\<lambda>_.
     rbind (reject_if (has_url \<and> \<not> is_absolute (mg_database_url_file managed)) ManagedUrlPath) (\<lambda>_.
     rbind (reject_if (has_credentials \<and> \<not> is_absolute (mg_database_credentials_file managed)) ManagedCredentialsPath) (\<lambda>_.
     rbind (if has_credentials
            then rbind (ok_or ManagedPostgresMissing (mg_postgres managed)) validate_managed_postgres
            else reject_if (mg_postgres managed \<noteq> None) ManagedPostgresUnused) (\<lambda>_.
     rbind (reject_if (mg_database_reload_interval_seconds managed \<noteq> 0
              \<and> \<not> (1 \<le> mg_database_reload_interval_seconds managed \<and> mg_database_reload_interval_seconds managed \<le> 3600))
             ManagedReloadRange) (\<lambda>_.
     rbind (reject_if (0 < mg_database_reload_interval_seconds managed \<and> \<not> has_credentials) ManagedReloadUnsupported) (\<lambda>_.
       reject_if (trim (mg_initial_owner_oidc_subject managed) = []) ManagedOwnerEmpty)))))))"

definition validate_managed :: "config \<Rightarrow> managed_error + unit" where
  "validate_managed config =
    (case (cf_mode config, cf_managed config) of
       (Static, None) \<Rightarrow> Inr ()
     | (Static, Some _) \<Rightarrow> Inl ManagedUnused
     | (Managed, Some managed) \<Rightarrow> validate_managed_source managed
     | (Managed, None) \<Rightarrow> Inl ManagedMissing)"

definition validate_oidc :: "('u, 'z) crates_scheme \<Rightarrow> auth_config \<Rightarrow> auth_config_error + unit" where
  "validate_oidc cr auth =
    (if ac_issuer auth = [] \<or> ac_client_id auth = [] then Inl OidcClientMissing
     else if ac_allowed_groups auth = [] then Inl OidcGroupsMissing
     else rbind (ok_or OidcIssuerInvalid (url_parse cr (ac_issuer auth))) (\<lambda>issuer.
       reject_if
         ((url_scheme cr issuer \<noteq> ''https'' \<and> \<not> (url_scheme cr issuer = ''http'' \<and> url_host_is_loopback cr issuer))
          \<or> url_host_str cr issuer = None \<or> has_url_credentials cr issuer
          \<or> url_query cr issuer \<noteq> None \<or> url_fragment cr issuer \<noteq> None)
         OidcIssuerUntrusted))"

definition validate_github :: "('u, 'z) crates_scheme \<Rightarrow> config \<Rightarrow> 'u \<Rightarrow> auth_config_error + unit" where
  "validate_github cr config public_url =
    rbind (ok_or GithubMissing (ac_github (cf_auth config))) (\<lambda>github.
      if cf_mode config \<noteq> Managed \<or> \<not> url_host_is_loopback cr public_url then Inl GithubNotLocal
      else if trim (gh_client_id github) = []
           \<or> (gh_allowed_user_ids github = [] \<and> gh_allowed_organizations github = [])
           \<or> \<not> is_absolute (gh_client_secret_file github)
      then Inl GithubIncomplete
      else for_each (\<lambda>organization. reject_if (\<not> valid_github_organization organization) GithubOrganizationInvalid)
             (gh_allowed_organizations github))"

text \<open>The host of the listener, without its port and the brackets of an IPv6 address.\<close>

definition listen_host :: "string \<Rightarrow> string" where
  "listen_host listen =
    (case rsplit_once CHR '':'' listen of
       None \<Rightarrow> listen
     | Some (host, _) \<Rightarrow> trim_matches (\<lambda>c. c = CHR ''['' \<or> c = CHR '']'') host)"

definition validate_auth_mode ::
    "('u, 'z) crates_scheme \<Rightarrow> variables \<Rightarrow> config \<Rightarrow> 'u \<Rightarrow> auth_config_error + unit" where
  "validate_auth_mode cr vars config public_url =
    (case ac_mode (cf_auth config) of
       Oidc \<Rightarrow> validate_oidc cr (cf_auth config)
     | OidcOrBasic \<Rightarrow> validate_oidc cr (cf_auth config)
     | GithubOrBasic \<Rightarrow> validate_github cr config public_url
     | Basic \<Rightarrow> Inr ()
     | Disabled \<Rightarrow>
         reject_if (\<not> is_loopback_host (listen_host (cf_listen config)) \<or> vars ''AV_ALLOW_INSECURE_AUTH'' = None)
           DisabledAuthNotLocal)"

text \<open>The loop over the Basic users; \<open>seen\<close> is the set \<open>basic_usernames\<close>.\<close>

fun validate_basic_users :: "string list \<Rightarrow> basic_user_config list \<Rightarrow> auth_config_error + unit" where
  "validate_basic_users seen [] = Inr ()"
| "validate_basic_users seen (user # users) =
    (if buc_username user = [] \<or> CHR '':'' \<in> set (buc_username user) \<or> has_control (buc_username user)
     then Inl BasicUserNameInvalid
     else if buc_username user \<in> set seen then Inl BasicUserRepeated
     else if \<not> is_absolute (buc_password_hash_file user) then Inl BasicHashFilePath
     else validate_basic_users (buc_username user # seen) users)"

definition validate_auth ::
    "('u, 'z) crates_scheme \<Rightarrow> variables \<Rightarrow> config \<Rightarrow> 'u \<Rightarrow> auth_config_error + unit" where
  "validate_auth cr vars config public_url =
    (let auth = cf_auth config
     in
     rbind (validate_auth_mode cr vars config public_url) (\<lambda>_.
     rbind (reject_if (ac_mode auth \<noteq> GithubOrBasic \<and> ac_github auth \<noteq> None) GithubUnused) (\<lambda>_.
     rbind (reject_if (ac_mode auth \<in> {Basic, OidcOrBasic, GithubOrBasic} \<and> ac_basic_users auth = [] \<and> cf_mode config = Static)
             BasicUsersMissing) (\<lambda>_.
     rbind (validate_basic_users [] (ac_basic_users auth)) (\<lambda>_.
       reject_if (ac_mode auth \<in> {Oidc, OidcOrBasic} \<and> ac_signing_algorithms auth = []) OidcAlgorithmsMissing)))))"

definition validate_limits :: "config \<Rightarrow> config_error + unit" where
  "validate_limits config =
    rbind (reject_if (\<not> (1 \<le> cf_max_connector_concurrency config \<and> cf_max_connector_concurrency config \<le> 256)) ConcurrencyRange) (\<lambda>_.
    rbind (reject_if (\<not> (1 \<le> cf_api_rate_limit_per_second config \<and> cf_api_rate_limit_per_second config \<le> 10000)) RateLimitRange) (\<lambda>_.
      reject_if (\<not> (1 \<le> cf_api_rate_limit_burst config \<and> cf_api_rate_limit_burst config \<le> 50000)) RateBurstRange))"

definition allow_insecure_connector_http :: "('u, 'z) crates_scheme \<Rightarrow> variables \<Rightarrow> config \<Rightarrow> bool" where
  "allow_insecure_connector_http cr vars config \<longleftrightarrow>
     (case url_parse cr (cf_public_url config) of None \<Rightarrow> False | Some url \<Rightarrow> url_host_is_loopback cr url)
     \<and> vars ''AV_ALLOW_INSECURE_CONNECTORS'' = Some ''integration-tests-only''"

text \<open>The credential files of a connector, once the other fields of its authentication are checked.\<close>

fun connector_credential_files ::
    "('u, 'z) crates_scheme \<Rightarrow> connector_config \<Rightarrow> connector_config_error + string list" where
  "connector_credential_files cr (InfisicalC config) =
    (case inf_auth config of
       InfisicalKubernetes identity_id token_file \<Rightarrow>
         if identity_id = [] then Inl IdentityIdEmpty else Inr [token_file]
     | InfisicalUniversal client_id_file client_secret_file \<Rightarrow> Inr [client_id_file, client_secret_file]
     | InfisicalToken token_file \<Rightarrow> Inr [token_file])"
| "connector_credential_files cr (OpenBaoC config) =
    (if ob_namespace config \<noteq> [] \<and> header_value_from_str cr (ob_namespace config) = None then Inl NamespaceInvalid
     else case ob_auth config of
       OpenBaoAppRole role_id_file secret_id_file mount_path \<Rightarrow>
         if \<not> validate_openbao_mount_path mount_path then Inl MountPathInvalid
         else Inr [role_id_file, secret_id_file]
     | OpenBaoKubernetes role token_file mount_path \<Rightarrow>
         if role = [] then Inl KubernetesRoleEmpty
         else if \<not> validate_openbao_mount_path mount_path then Inl MountPathInvalid
         else Inr [token_file]
     | OpenBaoToken token_file \<Rightarrow> Inr [token_file])"
| "connector_credential_files cr GoogleSecretManagerC = Inr []"

definition validate_connector_auth ::
    "('u, 'z) crates_scheme \<Rightarrow> connector_config \<Rightarrow> connector_config_error + unit" where
  "validate_connector_auth cr connector =
    rbind (connector_credential_files cr connector) (\<lambda>credential_files.
      reject_if (list_ex (\<lambda>path. \<not> is_absolute path) credential_files) CredentialFilePath)"

definition validate_connector ::
    "('u, 'z) crates_scheme \<Rightarrow> bool \<Rightarrow> string \<Rightarrow> connector_config \<Rightarrow> connector_config_error + unit" where
  "validate_connector cr allow_insecure_http name connector =
    rbind (reject_if (\<not> validate_name name) ConnectorName) (\<lambda>_.
    rbind (case connector_base_url connector of
             None \<Rightarrow> Inr ()
           | Some base_url \<Rightarrow>
               rbind (ok_or ConnectorUrlInvalid (url_parse cr base_url)) (\<lambda>base.
                 if url_host_str cr base = None \<or> has_url_credentials cr base
                    \<or> url_query cr base \<noteq> None \<or> url_fragment cr base \<noteq> None
                 then Inl ConnectorUrlExtras
                 else reject_if (url_scheme cr base \<noteq> ''https'' \<and> \<not> (url_scheme cr base = ''http'' \<and> allow_insecure_http))
                        ConnectorUrlNotHttps)) (\<lambda>_.
      validate_connector_auth cr connector))"

text \<open>The checks of a profile that depend on the kind of its connector.\<close>

fun validate_profile_kind :: "connector_config \<Rightarrow> profile_config \<Rightarrow> profile_config_error + unit" where
  "validate_profile_kind (InfisicalC _) profile =
    (if pf_environment profile = [] then Inl ProfileEnvironmentMissing
     else if pf_dynamic_secret profile = None \<and> pf_project_id profile = [] then Inl ProfileProjectMissing
     else reject_if (\<not> prefix ''/'' (pf_secret_path profile)) InfisicalSecretPath)"
| "validate_profile_kind (OpenBaoC _) profile =
    reject_if (\<not> validate_openbao_secret_path (pf_secret_path profile)) OpenBaoSecretPath"
| "validate_profile_kind GoogleSecretManagerC profile =
    (if pf_dynamic_secret profile \<noteq> None then Inl GoogleDynamic
     else if pf_exports profile = [] then Inl GoogleExportsMissing
     else reject_if (pf_project_id profile \<noteq> [] \<or> pf_environment profile \<noteq> []
              \<or> pf_secret_path profile \<noteq> ''/'' \<or> pf_allowed_keys profile \<noteq> []) GoogleExtraFields)"

text \<open>
  The checks of a dynamic secret. The last arm is unreachable in the code, where it panics; a profile of
  Google Secret Manager with a dynamic secret has been rejected before.
\<close>

definition validate_dynamic_secret ::
    "connector_config \<Rightarrow> profile_config \<Rightarrow> dynamic_secret_config \<Rightarrow> profile_config_error + unit" where
  "validate_dynamic_secret connector profile dynamic =
    (if \<not> (30 \<le> ds_ttl_seconds dynamic \<and> ds_ttl_seconds dynamic \<le> 24 * 60 * 60) then Inl DynamicTtlRange
     else if pf_exports profile = [] then Inl DynamicExportsMissing
     else case connector of
       InfisicalC _ \<Rightarrow>
         if ds_name dynamic = [] \<or> ds_project_slug dynamic = [] \<or> pf_project_id profile \<noteq> []
         then Inl DynamicInfisicalFields
         else reject_if (\<not> validate_name (ds_name dynamic) \<or> \<not> validate_name (ds_project_slug dynamic)) DynamicInfisicalName
     | OpenBaoC _ \<Rightarrow> reject_if (ds_name dynamic \<noteq> [] \<or> ds_project_slug dynamic \<noteq> []) DynamicOpenBaoFields
     | GoogleSecretManagerC \<Rightarrow> Inl GoogleDynamic)"

definition validate_export ::
    "connector_config \<Rightarrow> profile_config \<Rightarrow> string \<Rightarrow> profile_export_config \<Rightarrow> export_error + unit" where
  "validate_export connector profile local_name export =
    (if \<not> validate_environment_name local_name then Inl ExportName
     else if connector = GoogleSecretManagerC
     then reject_if (pe_field export \<noteq> [] \<or> \<not> valid_google_secret_resource (pe_resource export)) ExportGoogleResource
     else if pe_resource export \<noteq> [] then Inl ExportResource
     else if pf_allowed_keys profile \<noteq> [] then Inl ExportAllowedKeys
     else reject_if (\<not> validate_backend_field_name (if pe_field export = [] then local_name else pe_field export)) ExportField)"

definition validate_profile ::
    "(string \<times> connector_config) list \<Rightarrow> string \<Rightarrow> profile_config \<Rightarrow> config_error + unit" where
  "validate_profile connectors name profile =
    rbind (reject_if (\<not> validate_name name) (ProfileE name ProfileName)) (\<lambda>_.
    rbind (ok_or (ProfileE name ProfileConnectorUnknown) (map_of connectors (pf_connector profile))) (\<lambda>connector.
    rbind (map_error (ProfileE name) (validate_profile_kind connector profile)) (\<lambda>_.
    rbind (case pf_dynamic_secret profile of
             None \<Rightarrow> Inr ()
           | Some dynamic \<Rightarrow> map_error (ProfileE name) (validate_dynamic_secret connector profile dynamic)) (\<lambda>_.
      for_each (\<lambda>(local_name, export). map_error (ExportE name local_name) (validate_export connector profile local_name export))
        (pf_exports profile)))))"

definition validate_route ::
    "('u, 'z) crates_scheme \<Rightarrow> bool \<Rightarrow> config \<Rightarrow> string \<Rightarrow> proxy_route_config \<Rightarrow> config_error + unit" where
  "validate_route cr allow_insecure_http config name route =
    (if map_of (cf_profiles config) (rt_profile route) = None then Inl (RouteProfileUnknown name)
     else map_error (RouteE name)
            (validate_proxy_route cr name route allow_insecure_http (cf_transparent_proxy config \<noteq> None)))"

definition validate_tunnel ::
    "('u, 'z) crates_scheme \<Rightarrow> config \<Rightarrow> string \<Rightarrow> proxy_tunnel_config \<Rightarrow> config_error + unit" where
  "validate_tunnel cr config name tunnel =
    (if map_of (cf_profiles config) (tn_profile tunnel) = None then Inl (TunnelProfileUnknown name)
     else map_error (TunnelE name) (validate_proxy_tunnel cr name tunnel))"

definition validate_proxy_origin :: "('u, 'z) crates_scheme \<Rightarrow> 'u \<Rightarrow> bool" where
  "validate_proxy_origin cr proxy_url \<longleftrightarrow>
     url_scheme cr proxy_url = ''https''
     \<and> (case url_host_str cr proxy_url of None \<Rightarrow> False | Some host \<Rightarrow> parse_ip_addr host = None)
     \<and> url_port cr proxy_url \<noteq> None \<and> \<not> has_url_credentials cr proxy_url
     \<and> url_query cr proxy_url = None \<and> url_fragment cr proxy_url = None \<and> url_path cr proxy_url \<in> {[], ''/''}"

definition validate_transparent_proxy ::
    "('u, 'z) crates_scheme \<Rightarrow> config \<Rightarrow> transparent_proxy_config \<Rightarrow> transparent_error + unit" where
  "validate_transparent_proxy cr config proxy =
    rbind (reject_if (cf_mode config \<noteq> Managed) TransparentUnmanaged) (\<lambda>_.
    rbind (ok_or TransparentListen (parse_socket_addr (tp_listen proxy))) (\<lambda>listener.
    rbind (ok_or ApiListen (parse_socket_addr (cf_listen config))) (\<lambda>api_listener.
    rbind (reject_if (sk_port listener = 0 \<or> listener = api_listener) TransparentListenerShared) (\<lambda>_.
    rbind (ok_or ProxyUrlInvalid (url_parse cr (tp_proxy_url proxy))) (\<lambda>proxy_url.
    rbind (reject_if (\<not> validate_proxy_origin cr proxy_url) ProxyUrlNotOrigin) (\<lambda>_.
    let paths = [tp_ca_certificate_file proxy, tp_ca_private_key_file proxy,
                 tp_transport_tls_certificate_file proxy, tp_transport_tls_private_key_file proxy]
    in
    rbind (reject_if (list_ex (\<lambda>path. \<not> is_absolute path) paths \<or> \<not> distinct (map path_components paths)) TransparentFiles) (\<lambda>_.
    rbind (reject_if (\<not> (5 \<le> tp_session_ttl_seconds proxy \<and> tp_session_ttl_seconds proxy \<le> 3600)) SessionTtlRange) (\<lambda>_.
    rbind (reject_if (tp_session_max_lifetime_seconds proxy < tp_session_ttl_seconds proxy
              \<or> 24 * 60 * 60 < tp_session_max_lifetime_seconds proxy) SessionLifetimeRange) (\<lambda>_.
    rbind (reject_if (cf_proxy_routes config = [] \<and> cf_proxy_tunnels config = []) TransparentUnused) (\<lambda>_.
    rbind (map_error TransparentCatalog (from_config cr (cf_proxy_routes config) (cf_proxy_tunnels config))) (\<lambda>catalog.
      reject_if (catalog_is_empty catalog) TransparentCatalogEmpty)))))))))))"

definition validate_expanded :: "('u, 'z) crates_scheme \<Rightarrow> variables \<Rightarrow> config \<Rightarrow> config_error + unit" where
  "validate_expanded cr vars config =
    (let allow_insecure_http = allow_insecure_connector_http cr vars config
     in
     rbind (map_error OriginE (validate_public_url cr config)) (\<lambda>public_url.
     rbind (map_error ManagedE (validate_managed config)) (\<lambda>_.
     rbind (map_error AuthE (validate_auth cr vars config public_url)) (\<lambda>_.
     rbind (validate_limits config) (\<lambda>_.
     rbind (for_each (\<lambda>(name, connector). map_error (ConnectorE name) (validate_connector cr allow_insecure_http name connector))
             (cf_connectors config)) (\<lambda>_.
     rbind (for_each (\<lambda>(name, profile). validate_profile (cf_connectors config) name profile) (cf_profiles config)) (\<lambda>_.
     rbind (for_each (\<lambda>(name, route). validate_route cr allow_insecure_http config name route) (cf_proxy_routes config)) (\<lambda>_.
     rbind (for_each (\<lambda>(name, tunnel). validate_tunnel cr config name tunnel) (cf_proxy_tunnels config)) (\<lambda>_.
       case cf_transparent_proxy config of
         None \<Rightarrow> Inr ()
       | Some proxy \<Rightarrow> map_error TransparentE (validate_transparent_proxy cr config proxy))))))))))"

definition validate :: "('u, 'z) crates_scheme \<Rightarrow> variables \<Rightarrow> config \<Rightarrow> config_error + unit" where
  "validate cr vars config =
    (if cf_provider_operations config \<noteq> []
     then rbind (expand_provider_operations config) (validate_expanded cr vars)
     else validate_expanded cr vars config)"

text \<open>\<open>Config::load\<close> after the file is read and parsed.\<close>

definition config_load :: "('u, 'z) crates_scheme \<Rightarrow> variables \<Rightarrow> config \<Rightarrow> config_error + config" where
  "config_load cr vars parsed =
    rbind (expand_provider_operations parsed) (\<lambda>config.
    rbind (validate cr vars config) (\<lambda>_. Inr config))"

section \<open>Defaults\<close>

definition default_listen :: string where "default_listen = ''127.0.0.1:14322''"

definition default_public_url :: string where "default_public_url = ''http://127.0.0.1:14322''"

definition default_secret_path :: string where "default_secret_path = ''/''"

definition default_approle_mount_path :: string where "default_approle_mount_path = ''approle''"

definition default_kubernetes_mount_path :: string where "default_kubernetes_mount_path = ''kubernetes''"

definition default_service_account_token_file :: string where
  "default_service_account_token_file = ''/var/run/secrets/kubernetes.io/serviceaccount/token''"

definition default_group_claim :: string where "default_group_claim = ''groups''"

definition default_oidc_signing_algorithms :: "oidc_signing_algorithm list" where
  "default_oidc_signing_algorithms = [Rs256]"

definition default_dynamic_secret_ttl_seconds :: nat where "default_dynamic_secret_ttl_seconds = 300"

definition default_max_connector_concurrency :: nat where "default_max_connector_concurrency = 16"

definition default_api_rate_limit_per_second :: nat where "default_api_rate_limit_per_second = 50"

definition default_api_rate_limit_burst :: nat where "default_api_rate_limit_burst = 100"

definition default_proxy_session_ttl_seconds :: nat where "default_proxy_session_ttl_seconds = 5 * 60"

definition default_proxy_session_max_lifetime_seconds :: nat where
  "default_proxy_session_max_lifetime_seconds = 8 * 60 * 60"

end
