(* ===== verification/Auth.thy ===== *)
theory Auth
  imports Leases Configuration
begin

text \<open>
  Authentication of requests, \<^verbatim>\<open>src/auth.rs\<close>: agent tokens, OIDC bearer tokens and Basic credentials, with the
  cache of signing keys and the check of password hashes at startup. The functions of the \<^verbatim>\<open>jsonwebtoken\<close> and
  \<^verbatim>\<open>argon2\<close> crates are fields of \<open>auth_crates\<close>, which extends the record of crate functions. A key is the text
  of its JSON form.
\<close>

section \<open>Functions of the crates\<close>

datatype jwt_algorithm = HS256 | HS384 | HS512 | RS256 | RS384 | RS512 | PS256 | PS384 | PS512 | ES256 | ES384 | EdDSA

record jwt_validation =
  jv_algorithms :: "jwt_algorithm list"
  jv_issuer :: "string list"
  jv_audience :: "string list"

record claims =
  cl_sub :: string
  cl_extra :: "(string \<times> json) list"

text \<open>A parsed password hash in the PHC string format, and the three costs of Argon2.\<close>

record phc =
  phc_algorithm :: string
  phc_version :: "nat option"
  phc_salt :: "string option"
  phc_hash :: "bytes option"

record argon2_params =
  par_m_cost :: nat
  par_t_cost :: nat
  par_p_cost :: nat

record 'u auth_crates = "'u crates" +
  jwt_decode_header :: "string \<Rightarrow> (jwt_algorithm \<times> string option) option"
  jwk_usable :: "string \<Rightarrow> bool"
  jwt_decode :: "int \<Rightarrow> string \<Rightarrow> string \<Rightarrow> jwt_validation \<Rightarrow> claims option"
  password_hash_new :: "string \<Rightarrow> phc option"
  argon2_params_of :: "phc \<Rightarrow> argon2_params option"
  argon2_verify :: "bytes \<Rightarrow> phc \<Rightarrow> bool"
  argon2_hash_password :: "bytes \<Rightarrow> bytes \<Rightarrow> argon2_params \<Rightarrow> string option"

section \<open>State and data\<close>

type_synonym jwk_set = "(string option \<times> string) list"

record auth_server = server +
  au_jwks :: "jwk_set option"
  au_last_attempt :: "int option"

record discovery =
  di_issuer :: string
  di_authorization_endpoint :: string
  di_token_endpoint :: string
  di_jwks_uri :: string
  di_device_authorization_endpoint :: "string option"

record basic_credential =
  bc_username :: string
  bc_password_hash :: string

record authenticator =
  an_config :: auth_config
  an_discovery :: "discovery option"
  an_basic_credentials :: "basic_credential list"

record public_auth_config =
  pa_mode :: string
  pa_issuer :: string
  pa_client_id :: string
  pa_scopes :: "string list"
  pa_authorization_endpoint :: "string option"
  pa_token_endpoint :: "string option"
  pa_device_authorization_endpoint :: "string option"

datatype fetch_error = FetchFailed | FetchStatus nat | FetchDecode

datatype agent_error = AgentTokenInvalid | AgentUnmanaged | AgentUnknown

datatype oidc_error =
  BearerHeaderInvalid | NoTrustedAlgorithm | UntrustedAlgorithm | NoKeyId | OidcNotConfigured
| KeysFetch fetch_error | UntrustedKey | UnsupportedKey | TokenInvalid | GroupNotAllowed
| DiscoveryFetch fetch_error | IssuerMismatch

datatype basic_error =
  BasicEncoding | BasicNotText | BasicPayload | BasicQueue | BasicHash | BasicJoin | BasicInvalid

datatype hash_file_error =
  HashFileUnreadable | HashUnparsable | HashNotArgon2id | HashIncomplete | HashParams | HashOutOfBounds

datatype auth_error =
  MissingAuthorization | UnsupportedScheme | AuthStore store_failure
| AgentE agent_error | OidcE oidc_error | BasicE basic_error | HashFileE string hash_file_error

definition jwks_refresh_cooldown :: int where
  "jwks_refresh_cooldown = secs 60"

definition basic_auth_min_memory_kib :: nat where "basic_auth_min_memory_kib = 19 * 1024"

definition basic_auth_max_memory_kib :: nat where "basic_auth_max_memory_kib = 64 * 1024"

definition basic_auth_min_iterations :: nat where "basic_auth_min_iterations = 2"

definition basic_auth_max_iterations :: nat where "basic_auth_max_iterations = 6"

definition basic_auth_max_parallelism :: nat where "basic_auth_max_parallelism = 4"

definition dummy_password_hash :: string where
  "dummy_password_hash =
    ''$argon2id$v=19$m=19456,t=2,p=1$c29tZXNhbHQ$CTFhFdXPJO1aFaMaO6Mm5c8y7cJHAph8ArZWb2GRPPc''"

section \<open>Startup\<close>

fun oidc_algorithm :: "oidc_signing_algorithm \<Rightarrow> jwt_algorithm" where
  "oidc_algorithm Rs256 = RS256"
| "oidc_algorithm Rs384 = RS384"
| "oidc_algorithm Rs512 = RS512"
| "oidc_algorithm Ps256 = PS256"
| "oidc_algorithm Ps384 = PS384"
| "oidc_algorithm Ps512 = PS512"
| "oidc_algorithm Es256 = ES256"
| "oidc_algorithm Es384 = ES384"
| "oidc_algorithm EdDsa = EdDSA"

definition check_password_hash :: "('u, 'c) auth_crates_scheme \<Rightarrow> string \<Rightarrow> hash_file_error + unit" where
  "check_password_hash cr password_hash =
    rbind (ok_or HashUnparsable (password_hash_new cr password_hash)) (\<lambda>parsed.
      if phc_algorithm parsed \<noteq> ''argon2id'' then Inl HashNotArgon2id
      else if phc_version parsed \<noteq> Some 19 \<or> phc_salt parsed = None \<or> phc_hash parsed = None then Inl HashIncomplete
      else rbind (ok_or HashParams (argon2_params_of cr parsed)) (\<lambda>params.
        reject_if
          (\<not> (basic_auth_min_memory_kib \<le> par_m_cost params \<and> par_m_cost params \<le> basic_auth_max_memory_kib)
           \<or> \<not> (basic_auth_min_iterations \<le> par_t_cost params \<and> par_t_cost params \<le> basic_auth_max_iterations)
           \<or> \<not> (1 \<le> par_p_cost params \<and> par_p_cost params \<le> basic_auth_max_parallelism))
          HashOutOfBounds))"

fun load_basic_credentials ::
    "('u, 'c) auth_crates_scheme \<Rightarrow> env \<Rightarrow> basic_user_config list
     \<Rightarrow> ('z io_scheme, auth_error + basic_credential list) act" where
  "load_basic_credentials cr e [] = act_return (Inr [])"
| "load_basic_credentials cr e (user # users) =
    act_bind (tick (\<lambda>n. env_file e n (buc_password_hash_file user))) (\<lambda>contents.
    act_try (act_return (map_error (HashFileE (buc_username user))
      (rbind (ok_or HashFileUnreadable contents) (\<lambda>contents.
       rbind (check_password_hash cr (trim contents)) (\<lambda>_. Inr (trim contents)))))) (\<lambda>password_hash.
    act_try (load_basic_credentials cr e users) (\<lambda>others.
      act_return (Inr (\<lparr>bc_username = buc_username user, bc_password_hash = password_hash\<rparr> # others)))))"

definition find_jwk :: "string \<Rightarrow> 'z auth_server_scheme \<Rightarrow> string option" where
  "find_jwk kid s =
    (case au_jwks s of None \<Rightarrow> None | Some keys \<Rightarrow> map_option snd (find (\<lambda>(k, _). k = Some kid) keys))"

definition fetch_jwks :: "env \<Rightarrow> string \<Rightarrow> ('z auth_server_scheme, auth_error + unit) act" where
  "fetch_jwks e uri =
    act_bind (send e (OidcKeys uri)) (\<lambda>reply.
      case reply of
        NoReply \<Rightarrow> act_return (Inl (OidcE (KeysFetch FetchFailed)))
      | Reply status body \<Rightarrow>
          if \<not> is_success status then act_return (Inl (OidcE (KeysFetch (FetchStatus status))))
          else (case body of
            JwksBody keys \<Rightarrow> (\<lambda>s. (Inr (), s\<lparr>au_jwks := Some keys\<rparr>))
          | _ \<Rightarrow> act_return (Inl (OidcE (KeysFetch FetchDecode)))))"

definition refresh_jwks :: "env \<Rightarrow> authenticator \<Rightarrow> bool \<Rightarrow> ('z auth_server_scheme, auth_error + unit) act" where
  "refresh_jwks e an force =
    act_bind (instant_now e) (\<lambda>now s.
      if \<not> force \<and> (case au_last_attempt s of None \<Rightarrow> False | Some attempt \<Rightarrow> now - attempt < jwks_refresh_cooldown)
      then (Inr (), s)
      else act_bind (instant_now e) (\<lambda>now s.
        let s = s\<lparr>au_last_attempt := Some now\<rparr>
        in case an_discovery an of
             None \<Rightarrow> (Inl (OidcE OidcNotConfigured), s)
           | Some discovery \<Rightarrow> fetch_jwks e (di_jwks_uri discovery) s) s)"

definition fetch_discovery :: "env \<Rightarrow> auth_config \<Rightarrow> ('z io_scheme, auth_error + discovery) act" where
  "fetch_discovery e config =
    act_bind (send e (OidcDiscovery (trim_end_matches CHR ''/'' (ac_issuer config) @ ''/.well-known/openid-configuration''))) (\<lambda>reply.
      case reply of
        NoReply \<Rightarrow> act_return (Inl (OidcE (DiscoveryFetch FetchFailed)))
      | Reply status body \<Rightarrow>
          if \<not> is_success status then act_return (Inl (OidcE (DiscoveryFetch (FetchStatus status))))
          else (case body of
            DiscoveryBody issuer authorization token jwks device \<Rightarrow>
              if trim_end_matches CHR ''/'' issuer \<noteq> trim_end_matches CHR ''/'' (ac_issuer config)
              then act_return (Inl (OidcE IssuerMismatch))
              else act_return (Inr
                \<lparr>di_issuer = issuer, di_authorization_endpoint = authorization, di_token_endpoint = token,
                 di_jwks_uri = jwks, di_device_authorization_endpoint = device\<rparr>)
          | _ \<Rightarrow> act_return (Inl (OidcE (DiscoveryFetch FetchDecode)))))"

definition authenticator_new ::
    "('u, 'c) auth_crates_scheme \<Rightarrow> env \<Rightarrow> auth_config \<Rightarrow> ('z auth_server_scheme, auth_error + authenticator) act" where
  "authenticator_new cr e config =
    act_try (load_basic_credentials cr e (ac_basic_users config)) (\<lambda>credentials.
      if ac_mode config \<in> {Oidc, OidcOrBasic}
      then act_try (fetch_discovery e config) (\<lambda>discovery.
        let an = \<lparr>an_config = config, an_discovery = Some discovery, an_basic_credentials = credentials\<rparr>
        in act_bind (\<lambda>s. ((), s\<lparr>au_jwks := None, au_last_attempt := None\<rparr>)) (\<lambda>_.
           act_try (refresh_jwks e an True) (\<lambda>_. act_return (Inr an))))
      else act_bind (\<lambda>s. ((), s\<lparr>au_jwks := None, au_last_attempt := None\<rparr>)) (\<lambda>_.
        act_return (Inr \<lparr>an_config = config, an_discovery = None, an_basic_credentials = credentials\<rparr>)))"

fun auth_mode_name :: "auth_mode \<Rightarrow> string" where
  "auth_mode_name Oidc = ''oidc''"
| "auth_mode_name Basic = ''basic''"
| "auth_mode_name OidcOrBasic = ''oidc_or_basic''"
| "auth_mode_name GithubOrBasic = ''github_or_basic''"
| "auth_mode_name Disabled = ''disabled''"

definition public_config :: "authenticator \<Rightarrow> public_auth_config" where
  "public_config an =
    \<lparr>pa_mode = auth_mode_name (ac_mode (an_config an)), pa_issuer = ac_issuer (an_config an),
     pa_client_id = ac_client_id (an_config an),
     pa_scopes = (if ac_scopes (an_config an) = [] then [''openid''] else ac_scopes (an_config an)),
     pa_authorization_endpoint = map_option di_authorization_endpoint (an_discovery an),
     pa_token_endpoint = map_option di_token_endpoint (an_discovery an),
     pa_device_authorization_endpoint = Option.bind (an_discovery an) di_device_authorization_endpoint\<rparr>"

section \<open>Authorisation of a request\<close>

definition agent_token_shaped :: "string \<Rightarrow> bool" where
  "agent_token_shaped token \<longleftrightarrow>
     length token = 52 \<and> prefix ''av_agent_'' token
     \<and> list_all (\<lambda>c. is_ascii_alphanumeric c \<or> c = CHR ''-'' \<or> c = CHR ''_'') (drop 9 token)"

definition authorize_agent ::
    "('u, 'c) auth_crates_scheme \<Rightarrow> env \<Rightarrow> string \<Rightarrow> ('z auth_server_scheme, auth_error + string) act" where
  "authorize_agent cr e token s =
    (if \<not> agent_token_shaped token then (Inl (AgentE AgentTokenInvalid), s)
     else case sv_db s of
       None \<Rightarrow> (Inl (AgentE AgentUnmanaged), s)
     | Some db \<Rightarrow>
         act_try (act_map_err AuthStore (store_query e (\<lambda>_. Inr (agent_for_token_hash db (sha256 cr token))))) (\<lambda>found.
           act_return (rbind (ok_or (AgentE AgentUnknown) found) (\<lambda>name. Inr (agent_subject name)))) s)"

fun claim_allows_group :: "json option \<Rightarrow> string list \<Rightarrow> bool" where
  "claim_allows_group (Some (JArray groups)) allowed_groups =
    list_ex (\<lambda>group. case group of JString name \<Rightarrow> name \<in> set allowed_groups | _ \<Rightarrow> False) groups"
| "claim_allows_group (Some (JObject roles)) allowed_groups =
    list_ex (\<lambda>(role, _). role \<in> set allowed_groups) roles"
| "claim_allows_group _ allowed_groups = False"

definition oidc_validation :: "auth_config \<Rightarrow> jwt_validation" where
  "oidc_validation config =
    \<lparr>jv_algorithms = map oidc_algorithm (ac_signing_algorithms config),
     jv_issuer = [ac_issuer config],
     jv_audience = (if ac_audiences config = [] then [ac_client_id config] else ac_audiences config)\<rparr>"

text \<open>The key of a token: from the cache, or after one refresh.\<close>

definition trusted_jwk :: "env \<Rightarrow> authenticator \<Rightarrow> string \<Rightarrow> ('z auth_server_scheme, auth_error + string) act" where
  "trusted_jwk e an kid s =
    (case find_jwk kid s of
       Some jwk \<Rightarrow> (Inr jwk, s)
     | None \<Rightarrow>
         act_try (refresh_jwks e an False) (\<lambda>_ s. (ok_or (OidcE UntrustedKey) (find_jwk kid s), s)) s)"

definition authorize_oidc ::
    "('u, 'c) auth_crates_scheme \<Rightarrow> env \<Rightarrow> authenticator \<Rightarrow> string \<Rightarrow> ('z auth_server_scheme, auth_error + string) act" where
  "authorize_oidc cr e an token =
    (let config = an_config an; validation = oidc_validation config
     in case jwt_decode_header cr token of
          None \<Rightarrow> act_return (Inl (OidcE BearerHeaderInvalid))
        | Some (alg, kid) \<Rightarrow>
            if jv_algorithms validation = [] then act_return (Inl (OidcE NoTrustedAlgorithm))
            else if alg \<notin> set (jv_algorithms validation) then act_return (Inl (OidcE UntrustedAlgorithm))
            else case kid of
              None \<Rightarrow> act_return (Inl (OidcE NoKeyId))
            | Some kid \<Rightarrow>
                act_try (trusted_jwk e an kid) (\<lambda>jwk.
                  if \<not> jwk_usable cr jwk then act_return (Inl (OidcE UnsupportedKey))
                  else act_bind (clock_now e) (\<lambda>now.
                    case jwt_decode cr now token jwk validation of
                      None \<Rightarrow> act_return (Inl (OidcE TokenInvalid))
                    | Some claims \<Rightarrow>
                        if \<not> claim_allows_group (map_of (cl_extra claims) (ac_group_claim config)) (ac_allowed_groups config)
                        then act_return (Inl (OidcE GroupNotAllowed))
                        else act_return (Inr (cl_sub claims)))))"

text \<open>
  The credential of a Basic user: the store's in the managed mode, the configured one otherwise. The
  password is compared with some hash in every case, so that the time does not tell whether the user exists.
\<close>

definition requested_credential ::
    "env \<Rightarrow> authenticator \<Rightarrow> string \<Rightarrow> ('z auth_server_scheme, auth_error + basic_credential option) act" where
  "requested_credential e an username s =
    (case sv_db s of
       Some db \<Rightarrow>
         act_try (act_map_err AuthStore (store_query e (\<lambda>_. Inr (basic_password_hash db username)))) (\<lambda>managed_hash.
           act_return (Inr (map_option
             (\<lambda>password_hash. \<lparr>bc_username = username, bc_password_hash = password_hash\<rparr>) managed_hash))) s
     | None \<Rightarrow> (Inr (find (\<lambda>credential. bc_username credential = username) (an_basic_credentials an)), s))"

definition comparison_hash :: "authenticator \<Rightarrow> basic_credential option \<Rightarrow> string" where
  "comparison_hash an requested =
    (case requested of
       Some credential \<Rightarrow> bc_password_hash credential
     | None \<Rightarrow>
         (case an_basic_credentials an of
            [] \<Rightarrow> dummy_password_hash
          | credential # _ \<Rightarrow> bc_password_hash credential))"

definition authorize_basic ::
    "('u, 'c) auth_crates_scheme \<Rightarrow> env \<Rightarrow> authenticator \<Rightarrow> string \<Rightarrow> ('z auth_server_scheme, auth_error + string) act" where
  "authorize_basic cr e an encoded =
    act_try (act_return (ok_or (BasicE BasicEncoding) (base64_standard_decode cr encoded))) (\<lambda>decoded.
      if \<not> utf8_valid decoded then act_return (Inl (BasicE BasicNotText))
      else
        act_try (act_return (ok_or (BasicE BasicPayload) (split_once CHR '':'' decoded))) (\<lambda>(username, password).
        act_try (requested_credential e an username) (\<lambda>requested.
        act_bind (tick (env_slot e)) (\<lambda>slot.
          if \<not> slot then act_return (Inl (BasicE BasicQueue))
          else act_bind (tick (env_slot e)) (\<lambda>joined.
            if \<not> joined then act_return (Inl (BasicE BasicJoin))
            else (case password_hash_new cr (comparison_hash an requested) of
              None \<Rightarrow> act_return (Inl (BasicE BasicHash))
            | Some hash \<Rightarrow>
                if argon2_verify cr password hash \<and> requested \<noteq> None
                then act_return (Inr (''basic:'' @ username))
                else act_return (Inl (BasicE BasicInvalid))))))))"

definition authorize ::
    "('u, 'c) auth_crates_scheme \<Rightarrow> env \<Rightarrow> authenticator \<Rightarrow> header_map \<Rightarrow> ('z auth_server_scheme, auth_error + string) act" where
  "authorize cr e an headers =
    (let mode = ac_mode (an_config an)
     in if mode = Disabled then act_return (Inr ''local-insecure'')
        else case Option.bind (hm_get headers ''authorization'') (header_value_to_str cr) of
          None \<Rightarrow> act_return (Inl MissingAuthorization)
        | Some authorization \<Rightarrow>
            (case strip_prefix ''Agent '' authorization of
               Some token \<Rightarrow> authorize_agent cr e token
             | None \<Rightarrow>
                 (case strip_prefix ''Bearer '' authorization of
                    Some token \<Rightarrow>
                      if mode \<in> {Oidc, OidcOrBasic} then authorize_oidc cr e an token
                      else act_return (Inl UnsupportedScheme)
                  | None \<Rightarrow>
                      (case strip_prefix ''Basic '' authorization of
                         Some encoded \<Rightarrow>
                           if mode \<in> {Basic, OidcOrBasic, GithubOrBasic} then authorize_basic cr e an encoded
                           else act_return (Inl UnsupportedScheme)
                       | None \<Rightarrow> act_return (Inl UnsupportedScheme)))))"

end
