(* ===== verification/Control.thy ===== *)
theory Control
  imports Auth
begin

text \<open>
  The control service, \<^verbatim>\<open>src/server.rs\<close>: the remote calls by which owners, operators and auditors manage users,
  agents, roles and grants. \<open>who\<close> is the subject that authentication found, if any, as in the theory of leases.
  Every call checks the role of the subject, validates its arguments, changes the store and writes an audit event.
\<close>

section \<open>Requests and responses\<close>

datatype control_request =
  ListBasicUsers
| UpsertBasicUser string string
| SetBasicUserEnabled string bool
| ListAgents
| CreateAgent string
| RotateAgent string
| SetAgentEnabled string bool
| DeleteAgent string
| ListPrincipalRoles
| SetPrincipalRole string string
| ListAuditEvents nat
| ListProfileGrants string
| GrantProfile string string string int
| RevokeProfile string string

datatype control_response =
  BasicUsers "basic_user list"
| BasicUser basic_user
| Agents "agent list"
| AgentCredential string string
| AgentState agent
| PrincipalRoles "(string \<times> string) list"
| AuditEvents "audit_event list"
| ProfileGrants "profile_grant list"
| ProfileRevoked string string

section \<open>The store behind a call\<close>

text \<open>\<open>managed_store(state)?\<close> followed by one operation of the store.\<close>

definition no_control_plane :: rpc_error where
  "no_control_plane = RpcError FailedPrecondition ''managed control plane is disabled''"

definition managed_read ::
    "env \<Rightarrow> (store_failure \<Rightarrow> rpc_error) \<Rightarrow> (int \<Rightarrow> store_db \<Rightarrow> store_error + 'a) \<Rightarrow> ('z server_scheme, rpc_error + 'a) act" where
  "managed_read e fail query s =
    (case sv_db s of
       None \<Rightarrow> (Inl no_control_plane, s)
     | Some db \<Rightarrow> act_map_err fail (store_query e (\<lambda>clock. query clock db)) s)"

definition managed_write ::
    "env \<Rightarrow> (store_failure \<Rightarrow> rpc_error) \<Rightarrow> (int \<Rightarrow> store_db \<Rightarrow> store_error + store_db \<times> 'a)
     \<Rightarrow> ('z server_scheme, rpc_error + 'a) act" where
  "managed_write e fail change s =
    (case sv_db s of
       None \<Rightarrow> (Inl no_control_plane, s)
     | Some db \<Rightarrow> act_map_err fail (store_update e (\<lambda>clock. change clock db)) s)"

section \<open>Roles and arguments\<close>

definition require_owner :: "env \<Rightarrow> string option \<Rightarrow> ('z server_scheme, rpc_error + string) act" where
  "require_owner e who =
    act_try (authorize_connect who) (\<lambda>subject.
    act_try (managed_read e store_unavailable (\<lambda>_ db. is_owner db subject)) (\<lambda>owner.
      act_return (if \<not> owner then Inl (RpcError PermissionDenied ''owner access required'') else Inr subject)))"

definition require_operator :: "env \<Rightarrow> string option \<Rightarrow> ('z server_scheme, rpc_error + string) act" where
  "require_operator e who =
    act_try (authorize_connect who) (\<lambda>subject.
    act_try (managed_read e store_unavailable (\<lambda>_ db. principal_role db subject)) (\<lambda>role.
      act_return (if \<not> can_operate role then Inl (RpcError PermissionDenied ''operator access required'') else Inr subject)))"

definition require_auditor :: "env \<Rightarrow> string option \<Rightarrow> ('z server_scheme, rpc_error + string) act" where
  "require_auditor e who =
    act_try (authorize_connect who) (\<lambda>subject.
    act_try (managed_read e store_unavailable (\<lambda>_ db. principal_role db subject)) (\<lambda>role.
      act_return (if \<not> can_audit role then Inl (RpcError PermissionDenied ''auditor access required'') else Inr subject)))"

definition valid_basic_username :: "string \<Rightarrow> bool" where
  "valid_basic_username v \<longleftrightarrow> v \<noteq> [] \<and> length v \<le> 128 \<and> CHR '':'' \<notin> set v \<and> \<not> has_control v"

definition valid_agent_name :: "string \<Rightarrow> bool" where
  "valid_agent_name v \<longleftrightarrow>
     v \<noteq> [] \<and> length v \<le> 128 \<and> list_all (\<lambda>c. is_ascii_alphanumeric c \<or> c = CHR ''-'' \<or> c = CHR ''_'') v"

definition valid_policy_subject :: "string \<Rightarrow> bool" where
  "valid_policy_subject v \<longleftrightarrow> trim v \<noteq> [] \<and> length v \<le> 255 \<and> \<not> has_control v"

definition parse_grant_mode :: "string \<Rightarrow> rpc_error + grant_mode" where
  "parse_grant_mode v =
    (if v = [] \<or> v = ''both'' then Inr ModeBoth
     else if v = ''proxy'' then Inr ModeProxy
     else if v = ''environment'' then Inr ModeEnvironment
     else Inl (RpcError InvalidArgument ''profile grant mode must be both, proxy, or environment''))"

definition require_known_profile :: "app \<Rightarrow> string \<Rightarrow> rpc_error + unit" where
  "require_known_profile app profile =
    (if map_of (app_profiles app) profile \<noteq> None then Inr () else Inl (RpcError NotFound ''profile not found''))"

definition mint_agent_token :: "('u, 'c) auth_crates_scheme \<Rightarrow> env \<Rightarrow> ('z io_scheme, string \<times> bytes) act" where
  "mint_agent_token cr e =
    tick (\<lambda>n. let token = ''av_agent_'' @ base64_url_safe_no_pad cr (env_random e n) in (token, sha256 cr token))"

definition hash_basic_password ::
    "('u, 'c) auth_crates_scheme \<Rightarrow> env \<Rightarrow> string \<Rightarrow> ('z io_scheme, string option) act" where
  "hash_basic_password cr e password =
    tick (\<lambda>n. argon2_hash_password cr (env_random e n) password \<lparr>par_m_cost = 19 * 1024, par_t_cost = 2, par_p_cost = 1\<rparr>)"

definition rpc_invalid :: "string \<Rightarrow> rpc_error + 'a" where
  "rpc_invalid message = Inl (RpcError InvalidArgument message)"

text \<open>The audit event at the end of a change.\<close>

definition audited ::
    "env \<Rightarrow> string \<Rightarrow> string \<Rightarrow> string option \<Rightarrow> control_response \<Rightarrow> ('z server_scheme, rpc_error + control_response) act" where
  "audited e subject action profile response =
    act_try (act_map_err audit_unavailable (audit_event_act e subject action profile None None)) (\<lambda>_.
      act_return (Inr response))"

section \<open>Users and agents\<close>

definition rpc_list_basic_users :: "env \<Rightarrow> string option \<Rightarrow> ('z server_scheme, rpc_error + control_response) act" where
  "rpc_list_basic_users e who =
    act_try (require_operator e who) (\<lambda>_.
    act_try (managed_read e store_unavailable (\<lambda>_ db. Inr (list_basic_users db))) (\<lambda>users.
      act_return (Inr (BasicUsers users))))"

definition rpc_upsert_basic_user ::
    "('u, 'c) auth_crates_scheme \<Rightarrow> env \<Rightarrow> string option \<Rightarrow> string \<Rightarrow> string
     \<Rightarrow> ('z server_scheme, rpc_error + control_response) act" where
  "rpc_upsert_basic_user cr e who username password =
    act_try (require_operator e who) (\<lambda>subject.
      if \<not> valid_basic_username username then act_return (rpc_invalid ''invalid Basic username'')
      else if length password < 12 \<or> 1024 < length password
      then act_return (rpc_invalid ''Basic passwords must be between 12 and 1024 characters'')
      else act_bind (tick (env_slot e)) (\<lambda>joined.
        if \<not> joined then act_return (Inl (RpcError Internal ''password hashing failed''))
        else act_bind (hash_basic_password cr e password) (\<lambda>hashed.
          case hashed of
            None \<Rightarrow> act_return (Inl (RpcError Internal ''password hashing failed''))
          | Some password_hash \<Rightarrow>
              act_try (managed_write e store_unavailable (\<lambda>_ db. Inr (upsert_basic_user db username password_hash, ()))) (\<lambda>_.
                audited e subject ''basic_user_upsert'' None
                  (BasicUser \<lparr>bu_username = username, bu_enabled = True\<rparr>)))))"

definition rpc_set_basic_user_enabled ::
    "env \<Rightarrow> string option \<Rightarrow> string \<Rightarrow> bool \<Rightarrow> ('z server_scheme, rpc_error + control_response) act" where
  "rpc_set_basic_user_enabled e who username enabled =
    act_try (require_operator e who) (\<lambda>subject.
      if \<not> valid_basic_username username then act_return (rpc_invalid ''invalid Basic username'')
      else act_try (managed_write e store_unavailable (\<lambda>_ db. Inr (set_basic_user_enabled db username enabled))) (\<lambda>found.
        if \<not> found then act_return (Inl (RpcError NotFound ''Basic user not found''))
        else audited e subject (if enabled then ''basic_user_enabled'' else ''basic_user_disabled'') None
               (BasicUser \<lparr>bu_username = username, bu_enabled = enabled\<rparr>)))"

definition rpc_list_agents :: "env \<Rightarrow> string option \<Rightarrow> ('z server_scheme, rpc_error + control_response) act" where
  "rpc_list_agents e who =
    act_try (require_operator e who) (\<lambda>_.
    act_try (managed_read e store_unavailable (\<lambda>_ db. Inr (list_agents db))) (\<lambda>agents.
      act_return (Inr (Agents agents))))"

definition create_agent_error :: "store_failure \<Rightarrow> rpc_error" where
  "create_agent_error err =
    (if err = StoreFailed ConstraintViolation then RpcError AlreadyExists ''agent already exists''
     else RpcError Internal ''managed store unavailable'')"

definition rpc_create_agent ::
    "('u, 'c) auth_crates_scheme \<Rightarrow> env \<Rightarrow> string option \<Rightarrow> string \<Rightarrow> ('z server_scheme, rpc_error + control_response) act" where
  "rpc_create_agent cr e who name =
    act_try (require_operator e who) (\<lambda>subject.
      if \<not> valid_agent_name name then act_return (rpc_invalid ''invalid agent name'')
      else act_bind (mint_agent_token cr e) (\<lambda>(token, token_hash).
        act_try (managed_write e create_agent_error (\<lambda>_ db. rbind (create_agent db name token_hash) (\<lambda>db'. Inr (db', ())))) (\<lambda>_.
          audited e subject ''agent_created'' None (AgentCredential name token))))"

definition rpc_rotate_agent ::
    "('u, 'c) auth_crates_scheme \<Rightarrow> env \<Rightarrow> string option \<Rightarrow> string \<Rightarrow> ('z server_scheme, rpc_error + control_response) act" where
  "rpc_rotate_agent cr e who name =
    act_try (require_operator e who) (\<lambda>subject.
      if \<not> valid_agent_name name then act_return (rpc_invalid ''invalid agent name'')
      else act_bind (mint_agent_token cr e) (\<lambda>(token, token_hash).
        act_try (managed_write e store_unavailable (\<lambda>_ db. rotate_agent_token db name token_hash)) (\<lambda>found.
          if \<not> found then act_return (Inl (RpcError NotFound ''agent not found''))
          else audited e subject ''agent_token_rotated'' None (AgentCredential name token))))"

definition rpc_set_agent_enabled ::
    "env \<Rightarrow> string option \<Rightarrow> string \<Rightarrow> bool \<Rightarrow> ('z server_scheme, rpc_error + control_response) act" where
  "rpc_set_agent_enabled e who name enabled =
    act_try (require_operator e who) (\<lambda>subject.
      if \<not> valid_agent_name name then act_return (rpc_invalid ''invalid agent name'')
      else act_try (managed_write e store_unavailable (\<lambda>_ db. Inr (set_agent_enabled db name enabled))) (\<lambda>found.
        if \<not> found then act_return (Inl (RpcError NotFound ''agent not found''))
        else audited e subject (if enabled then ''agent_enabled'' else ''agent_disabled'') None
               (AgentState \<lparr>agent_name = name, agent_enabled = enabled\<rparr>)))"

definition rpc_delete_agent ::
    "env \<Rightarrow> string option \<Rightarrow> string \<Rightarrow> ('z server_scheme, rpc_error + control_response) act" where
  "rpc_delete_agent e who name =
    act_try (require_operator e who) (\<lambda>subject.
      if \<not> valid_agent_name name then act_return (rpc_invalid ''invalid agent name'')
      else act_try (managed_write e store_unavailable (\<lambda>_ db. Inr (delete_agent db name))) (\<lambda>found.
        if \<not> found then act_return (Inl (RpcError NotFound ''agent not found''))
        else audited e subject ''agent_deleted'' None (AgentState \<lparr>agent_name = name, agent_enabled = False\<rparr>)))"

section \<open>Roles, audit events and grants\<close>

definition rpc_list_principal_roles :: "env \<Rightarrow> string option \<Rightarrow> ('z server_scheme, rpc_error + control_response) act" where
  "rpc_list_principal_roles e who =
    act_try (require_owner e who) (\<lambda>_.
    act_try (managed_read e store_unavailable (\<lambda>_ db. list_principal_roles db)) (\<lambda>roles.
      act_return (Inr (PrincipalRoles (map (\<lambda>b. (prb_subject b, role_as_str (prb_role b))) roles)))))"

definition set_role_error :: "store_failure \<Rightarrow> rpc_error" where
  "set_role_error err =
    (if err = StoreFailed LastOwner then RpcError FailedPrecondition ''cannot remove the last owner''
     else RpcError Internal ''managed store unavailable'')"

definition rpc_set_principal_role ::
    "env \<Rightarrow> string option \<Rightarrow> string \<Rightarrow> string \<Rightarrow> ('z server_scheme, rpc_error + control_response) act" where
  "rpc_set_principal_role e who target requested =
    act_try (require_owner e who) (\<lambda>subject.
      if \<not> valid_policy_subject target then act_return (rpc_invalid ''invalid policy subject'')
      else case role_parse requested of
        Inl _ \<Rightarrow> act_return (rpc_invalid ''principal role must be owner, operator, auditor, or user'')
      | Inr role \<Rightarrow>
          act_try (managed_write e set_role_error (\<lambda>_ db. rbind (set_principal_role db target role) (\<lambda>db'. Inr (db', ())))) (\<lambda>_.
            audited e subject ''principal_role_changed'' None (PrincipalRoles [(target, role_as_str role)])))"

definition rpc_list_audit_events ::
    "env \<Rightarrow> string option \<Rightarrow> nat \<Rightarrow> ('z server_scheme, rpc_error + control_response) act" where
  "rpc_list_audit_events e who limit =
    act_try (require_auditor e who) (\<lambda>_.
    act_try (managed_read e store_unavailable (\<lambda>_ db. Inr (list_audit_events db (if limit = 0 then 100 else int limit)))) (\<lambda>events.
      act_return (Inr (AuditEvents events))))"

definition rpc_list_profile_grants ::
    "env \<Rightarrow> app \<Rightarrow> string option \<Rightarrow> string \<Rightarrow> ('z server_scheme, rpc_error + control_response) act" where
  "rpc_list_profile_grants e app who profile =
    act_try (require_operator e who) (\<lambda>_.
    act_try (act_return (require_known_profile app profile)) (\<lambda>_.
    act_try (managed_read e store_unavailable (\<lambda>_ db. list_profile_grants db profile)) (\<lambda>grants.
      act_return (Inr (ProfileGrants grants)))))"

definition grant_error :: "store_failure \<Rightarrow> rpc_error" where
  "grant_error err =
    (if err = StoreFailed GrantExpiryPast then RpcError InvalidArgument ''profile grant expiry must be in the future''
     else RpcError Internal ''managed store unavailable'')"

definition rpc_grant_profile ::
    "env \<Rightarrow> app \<Rightarrow> string option \<Rightarrow> string \<Rightarrow> string \<Rightarrow> string \<Rightarrow> int \<Rightarrow> ('z server_scheme, rpc_error + control_response) act" where
  "rpc_grant_profile e app who profile target requested_mode expires_unix_seconds =
    act_try (require_operator e who) (\<lambda>subject.
    act_try (act_return (require_known_profile app profile)) (\<lambda>_.
      if \<not> valid_policy_subject target then act_return (rpc_invalid ''invalid policy subject'')
      else act_try (act_return (parse_grant_mode requested_mode)) (\<lambda>mode.
        let expires = (if expires_unix_seconds \<noteq> 0 then Some expires_unix_seconds else None) in
        act_try (managed_write e grant_error (\<lambda>clock db.
          rbind (grant_profile_mode clock db target profile mode expires) (\<lambda>db'. Inr (db', ())))) (\<lambda>_.
          audited e subject ''profile_grant'' (Some profile)
            (ProfileGrants [\<lparr>pg_profile = profile, pg_subject = target, pg_mode = mode, pg_expires = expires\<rparr>])))))"

definition rpc_revoke_profile ::
    "env \<Rightarrow> app \<Rightarrow> string option \<Rightarrow> string \<Rightarrow> string \<Rightarrow> ('z server_scheme, rpc_error + control_response) act" where
  "rpc_revoke_profile e app who profile target =
    act_try (require_operator e who) (\<lambda>subject.
    act_try (act_return (require_known_profile app profile)) (\<lambda>_.
      if \<not> valid_policy_subject target then act_return (rpc_invalid ''invalid policy subject'')
      else act_try (managed_write e store_unavailable (\<lambda>_ db. Inr (revoke_profile db target profile))) (\<lambda>found.
        if \<not> found then act_return (Inl (RpcError NotFound ''profile grant not found''))
        else audited e subject ''profile_grant_revoked'' (Some profile) (ProfileRevoked profile target))))"

text \<open>The service: one handler for each request.\<close>

fun control_handle ::
    "('u, 'c) auth_crates_scheme \<Rightarrow> env \<Rightarrow> app \<Rightarrow> string option \<Rightarrow> control_request
     \<Rightarrow> ('z server_scheme, rpc_error + control_response) act" where
  "control_handle cr e app who ListBasicUsers = rpc_list_basic_users e who"
| "control_handle cr e app who (UpsertBasicUser username password) = rpc_upsert_basic_user cr e who username password"
| "control_handle cr e app who (SetBasicUserEnabled username enabled) = rpc_set_basic_user_enabled e who username enabled"
| "control_handle cr e app who ListAgents = rpc_list_agents e who"
| "control_handle cr e app who (CreateAgent name) = rpc_create_agent cr e who name"
| "control_handle cr e app who (RotateAgent name) = rpc_rotate_agent cr e who name"
| "control_handle cr e app who (SetAgentEnabled name enabled) = rpc_set_agent_enabled e who name enabled"
| "control_handle cr e app who (DeleteAgent name) = rpc_delete_agent e who name"
| "control_handle cr e app who ListPrincipalRoles = rpc_list_principal_roles e who"
| "control_handle cr e app who (SetPrincipalRole target role) = rpc_set_principal_role e who target role"
| "control_handle cr e app who (ListAuditEvents limit) = rpc_list_audit_events e who limit"
| "control_handle cr e app who (ListProfileGrants profile) = rpc_list_profile_grants e app who profile"
| "control_handle cr e app who (GrantProfile profile target mode expires) = rpc_grant_profile e app who profile target mode expires"
| "control_handle cr e app who (RevokeProfile profile target) = rpc_revoke_profile e app who profile target"

end
