(* ===== verification/Sessions.thy ===== *)
theory Sessions
  imports Control
begin

text \<open>
  The rest of the session service, \<^verbatim>\<open>src/server.rs\<close>: what a caller may see (status, profiles, destinations)
  and the life of a proxy session: created, renewed, revoked. \<open>gateway\<close> is the part of \<^verbatim>\<open>AppState\<close> that does
  not change while the server runs. Every call authenticates its headers first (\<open>authenticate\<close>).
\<close>

section \<open>State\<close>

text \<open>\<open>TransparentProxyRuntime\<close>; the certificate authority is there by the certificate it hands out.\<close>

record transparent_proxy_runtime =
  tr_listen :: string
  tr_proxy_url :: string
  tr_session_ttl :: int
  tr_session_max_lifetime :: int
  tr_catalog :: transparent_route_catalog
  tr_certificate_pem :: string

record gateway =
  gw_config :: config
  gw_auth :: authenticator
  gw_backend :: backend
  gw_transparent_proxy :: "transparent_proxy_runtime option"

definition gateway_app :: "gateway \<Rightarrow> app" where
  "gateway_app gw = \<lparr>app_connectors = cf_connectors (gw_config gw), app_profiles = cf_profiles (gw_config gw)\<rparr>"

text \<open>The runtime that \<open>run\<close> builds at startup.\<close>

definition transparent_runtime ::
    "('u, 'z) crates_scheme \<Rightarrow> string \<Rightarrow> config \<Rightarrow> catalog_error + transparent_proxy_runtime option" where
  "transparent_runtime cr certificate_pem config =
    (case cf_transparent_proxy config of
       None \<Rightarrow> Inr None
     | Some proxy \<Rightarrow>
         rbind (from_config cr (cf_proxy_routes config) (cf_proxy_tunnels config)) (\<lambda>catalog.
           Inr (Some
             \<lparr>tr_listen = tp_listen proxy, tr_proxy_url = tp_proxy_url proxy,
              tr_session_ttl = secs (int (tp_session_ttl_seconds proxy)),
              tr_session_max_lifetime = secs (int (tp_session_max_lifetime_seconds proxy)),
              tr_catalog = catalog, tr_certificate_pem = certificate_pem\<rparr>)))"

section \<open>Authentication of a call\<close>

definition authenticate ::
    "('u, 'c) auth_crates_scheme \<Rightarrow> env \<Rightarrow> gateway \<Rightarrow> header_map \<Rightarrow> ('z auth_server_scheme, rpc_error + string) act" where
  "authenticate cr e gw headers =
    act_map_err (\<lambda>_. RpcError Unauthenticated ''authentication required'') (authorize cr e (gw_auth gw) headers)"

text \<open>A call whose handler takes the subject that the authentication found, if any.\<close>

definition authenticated_call ::
    "('u, 'c) auth_crates_scheme \<Rightarrow> env \<Rightarrow> gateway \<Rightarrow> header_map \<Rightarrow> (string option \<Rightarrow> ('z auth_server_scheme, 'a) act)
     \<Rightarrow> ('z auth_server_scheme, 'a) act" where
  "authenticated_call cr e gw headers handler =
    act_bind (authorize cr e (gw_auth gw) headers) (\<lambda>identity.
      handler (case identity of Inl _ \<Rightarrow> None | Inr subject \<Rightarrow> Some subject))"

section \<open>What a caller may see\<close>

record public_status =
  st_oidc_enabled :: bool
  st_github_enabled :: bool
  st_basic_enabled :: bool
  st_persistence_enabled :: bool
  st_registration_enabled :: bool
  st_connectors :: "(string \<times> string) list"
  st_profile_count :: nat
  st_proxy_routes :: "string list"
  st_api_rate_limit_per_second :: nat
  st_api_rate_limit_burst :: nat

definition public_status_of :: "config \<Rightarrow> public_status" where
  "public_status_of config =
    \<lparr>st_oidc_enabled = ac_mode (cf_auth config) \<in> {Oidc, OidcOrBasic},
     st_github_enabled = ac_mode (cf_auth config) = GithubOrBasic,
     st_basic_enabled = ac_mode (cf_auth config) \<in> {Basic, OidcOrBasic, GithubOrBasic},
     st_persistence_enabled = cf_mode config = Managed,
     st_registration_enabled = False,
     st_connectors = map (\<lambda>(name, connector). (name, connector_kind connector)) (cf_connectors config),
     st_profile_count = length (cf_profiles config),
     st_proxy_routes = map fst (cf_proxy_routes config),
     st_api_rate_limit_per_second = cf_api_rate_limit_per_second config,
     st_api_rate_limit_burst = cf_api_rate_limit_burst config\<rparr>"

definition get_status ::
    "('u, 'c) auth_crates_scheme \<Rightarrow> env \<Rightarrow> gateway \<Rightarrow> header_map \<Rightarrow> ('z auth_server_scheme, rpc_error + public_status) act" where
  "get_status cr e gw headers =
    act_try (authenticate cr e gw headers) (\<lambda>_. act_return (Inr (public_status_of (gw_config gw))))"

record profile_summary =
  sm_name :: string
  sm_environment :: string
  sm_secret_path :: string

definition list_profiles ::
    "('u, 'c) auth_crates_scheme \<Rightarrow> env \<Rightarrow> gateway \<Rightarrow> header_map
     \<Rightarrow> ('z auth_server_scheme, rpc_error + profile_summary list) act" where
  "list_profiles cr e gw headers =
    act_try (authenticate cr e gw headers) (\<lambda>subject.
    act_try (act_map_err store_unavailable (permitted_profile_names e (gateway_app gw) subject)) (\<lambda>allowed.
      act_return (Inr
        (map (\<lambda>(name, profile). \<lparr>sm_name = name, sm_environment = pf_environment profile, sm_secret_path = pf_secret_path profile\<rparr>)
          (filter (\<lambda>(name, _). name \<in> set allowed) (cf_profiles (gw_config gw)))))))"

record proxy_destination =
  pd_name :: string
  pd_profile :: string
  pd_host :: string
  pd_mode :: string

fun permitted_routes ::
    "('u, 'c) auth_crates_scheme \<Rightarrow> env \<Rightarrow> string \<Rightarrow> (string \<times> proxy_route_config) list
     \<Rightarrow> ('z auth_server_scheme, rpc_error + proxy_destination list) act" where
  "permitted_routes cr e subject [] = act_return (Inr [])"
| "permitted_routes cr e subject ((name, route) # routes) =
    act_try (act_map_err store_unavailable (profile_permitted e subject (rt_profile route) ModeProxy)) (\<lambda>permitted.
      if \<not> permitted then permitted_routes cr e subject routes
      else
        act_try (act_return (ok_or (RpcError Internal ''proxy route configuration unavailable'')
          (Option.bind (url_parse cr (rt_base_url route)) (url_host_str cr)))) (\<lambda>host.
        act_try (permitted_routes cr e subject routes) (\<lambda>others.
          act_return (Inr (\<lparr>pd_name = name, pd_profile = rt_profile route, pd_host = host, pd_mode = ''injecting''\<rparr> # others)))))"

fun permitted_tunnels ::
    "env \<Rightarrow> string \<Rightarrow> (string \<times> proxy_tunnel_config) list
     \<Rightarrow> ('z auth_server_scheme, rpc_error + proxy_destination list) act" where
  "permitted_tunnels e subject [] = act_return (Inr [])"
| "permitted_tunnels e subject ((name, tunnel) # tunnels) =
    act_try (act_map_err store_unavailable (profile_permitted e subject (tn_profile tunnel) ModeProxy)) (\<lambda>permitted.
      if \<not> permitted then permitted_tunnels e subject tunnels
      else act_try (permitted_tunnels e subject tunnels) (\<lambda>others.
        act_return (Inr (\<lparr>pd_name = name, pd_profile = tn_profile tunnel, pd_host = tn_host tunnel, pd_mode = ''tunnel''\<rparr> # others))))"

definition list_proxy_destinations ::
    "('u, 'c) auth_crates_scheme \<Rightarrow> env \<Rightarrow> gateway \<Rightarrow> header_map
     \<Rightarrow> ('z auth_server_scheme, rpc_error + proxy_destination list) act" where
  "list_proxy_destinations cr e gw headers =
    act_try (authenticate cr e gw headers) (\<lambda>subject.
    act_try (permitted_routes cr e subject (cf_proxy_routes (gw_config gw))) (\<lambda>injecting.
    act_try (permitted_tunnels e subject (cf_proxy_tunnels (gw_config gw))) (\<lambda>tunnels.
      act_return (Inr (sort_key pd_name (injecting @ tunnels))))))"

section \<open>Proxy sessions\<close>

record proxy_session_lease =
  psl_session_id :: string
  psl_token :: string
  psl_proxy_url :: string
  psl_ca_certificate_pem :: string
  psl_expires_unix_seconds :: int
  psl_revoked :: bool

abbreviation session_unavailable :: "store_failure \<Rightarrow> rpc_error" where
  "session_unavailable \<equiv> \<lambda>_. RpcError Internal ''proxy session is unavailable''"

definition validate_proxy_session_id :: "string \<Rightarrow> rpc_error + unit" where
  "validate_proxy_session_id session_id =
    (if session_id = [] \<or> 256 < length session_id \<or> has_control session_id
     then Inl (RpcError InvalidArgument ''session_id is invalid'') else Inr ())"

definition session_expiration :: "int \<Rightarrow> int \<Rightarrow> rpc_error + int" where
  "session_expiration now lifetime =
    (case checked_add now lifetime of
       None \<Rightarrow> Inl (RpcError Internal ''proxy session clock is unavailable'')
     | Some time \<Rightarrow>
         if time < 0 then Inl (RpcError Internal ''proxy session clock is unavailable'')
         else Inr (as_secs time))"

definition require_transparent_proxy :: "gateway \<Rightarrow> rpc_error + transparent_proxy_runtime" where
  "require_transparent_proxy gw =
    ok_or (RpcError FailedPrecondition ''transparent proxy is not configured'') (gw_transparent_proxy gw)"

definition require_session_store :: "('z auth_server_scheme, rpc_error + unit) act" where
  "require_session_store s =
    (if sv_db s = None then Inl (RpcError FailedPrecondition ''managed proxy sessions are required'') else Inr (), s)"

text \<open>An operation of the store that the calls below have checked to be there.\<close>

definition session_update ::
    "env \<Rightarrow> (int \<Rightarrow> store_db \<Rightarrow> store_error + store_db \<times> 'a) \<Rightarrow> ('z auth_server_scheme, store_failure + 'a) act" where
  "session_update e change s =
    (case sv_db s of
       None \<Rightarrow> (Inl StoreDown, s)
     | Some db \<Rightarrow> store_update e (\<lambda>clock. change clock db) s)"

definition rpc_create_proxy_session ::
    "('u, 'c) auth_crates_scheme \<Rightarrow> env \<Rightarrow> gateway \<Rightarrow> header_map \<Rightarrow> string
     \<Rightarrow> ('z auth_server_scheme, rpc_error + proxy_session_lease) act" where
  "rpc_create_proxy_session cr e gw headers profile =
    act_try (authenticate cr e gw headers) (\<lambda>subject.
    act_try (act_return (require_transparent_proxy gw)) (\<lambda>runtime.
    act_try require_session_store (\<lambda>_.
      if map_of (cf_profiles (gw_config gw)) profile = None then act_return (Inl (RpcError NotFound ''profile not found''))
      else act_try (act_map_err store_unavailable (profile_permitted e subject profile ModeProxy)) (\<lambda>permitted.
        if \<not> permitted then act_return (Inl (RpcError PermissionDenied ''profile access is not granted''))
        else
          act_bind (tick (env_random e)) (\<lambda>session_id_bytes.
          act_bind (tick (env_random e)) (\<lambda>token_bytes.
          let credential = mint_proxy_session_credential cr session_id_bytes token_bytes in
          act_bind (clock_now e) (\<lambda>now.
          act_try (act_return (session_expiration now (tr_session_ttl runtime))) (\<lambda>expires.
          act_try (act_return (session_expiration now (tr_session_max_lifetime runtime))) (\<lambda>maximum.
          act_try (act_map_err session_unavailable (session_update e (\<lambda>clock db.
            rbind (create_proxy_session clock db (psc_session_id credential) (psc_token_hash credential) subject profile expires maximum)
              (\<lambda>db'. Inr (db', ()))))) (\<lambda>_.
          act_try (act_map_err audit_unavailable (audit_event_act e subject ''transparent_proxy_session_created''
            (Some profile) (Some (psc_session_id credential)) None)) (\<lambda>_.
            act_return (Inr
              \<lparr>psl_session_id = psc_session_id credential, psl_token = psc_token credential, psl_proxy_url = tr_proxy_url runtime,
               psl_ca_certificate_pem = tr_certificate_pem runtime, psl_expires_unix_seconds = expires, psl_revoked = False\<rparr>))))))))))))"

definition rpc_renew_proxy_session ::
    "('u, 'c) auth_crates_scheme \<Rightarrow> env \<Rightarrow> gateway \<Rightarrow> header_map \<Rightarrow> string
     \<Rightarrow> ('z auth_server_scheme, rpc_error + proxy_session_lease) act" where
  "rpc_renew_proxy_session cr e gw headers session_id =
    act_try (authenticate cr e gw headers) (\<lambda>subject.
    act_try (act_return (validate_proxy_session_id session_id)) (\<lambda>_.
    act_try (act_return (require_transparent_proxy gw)) (\<lambda>runtime.
    act_try require_session_store (\<lambda>_.
    act_bind (clock_now e) (\<lambda>now.
    act_try (act_return (session_expiration now (tr_session_ttl runtime))) (\<lambda>expires.
    act_try (act_map_err session_unavailable (session_update e (\<lambda>clock db.
      renew_proxy_session_for_subject (gw_backend gw) clock db session_id subject expires))) (\<lambda>renewed.
      case renewed of
        None \<Rightarrow> act_return (Inl (RpcError NotFound ''active proxy session not found''))
      | Some session \<Rightarrow>
          act_bind (profile_permitted e subject (ps_profile session) ModeProxy) (\<lambda>permitted.
            case permitted of
              Inl _ \<Rightarrow> act_return (Inl (RpcError Internal ''managed store unavailable''))
            | Inr False \<Rightarrow>
                act_bind (session_update e (\<lambda>_ db. Inr (revoke_proxy_session db session_id))) (\<lambda>_.
                  act_return (Inl (RpcError PermissionDenied ''profile access is not granted'')))
            | Inr True \<Rightarrow>
                act_try (act_map_err audit_unavailable (audit_event_act e subject ''transparent_proxy_session_renewed''
                  (Some (ps_profile session)) (Some session_id) None)) (\<lambda>_.
                  act_return (Inr
                    \<lparr>psl_session_id = ps_session_id session, psl_token = [], psl_proxy_url = [], psl_ca_certificate_pem = [],
                     psl_expires_unix_seconds = ps_expires session, psl_revoked = False\<rparr>)))))))))) "

definition rpc_revoke_proxy_session ::
    "('u, 'c) auth_crates_scheme \<Rightarrow> env \<Rightarrow> gateway \<Rightarrow> header_map \<Rightarrow> string
     \<Rightarrow> ('z auth_server_scheme, rpc_error + proxy_session_lease) act" where
  "rpc_revoke_proxy_session cr e gw headers session_id =
    act_try (authenticate cr e gw headers) (\<lambda>subject.
    act_try (act_return (validate_proxy_session_id session_id)) (\<lambda>_.
    act_try require_session_store (\<lambda>_.
    act_try (act_map_err session_unavailable (session_update e (\<lambda>_ db.
      Inr (revoke_proxy_session_for_subject db session_id subject)))) (\<lambda>revoked.
    act_try (act_map_err audit_unavailable (audit_event_act e subject ''transparent_proxy_session_revoked''
      None (Some session_id) None)) (\<lambda>_.
      act_return (Inr
        \<lparr>psl_session_id = session_id, psl_token = [], psl_proxy_url = [], psl_ca_certificate_pem = [],
         psl_expires_unix_seconds = 0, psl_revoked = revoked\<rparr>))))))"

end
