(* ===== verification/Proxy.thy ===== *)
theory Proxy
  imports Sessions
begin

text \<open>
  The request paths of the proxy, \<^verbatim>\<open>src/server.rs\<close>: a request to a route with its credential injected and its
  response redacted (\<open>proxy_request\<close>), the explicit proxy endpoint, the transparent CONNECT listener with its
  TLS tunnels, and the credential-free tunnels. The upstream servers, the resolver and the sockets are the record
  \<open>network\<close>; what the server has sent upstream is a field of the state. A response body that streams is a value
  that the reader pulls chunks from.

  The error values keep the cause where the code matches on it or logs it. The token bucket of the API
  (\<open>ApiRateLimiter\<close>) is asked through \<open>env_slot\<close>.
\<close>

section \<open>Data\<close>

datatype upstream_client = ProxyClient | WebSocketClient

record 'u outbound_request =
  ob_client :: upstream_client
  ob_method :: string
  ob_target :: 'u
  ob_headers :: header_map
  ob_body :: bytes

text \<open>
  A response of an upstream server: the chunks that arrive until the end of the body, or until reading fails
  (\<open>ur_complete\<close> is false). The upgrade of a connection fails in the same way.
\<close>

record upstream_response =
  ur_status :: nat
  ur_content_length :: "nat option"
  ur_headers :: header_map
  ur_chunks :: "bytes list"
  ur_complete :: bool

text \<open>A connection attempt: it fails or times out, the socket cannot be configured, or it is there.\<close>

datatype connect_outcome = ConnectFailed | SocketFailed | Connected

record 'u network =
  nw_respond :: "'u outbound_request list \<Rightarrow> 'u outbound_request \<Rightarrow> upstream_response option"
  nw_lookup :: "nat \<Rightarrow> string \<Rightarrow> socket_addr list option"
  nw_connect :: "nat \<Rightarrow> socket_addr \<Rightarrow> connect_outcome"

record 'u proxy_server = auth_server +
  px_sent :: "'u outbound_request list"

record body_stream =
  bs_chunks :: "bytes list"
  bs_complete :: bool
  bs_redactor :: streaming_redactor
  bs_total :: nat
  bs_maximum :: nat
  bs_finished :: bool
  bs_lease :: "dynamic_lease_owner option"

text \<open>What an upgraded WebSocket connection is relayed with, \<open>WebSocketSessionContext\<close>.\<close>

record websocket_session =
  wc_token_hash :: bytes
  wc_session_id :: string
  wc_profile :: string
  wc_policy :: proxy_websocket_config
  wc_redaction :: redaction_set
  wc_lease :: "dynamic_lease_owner option"

datatype response_body =
  FullBody bytes
| SecretsJson "(string \<times> string) list"
| StreamBody body_stream
| SwitchedTo websocket_session

record http_response =
  rs_status :: nat
  rs_headers :: header_map
  rs_body :: response_body

datatype proxy_error =
  ProfileDisappeared
| AcquireFailed lease_error
| CredentialFailed credential_error
| TargetFailed target_error
| UpstreamFailed
| ResponseTooLarge
| ResponseHeaderInvalid
| ChunkFailed
| LeaseRevocationFailed connector_error
| WebSocketDisabled
| WebSocketMethod
| WebSocketHandshake handshake_error
| WebSocketUnsafeUpgrade
| WebSocketAcceptInvalid
| WebSocketSubprotocol

section \<open>Responses\<close>

definition hm_append :: "string \<Rightarrow> header_value \<Rightarrow> header_map \<Rightarrow> header_map" where
  "hm_append n v m = m(n := m n @ [v])"

definition static_value :: "string \<Rightarrow> header_value" where
  "static_value text = HeaderValue text False"

definition full_response :: "nat \<Rightarrow> string \<Rightarrow> http_response" where
  "full_response status message = \<lparr>rs_status = status, rs_headers = hm_new, rs_body = FullBody message\<rparr>"

definition no_store :: "http_response \<Rightarrow> http_response" where
  "no_store response =
    response\<lparr>rs_headers :=
      hm_insert ''x-content-type-options'' (static_value ''nosniff'')
        (hm_insert ''cache-control'' (static_value ''no-store'') (rs_headers response))\<rparr>"

definition unauthorized :: http_response where
  "unauthorized =
    no_store ((full_response 401 (''authentication required'' @ [CHR 0x0A]))
      \<lparr>rs_headers := hm_insert ''www-authenticate'' (static_value ''Bearer, Basic realm=\"av\"'') hm_new\<rparr>)"

definition internal_error :: http_response where
  "internal_error = no_store (full_response 502 (''connector request failed'' @ [CHR 0x0A]))"

section \<open>A request to a route\<close>

definition send_upstream ::
    "'u network \<Rightarrow> 'u outbound_request \<Rightarrow> (('u, 'z) proxy_server_scheme, upstream_response option) act" where
  "send_upstream nw request s = (nw_respond nw (px_sent s) request, s\<lparr>px_sent := px_sent s @ [request]\<rparr>)"

text \<open>A lease that goes out of scope is given back (\<open>impl Drop for DynamicLeaseOwner\<close>); \<open>or_drop\<close> is the \<open>?\<close> of
  a function that owns one.\<close>

definition drop_lease ::
    "('u, 'c) crates_scheme \<Rightarrow> env \<Rightarrow> app \<Rightarrow> dynamic_lease_owner option \<Rightarrow> ('z server_scheme, unit) act" where
  "drop_lease cr e app lease = (case lease of None \<Rightarrow> act_return () | Some owner \<Rightarrow> owner_drop cr e app owner)"

definition or_drop ::
    "('u, 'c) crates_scheme \<Rightarrow> env \<Rightarrow> app \<Rightarrow> dynamic_lease_owner option \<Rightarrow> ('z server_scheme, 'e + 'a) act
     \<Rightarrow> ('z server_scheme, 'e + 'a) act" where
  "or_drop cr e app lease m =
    act_bind m (\<lambda>r.
      case r of
        Inl err \<Rightarrow> act_bind (drop_lease cr e app lease) (\<lambda>_. act_return (Inl err))
      | Inr x \<Rightarrow> act_return (Inr x))"

fun response_headers ::
    "('u, 'c) crates_scheme \<Rightarrow> redaction_set \<Rightarrow> header_map \<Rightarrow> string list \<Rightarrow> header_map \<Rightarrow> proxy_error + header_map" where
  "response_headers cr redaction upstream [] acc = Inr acc"
| "response_headers cr redaction upstream (configured # rest) acc =
    rbind (ok_or ResponseHeaderInvalid (header_name_from_bytes cr configured)) (\<lambda>name.
      response_headers cr redaction upstream rest
        (case Option.bind (hm_get upstream name) (redact_header cr redaction) of
           None \<Rightarrow> acc
         | Some v \<Rightarrow> hm_append name v acc))"

fun collect_chunks :: "nat \<Rightarrow> bool \<Rightarrow> bytes list \<Rightarrow> bytes \<Rightarrow> proxy_error + bytes" where
  "collect_chunks maximum complete [] bytes = (if complete then Inr bytes else Inl ChunkFailed)"
| "collect_chunks maximum complete (chunk # chunks) bytes =
    (if maximum < length bytes + length chunk then Inl ResponseTooLarge
     else collect_chunks maximum complete chunks (bytes @ chunk))"

definition proxied_response ::
    "('u, 'c) crates_scheme \<Rightarrow> proxy_route_config \<Rightarrow> redaction_set \<Rightarrow> dynamic_lease_owner option \<Rightarrow> upstream_response
     \<Rightarrow> proxy_error + http_response" where
  "proxied_response cr route redaction lease upstream =
    (if (case ur_content_length upstream of None \<Rightarrow> False | Some len \<Rightarrow> rt_max_response_bytes route < len)
     then Inl ResponseTooLarge
     else
       rbind (response_headers cr redaction (ur_headers upstream) (rt_allowed_response_headers route) hm_new) (\<lambda>headers.
         case rt_response_mode route of
           Buffered \<Rightarrow>
             rbind (collect_chunks (rt_max_response_bytes route) (ur_complete upstream) (ur_chunks upstream) []) (\<lambda>bytes.
               Inr \<lparr>rs_status = ur_status upstream, rs_headers = headers, rs_body = FullBody (redact_bytes redaction bytes)\<rparr>)
         | Streaming \<Rightarrow>
             Inr \<lparr>rs_status = ur_status upstream, rs_headers = headers,
                  rs_body = StreamBody
                    \<lparr>bs_chunks = ur_chunks upstream, bs_complete = ur_complete upstream,
                     bs_redactor = into_streaming redaction, bs_total = 0, bs_maximum = rt_max_response_bytes route,
                     bs_finished = False, bs_lease = lease\<rparr>\<rparr>))"

text \<open>From the acquired secrets to the response, and the whole request.\<close>

definition forward_request ::
    "('u, 'c) crates_scheme \<Rightarrow> 'u network \<Rightarrow> proxy_route_config \<Rightarrow> validated_proxy_request \<Rightarrow> string \<Rightarrow> header_map \<Rightarrow> bytes
     \<Rightarrow> (string \<times> string) list \<Rightarrow> dynamic_lease_owner option \<Rightarrow> (('u, 'z) proxy_server_scheme, proxy_error + http_response) act" where
  "forward_request cr nw route validated meth headers body values lease =
    act_try (act_return (map_error CredentialFailed (prepare_credentials cr route (map_of values) body))) (\<lambda>prepared.
    act_try (act_return (map_error TargetFailed (build_target_url cr route validated))) (\<lambda>target.
    act_try (act_return (map_error CredentialFailed (prepare_outbound_headers cr route headers prepared))) (\<lambda>outbound_headers.
    act_bind (send_upstream nw \<lparr>ob_client = ProxyClient, ob_method = meth, ob_target = target,
                                ob_headers = outbound_headers, ob_body = pc_body prepared\<rparr>) (\<lambda>reply.
      act_return (rbind (ok_or UpstreamFailed reply) (proxied_response cr route (pc_redaction prepared) lease))))))"

definition proxy_request ::
    "('u, 'c) crates_scheme \<Rightarrow> env \<Rightarrow> 'u network \<Rightarrow> gateway \<Rightarrow> proxy_route_config \<Rightarrow> string \<Rightarrow> validated_proxy_request \<Rightarrow> string
     \<Rightarrow> header_map \<Rightarrow> bytes \<Rightarrow> (('u, 'z) proxy_server_scheme, proxy_error + http_response) act" where
  "proxy_request cr e nw gw route subject validated meth headers body =
    act_try (act_return (ok_or ProfileDisappeared (map_of (cf_profiles (gw_config gw)) (rt_profile route)))) (\<lambda>profile.
    act_try (act_map_err AcquireFailed
      (acquire_owned_proxy_secrets cr e (gateway_app gw) (rt_profile route) profile subject)) (\<lambda>(values, lease).
    act_try (or_drop cr e (gateway_app gw) lease (forward_request cr nw route validated meth headers body values lease)) (\<lambda>response.
      case (rt_response_mode route, lease) of
        (Buffered, Some owner) \<Rightarrow>
          act_try (act_map_err LeaseRevocationFailed (owner_revoke cr e (gateway_app gw) owner)) (\<lambda>_. act_return (Inr response))
      | _ \<Rightarrow> act_return (Inr response))))"

section \<open>A streaming body\<close>

text \<open>
  One poll of the stream: it reads chunks until the redactor has output to hand on. A redactor that does not
  return would show as \<open>StreamStuck\<close>.
\<close>

datatype stream_error = StreamTooLarge | StreamReadFailed | StreamRevocation connector_error

datatype stream_item = StreamChunk bytes body_stream | StreamEnd | StreamFailed stream_error | StreamStuck

definition stream_end ::
    "('u, 'c) crates_scheme \<Rightarrow> env \<Rightarrow> app \<Rightarrow> body_stream \<Rightarrow> ('z server_scheme, stream_item) act" where
  "stream_end cr e app st =
    (case finish (bs_redactor st) of
       None \<Rightarrow> act_return StreamStuck
     | Some (redactor, out) \<Rightarrow>
         act_bind (case bs_lease st of
                     None \<Rightarrow> act_return (Inr ())
                   | Some owner \<Rightarrow> owner_revoke cr e app owner) (\<lambda>revoked.
           act_return
             (case revoked of
                Inl err \<Rightarrow> StreamFailed (StreamRevocation err)
              | Inr _ \<Rightarrow>
                  if out = [] then StreamEnd
                  else StreamChunk out (st\<lparr>bs_chunks := [], bs_redactor := redactor, bs_finished := True, bs_lease := None\<rparr>))))"

fun stream_pull ::
    "('u, 'c) crates_scheme \<Rightarrow> env \<Rightarrow> app \<Rightarrow> bytes list \<Rightarrow> body_stream \<Rightarrow> ('z server_scheme, stream_item) act" where
  "stream_pull cr e app [] st =
    (if bs_complete st then stream_end cr e app st
     else act_bind (drop_lease cr e app (bs_lease st)) (\<lambda>_. act_return (StreamFailed StreamReadFailed)))"
| "stream_pull cr e app (chunk # chunks) st =
    (if bs_maximum st < bs_total st + length chunk
     then act_bind (drop_lease cr e app (bs_lease st)) (\<lambda>_. act_return (StreamFailed StreamTooLarge))
     else
       case push chunk (bs_redactor st) of
         None \<Rightarrow> act_return StreamStuck
       | Some (redactor, out) \<Rightarrow>
           let st' = st\<lparr>bs_chunks := chunks, bs_redactor := redactor, bs_total := bs_total st + length chunk\<rparr> in
           if out \<noteq> [] then act_return (StreamChunk out st')
           else stream_pull cr e app chunks st')"

definition stream_next ::
    "('u, 'c) crates_scheme \<Rightarrow> env \<Rightarrow> app \<Rightarrow> body_stream \<Rightarrow> ('z server_scheme, stream_item) act" where
  "stream_next cr e app st =
    (if bs_finished st then act_return StreamEnd else stream_pull cr e app (bs_chunks st) st)"

text \<open>A reader that polls at most \<open>n\<close> times and then lets the stream go: the bytes it got, and whether the
  stream got stuck.\<close>

fun stream_read ::
    "('u, 'c) crates_scheme \<Rightarrow> env \<Rightarrow> app \<Rightarrow> nat \<Rightarrow> body_stream \<Rightarrow> ('z server_scheme, bytes option) act" where
  "stream_read cr e app 0 st = act_bind (drop_lease cr e app (bs_lease st)) (\<lambda>_. act_return (Some []))"
| "stream_read cr e app (Suc n) st =
    act_bind (stream_next cr e app st) (\<lambda>item.
      case item of
        StreamChunk out st' \<Rightarrow>
          act_bind (stream_read cr e app n st') (\<lambda>rest. act_return (map_option (\<lambda>more. out @ more) rest))
      | StreamEnd \<Rightarrow> act_return (Some [])
      | StreamFailed _ \<Rightarrow> act_return (Some [])
      | StreamStuck \<Rightarrow> act_return None)"

section \<open>A WebSocket upgrade\<close>

text \<open>What the server uses of \<^verbatim>\<open>tungstenite\<close>: the accept value for a key, and the length of a message.\<close>

datatype ws_message =
  WsText string | WsBinary bytes | WsPing bytes | WsPong bytes | WsClose "(nat \<times> string) option" | WsFrame bytes

record 'u proxy_crates = "'u auth_crates" +
  derive_accept_key :: "bytes \<Rightarrow> string"
  ws_message_len :: "ws_message \<Rightarrow> nat"

text \<open>The headers of the handshake that go upstream besides the ones of the route policy.\<close>

definition websocket_outbound_headers :: "header_map \<Rightarrow> header_map \<Rightarrow> header_map" where
  "websocket_outbound_headers inbound outbound =
    hm_insert ''upgrade'' (static_value ''websocket'')
      (hm_insert ''connection'' (static_value ''Upgrade'')
        (foldl (\<lambda>acc name. case hm_get inbound name of None \<Rightarrow> acc | Some v \<Rightarrow> hm_insert name v acc) outbound
          [''origin'', ''sec-websocket-key'', ''sec-websocket-version'', ''sec-websocket-protocol'']))"

text \<open>The checks of the upstream's answer; the result is the accept value and the selected subprotocol.\<close>

definition check_upgrade ::
    "('u, 'c) proxy_crates_scheme \<Rightarrow> proxy_websocket_config \<Rightarrow> header_map \<Rightarrow> upstream_response
     \<Rightarrow> proxy_error + string \<times> string option" where
  "check_upgrade cr policy headers upstream =
    (if ur_status upstream \<noteq> 101
        \<or> \<not> header_contains_token cr (ur_headers upstream) ''connection'' ''upgrade''
        \<or> \<not> single_header_equals cr (ur_headers upstream) ''upgrade'' ''websocket''
        \<or> hm_contains_key (ur_headers upstream) ''sec-websocket-extensions''
     then Inl WebSocketUnsafeUpgrade
     else
       rbind (map_error WebSocketHandshake (single_header_text cr headers ''sec-websocket-key'')) (\<lambda>request_key.
       let expected_accept = derive_accept_key cr request_key in
       rbind (map_error WebSocketHandshake (single_header_text cr (ur_headers upstream) ''sec-websocket-accept'')) (\<lambda>accept.
       if accept \<noteq> expected_accept then Inl WebSocketAcceptInvalid
       else
         rbind (map_error WebSocketHandshake (websocket_subprotocols cr headers)) (\<lambda>requested.
         rbind (map_error WebSocketHandshake (single_optional_header_text cr (ur_headers upstream) ''sec-websocket-protocol'')) (\<lambda>selected.
           if (case selected of
                 None \<Rightarrow> False
               | Some protocol \<Rightarrow> protocol \<notin> set requested \<or> protocol \<notin> set (ws_allowed_subprotocols policy))
           then Inl WebSocketSubprotocol
           else if \<not> ur_complete upstream then Inl UpstreamFailed
           else Inr (expected_accept, selected))))))"

definition forward_upgrade ::
    "('u, 'c) proxy_crates_scheme \<Rightarrow> 'u network \<Rightarrow> proxy_route_config \<Rightarrow> proxy_websocket_config \<Rightarrow> validated_proxy_request
     \<Rightarrow> string \<Rightarrow> header_map \<Rightarrow> bytes \<Rightarrow> string \<Rightarrow> (string \<times> string) list \<Rightarrow> dynamic_lease_owner option
     \<Rightarrow> (('u, 'z) proxy_server_scheme, proxy_error + http_response) act" where
  "forward_upgrade cr nw route policy validated meth headers token_hash session_id values lease =
    act_try (act_return (map_error CredentialFailed (prepare_websocket_credentials cr route (map_of values)))) (\<lambda>prepared.
    act_try (act_return (map_error TargetFailed (build_target_url cr route validated))) (\<lambda>target.
    act_try (act_return (map_error CredentialFailed (prepare_outbound_headers cr route headers prepared))) (\<lambda>outbound_headers.
    act_bind (send_upstream nw \<lparr>ob_client = WebSocketClient, ob_method = meth, ob_target = target,
                                ob_headers = websocket_outbound_headers headers outbound_headers, ob_body = []\<rparr>) (\<lambda>reply.
    act_try (act_return (rbind (ok_or UpstreamFailed reply) (check_upgrade cr policy headers))) (\<lambda>(accept, protocol).
      let base = hm_append ''sec-websocket-accept'' (static_value accept)
                   (hm_append ''upgrade'' (static_value ''websocket'') (hm_append ''connection'' (static_value ''Upgrade'') hm_new))
      in act_return (Inr
        \<lparr>rs_status = 101,
         rs_headers = (case protocol of None \<Rightarrow> base | Some p \<Rightarrow> hm_append ''sec-websocket-protocol'' (static_value p) base),
         rs_body = SwitchedTo
           \<lparr>wc_token_hash = token_hash, wc_session_id = session_id, wc_profile = rt_profile route, wc_policy = policy,
            wc_redaction = pc_redaction prepared, wc_lease = lease\<rparr>\<rparr>))))))"

definition proxy_websocket_request ::
    "('u, 'c) proxy_crates_scheme \<Rightarrow> env \<Rightarrow> 'u network \<Rightarrow> gateway \<Rightarrow> proxy_route_config \<Rightarrow> string \<Rightarrow> validated_proxy_request
     \<Rightarrow> string \<Rightarrow> header_map \<Rightarrow> bytes \<Rightarrow> string \<Rightarrow> (('u, 'z) proxy_server_scheme, proxy_error + http_response) act" where
  "proxy_websocket_request cr e nw gw route subject validated meth headers token_hash session_id =
    act_try (act_return (ok_or WebSocketDisabled (rt_websocket route))) (\<lambda>policy.
      if meth \<noteq> ''GET'' then act_return (Inl WebSocketMethod)
      else
        act_try (act_return (map_error WebSocketHandshake (validate_websocket_handshake cr headers policy))) (\<lambda>_.
        act_try (act_return (ok_or ProfileDisappeared (map_of (cf_profiles (gw_config gw)) (rt_profile route)))) (\<lambda>profile.
        act_try (act_map_err AcquireFailed
          (acquire_owned_proxy_secrets cr e (gateway_app gw) (rt_profile route) profile subject)) (\<lambda>(values, lease).
          or_drop cr e (gateway_app gw) lease
            (forward_upgrade cr nw route policy validated meth headers token_hash session_id values lease)))))"

section \<open>The explicit endpoints\<close>

definition line :: "string \<Rightarrow> string" where
  "line message = message @ [CHR 0x0A]"

definition is_trusted_browser_origin :: "('u, 'c) crates_scheme \<Rightarrow> header_map \<Rightarrow> string \<Rightarrow> bool" where
  "is_trusted_browser_origin cr headers public_url \<longleftrightarrow>
     (case Option.bind (hm_get headers ''origin'') (header_value_to_str cr) of
        None \<Rightarrow> True
      | Some origin \<Rightarrow> origin = public_url)
     \<and> (case Option.bind (hm_get headers ''sec-fetch-site'') (header_value_to_str cr) of
          None \<Rightarrow> True
        | Some site \<Rightarrow> site \<in> {''same-origin'', ''none''})"

definition profile_secrets ::
    "('u, 'c) auth_crates_scheme \<Rightarrow> env \<Rightarrow> gateway \<Rightarrow> header_map \<Rightarrow> string \<Rightarrow> ('z auth_server_scheme, http_response) act" where
  "profile_secrets cr e gw headers profile =
    act_bind (authorize cr e (gw_auth gw) headers) (\<lambda>identity.
      case identity of
        Inl _ \<Rightarrow> act_return unauthorized
      | Inr subject \<Rightarrow>
          (case map_of (cf_profiles (gw_config gw)) profile of
             None \<Rightarrow> act_return (full_response 404 (line ''profile not found''))
           | Some profile_config \<Rightarrow>
               act_bind (profile_permitted e subject profile ModeEnvironment) (\<lambda>permitted.
                 case permitted of
                   Inl _ \<Rightarrow> act_return internal_error
                 | Inr False \<Rightarrow> act_return (full_response 403 (line ''profile access is not granted''))
                 | Inr True \<Rightarrow>
                     act_bind (fetch_secrets cr e (gateway_app gw) profile_config) (\<lambda>fetched.
                       case fetched of
                         Inl _ \<Rightarrow> act_return internal_error
                       | Inr secrets \<Rightarrow>
                           act_bind (audit_event_act e subject ''profile_lease'' (Some profile) None (Some ''legacy-api'')) (\<lambda>audited.
                             act_return
                               (case audited of
                                  Inl _ \<Rightarrow> internal_error
                                | Inr _ \<Rightarrow> no_store \<lparr>rs_status = 200, rs_headers = hm_new, rs_body = SecretsJson secrets\<rparr>))))))"

definition proxy ::
    "('u, 'c) auth_crates_scheme \<Rightarrow> env \<Rightarrow> 'u network \<Rightarrow> gateway \<Rightarrow> string \<Rightarrow> string \<Rightarrow> uri \<Rightarrow> string \<Rightarrow> header_map \<Rightarrow> bytes
     \<Rightarrow> (('u, 'z) proxy_server_scheme, http_response) act" where
  "proxy cr e nw gw route_name path target meth headers body =
    act_bind (authorize cr e (gw_auth gw) headers) (\<lambda>identity.
      case identity of
        Inl _ \<Rightarrow> act_return unauthorized
      | Inr subject \<Rightarrow>
          (case map_of (cf_proxy_routes (gw_config gw)) route_name of
             None \<Rightarrow> act_return (full_response 404 (line ''proxy route not found''))
           | Some route \<Rightarrow>
               if is_websocket_attempt cr headers
               then act_return (full_response 403 (line ''WebSockets require a transparent proxy session''))
               else act_bind (profile_permitted e subject (rt_profile route) ModeProxy) (\<lambda>permitted.
                 case permitted of
                   Inl _ \<Rightarrow> act_return internal_error
                 | Inr False \<Rightarrow> act_return (full_response 403 (line ''proxy request forbidden''))
                 | Inr True \<Rightarrow>
                     if \<not> is_trusted_browser_origin cr headers (cf_public_url (gw_config gw))
                     then act_return (full_response 403 (line ''proxy request forbidden''))
                     else if rt_max_body_bytes route < length body
                     then act_return (full_response 413 (line ''proxy request is too large''))
                     else (case validate_proxy_request cr route path (uri_query target) meth headers (length body) of
                         Inl _ \<Rightarrow> act_return (full_response 403 (line ''proxy request forbidden''))
                       | Inr validated \<Rightarrow>
                           act_bind (audit_event_act e subject ''proxy_request_started'' (Some (rt_profile route)) (Some route_name) None) (\<lambda>audited.
                             case audited of
                               Inl _ \<Rightarrow> act_return internal_error
                             | Inr _ \<Rightarrow>
                                 act_bind (proxy_request cr e nw gw route subject validated meth headers body) (\<lambda>result.
                                   act_return
                                     (case result of
                                        Inl _ \<Rightarrow> full_response 502 (line ''proxy request failed'')
                                      | Inr response \<Rightarrow> no_store response)))))))"

section \<open>The transparent listener\<close>

text \<open>
  The resolved addresses of a tunnel host, a \<^verbatim>\<open>BTreeSet<SocketAddr>\<close>: IPv4 before IPv6, then by address, port
  and scope.
\<close>

fun ip_number :: "ip_addr \<Rightarrow> nat" where
  "ip_number (IpV4 a) = unat a"
| "ip_number (IpV6 (Ipv6Addr a b c d f g h i)) =
    2 ^ 128 + foldl (\<lambda>n segment. n * 2 ^ 16 + unat segment) 0 [a, b, c, d, f, g, h, i]"

definition socket_number :: "socket_addr \<Rightarrow> nat" where
  "socket_number address = (ip_number (sk_ip address) * 2 ^ 16 + sk_port address) * 2 ^ 32 + sk_scope address"

definition address_set :: "socket_addr list \<Rightarrow> socket_addr list" where
  "address_set addresses = sort_key socket_number (remdups addresses)"

fun connect_first :: "'u network \<Rightarrow> socket_addr list \<Rightarrow> ('z io_scheme, socket_addr option) act" where
  "connect_first nw [] = act_return None"
| "connect_first nw (address # addresses) =
    act_bind (tick (\<lambda>n. nw_connect nw n address)) (\<lambda>outcome.
      case outcome of
        Connected \<Rightarrow> act_return (Some address)
      | SocketFailed \<Rightarrow> act_return None
      | ConnectFailed \<Rightarrow> connect_first nw addresses)"

definition connect_credentialless_upstream ::
    "'u network \<Rightarrow> string \<Rightarrow> bool \<Rightarrow> ('z io_scheme, socket_addr option) act" where
  "connect_credentialless_upstream nw host allow_private_ips =
    act_bind (tick (\<lambda>n. nw_lookup nw n host)) (\<lambda>resolved.
      case resolved of
        None \<Rightarrow> act_return None
      | Some found \<Rightarrow>
          let addresses = address_set found in
          if addresses = [] \<or> 16 < length addresses then act_return None
          else if list_ex (\<lambda>address. \<not> tunnel_ip_allowed (sk_ip address) allow_private_ips) addresses then act_return None
          else connect_first nw addresses)"

text \<open>
  The answer to a CONNECT, and the tunnel that a 200 opens: the task that serves it waits for the upgrade of
  the connection, which no other answer completes.
\<close>

datatype tunnel =
  InjectingTunnel (tl_route: string) (tl_host: string) (tl_token_hash: bytes) (tl_session_id: string)
| CredentiallessTunnel (tl_upstream: socket_addr)

record connect_answer =
  ca_status :: nat
  ca_authenticate :: bool
  ca_tunnel :: "tunnel option"

definition refuse_connect :: "nat \<Rightarrow> connect_answer" where
  "refuse_connect status = \<lparr>ca_status = status, ca_authenticate = False, ca_tunnel = None\<rparr>"

definition transparent_proxy_auth_required :: connect_answer where
  "transparent_proxy_auth_required = \<lparr>ca_status = 407, ca_authenticate = True, ca_tunnel = None\<rparr>"

definition session_for_token ::
    "env \<Rightarrow> bytes \<Rightarrow> ('z server_scheme, store_failure + proxy_session option) act" where
  "session_for_token e token_hash s =
    (case sv_db s of
       None \<Rightarrow> (Inr None, s)
     | Some db \<Rightarrow> store_query e (\<lambda>clock. active_proxy_session clock db token_hash) s)"

definition open_destination ::
    "'u network \<Rightarrow> authorized_connect \<Rightarrow> proxy_session \<Rightarrow> ('z io_scheme, tunnel option) act" where
  "open_destination nw authorized session =
    (case ac_destination authorized of
       Injecting name _ \<Rightarrow>
         act_return (Some (InjectingTunnel name (ac_host authorized) (ac_token_hash authorized) (ps_session_id session)))
     | Tunnel _ _ host allow_private_ips \<Rightarrow>
         act_bind (connect_credentialless_upstream nw host allow_private_ips) (\<lambda>upstream.
           act_return (map_option CredentiallessTunnel upstream)))"

definition transparent_connect_response ::
    "('u, 'c) crates_scheme \<Rightarrow> env \<Rightarrow> 'u network \<Rightarrow> transparent_proxy_runtime \<Rightarrow> string \<Rightarrow> uri \<Rightarrow> header_map
     \<Rightarrow> ('z server_scheme, connect_answer) act" where
  "transparent_connect_response cr e nw runtime meth target headers =
    act_bind (tick (env_slot e)) (\<lambda>acquired.
      if \<not> acquired then act_return (refuse_connect 429)
      else if (case hm_get headers ''content-length'' of None \<Rightarrow> False | Some v \<Rightarrow> hv_bytes v \<noteq> ''0'')
      then act_return (refuse_connect 400)
      else case authorize_connect_request cr meth target headers (tr_catalog runtime) of
        Inl _ \<Rightarrow> act_return (refuse_connect 403)
      | Inr authorized \<Rightarrow>
          act_bind (session_for_token e (ac_token_hash authorized)) (\<lambda>found.
            case found of
              Inl _ \<Rightarrow> act_return (refuse_connect 503)
            | Inr None \<Rightarrow> act_return transparent_proxy_auth_required
            | Inr (Some session) \<Rightarrow>
                if ps_profile session \<noteq> td_profile (ac_destination authorized) then act_return (refuse_connect 403)
                else act_bind (profile_permitted e (ps_subject session) (ps_profile session) ModeProxy) (\<lambda>permitted.
                  case permitted of
                    Inl _ \<Rightarrow> act_return (refuse_connect 503)
                  | Inr False \<Rightarrow> act_return (refuse_connect 403)
                  | Inr True \<Rightarrow>
                      act_bind (open_destination nw authorized session) (\<lambda>opened.
                        case opened of
                          None \<Rightarrow> act_return (refuse_connect 502)
                        | Some tunnel \<Rightarrow>
                            act_bind (audit_event_act e (ps_subject session) ''transparent_proxy_connect''
                              (Some (ps_profile session)) (Some (td_name (ac_destination authorized))) None) (\<lambda>audited.
                              act_return
                                (case audited of
                                   Inl _ \<Rightarrow> refuse_connect 503
                                 | Inr _ \<Rightarrow> \<lparr>ca_status = 200, ca_authenticate = False, ca_tunnel = Some tunnel\<rparr>))))))"

section \<open>A request in a TLS tunnel\<close>

datatype body_frame = DataFrame bytes | OtherFrame | FailedFrame

fun collect_transparent_body :: "nat \<Rightarrow> body_frame list \<Rightarrow> bytes \<Rightarrow> bytes option" where
  "collect_transparent_body maximum [] bytes = Some bytes"
| "collect_transparent_body maximum (frame # frames) bytes =
    (case frame of
       FailedFrame \<Rightarrow> None
     | OtherFrame \<Rightarrow> collect_transparent_body maximum frames bytes
     | DataFrame data \<Rightarrow>
         if maximum < length bytes + length data then None
         else collect_transparent_body maximum frames (bytes @ data))"

record tunnel_request =
  tq_method :: string
  tq_uri :: uri
  tq_headers :: header_map
  tq_frames :: "body_frame list"

definition forbidden :: http_response where
  "forbidden = full_response 403 (line ''proxy request forbidden'')"

definition unavailable :: http_response where
  "unavailable = full_response 503 (line ''proxy unavailable'')"

text \<open>What the policy of the route makes of a request: the collected body and the validated request, or the
  refusal.\<close>

definition admit_tunnel_request ::
    "('u, 'c) crates_scheme \<Rightarrow> proxy_route_config \<Rightarrow> tunnel_request \<Rightarrow> http_response + bytes \<times> validated_proxy_request" where
  "admit_tunnel_request cr route request =
    (let websocket_attempt = is_websocket_attempt cr (tq_headers request) in
     if websocket_attempt
        \<and> (case rt_websocket route of
             None \<Rightarrow> True
           | Some policy \<Rightarrow> \<not> is_ok (validate_websocket_handshake cr (tq_headers request) policy))
     then Inl forbidden
     else if \<not> is_ok (enforce_transparent_tunnel_target cr route (tq_uri request) (tq_headers request)) then Inl forbidden
     else case collect_transparent_body (rt_max_body_bytes route) (tq_frames request) [] of
       None \<Rightarrow> Inl (full_response 413 (line ''proxy request is too large''))
     | Some body \<Rightarrow>
         if websocket_attempt \<and> body \<noteq> [] then Inl (full_response 403 (line ''WebSocket upgrade body is forbidden''))
         else map_error (\<lambda>_. forbidden)
           (rbind (validate_proxy_request cr route (uri_path (tq_uri request)) (uri_query (tq_uri request))
                    (tq_method request) (tq_headers request) (length body)) (\<lambda>validated. Inr (body, validated))))"

text \<open>A response that is not sent: its stream, or the task that waits for the upgrade, lets its lease go.\<close>

definition drop_response ::
    "('u, 'c) crates_scheme \<Rightarrow> env \<Rightarrow> app \<Rightarrow> http_response \<Rightarrow> ('z server_scheme, unit) act" where
  "drop_response cr e app response =
    (case rs_body response of
       StreamBody st \<Rightarrow> drop_lease cr e app (bs_lease st)
     | SwitchedTo session \<Rightarrow> drop_lease cr e app (wc_lease session)
     | _ \<Rightarrow> act_return ())"

definition relay_tunnel_request ::
    "('u, 'c) proxy_crates_scheme \<Rightarrow> env \<Rightarrow> 'u network \<Rightarrow> gateway \<Rightarrow> string \<Rightarrow> proxy_route_config \<Rightarrow> bytes \<Rightarrow> proxy_session
     \<Rightarrow> tunnel_request \<Rightarrow> (('u, 'z) proxy_server_scheme, http_response) act" where
  "relay_tunnel_request cr e nw gw route_name route token_hash session request =
    (case admit_tunnel_request cr route request of
       Inl refusal \<Rightarrow> act_return refusal
     | Inr (body, validated) \<Rightarrow>
         act_bind
           (if is_websocket_attempt cr (tq_headers request)
            then proxy_websocket_request cr e nw gw route (ps_subject session) validated (tq_method request)
                   (tq_headers request) token_hash (ps_session_id session)
            else proxy_request cr e nw gw route (ps_subject session) validated (tq_method request) (tq_headers request) body)
           (\<lambda>result.
             case result of
               Inl _ \<Rightarrow> act_return (full_response 502 (line ''proxy request failed''))
             | Inr response \<Rightarrow>
                 act_bind (audit_event_act e (ps_subject session) ''transparent_proxy_request''
                   (Some (ps_profile session)) (Some route_name) None) (\<lambda>audited.
                   case audited of
                     Inl _ \<Rightarrow> act_bind (drop_response cr e (gateway_app gw) response) (\<lambda>_. act_return unavailable)
                   | Inr _ \<Rightarrow> act_return response)))"

definition transparent_tunnel_response ::
    "('u, 'c) proxy_crates_scheme \<Rightarrow> env \<Rightarrow> 'u network \<Rightarrow> gateway \<Rightarrow> string \<Rightarrow> bytes \<Rightarrow> string \<Rightarrow> tunnel_request
     \<Rightarrow> (('u, 'z) proxy_server_scheme, http_response) act" where
  "transparent_tunnel_response cr e nw gw route_name token_hash session_id request =
    act_bind (tick (env_slot e)) (\<lambda>acquired.
      if \<not> acquired then act_return (full_response 429 (line ''proxy rate limit exceeded''))
      else act_bind (session_for_token e token_hash) (\<lambda>found.
        case found of
          Inl _ \<Rightarrow> act_return unavailable
        | Inr None \<Rightarrow> act_return (full_response 407 (line ''proxy authentication required''))
        | Inr (Some session) \<Rightarrow>
            (case map_of (cf_proxy_routes (gw_config gw)) route_name of
               None \<Rightarrow> act_return forbidden
             | Some route \<Rightarrow>
                 if ps_session_id session \<noteq> session_id \<or> ps_profile session \<noteq> rt_profile route then act_return forbidden
                 else act_bind (profile_permitted e (ps_subject session) (ps_profile session) ModeProxy) (\<lambda>permitted.
                   case permitted of
                     Inl _ \<Rightarrow> act_return unavailable
                   | Inr False \<Rightarrow> act_return forbidden
                   | Inr True \<Rightarrow> relay_tunnel_request cr e nw gw route_name route token_hash session request))))"

end
