(* ===== verification/WebSocket.thy ===== *)
theory WebSocket
  imports Proxy
begin

text \<open>
  The relay of an upgraded WebSocket connection, \<open>relay_websocket_streams\<close> of \<^verbatim>\<open>src/server.rs\<close>. The arms of its
  \<open>select!\<close> are events; in which order they fire is up to the network and the timers, so a run takes any list of
  them. The two logs hold the messages that were handed to the sockets, whether or not the write completed.
\<close>

datatype relay_error =
  RelayStoreMissing
| RelayStore store_failure
| RelayInactive
| RelayDeadline
| RelayLease lease_error
| RelayExpiry
| RelayRead
| RelayByteLimit
| RelayText
| RelayRawFrame
| RelayWrite
| RelayRevocation connector_error
| RelayAndRevocation relay_error connector_error

text \<open>The next item of one side: the end of the stream, a read error, or a message and whether passing it on
  succeeds within five seconds.\<close>

datatype ws_incoming = WsEnd | WsError | WsMessage ws_message bool

datatype relay_event = Deadline | RenewalDue | SessionCheck | FromCaller ws_incoming | FromUpstream ws_incoming

record relay_state =
  rl_total :: nat
  rl_lease :: "dynamic_lease_owner option"
  rl_to_caller :: "ws_message list"
  rl_to_upstream :: "ws_message list"

datatype relay_status = Running | Stopped "relay_error + unit"

definition redact_text :: "redaction_set \<Rightarrow> string \<Rightarrow> relay_error + string" where
  "redact_text redaction text =
    (let redacted = redact_bytes redaction text in if utf8_valid redacted then Inr redacted else Inl RelayText)"

fun redact_websocket_message :: "redaction_set \<Rightarrow> ws_message \<Rightarrow> relay_error + ws_message" where
  "redact_websocket_message redaction (WsText text) = rbind (redact_text redaction text) (\<lambda>t. Inr (WsText t))"
| "redact_websocket_message redaction (WsBinary data) = Inr (WsBinary (redact_bytes redaction data))"
| "redact_websocket_message redaction (WsPing data) = Inr (WsPing (redact_bytes redaction data))"
| "redact_websocket_message redaction (WsPong data) = Inr (WsPong (redact_bytes redaction data))"
| "redact_websocket_message redaction (WsClose None) = Inr (WsClose None)"
| "redact_websocket_message redaction (WsClose (Some (code, reason))) =
    rbind (redact_text redaction reason) (\<lambda>r. Inr (WsClose (Some (code, r))))"
| "redact_websocket_message redaction (WsFrame _) = Inl RelayRawFrame"

definition is_close :: "ws_message \<Rightarrow> bool" where
  "is_close message = (case message of WsClose _ \<Rightarrow> True | _ \<Rightarrow> False)"

definition websocket_session_is_active ::
    "env \<Rightarrow> bytes \<Rightarrow> string \<Rightarrow> string \<Rightarrow> ('z server_scheme, relay_error + bool) act" where
  "websocket_session_is_active e token_hash session_id profile s =
    (case sv_db s of
       None \<Rightarrow> (Inl RelayStoreMissing, s)
     | Some db \<Rightarrow>
         act_try (act_map_err RelayStore (store_query e (\<lambda>clock. active_proxy_session clock db token_hash))) (\<lambda>found.
           case found of
             None \<Rightarrow> act_return (Inr False)
           | Some session \<Rightarrow>
               if ps_session_id session \<noteq> session_id \<or> ps_profile session \<noteq> profile then act_return (Inr False)
               else act_map_err RelayStore (profile_permitted e (ps_subject session) profile ModeProxy)) s)"

definition require_active ::
    "env \<Rightarrow> websocket_session \<Rightarrow> ('z server_scheme, relay_error + unit) act" where
  "require_active e session =
    act_try (websocket_session_is_active e (wc_token_hash session) (wc_session_id session) (wc_profile session)) (\<lambda>active.
      act_return (if active then Inr () else Inl RelayInactive))"

text \<open>A message of one side: counted, redacted and passed on. \<open>total_bytes\<close> is a saturating \<open>u64\<close>.\<close>

definition relay_message ::
    "('u, 'c) proxy_crates_scheme \<Rightarrow> websocket_session \<Rightarrow> (ws_message \<Rightarrow> relay_state \<Rightarrow> relay_state) \<Rightarrow> ws_incoming \<Rightarrow> relay_state
     \<Rightarrow> relay_status \<times> relay_state" where
  "relay_message cr session pass incoming st =
    (case incoming of
       WsEnd \<Rightarrow> (Stopped (Inr ()), st)
     | WsError \<Rightarrow> (Stopped (Inl RelayRead), st)
     | WsMessage message written \<Rightarrow>
         let total = min (rl_total st + ws_message_len cr message) (2 ^ 64 - 1);
             st = st\<lparr>rl_total := total\<rparr>
         in
         if ws_max_total_bytes (wc_policy session) < total then (Stopped (Inl RelayByteLimit), st)
         else case redact_websocket_message (wc_redaction session) message of
           Inl err \<Rightarrow> (Stopped (Inl err), st)
         | Inr redacted \<Rightarrow>
             let st = pass redacted st in
             if \<not> written then (Stopped (Inl RelayWrite), st)
             else if is_close message then (Stopped (Inr ()), st)
             else (Running, st))"

definition to_upstream :: "ws_message \<Rightarrow> relay_state \<Rightarrow> relay_state" where
  "to_upstream message st = st\<lparr>rl_to_upstream := rl_to_upstream st @ [message]\<rparr>"

definition to_caller :: "ws_message \<Rightarrow> relay_state \<Rightarrow> relay_state" where
  "to_caller message st = st\<lparr>rl_to_caller := rl_to_caller st @ [message]\<rparr>"

definition renewal_delay_of :: "env \<Rightarrow> dynamic_lease_owner option \<Rightarrow> ('z io_scheme, relay_error + unit) act" where
  "renewal_delay_of e lease =
    (case lease of
       None \<Rightarrow> act_return (Inr ())
     | Some owner \<Rightarrow>
         act_bind (dynamic_proxy_renewal_delay e (dlo_expires_at owner)) (\<lambda>delay.
           act_return (case delay of Inl _ \<Rightarrow> Inl RelayExpiry | Inr _ \<Rightarrow> Inr ())))"

text \<open>The renewal arm is enabled while the relay has a lease.\<close>

definition relay_renewal ::
    "('u, 'c) crates_scheme \<Rightarrow> env \<Rightarrow> app \<Rightarrow> websocket_session \<Rightarrow> relay_state
     \<Rightarrow> ('z server_scheme, relay_status \<times> relay_state) act" where
  "relay_renewal cr e app session st =
    (case rl_lease st of
       None \<Rightarrow> act_return (Running, st)
     | Some owner \<Rightarrow>
         act_bind (require_active e session) (\<lambda>active.
           case active of
             Inl err \<Rightarrow> act_return (Stopped (Inl err), st)
           | Inr _ \<Rightarrow>
               act_bind (owner_renew cr e app owner) (\<lambda>renewed.
                 case renewed of
                   Inl err \<Rightarrow> act_return (Stopped (Inl (RelayLease err)), st)
                 | Inr owner \<Rightarrow>
                     let st = st\<lparr>rl_lease := Some owner\<rparr> in
                     act_bind (renewal_delay_of e (rl_lease st)) (\<lambda>delay.
                       act_return (case delay of Inl err \<Rightarrow> Stopped (Inl err) | Inr _ \<Rightarrow> Running, st)))))"

definition relay_step ::
    "('u, 'c) proxy_crates_scheme \<Rightarrow> env \<Rightarrow> app \<Rightarrow> websocket_session \<Rightarrow> relay_event \<Rightarrow> relay_state
     \<Rightarrow> ('z server_scheme, relay_status \<times> relay_state) act" where
  "relay_step cr e app session event st =
    (case event of
       Deadline \<Rightarrow> act_return (Stopped (Inl RelayDeadline), st)
     | RenewalDue \<Rightarrow> relay_renewal cr e app session st
     | SessionCheck \<Rightarrow>
         act_bind (require_active e session) (\<lambda>active.
           act_return (case active of Inl err \<Rightarrow> Stopped (Inl err) | Inr _ \<Rightarrow> Running, st))
     | FromCaller incoming \<Rightarrow> act_return (relay_message cr session to_upstream incoming st)
     | FromUpstream incoming \<Rightarrow> act_return (relay_message cr session to_caller incoming st))"

fun relay_loop ::
    "('u, 'c) proxy_crates_scheme \<Rightarrow> env \<Rightarrow> app \<Rightarrow> websocket_session \<Rightarrow> relay_event list \<Rightarrow> relay_state
     \<Rightarrow> ('z server_scheme, relay_status \<times> relay_state) act" where
  "relay_loop cr e app session [] st = act_return (Running, st)"
| "relay_loop cr e app session (event # events) st =
    act_bind (relay_step cr e app session event st) (\<lambda>(status, st).
      case status of
        Running \<Rightarrow> relay_loop cr e app session events st
      | Stopped result \<Rightarrow> act_return (Stopped result, st))"

text \<open>The end of the relay: its lease is revoked, and the two results are combined.\<close>

definition relay_close ::
    "('u, 'c) crates_scheme \<Rightarrow> env \<Rightarrow> app \<Rightarrow> dynamic_lease_owner option \<Rightarrow> relay_error + unit
     \<Rightarrow> ('z server_scheme, relay_error + unit) act" where
  "relay_close cr e app lease result =
    act_bind (case lease of None \<Rightarrow> act_return (Inr ()) | Some owner \<Rightarrow> owner_revoke cr e app owner) (\<lambda>revoked.
      act_return
        (case (result, revoked) of
           (Inr _, Inr _) \<Rightarrow> Inr ()
         | (Inl err, Inr _) \<Rightarrow> Inl err
         | (Inr _, Inl err) \<Rightarrow> Inl (RelayRevocation err)
         | (Inl err, Inl revocation) \<Rightarrow> Inl (RelayAndRevocation err revocation)))"

text \<open>The relay, over the events that fire: \<open>None\<close> if it still runs after them.\<close>

definition relay_websocket_streams ::
    "('u, 'c) proxy_crates_scheme \<Rightarrow> env \<Rightarrow> app \<Rightarrow> websocket_session \<Rightarrow> relay_event list
     \<Rightarrow> ('z server_scheme, (relay_error + unit) option \<times> relay_state) act" where
  "relay_websocket_streams cr e app session events =
    (let st = \<lparr>rl_total = 0, rl_lease = wc_lease session, rl_to_caller = [], rl_to_upstream = []\<rparr> in
     act_bind (renewal_delay_of e (wc_lease session)) (\<lambda>delay.
       case delay of
         Inl err \<Rightarrow> act_bind (drop_lease cr e app (wc_lease session)) (\<lambda>_. act_return (Some (Inl err), st))
       | Inr _ \<Rightarrow>
           act_bind (relay_loop cr e app session events st) (\<lambda>(status, st).
             case status of
               Running \<Rightarrow> act_return (None, st)
             | Stopped result \<Rightarrow>
                 act_bind (relay_close cr e app (rl_lease st) result) (\<lambda>result. act_return (Some result, st)))))"

end
