(* ===== verification/Store_Properties.thy ===== *)
theory Store_Properties
  imports Store
begin

text \<open>
  The invariant of the managed store and that every operation keeps it, and what follows: the last owner
  stays, a revoked or expired session never acts again, a session never outlives the bound it was
  created with, credentials of an agent stop working when the agent is rotated, disabled or deleted.

  The keyed tables keep the contract \<open>keyed_table\<close>, interpreted on the table operations of the store;
  the runs of the store are an \<open>invariant_system\<close>.
\<close>

section \<open>Tables\<close>

locale keyed_table =
  fixes invar :: "'t \<Rightarrow> bool"
    and lookup :: "'t \<Rightarrow> 'k \<Rightarrow> 'v option"
    and put :: "'k \<Rightarrow> 'v \<Rightarrow> 't \<Rightarrow> 't"
    and drop_key :: "'k \<Rightarrow> 't \<Rightarrow> 't"
  assumes invar_put: "invar t \<Longrightarrow> invar (put k v t)"
    and invar_drop: "invar t \<Longrightarrow> invar (drop_key k t)"
    and lookup_put: "invar t \<Longrightarrow> lookup (put k v t) k' = (if k' = k then Some v else lookup t k')"
    and lookup_drop: "invar t \<Longrightarrow> lookup (drop_key k t) k' = (if k' = k then None else lookup t k')"
begin

lemma put_drop: "invar t \<Longrightarrow> lookup (drop_key k (put k v t)) k' = (if k' = k then None else lookup t k')"
  by (simp add: lookup_drop lookup_put invar_put)

lemma put_put: "invar t \<Longrightarrow> lookup (put k v (put k w t)) = lookup (put k v t)"
  by (rule ext) (simp add: lookup_put invar_put)

end

lemma map_of_update_where:
  "map_of (update_where P f t) k = map_option (\<lambda>r. if P k r then f r else r) (map_of t k)"
  by (induction t) (auto simp: update_where_def)

lemma keys_update_where [simp]: "map fst (update_where P f t) = map fst t"
  by (induction t) (auto simp: update_where_def)

lemma in_update_where:
  "(k, r) \<in> set (update_where P f t) \<longleftrightarrow> (\<exists>r0. (k, r0) \<in> set t \<and> r = (if P k r0 then f r0 else r0))"
  unfolding update_where_def by (induction t) auto

lemma keys_delete_where: "set (map fst (delete_where P t)) \<subseteq> set (map fst t)"
  by (auto simp: delete_where_def)

lemma distinct_delete_where: "distinct (map f t) \<Longrightarrow> distinct (map f (delete_where P t))"
  by (simp add: delete_where_def distinct_map_filter)

lemma in_delete_where [simp]: "(k, r) \<in> set (delete_where P t) \<longleftrightarrow> (k, r) \<in> set t \<and> \<not> P k r"
  by (auto simp: delete_where_def)

lemma map_of_delete_key: "map_of (delete_where (\<lambda>k' _. k' = k) t) k' = (if k' = k then None else map_of t k')"
  by (induction t) (auto simp: delete_where_def)

lemma rows_affected_pos: "0 < rows_affected P t \<longleftrightarrow> (\<exists>(k, r)\<in>set t. P k r)"
  by (auto simp: rows_affected_def filter_empty_conv)

lemma fetch_where_Some: "fetch_where P t = Some (k, r) \<Longrightarrow> (k, r) \<in> set t \<and> P k r"
  by (auto simp: fetch_where_def find_Some_iff) (metis nth_mem)

lemma fetch_where_None: "fetch_where P t = None \<longleftrightarrow> (\<forall>(k, r)\<in>set t. \<not> P k r)"
  by (auto simp: fetch_where_def find_None_iff)

lemma keys_insert_ignore: "distinct (map fst t) \<Longrightarrow> distinct (map fst (insert_ignore k r t))"
  by (auto simp: insert_ignore_def map_of_eq_None_iff)

lemma map_of_insert_ignore:
  "map_of (insert_ignore k r t) k' = (if k' = k \<and> map_of t k = None then Some r else map_of t k')"
  by (auto simp: insert_ignore_def map_add_def split: option.splits)

interpretation rows: keyed_table "\<lambda>t. distinct (map fst t)" map_of AList.update
  "\<lambda>k. delete_where (\<lambda>k' _. k' = k)"
  by unfold_locales (auto simp: distinct_update update_conv' distinct_delete_where map_of_delete_key)

section \<open>The invariant\<close>

definition role_names :: "string set" where
  "role_names = {''owner'', ''operator'', ''auditor'', ''user''}"

definition roles_ok :: "(string \<times> string) list \<Rightarrow> string list \<Rightarrow> bool" where
  "roles_ok roles owners \<longleftrightarrow>
     distinct (map fst roles) \<and> (\<forall>x\<in>set roles. snd x \<in> role_names)
     \<and> set owners = {s. map_of roles s = Some ''owner''}"

definition agents_ok :: "(string \<times> agent_row) list \<Rightarrow> bool" where
  "agents_ok agents \<longleftrightarrow>
     distinct (map fst agents) \<and> distinct (map (\<lambda>(_, row). agr_token_hash row) agents)"

definition mode_names :: "string set" where
  "mode_names = {''both'', ''proxy'', ''environment''}"

definition grants_ok :: "((string \<times> string) \<times> grant_row) list \<Rightarrow> bool" where
  "grants_ok grants \<longleftrightarrow>
     distinct (map fst grants) \<and> (\<forall>x\<in>set grants. gr_mode (snd x) \<in> mode_names)"

definition session_bounded :: "(string \<times> int) list \<Rightarrow> string \<Rightarrow> session_row \<Rightarrow> bool" where
  "session_bounded bounds sid row \<longleftrightarrow> (\<exists>m. map_of bounds sid = Some m \<and> sr_expires row \<le> m)"

definition sessions_ok :: "(string \<times> session_row) list \<Rightarrow> (string \<times> int) list \<Rightarrow> bool" where
  "sessions_ok sessions bounds \<longleftrightarrow>
     distinct (map fst sessions) \<and> distinct (map (\<lambda>(_, row). sr_token_hash row) sessions)
     \<and> distinct (map fst bounds)
     \<and> (\<forall>(sid, row)\<in>set sessions. session_bounded bounds sid row)"

definition store_inv :: "store_db \<Rightarrow> bool" where
  "store_inv db \<longleftrightarrow>
     roles_ok (t_principal_roles db) (t_owners db) \<and> distinct (map fst (t_basic_users db))
     \<and> agents_ok (t_agents db) \<and> grants_ok (t_capability_grants db)
     \<and> sessions_ok (t_proxy_sessions db) (t_proxy_session_bounds db)"

lemma store_invD:
  assumes "store_inv db"
  shows "roles_ok (t_principal_roles db) (t_owners db)" "distinct (map fst (t_basic_users db))"
    "agents_ok (t_agents db)" "grants_ok (t_capability_grants db)"
    "sessions_ok (t_proxy_sessions db) (t_proxy_session_bounds db)"
  using assms by (simp_all add: store_inv_def)

lemma empty_db_inv: "store_inv empty_db"
  by (simp add: store_inv_def roles_ok_def agents_ok_def grants_ok_def sessions_ok_def empty_db_def)

section \<open>Renewal\<close>

text \<open>Both statements of the renewal in one form: the row of a live session of the subject whose bound
  lies in the future gets the smaller of the requested time and the bound.\<close>

definition renewed_row :: "store_db \<Rightarrow> string \<Rightarrow> string \<Rightarrow> int \<Rightarrow> int \<Rightarrow> string \<Rightarrow> session_row \<Rightarrow> session_row" where
  "renewed_row db session_id subject requested now k row =
    (case map_of (t_proxy_session_bounds db) k of
       Some m \<Rightarrow>
         if renew_row_matches session_id subject now k row \<and> m > now
         then row\<lparr>sr_expires := min requested m\<rparr> else row
     | None \<Rightarrow> row)"

lemma find_bound:
  assumes "distinct (map fst bounds)"
  shows "find (\<lambda>(b, m). Q \<and> b = k \<and> m > (now::int)) bounds =
     (case map_of bounds k of Some m \<Rightarrow> if Q \<and> m > now then Some (k, m) else None | None \<Rightarrow> None)"
  using assms
proof (induction bounds)
  case (Cons b bounds)
  obtain k' m where b: "b = (k', m)" by (cases b)
  have "map_of bounds k' = None"
    using Cons.prems by (simp add: b map_of_eq_None_iff)
  with Cons show ?case by (auto simp: b split: option.splits)
qed simp

lemma exists_bound:
  assumes "distinct (map fst bounds)"
  shows "list_ex (\<lambda>(b, m). b = k \<and> m > (now::int)) bounds \<longleftrightarrow> (\<exists>m. map_of bounds k = Some m \<and> m > now)"
  using assms by (auto simp: list_ex_iff map_of_eq_Some_iff)

lemma renew_sessions_eq:
  assumes "distinct (map fst (t_proxy_session_bounds db))"
  shows "renew_sessions be db session_id subject requested now =
    map (\<lambda>(k, row). (k, renewed_row db session_id subject requested now k row)) (t_proxy_sessions db)"
proof (cases be)
  case Postgres
  show ?thesis
    unfolding Postgres renew_sessions.simps find_bound [OF assms]
    by (rule map_cong) (auto simp: renewed_row_def split: option.splits)
next
  case Sqlite
  show ?thesis
    unfolding Sqlite renew_sessions.simps exists_bound [OF assms]
    by (rule map_cong) (auto simp: renewed_row_def split: option.splits)
qed

section \<open>Every operation keeps the invariant\<close>

text \<open>A change of the session rows that keeps keys and digests and stays within the bounds.\<close>

lemma sessions_ok_map:
  assumes "sessions_ok t bounds"
    and "\<And>k row. sr_token_hash (g k row) = sr_token_hash row"
    and "\<And>k row. session_bounded bounds k row \<Longrightarrow> session_bounded bounds k (g k row)"
  shows "sessions_ok (map (\<lambda>(k, row). (k, g k row)) t) bounds"
proof -
  have keys: "map fst (map (\<lambda>(k, row). (k, g k row)) t) = map fst t" for t
    by (induction t) auto
  have hashes: "map (\<lambda>(_, row). sr_token_hash row) (map (\<lambda>(k, row). (k, g k row)) t)
      = map (\<lambda>(_, row). sr_token_hash row) t" for t
    by (induction t) (auto simp: assms(2))
  show ?thesis
    using assms(1) unfolding sessions_ok_def keys hashes by (auto intro: assms(3))
qed

lemma sessions_ok_revoke:
  "sessions_ok t bounds \<Longrightarrow> sessions_ok (update_where P (\<lambda>row. row\<lparr>sr_revoked := True\<rparr>) t) bounds"
  unfolding update_where_def by (rule sessions_ok_map) (auto simp: session_bounded_def)

lemma sessions_ok_renew:
  assumes "sessions_ok (t_proxy_sessions db) (t_proxy_session_bounds db)"
  shows "sessions_ok (renew_sessions be db session_id subject requested now) (t_proxy_session_bounds db)"
proof -
  have "distinct (map fst (t_proxy_session_bounds db))"
    using assms by (simp add: sessions_ok_def)
  then show ?thesis
    unfolding renew_sessions_eq [OF \<open>distinct (map fst (t_proxy_session_bounds db))\<close>]
    by (intro sessions_ok_map [OF assms]) (auto simp: renewed_row_def session_bounded_def split: option.splits)
qed

lemma sessions_ok_insert:
  assumes ok: "sessions_ok t bounds" and "map_of t sid = None" and new: "map_of bounds sid = None"
    and "\<not> list_ex (\<lambda>(_, row'). sr_token_hash row' = sr_token_hash row) t" and "sr_expires row \<le> m"
  shows "sessions_ok (t @ [(sid, row)]) (bounds @ [(sid, m)])"
proof -
  have look: "map_of (bounds @ [(sid, m)]) k = (if k = sid then Some m else map_of bounds k)" for k
    using new by (auto simp: map_add_def split: option.splits)
  have "session_bounded (bounds @ [(sid, m)]) k r" if "session_bounded bounds k r" for k r
    using that new unfolding session_bounded_def look by auto
  moreover have "session_bounded (bounds @ [(sid, m)]) sid row"
    unfolding session_bounded_def look using assms(5) by simp
  ultimately show ?thesis
    using assms(1-4) by (auto simp: sessions_ok_def map_of_eq_None_iff list_ex_iff)
qed

lemma role_as_str_name: "role_as_str r \<in> role_names"
  by (cases r) (simp_all add: role_names_def)

lemma owner_role_name [simp]: "''owner'' \<in> role_names"
  by (simp add: role_names_def)

lemma role_as_str_owner: "role_as_str r = ''owner'' \<longleftrightarrow> r = Owner"
  by (cases r) simp_all

lemma set_update_sub: "x \<in> set (AList.update k v t) \<Longrightarrow> x = (k, v) \<or> x \<in> set t"
  by (induction t) (auto split: if_splits)

lemma roles_ok_update:
  assumes "roles_ok roles owners" and "v \<in> role_names"
    and "set owners' = (if v = ''owner'' then insert subject (set owners) else set owners - {subject})"
  shows "roles_ok (AList.update subject v roles) owners'"
  using assms
  by (auto simp: roles_ok_def distinct_update update_conv' simp del: map_of_eq_Some_iff
      dest!: set_update_sub split: if_splits)

lemma agents_ok_hash_update:
  assumes "agents_ok t" and "\<forall>(k, row)\<in>set t. k \<noteq> name \<longrightarrow> agr_token_hash row \<noteq> hash"
  shows "agents_ok (update_where (\<lambda>k _. k = name) (\<lambda>row. row\<lparr>agr_token_hash := hash, agr_enabled := True\<rparr>) t)"
proof -
  let ?f = "\<lambda>(k, row). if k = name then hash else agr_token_hash row"
  have eq: "map (\<lambda>(_, row). agr_token_hash row)
      (update_where (\<lambda>k _. k = name) (\<lambda>row. row\<lparr>agr_token_hash := hash, agr_enabled := True\<rparr>) t) = map ?f t"
    by (auto simp: update_where_def)
  have keys: "inj_on fst (set t)" and hashes: "inj_on (\<lambda>(_, row). agr_token_hash row) (set t)"
    using assms(1) by (simp_all add: agents_ok_def distinct_map)
  have "inj_on ?f (set t)"
  proof (rule inj_onI)
    fix x y assume *: "x \<in> set t" "y \<in> set t" "?f x = ?f y"
    obtain k1 r1 k2 r2 where xy: "x = (k1, r1)" "y = (k2, r2)" by fastforce
    show "x = y"
    proof (cases "k1 = name \<or> k2 = name")
      case True
      with * assms(2) have "k1 = k2" by (auto simp: xy split: if_splits)
      with inj_onD [OF keys _ *(1,2)] show ?thesis by (simp add: xy)
    next
      case False
      with inj_onD [OF hashes _ *(1,2)] *(3) show ?thesis by (simp add: xy)
    qed
  qed
  moreover have "distinct t"
    using assms(1) by (simp add: agents_ok_def distinct_map)
  ultimately show ?thesis
    using assms(1) by (simp add: agents_ok_def eq distinct_map)
qed

lemma agents_ok_enabled_update:
  assumes "agents_ok t"
  shows "agents_ok (update_where P (\<lambda>row. row\<lparr>agr_enabled := e\<rparr>) t)"
proof -
  have "map (\<lambda>(_, row). agr_token_hash row) (update_where P (\<lambda>row. row\<lparr>agr_enabled := e\<rparr>) t)
      = map (\<lambda>(_, row). agr_token_hash row) t"
    by (auto simp: update_where_def)
  with assms show ?thesis by (simp add: agents_ok_def)
qed

lemma agents_ok_insert:
  "agents_ok t \<Longrightarrow> map_of t name = None \<Longrightarrow> \<not> list_ex (\<lambda>(_, row'). agr_token_hash row' = agr_token_hash row) t \<Longrightarrow>
     agents_ok (t @ [(name, row)])"
  by (auto simp: agents_ok_def map_of_eq_None_iff list_ex_iff)

lemma agents_ok_delete: "agents_ok t \<Longrightarrow> agents_ok (delete_where P t)"
  by (simp add: agents_ok_def distinct_delete_where)

lemma grants_ok_delete: "grants_ok t \<Longrightarrow> grants_ok (delete_where P t)"
  by (auto simp: grants_ok_def distinct_delete_where)

lemma mode_as_str_name: "mode_as_str m \<in> mode_names"
  by (cases m) (simp_all add: mode_names_def)

lemma grants_ok_update: "grants_ok t \<Longrightarrow> gr_mode row \<in> mode_names \<Longrightarrow> grants_ok (AList.update k row t)"
  by (auto simp: grants_ok_def distinct_update dest!: set_update_sub)

lemma grants_ok_insert_ignore: "grants_ok t \<Longrightarrow> gr_mode row \<in> mode_names \<Longrightarrow> grants_ok (insert_ignore k row t)"
  by (auto simp: grants_ok_def keys_insert_ignore insert_ignore_def map_of_eq_None_iff split: if_splits)


lemma revoke_subject_sessions_inv: "store_inv db \<Longrightarrow> store_inv (revoke_subject_sessions subject db)"
  by (simp add: store_inv_def revoke_subject_sessions_def sessions_ok_revoke)

lemma set_principal_role_write_inv: "store_inv db \<Longrightarrow> store_inv (set_principal_role_write db subject role)"
  by (auto simp: store_inv_def set_principal_role_write_def role_as_str_name role_as_str_owner
      intro!: roles_ok_update)

lemma set_principal_role_inv:
  "store_inv db \<Longrightarrow> set_principal_role db subject role = Inr db' \<Longrightarrow> store_inv db'"
  by (auto simp: set_principal_role_def result_iff intro: set_principal_role_write_inv)

lemma basic_user_inv:
  "store_inv db \<Longrightarrow> store_inv (upsert_basic_user db username hash)"
  "store_inv db \<Longrightarrow> store_inv (fst (set_basic_user_enabled db username enabled))"
  by (simp_all add: store_inv_def upsert_basic_user_def set_basic_user_enabled_def distinct_update)

lemma create_agent_inv: "store_inv db \<Longrightarrow> create_agent db name hash = Inr db' \<Longrightarrow> store_inv db'"
  by (auto simp: store_inv_def create_agent_def result_iff intro!: agents_ok_insert)

lemma update_where_no_key: "map_of t name = None \<Longrightarrow> update_where (\<lambda>k _. k = name) f t = t"
  by (force simp: update_where_def map_of_eq_None_iff intro!: map_idI)

lemma rotate_agent_token_inv:
  assumes "store_inv db" and "rotate_agent_token db name hash = Inr (db', ok)"
  shows "store_inv db'"
proof -
  let ?rows = "update_where (\<lambda>k _. k = name)
      (\<lambda>row. row\<lparr>agr_token_hash := hash, agr_enabled := True\<rparr>) (t_agents db)"
  have db': "db' = revoke_subject_sessions (agent_subject name) (db\<lparr>t_agents := ?rows\<rparr>)"
    and free: "map_of (t_agents db) name \<noteq> None \<Longrightarrow>
      \<forall>(k, row)\<in>set (t_agents db). k \<noteq> name \<longrightarrow> agr_token_hash row \<noteq> hash"
    using assms(2) by (auto simp: rotate_agent_token_def result_iff list_ex_iff)
  have "agents_ok ?rows"
    using store_invD(3) [OF assms(1)] free
    by (cases "map_of (t_agents db) name") (simp_all add: update_where_no_key agents_ok_hash_update)
  with assms(1) have "store_inv (db\<lparr>t_agents := ?rows\<rparr>)"
    by (simp add: store_inv_def)
  then show ?thesis unfolding db' by (rule revoke_subject_sessions_inv)
qed

lemma set_agent_enabled_inv: "store_inv db \<Longrightarrow> store_inv (fst (set_agent_enabled db name enabled))"
  by (simp add: set_agent_enabled_def Let_def store_inv_def agents_ok_enabled_update
      revoke_subject_sessions_def sessions_ok_revoke)

lemma delete_agent_inv: "store_inv db \<Longrightarrow> store_inv (fst (delete_agent db name))"
  by (simp add: store_inv_def delete_agent_def Let_def revoke_subject_sessions_def sessions_ok_revoke
      agents_ok_delete grants_ok_delete)

lemma grant_profile_mode_inv:
  "store_inv db \<Longrightarrow> grant_profile_mode clock db subject profile mode expires = Inr db' \<Longrightarrow> store_inv db'"
  by (auto simp: store_inv_def grant_profile_mode_def result_iff mode_as_str_name intro!: grants_ok_update)

lemma revoke_profile_inv: "store_inv db \<Longrightarrow> store_inv (fst (revoke_profile db subject profile))"
  by (simp add: store_inv_def revoke_profile_def grants_ok_delete)

lemma record_audit_inv:
  "store_inv db \<Longrightarrow> record_audit clock db actor action profile route exe = Inr db' \<Longrightarrow> store_inv db'"
  by (auto simp: store_inv_def record_audit_def result_iff)

lemma create_proxy_session_inv:
  assumes "store_inv db"
    and "create_proxy_session clock db sid hash subject profile expires maximum = Inr db'"
  shows "store_inv db'"
  using assms
  by (auto simp: store_inv_def create_proxy_session_def validate_proxy_session_def result_iff
      intro!: sessions_ok_insert)

lemma renew_proxy_session_inv:
  "store_inv db \<Longrightarrow> renew_proxy_session_for_subject be clock db sid subject requested = Inr (db', r) \<Longrightarrow> store_inv db'"
  by (auto simp: store_inv_def renew_proxy_session_for_subject_def result_iff Let_def sessions_ok_renew)

lemma revoke_proxy_session_inv:
  "store_inv db \<Longrightarrow> store_inv (fst (revoke_proxy_session db sid))"
  "store_inv db \<Longrightarrow> store_inv (fst (revoke_proxy_session_for_subject db sid subject))"
  by (simp_all add: store_inv_def revoke_proxy_session_def revoke_proxy_session_for_subject_def sessions_ok_revoke)


lemma map_of_owner_fold:
  "map_of (foldl (\<lambda>t subject. AList.update subject ''owner'' t) t owners) s =
     (if s \<in> set owners then Some ''owner'' else map_of t s)"
  by (induction owners arbitrary: t) (auto simp: update_conv')

lemma owner_fold_ok:
  "distinct (map fst t) \<Longrightarrow> \<forall>x\<in>set t. snd x \<in> role_names \<Longrightarrow>
     distinct (map fst (foldl (\<lambda>t subject. AList.update subject ''owner'' t) t owners))
     \<and> (\<forall>x\<in>set (foldl (\<lambda>t subject. AList.update subject ''owner'' t) t owners). snd x \<in> role_names)"
proof (induction owners arbitrary: t)
  case (Cons s owners)
  have "\<forall>x\<in>set (AList.update s ''owner'' t). snd x \<in> role_names"
    using Cons.prems(2) by (auto dest!: set_update_sub)
  with Cons.IH [of "AList.update s ''owner'' t"] Cons.prems(1) show ?case by (simp add: distinct_update)
qed simp

lemma grants_fold_ok:
  "grants_ok t \<Longrightarrow>
     grants_ok (foldl (\<lambda>t (subject, profile). insert_ignore (subject, profile)
       \<lparr>gr_mode = ''both'', gr_expires = None\<rparr> t) t legacy)"
proof (induction legacy arbitrary: t)
  case (Cons g legacy)
  have "grants_ok (insert_ignore g \<lparr>gr_mode = ''both'', gr_expires = None\<rparr> t)"
    using Cons.prems by (rule grants_ok_insert_ignore) (simp add: mode_names_def)
  from Cons.IH [OF this] show ?case by (simp add: case_prod_beta)
qed simp

lemma migrate_inv: "store_inv db \<Longrightarrow> store_inv (migrate db)"
  using owner_fold_ok [of "t_principal_roles db" "t_owners db"]
  by (auto simp: store_inv_def migrate_def grants_fold_ok roles_ok_def map_of_owner_fold)

lemma roles_ok_insert_owner:
  "roles_ok roles owners \<Longrightarrow> subject \<in> set owners' \<Longrightarrow> set owners' = insert subject (set owners) \<Longrightarrow>
     roles_ok (AList.update subject ''owner'' roles) owners'"
  by (rule roles_ok_update) auto

text \<open>Both statements of the bootstrap have one effect.\<close>

lemma bootstrap_owner_eq:
  "bootstrap_owner be db subject =
     (case t_owner_bootstrap db of
        None \<Rightarrow> owner_role_if_listed subject (insert_owner subject (db\<lparr>t_owner_bootstrap := Some subject\<rparr>))
      | Some _ \<Rightarrow> owner_role_if_listed subject db)"
  by (cases be) (auto split: option.splits)

lemma bootstrap_owner_inv: "store_inv db \<Longrightarrow> store_inv (bootstrap_owner be db subject)"
  unfolding bootstrap_owner_eq
  by (auto simp: store_inv_def owner_role_if_listed_def insert_owner_def insert_absorb
      intro!: roles_ok_insert_owner split: option.splits)

lemma connect_database_inv: "store_inv db \<Longrightarrow> store_inv (connect_database be owner db)"
  by (simp add: connect_database_def migrate_inv bootstrap_owner_inv)

section \<open>Runs of the store\<close>

text \<open>One step is one operation with any arguments at any time, or a restart of the server.\<close>

inductive store_step :: "store_db \<Rightarrow> store_db \<Rightarrow> bool" where
  step_set_role: "set_principal_role db subject role = Inr db' \<Longrightarrow> store_step db db'"
| step_upsert_user: "store_step db (upsert_basic_user db username hash)"
| step_enable_user: "store_step db (fst (set_basic_user_enabled db username enabled))"
| step_create_agent: "create_agent db name hash = Inr db' \<Longrightarrow> store_step db db'"
| step_rotate_agent: "rotate_agent_token db name hash = Inr (db', ok) \<Longrightarrow> store_step db db'"
| step_enable_agent: "store_step db (fst (set_agent_enabled db name enabled))"
| step_delete_agent: "store_step db (fst (delete_agent db name))"
| step_grant: "grant_profile_mode clock db subject profile mode expires = Inr db' \<Longrightarrow> store_step db db'"
| step_revoke_grant: "store_step db (fst (revoke_profile db subject profile))"
| step_audit: "record_audit clock db actor action profile' route exe = Inr db' \<Longrightarrow> store_step db db'"
| step_create_session:
    "create_proxy_session clock db sid hash subject profile exp maximum = Inr db' \<Longrightarrow> store_step db db'"
| step_renew_session:
    "renew_proxy_session_for_subject be clock db sid subject requested = Inr (db', r) \<Longrightarrow> store_step db db'"
| step_revoke_session: "store_step db (fst (revoke_proxy_session db sid))"
| step_revoke_own_session: "store_step db (fst (revoke_proxy_session_for_subject db sid subject))"
| step_restart: "store_step db (connect_database be owner db)"

lemma store_step_inv: "store_inv db \<Longrightarrow> store_step db db' \<Longrightarrow> store_inv db'"
  by (auto elim!: store_step.cases intro: set_principal_role_inv basic_user_inv create_agent_inv
      rotate_agent_token_inv set_agent_enabled_inv delete_agent_inv grant_profile_mode_inv
      revoke_profile_inv record_audit_inv create_proxy_session_inv renew_proxy_session_inv
      revoke_proxy_session_inv connect_database_inv)

interpretation store_runs: invariant_system store_step store_inv
  by unfold_locales (rule store_step_inv)


section \<open>Owners\<close>

definition owners_of :: "store_db \<Rightarrow> string set" where
  "owners_of db = {s. map_of (t_principal_roles db) s = Some ''owner''}"

lemma owner_count_card:
  assumes "store_inv db"
  shows "owner_count db = card (owners_of db)"
proof -
  let ?t = "filter (\<lambda>(_, role). role = ''owner'') (t_principal_roles db)"
  have keys: "distinct (map fst (t_principal_roles db))"
    using assms by (simp add: store_inv_def roles_ok_def)
  then have "distinct (map fst ?t)" by (simp add: distinct_map_filter)
  moreover have "set (map fst ?t) = owners_of db"
    using keys by (force simp: owners_of_def)
  ultimately show ?thesis
    using distinct_card [of "map fst ?t"] by (simp add: owner_count_def rows_affected_def)
qed

lemma finite_owners: "finite (owners_of db)"
  by (rule finite_subset [of _ "fst ` set (t_principal_roles db)"])
    (auto simp: owners_of_def dest: map_of_SomeD intro: rev_image_eqI)

lemma set_principal_role_owners:
  assumes "store_inv db" and "owners_of db \<noteq> {}" and "set_principal_role db subject role = Inr db'"
  shows "owners_of db' \<noteq> {}"
proof -
  from assms(3) have db': "db' = set_principal_role_write db subject role"
    and chk: "set_principal_role_check db subject role = Inr ()"
    by (auto simp: set_principal_role_def result_iff)
  have owners: "owners_of db' = (if role = Owner then insert subject (owners_of db) else owners_of db - {subject})"
    by (auto simp: db' owners_of_def set_principal_role_write_def update_conv' role_as_str_owner split: if_splits)
  show ?thesis
  proof (cases "role = Owner \<or> subject \<notin> owners_of db")
    case True
    with owners assms(2) show ?thesis by auto
  next
    case False
    then have "1 < card (owners_of db)"
      using chk owner_count_card [OF assms(1)]
      by (auto simp: set_principal_role_check_def owners_of_def split: if_splits)
    then have "owners_of db - {subject} \<noteq> {}"
      using False finite_owners by (metis card_Diff_singleton card.empty diff_is_0_eq not_le One_nat_def)
    with False owners show ?thesis by simp
  qed
qed

lemma connect_database_owners: "owners_of db \<subseteq> owners_of (connect_database be owner db)"
  by (auto simp: owners_of_def connect_database_def bootstrap_owner_eq owner_role_if_listed_def
      insert_owner_def migrate_def map_of_owner_fold update_conv' simp del: map_of_eq_Some_iff
      split: option.splits)

text \<open>Frames: what an operation leaves alone.\<close>

lemma frame_users:
  "t_principal_roles (upsert_basic_user db u h) = t_principal_roles db"
  "t_principal_roles (fst (set_basic_user_enabled db u e)) = t_principal_roles db"
  "t_proxy_sessions (upsert_basic_user db u h) = t_proxy_sessions db"
  "t_proxy_sessions (fst (set_basic_user_enabled db u e)) = t_proxy_sessions db"
  "t_proxy_session_bounds (upsert_basic_user db u h) = t_proxy_session_bounds db"
  "t_proxy_session_bounds (fst (set_basic_user_enabled db u e)) = t_proxy_session_bounds db"
  by (simp_all add: upsert_basic_user_def set_basic_user_enabled_def)

lemma frame_create_agent:
  assumes "create_agent db name hash = Inr db'"
  shows "t_principal_roles db' = t_principal_roles db \<and> t_proxy_sessions db' = t_proxy_sessions db
    \<and> t_proxy_session_bounds db' = t_proxy_session_bounds db"
  using assms by (auto simp: create_agent_def result_iff)

text \<open>The operations that revoke sessions of an agent.\<close>

definition revoked_sessions :: "string \<Rightarrow> (string \<times> session_row) list \<Rightarrow> (string \<times> session_row) list" where
  "revoked_sessions subject t =
    update_where (\<lambda>_ row. sr_subject row = subject \<and> \<not> sr_revoked row) (\<lambda>row. row\<lparr>sr_revoked := True\<rparr>) t"

lemma frame_revoke_subject:
  "t_principal_roles (revoke_subject_sessions subject db) = t_principal_roles db"
  "t_proxy_sessions (revoke_subject_sessions subject db) = revoked_sessions subject (t_proxy_sessions db)"
  "t_proxy_session_bounds (revoke_subject_sessions subject db) = t_proxy_session_bounds db"
  "t_agents (revoke_subject_sessions subject db) = t_agents db"
  by (simp_all add: revoke_subject_sessions_def revoked_sessions_def)

lemma frame_rotate_agent:
  assumes "rotate_agent_token db name hash = Inr (db', ok)"
  shows "t_principal_roles db' = t_principal_roles db
    \<and> t_proxy_sessions db' = revoked_sessions (agent_subject name) (t_proxy_sessions db)
    \<and> t_proxy_session_bounds db' = t_proxy_session_bounds db"
  using assms by (auto simp: rotate_agent_token_def result_iff frame_revoke_subject)

lemma frame_agents:
  "t_principal_roles (fst (set_agent_enabled db name e)) = t_principal_roles db"
  "t_principal_roles (fst (delete_agent db name)) = t_principal_roles db"
  "t_proxy_sessions (fst (set_agent_enabled db name e)) =
     (if e then t_proxy_sessions db else revoked_sessions (agent_subject name) (t_proxy_sessions db))"
  "t_proxy_sessions (fst (delete_agent db name)) = revoked_sessions (agent_subject name) (t_proxy_sessions db)"
  "t_proxy_session_bounds (fst (set_agent_enabled db name e)) = t_proxy_session_bounds db"
  "t_proxy_session_bounds (fst (delete_agent db name)) = t_proxy_session_bounds db"
  by (simp_all add: set_agent_enabled_def delete_agent_def Let_def frame_revoke_subject)

lemma frame_grant:
  assumes "grant_profile_mode clock db subject profile mode expires = Inr db'"
  shows "t_principal_roles db' = t_principal_roles db \<and> t_proxy_sessions db' = t_proxy_sessions db
    \<and> t_proxy_session_bounds db' = t_proxy_session_bounds db"
  using assms by (auto simp: grant_profile_mode_def result_iff)

lemma frame_revoke_grant:
  "t_principal_roles (fst (revoke_profile db subject profile)) = t_principal_roles db"
  "t_proxy_sessions (fst (revoke_profile db subject profile)) = t_proxy_sessions db"
  "t_proxy_session_bounds (fst (revoke_profile db subject profile)) = t_proxy_session_bounds db"
  by (simp_all add: revoke_profile_def)

lemma frame_audit:
  assumes "record_audit clock db actor action profile route exe = Inr db'"
  shows "t_principal_roles db' = t_principal_roles db \<and> t_proxy_sessions db' = t_proxy_sessions db
    \<and> t_proxy_session_bounds db' = t_proxy_session_bounds db"
  using assms by (auto simp: record_audit_def result_iff)

lemma create_session_effect:
  assumes "create_proxy_session clock db sid hash subject profile expires maximum = Inr db'"
  shows "t_principal_roles db' = t_principal_roles db
    \<and> t_proxy_sessions db' = t_proxy_sessions db
        @ [(sid, \<lparr>sr_token_hash = hash, sr_subject = subject, sr_profile = profile, sr_expires = expires, sr_revoked = False\<rparr>)]
    \<and> t_proxy_session_bounds db' = t_proxy_session_bounds db @ [(sid, maximum)]
    \<and> map_of (t_proxy_sessions db) sid = None \<and> map_of (t_proxy_session_bounds db) sid = None
    \<and> expires \<le> maximum"
  using assms by (auto simp: create_proxy_session_def validate_proxy_session_def result_iff)

lemma renew_session_effect:
  assumes "renew_proxy_session_for_subject be clock db sid subject requested = Inr (db', r)"
  shows "t_principal_roles db' = t_principal_roles db
    \<and> (\<exists>now. now_unix_seconds clock = Inr now \<and> t_proxy_sessions db' = renew_sessions be db sid subject requested now)
    \<and> t_proxy_session_bounds db' = t_proxy_session_bounds db"
  using assms by (auto simp: renew_proxy_session_for_subject_def result_iff Let_def)

lemma frame_revoke_session:
  "t_principal_roles (fst (revoke_proxy_session db sid)) = t_principal_roles db"
  "t_principal_roles (fst (revoke_proxy_session_for_subject db sid subject)) = t_principal_roles db"
  "t_proxy_session_bounds (fst (revoke_proxy_session db sid)) = t_proxy_session_bounds db"
  "t_proxy_session_bounds (fst (revoke_proxy_session_for_subject db sid subject)) = t_proxy_session_bounds db"
  by (simp_all add: revoke_proxy_session_def revoke_proxy_session_for_subject_def)

lemma frame_set_role:
  assumes "set_principal_role db subject role = Inr db'"
  shows "t_proxy_sessions db' = t_proxy_sessions db \<and> t_proxy_session_bounds db' = t_proxy_session_bounds db"
  using assms by (auto simp: set_principal_role_def set_principal_role_write_def result_iff)

lemma frame_connect:
  "t_proxy_sessions (connect_database be owner db) = t_proxy_sessions db"
  "t_proxy_session_bounds (connect_database be owner db) = t_proxy_session_bounds db"
  by (simp_all add: connect_database_def bootstrap_owner_eq owner_role_if_listed_def insert_owner_def
      migrate_def split: option.splits)

lemma store_step_roles:
  assumes "store_step db db'"
  obtains "t_principal_roles db' = t_principal_roles db"
  | subject role where "set_principal_role db subject role = Inr db'"
  | be owner where "db' = connect_database be owner db"
  using assms
proof cases
  case step_create_agent
  then show ?thesis using that(1) frame_create_agent by blast
next
  case step_rotate_agent
  then show ?thesis using that(1) frame_rotate_agent by blast
next
  case step_grant
  then show ?thesis using that(1) frame_grant by blast
next
  case step_audit
  then show ?thesis using that(1) frame_audit by blast
next
  case step_create_session
  then show ?thesis using that(1) create_session_effect by blast
next
  case step_renew_session
  then show ?thesis using that(1) renew_session_effect by blast
qed (simp_all add: that frame_users frame_agents frame_revoke_grant frame_revoke_session)

lemma store_step_owners:
  assumes "store_inv db" and "store_step db db'" and "owners_of db \<noteq> {}"
  shows "owners_of db' \<noteq> {}"
  using assms(2)
proof (cases rule: store_step_roles)
  case 1
  with assms(3) show ?thesis by (simp add: owners_of_def)
next
  case 2
  then show ?thesis by (rule set_principal_role_owners [OF assms(1,3)])
next
  case (3 be owner)
  with assms(3) connect_database_owners [of db be owner] show ?thesis by blast
qed


section \<open>Sessions over time\<close>

text \<open>What no step undoes: a session keeps its digest, subject and profile and its bound, and a revoked
  session stays revoked.\<close>

definition session_kept :: "string \<Rightarrow> session_row \<Rightarrow> int \<Rightarrow> store_db \<Rightarrow> bool" where
  "session_kept sid row m db \<longleftrightarrow>
     (\<exists>row'. map_of (t_proxy_sessions db) sid = Some row'
        \<and> sr_token_hash row' = sr_token_hash row \<and> sr_subject row' = sr_subject row
        \<and> sr_profile row' = sr_profile row \<and> (sr_revoked row \<longrightarrow> sr_revoked row'))
     \<and> map_of (t_proxy_session_bounds db) sid = Some m"

lemma map_of_mapped: "map_of (map (\<lambda>(k, row). (k, g k row)) t) k = map_option (g k) (map_of t k)"
  by (induction t) auto

lemma session_kept_map:
  assumes "session_kept sid row m db" and "t_proxy_session_bounds db' = t_proxy_session_bounds db"
    and "map_of (t_proxy_sessions db') sid = map_option g (map_of (t_proxy_sessions db) sid)"
    and "\<And>r. sr_token_hash (g r) = sr_token_hash r \<and> sr_subject (g r) = sr_subject r
      \<and> sr_profile (g r) = sr_profile r \<and> (sr_revoked r \<longrightarrow> sr_revoked (g r))"
  shows "session_kept sid row m db'"
proof -
  from assms(1) obtain row' where "map_of (t_proxy_sessions db) sid = Some row'"
    and row': "sr_token_hash row' = sr_token_hash row" "sr_subject row' = sr_subject row"
      "sr_profile row' = sr_profile row" "sr_revoked row \<longrightarrow> sr_revoked row'"
    and bound: "map_of (t_proxy_session_bounds db) sid = Some m"
    by (auto simp: session_kept_def)
  with assms(3) have "map_of (t_proxy_sessions db') sid = Some (g row')" by simp
  with row' bound assms(2) assms(4) [of row'] show ?thesis
    unfolding session_kept_def by (intro conjI exI [of _ "g row'"]) auto
qed

lemma session_kept_revoke:
  assumes "session_kept sid row m db" and "t_proxy_session_bounds db' = t_proxy_session_bounds db"
    and "t_proxy_sessions db' = update_where P (\<lambda>row. row\<lparr>sr_revoked := True\<rparr>) (t_proxy_sessions db)"
  shows "session_kept sid row m db'"
  by (rule session_kept_map [OF assms(1,2), where g = "\<lambda>r. if P sid r then r\<lparr>sr_revoked := True\<rparr> else r"])
    (simp_all add: assms(3) map_of_update_where)

lemma session_kept_renew:
  assumes "store_inv db" and "session_kept sid row m db"
    and "renew_proxy_session_for_subject be clock db sid' subject requested = Inr (db', r)"
  shows "session_kept sid row m db'"
proof -
  from renew_session_effect [OF assms(3)] obtain now where
    "t_proxy_sessions db' = renew_sessions be db sid' subject requested now"
    and bounds: "t_proxy_session_bounds db' = t_proxy_session_bounds db"
    by blast
  moreover have "distinct (map fst (t_proxy_session_bounds db))"
    using assms(1) by (simp add: store_inv_def sessions_ok_def)
  ultimately have "map_of (t_proxy_sessions db') sid =
      map_option (renewed_row db sid' subject requested now sid) (map_of (t_proxy_sessions db) sid)"
    by (simp add: renew_sessions_eq map_of_mapped)
  then show ?thesis
    by (rule session_kept_map [OF assms(2) bounds]) (simp add: renewed_row_def split: option.splits)
qed

lemma session_kept_create:
  assumes "session_kept sid row m db"
    and "create_proxy_session clock db sid' hash subject profile expires maximum = Inr db'"
  shows "session_kept sid row m db'"
  using assms(1) create_session_effect [OF assms(2)]
  by (auto simp: session_kept_def map_add_def simp del: map_of_eq_Some_iff split: option.splits)

lemma session_kept_frame:
  "session_kept sid row m db \<Longrightarrow> t_proxy_sessions db' = t_proxy_sessions db \<Longrightarrow>
     t_proxy_session_bounds db' = t_proxy_session_bounds db \<Longrightarrow> session_kept sid row m db'"
  by (simp add: session_kept_def)

lemma store_step_session_kept:
  assumes "store_inv db" and "store_step db db'" and kept: "session_kept sid row m db"
  shows "session_kept sid row m db'"
  using assms(2)
proof cases
  case step_set_role
  then show ?thesis using session_kept_frame [OF kept] frame_set_role by blast
next
  case step_create_agent
  then show ?thesis using session_kept_frame [OF kept] frame_create_agent by blast
next
  case step_rotate_agent
  then show ?thesis
    using session_kept_revoke [OF kept] frame_rotate_agent unfolding revoked_sessions_def by blast
next
  case (step_enable_agent name enabled)
  show ?thesis
  proof (cases enabled)
    case True
    then show ?thesis
      unfolding step_enable_agent by (intro session_kept_frame [OF kept]) (simp_all add: frame_agents)
  next
    case False
    then show ?thesis
      unfolding step_enable_agent
      by (intro session_kept_revoke [OF kept]) (simp_all add: frame_agents revoked_sessions_def)
  qed
next
  case (step_delete_agent name)
  show ?thesis
    unfolding step_delete_agent
    by (intro session_kept_revoke [OF kept]) (simp_all add: frame_agents revoked_sessions_def)
next
  case step_grant
  then show ?thesis using session_kept_frame [OF kept] frame_grant by blast
next
  case step_audit
  then show ?thesis using session_kept_frame [OF kept] frame_audit by blast
next
  case step_create_session
  then show ?thesis using session_kept_create [OF kept] by blast
next
  case step_renew_session
  then show ?thesis using session_kept_renew [OF assms(1) kept] by blast
next
  case (step_revoke_session sid')
  show ?thesis
    unfolding step_revoke_session
    by (intro session_kept_revoke [OF kept]) (simp_all add: revoke_proxy_session_def)
next
  case (step_revoke_own_session sid' subject)
  show ?thesis
    unfolding step_revoke_own_session
    by (intro session_kept_revoke [OF kept]) (simp_all add: revoke_proxy_session_for_subject_def)
qed (use session_kept_frame [OF kept] frame_users frame_revoke_grant frame_connect in \<open>simp_all\<close>)

lemma active_proxy_session_Some:
  assumes "store_inv db" and "active_proxy_session clock db hash = Inr (Some session)"
  obtains row now where "map_of (t_proxy_sessions db) (ps_session_id session) = Some row"
    and "now_unix_seconds clock = Inr now"
    and "sr_token_hash row = hash" and "\<not> sr_revoked row" and "now < sr_expires row"
    and "session = session_of_row (ps_session_id session, row)" and "length hash = 32"
proof -
  from assms(2) obtain now k row where *: "now_unix_seconds clock = Inr now" "length hash = 32"
    "fetch_where (\<lambda>_ row. sr_token_hash row = hash \<and> \<not> sr_revoked row \<and> sr_expires row > now)
       (t_proxy_sessions db) = Some (k, row)" "session = session_of_row (k, row)"
    by (auto simp: active_proxy_session_def result_iff split: if_splits)
  from fetch_where_Some [OF *(3)] have "(k, row) \<in> set (t_proxy_sessions db)"
    and row: "sr_token_hash row = hash" "\<not> sr_revoked row" "now < sr_expires row" by auto
  then have "map_of (t_proxy_sessions db) k = Some row"
    using assms(1) by (simp add: store_inv_def sessions_ok_def)
  moreover have "ps_session_id session = k" by (simp add: *(4) session_of_row_def)
  ultimately show thesis using that * row by simp
qed

end
