(* ===== verification/Store_Guarantees.thy ===== *)
theory Store_Guarantees
  imports Store_Properties
begin

text \<open>
  What the store of \<open>src/src/store.rs\<close> guarantees over runs: the invariant of every reachable database,
  the survival of an owner, the end of sessions and tokens after a revocation, the bound on the life of a
  session, the meaning of a grant, and the agreement of the PostgreSQL and SQLite statements.
\<close>

lemma hash_determines_session:
  assumes "store_inv db" and "map_of (t_proxy_sessions db) k = Some r" and "map_of (t_proxy_sessions db) k' = Some r'"
    and "sr_token_hash r = sr_token_hash r'"
  shows "k = k' \<and> r = r'"
proof -
  have "inj_on (\<lambda>(_, row). sr_token_hash row) (set (t_proxy_sessions db))"
    using assms(1) by (simp add: store_inv_def sessions_ok_def distinct_map)
  from inj_onD [OF this, of "(k, r)" "(k', r')"] assms(2-4) show ?thesis
    by (auto dest: map_of_SomeD)
qed

lemma session_expires_bounded:
  assumes "store_inv db" and "map_of (t_proxy_sessions db) sid = Some row"
    and "map_of (t_proxy_session_bounds db) sid = Some m"
  shows "sr_expires row \<le> m"
  using assms map_of_SomeD [OF assms(2)]
  by (fastforce simp: store_inv_def sessions_ok_def session_bounded_def simp del: map_of_eq_Some_iff)

lemma now_unix_seconds_Inr [simp]: "now_unix_seconds clock = Inr now \<longleftrightarrow> now = clock \<and> 0 \<le> clock \<and> clock < 2 ^ 63"
  by (auto simp: now_unix_seconds_def)

lemma rows_affected_key:
  assumes "distinct (map fst t)" and "map_of t k = Some r"
  shows "rows_affected (\<lambda>k' _. k' = k) t = Suc 0"
proof -
  have "filter (\<lambda>(k', _). k' = k) t = [(k, r)]"
    using assms
  proof (induction t)
    case (Cons p t)
    then show ?case by (cases p) (force simp: filter_empty_conv simp del: map_of_eq_Some_iff split: if_splits)
  qed simp
  then show ?thesis by (simp add: rows_affected_def)
qed

text \<open>A token authenticates the enabled agent whose row holds its digest.\<close>

lemma agent_for_token_hash_iff:
  assumes "store_inv db"
  shows "agent_for_token_hash db h = Some name \<longleftrightarrow>
    length h = 32 \<and> (\<exists>row. map_of (t_agents db) name = Some row \<and> agr_token_hash row = h \<and> agr_enabled row)"
    (is "?l \<longleftrightarrow> ?r")
proof
  have keys: "distinct (map fst (t_agents db))" using assms by (simp add: store_inv_def agents_ok_def)
  {
    assume ?l
    then show ?r using keys by (auto simp: agent_for_token_hash_def dest!: fetch_where_Some split: if_splits)
  next
    assume ?r
    then obtain row where row: "(name, row) \<in> set (t_agents db)" "agr_token_hash row = h" "agr_enabled row"
      by (auto dest: map_of_SomeD)
    then have "fetch_where (\<lambda>_ row. agr_token_hash row = h \<and> agr_enabled row) (t_agents db) \<noteq> None"
      unfolding fetch_where_None by blast
    then obtain k row' where found:
      "fetch_where (\<lambda>_ row. agr_token_hash row = h \<and> agr_enabled row) (t_agents db) = Some (k, row')" by auto
    have "inj_on (\<lambda>(_, row). agr_token_hash row) (set (t_agents db))"
      using assms by (simp add: store_inv_def agents_ok_def distinct_map)
    from inj_onD [OF this, of "(k, row')" "(name, row)"] fetch_where_Some [OF found] row
    have "k = name" by auto
    with found \<open>?r\<close> show ?l by (simp add: agent_for_token_hash_def)
  }
qed

text \<open>What a capability gives after a run, from what the run keeps of its session.\<close>

lemma active_in_kept:
  assumes inv: "store_inv db" and kept: "session_kept sid row m db"
    and active: "active_proxy_session clock db (sr_token_hash row) = Inr (Some session)"
  shows "ps_session_id session = sid \<and> ps_subject session = sr_subject row \<and> ps_profile session = sr_profile row
    \<and> \<not> sr_revoked row \<and> clock < m"
proof (rule active_proxy_session_Some [OF inv active])
  fix row' now
  assume r': "map_of (t_proxy_sessions db) (ps_session_id session) = Some row'" "now_unix_seconds clock = Inr now"
    "sr_token_hash row' = sr_token_hash row" "\<not> sr_revoked row'" "now < sr_expires row'"
    and session: "session = session_of_row (ps_session_id session, row')"
  from kept obtain k where k: "map_of (t_proxy_sessions db) sid = Some k" "sr_token_hash k = sr_token_hash row"
    "sr_subject k = sr_subject row" "sr_profile k = sr_profile row" "sr_revoked row \<longrightarrow> sr_revoked k"
    and bound: "map_of (t_proxy_session_bounds db) sid = Some m"
    unfolding session_kept_def by blast
  from hash_determines_session [OF inv k(1) r'(1)] k(2) r'(3) have same: "ps_session_id session = sid" "k = row'"
    by auto
  have "ps_subject session = sr_subject row'" "ps_profile session = sr_profile row'"
    by (subst session, simp add: session_of_row_def)+
  moreover have "clock < m"
    using session_expires_bounded [OF inv k(1) bound] r'(2,5) same by auto
  ultimately show ?thesis using same k r'(4) by auto
qed

lemma session_kept_run:
  assumes "store_inv db" and "session_kept sid row m db" and "store_step\<^sup>*\<^sup>* db db'"
  shows "store_inv db' \<and> session_kept sid row m db'"
proof
  show "store_inv db'" using assms(3,1) by (rule store_runs.steps_inv)
  show "session_kept sid row m db'"
    using assms(3,1,2) by (rule store_runs.steps_stable) (rule store_step_session_kept)
qed

text \<open>Grants: what a lookup finds, and what a start adds from the table of the first schema.\<close>

lemma profile_allowed_for_iff:
  assumes "store_inv db"
  shows "profile_allowed_for clock db subject profile mode = Inr allowed \<longleftrightarrow>
    0 \<le> clock \<and> clock < 2 ^ 63 \<and>
    allowed = (case map_of (t_capability_grants db) (subject, profile) of
        None \<Rightarrow> False
      | Some row \<Rightarrow> unexpired clock row \<and> (gr_mode row = ''both'' \<or> gr_mode row = mode_as_str mode))"
proof -
  have "distinct (map fst (t_capability_grants db))" using assms by (simp add: store_inv_def grants_ok_def)
  then have row: "((subject, profile), row) \<in> set (t_capability_grants db)
      \<longleftrightarrow> map_of (t_capability_grants db) (subject, profile) = Some row" for row by simp
  have "(\<exists>(k, r)\<in>set (t_capability_grants db). (case k of (s, p) \<Rightarrow> \<lambda>row. s = subject \<and> p = profile \<and> unexpired clock row
          \<and> (gr_mode row = ''both'' \<or> gr_mode row = mode_as_str mode)) r)
    \<longleftrightarrow> (\<exists>r. map_of (t_capability_grants db) (subject, profile) = Some r \<and> unexpired clock r
          \<and> (gr_mode r = ''both'' \<or> gr_mode r = mode_as_str mode))"
    unfolding row [symmetric] by fastforce
  then show ?thesis
    unfolding profile_allowed_for_def rows_affected_pos
    by (cases "map_of (t_capability_grants db) (subject, profile)")
      (auto simp: result_iff simp del: map_of_eq_Some_iff)
qed

lemma map_of_grants_fold:
  "map_of (foldl (\<lambda>t (s, p). insert_ignore (s, p) v t) t legacy) (a, b) =
     (case map_of t (a, b) of Some r \<Rightarrow> Some r | None \<Rightarrow> if (a, b) \<in> set legacy then Some v else None)"
proof (induction legacy arbitrary: t)
  case (Cons g legacy)
  obtain s p where g: "g = (s, p)" by (cases g)
  show ?case
    unfolding g foldl_Cons prod.case Cons.IH by (auto simp: map_of_insert_ignore split: option.splits)
qed (simp split: option.splits)

lemma connect_database_grants:
  "t_capability_grants (connect_database be owner db) = t_capability_grants (migrate db)"
  by (auto simp: connect_database_def bootstrap_owner_eq owner_role_if_listed_def insert_owner_def split: option.splits)

section \<open>Databases on which witnesses run\<close>

text \<open>A database with an owner; one with two owners; one with an agent and two proxy sessions.\<close>

definition sample_db :: store_db where
  "sample_db = connect_database Sqlite ''alice'' empty_db"

lemma sample_db_reached: "store_step\<^sup>*\<^sup>* empty_db sample_db"
  unfolding sample_db_def by (rule r_into_rtranclp) (rule step_restart)

lemma sample_db_inv: "store_inv sample_db"
  by (rule store_runs.steps_inv [OF sample_db_reached empty_db_inv])

lemma sample_db_owners: "owners_of sample_db = {''alice''}"
proof -
  have "t_principal_roles sample_db = [(''alice'', ''owner'')]" by code_simp
  then show ?thesis by (auto simp: owners_of_def)
qed

definition two_owner_db :: store_db where
  "two_owner_db = set_principal_role_write sample_db ''bob'' Owner"

definition hash_of :: "char \<Rightarrow> bytes" where
  "hash_of c = replicate 32 c"

definition session_run :: "store_error + store_db" where
  "session_run =
     rbind (create_agent sample_db ''ci'' (hash_of CHR ''a'')) (\<lambda>db.
     rbind (create_proxy_session 100 db ''s1'' (hash_of CHR ''1'') ''agent:ci'' ''prod'' 200 300) (\<lambda>db.
     create_proxy_session 100 db ''s2'' (hash_of CHR ''2'') ''bob'' ''prod'' 200 300))"

definition session_db :: store_db where
  "session_db = projr session_run"

lemma session_run_db: "session_run = Inr session_db"
proof -
  have "\<not> isl session_run" by code_simp
  then show ?thesis by (simp add: session_db_def)
qed

lemma session_db_inv: "store_inv session_db"
proof -
  obtain db1 db2 where "create_agent sample_db ''ci'' (hash_of CHR ''a'') = Inr db1"
    and "create_proxy_session 100 db1 ''s1'' (hash_of CHR ''1'') ''agent:ci'' ''prod'' 200 300 = Inr db2"
    and "create_proxy_session 100 db2 ''s2'' (hash_of CHR ''2'') ''bob'' ''prod'' 200 300 = Inr session_db"
    using session_run_db unfolding session_run_def by (auto simp: result_iff)
  from create_proxy_session_inv [OF create_proxy_session_inv [OF create_agent_inv [OF sample_db_inv this(1)] this(2)] this(3)]
  show ?thesis .
qed

section \<open>Properties\<close>

text \<open>
  C5. Every database reached from an empty one by any sequence of store operations, renewals and
  restarts has unique keys and digests, valid role and mode names, an owner table that agrees with the
  role table, and no session that expires later than its bound.
\<close>

theorem store_reachable_inv:
  assumes "store_step\<^sup>*\<^sup>* empty_db db"
  shows "store_inv db"
  using assms empty_db_inv by (rule store_runs.steps_inv)

theorem store_reachable_inv_witness: "store_step\<^sup>*\<^sup>* empty_db sample_db \<and> store_inv sample_db"
  using sample_db_reached store_reachable_inv [OF sample_db_reached] by blast

text \<open>
  Once a database has an owner it always has one: no sequence of operations, each run as one
  transaction, removes the last owner.
\<close>

lemma owner_never_lost:
  assumes "store_inv db" and "owners_of db \<noteq> {}" and "store_step\<^sup>*\<^sup>* db db'"
  shows "\<exists>s. principal_role db' s = Inr Owner"
proof -
  have "owners_of db' \<noteq> {}"
    using assms(3,1,2) by (rule store_runs.steps_stable) (rule store_step_owners)
  then obtain s where "map_of (t_principal_roles db') s = Some ''owner''" by (auto simp: owners_of_def)
  then have "principal_role db' s = Inr Owner" by (simp add: principal_role_def role_parse_def)
  then show ?thesis ..
qed



text \<open>
  When the token of an agent is rotated, or the agent is disabled or deleted, no proxy session of
  that agent is active afterwards, at any time and for any capability.
\<close>

lemma agent_sessions_cut_off:
  assumes "store_inv db"
    and "rotate_agent_token db name hash = Inr (db', ok)
      \<or> (db', ok) = set_agent_enabled db name False \<or> (db', ok) = delete_agent db name"
    and "active_proxy_session clock db' h = Inr (Some session)"
  shows "ps_subject session \<noteq> agent_subject name"
proof
  assume subject: "ps_subject session = agent_subject name"
  have inv: "store_inv db'"
    using assms(2) rotate_agent_token_inv [OF assms(1)] set_agent_enabled_inv [OF assms(1), of name False]
      delete_agent_inv [OF assms(1), of name] by (auto dest: arg_cong [where f = fst])
  have sessions: "t_proxy_sessions db' = revoked_sessions (agent_subject name) (t_proxy_sessions db)"
    using assms(2) frame_rotate_agent [of db name hash db' ok] frame_agents(3) [of db name False]
      frame_agents(4) [of db name] by (auto dest: arg_cong [where f = fst])
  show False
  proof (rule active_proxy_session_Some [OF inv assms(3)])
    fix row
    assume row: "map_of (t_proxy_sessions db') (ps_session_id session) = Some row" "\<not> sr_revoked row"
      and "session = session_of_row (ps_session_id session, row)"
    then have "sr_subject row = agent_subject name"
      using subject by (cases session) (simp add: session_of_row_def)
    with row sessions show False
      by (auto simp: revoked_sessions_def map_of_update_where simp del: map_of_eq_Some_iff split: if_splits
          dest: arg_cong [where f = sr_revoked])
  qed
qed


text \<open>
  A rotated token replaces the old one and a disabled or deleted agent has none: afterwards the agent
  authenticates exactly by the new token, or by no token at all.
\<close>

lemma agent_token_replaced:
  assumes "store_inv db" and "map_of (t_agents db) name = Some row"
    and "rotate_agent_token db name hash = Inr (db', ok)"
  shows "ok \<and> (agent_for_token_hash db' h = Some name \<longleftrightarrow> h = hash)
    \<and> agent_for_token_hash (fst (set_agent_enabled db name False)) h \<noteq> Some name
    \<and> agent_for_token_hash (fst (delete_agent db name)) h \<noteq> Some name"
proof -
  have inv: "store_inv db'" "store_inv (fst (set_agent_enabled db name False))" "store_inv (fst (delete_agent db name))"
    using assms rotate_agent_token_inv set_agent_enabled_inv delete_agent_inv by blast+
  from assms(3) have "length hash = 32"
    by (auto simp: rotate_agent_token_def validate_agent_token_def result_iff split: if_splits)
  moreover have "ok"
    using assms rows_affected_key [OF _ assms(2)]
    by (auto simp: rotate_agent_token_def result_iff store_inv_def agents_ok_def)
  moreover have "map_of (t_agents db') name = Some (row\<lparr>agr_token_hash := hash, agr_enabled := True\<rparr>)"
    using assms by (auto simp: rotate_agent_token_def result_iff frame_revoke_subject map_of_update_where
        simp del: map_of_eq_Some_iff)
  moreover have "map_of (t_agents (fst (set_agent_enabled db name False))) name = Some (row\<lparr>agr_enabled := False\<rparr>)"
    and "map_of (t_agents (fst (delete_agent db name))) name = None"
    using assms(2) by (simp_all add: set_agent_enabled_def delete_agent_def Let_def frame_revoke_subject
        map_of_update_where map_of_delete_key)
  ultimately show ?thesis
    by (auto simp add: agent_for_token_hash_iff [OF inv(1)] agent_for_token_hash_iff [OF inv(2)]
        agent_for_token_hash_iff [OF inv(3)] simp del: map_of_eq_Some_iff)
qed


text \<open>
  A proxy capability stands for the subject and profile it was created for and for nothing else, and it
  is dead once the maximum lifetime fixed at its creation has passed, whatever renewals, other sessions,
  restarts and administration happen in between.
\<close>

lemma capability_bound_to_creation:
  assumes "store_inv db0"
    and "create_proxy_session clock0 db0 sid hash subject profile expires maximum = Inr db"
    and "store_step\<^sup>*\<^sup>* db db'" and "active_proxy_session clock db' hash = Inr (Some session)"
  shows "ps_session_id session = sid \<and> ps_subject session = subject \<and> ps_profile session = profile \<and> clock < maximum"
proof -
  define row where "row = \<lparr>sr_token_hash = hash, sr_subject = subject, sr_profile = profile, sr_expires = expires, sr_revoked = False\<rparr>"
  have "session_kept sid row maximum db"
    using create_session_effect [OF assms(2)] by (simp add: session_kept_def row_def map_add_def)
  from session_kept_run [OF create_proxy_session_inv [OF assms(1,2)] this assms(3)] active_in_kept [of db' sid row maximum]
    assms(4) show ?thesis by (auto simp: row_def)
qed

definition renewed_db :: store_db where
  "renewed_db = fst (projr (renew_proxy_session_for_subject Sqlite 150 session_db ''s2'' ''bob'' 1000))"

text \<open>
  A revoked session never comes back: no sequence of store operations, renewals by its own subject included,
  makes its capability active again.
\<close>

lemma revoked_row_stays_dead:
  assumes "store_inv db" and "map_of (t_proxy_sessions db) sid = Some row" and "sr_revoked row"
    and "store_step\<^sup>*\<^sup>* db db'"
  shows "active_proxy_session clock db' (sr_token_hash row) \<noteq> Inr (Some session)"
proof
  assume active: "active_proxy_session clock db' (sr_token_hash row) = Inr (Some session)"
  obtain m where "map_of (t_proxy_session_bounds db) sid = Some m"
    using assms(1) map_of_SomeD [OF assms(2)]
    by (fastforce simp: store_inv_def sessions_ok_def session_bounded_def simp del: map_of_eq_Some_iff split: option.splits)
  then have "session_kept sid row m db"
    using assms(2) by (auto simp: session_kept_def simp del: map_of_eq_Some_iff)
  from session_kept_run [OF assms(1) this assms(4)] active_in_kept [of db' sid row m clock session] active assms(3)
  show False by simp
qed

text \<open>
  The PostgreSQL and the SQLite statements of a renewal agree: on every reachable database they give
  the same result, error included, and the same rows.
\<close>

lemma renewal_backends_agree:
  assumes "store_inv db"
  shows "renew_proxy_session_for_subject Postgres clock db sid subject requested
    = renew_proxy_session_for_subject Sqlite clock db sid subject requested"
proof -
  have "renew_sessions Postgres db sid subject requested now = renew_sessions Sqlite db sid subject requested now" for now
    using assms by (simp only: renew_sessions_eq store_inv_def sessions_ok_def)
  then show ?thesis by (simp only: renew_proxy_session_for_subject_def)
qed

text \<open>
  A grant allows its subject the profile until it expires, in the mode it names or in both modes, and a
  revocation takes it away in every mode and at every time.
\<close>

lemma grant_then_revoke:
  assumes "store_inv db" and "grant_profile_mode clock0 db subject profile mode expires = Inr db'"
    and "0 \<le> clock" and "clock < 2 ^ 63"
  shows "profile_allowed_for clock db' subject profile mode'
      = Inr ((case expires of None \<Rightarrow> True | Some e \<Rightarrow> clock < e) \<and> (mode = ModeBoth \<or> mode = mode'))
    \<and> profile_allowed_for clock (fst (revoke_profile db' subject profile)) subject profile mode' = Inr False"
proof
  have inv: "store_inv db'" by (rule grant_profile_mode_inv [OF assms(1,2)])
  have "map_of (t_capability_grants db') (subject, profile) = Some \<lparr>gr_mode = mode_as_str mode, gr_expires = expires\<rparr>"
    using assms(2) by (auto simp: grant_profile_mode_def result_iff update_conv')
  then show "profile_allowed_for clock db' subject profile mode'
      = Inr ((case expires of None \<Rightarrow> True | Some e \<Rightarrow> clock < e) \<and> (mode = ModeBoth \<or> mode = mode'))"
    unfolding profile_allowed_for_iff [OF inv] using assms(3,4)
    by (cases mode; cases mode') (auto simp: unexpired_def split: option.splits)
  have "map_of (t_capability_grants (fst (revoke_profile db' subject profile))) (subject, profile) = None"
    by (simp add: revoke_profile_def map_of_delete_key)
  then show "profile_allowed_for clock (fst (revoke_profile db' subject profile)) subject profile mode' = Inr False"
    unfolding profile_allowed_for_iff [OF revoke_profile_inv [OF inv]] using assms(3,4) by simp
qed

text \<open>
  A revocation of a grant that the table of the first schema still holds does not last: every start copies
  that table again, so after the next start the subject is allowed the profile in every mode, with no expiry.
\<close>

lemma revoked_legacy_grant_returns:
  assumes "store_inv db" and "(subject, profile) \<in> set (t_profile_grants db)" and "0 \<le> clock" and "clock < 2 ^ 63"
  shows "profile_allowed_for clock (fst (revoke_profile db subject profile)) subject profile mode = Inr False
    \<and> profile_allowed_for clock (connect_database be owner (fst (revoke_profile db subject profile))) subject profile mode
      = Inr True"
proof
  let ?db = "fst (revoke_profile db subject profile)"
  have inv: "store_inv ?db" by (rule revoke_profile_inv [OF assms(1)])
  have none: "map_of (t_capability_grants ?db) (subject, profile) = None"
    and legacy: "(subject, profile) \<in> set (t_profile_grants ?db)"
    using assms(2) by (simp_all add: revoke_profile_def map_of_delete_key)
  then show "profile_allowed_for clock ?db subject profile mode = Inr False"
    unfolding profile_allowed_for_iff [OF inv] using assms(3,4) by simp
  have "map_of (t_capability_grants (connect_database be owner ?db)) (subject, profile)
      = Some \<lparr>gr_mode = ''both'', gr_expires = None\<rparr>"
    using none legacy by (simp add: connect_database_grants migrate_def map_of_grants_fold)
  then show "profile_allowed_for clock (connect_database be owner ?db) subject profile mode = Inr True"
    unfolding profile_allowed_for_iff [OF connect_database_inv [OF inv]] using assms(3,4) by (simp add: unexpired_def)
qed

text \<open>
  The bootstrap makes the configured subject an owner exactly when the database holds no bootstrap record:
  a later start with another subject adds no owner, and a first start adds one even if there are owners already.
\<close>

lemma bootstrap_owner_once:
  assumes "store_inv db"
  shows "owners_of (bootstrap_owner be db subject) =
      (if t_owner_bootstrap db = None then insert subject (owners_of db) else owners_of db)
    \<and> t_owner_bootstrap (bootstrap_owner be db subject) \<noteq> None"
  using assms unfolding bootstrap_owner_eq
  by (auto simp: owners_of_def owner_role_if_listed_def insert_owner_def update_conv' store_inv_def roles_ok_def
      simp del: map_of_eq_Some_iff split: option.splits if_splits)

end
