(* ===== verification/Auth_Properties.thy ===== *)
theory Auth_Properties
  imports Auth Store_Guarantees
begin

text \<open>
  What authentication establishes: the credential behind every subject, the costs of the accepted password
  hashes, the limit on fetching signing keys, and that a wrong password and a missing user look alike.
\<close>

section \<open>Runs of the parts\<close>

lemma store_query_Inr:
  "store_query e query s = (Inr x, s') \<Longrightarrow> \<exists>clock. query clock = Inr x"
  by (auto simp: store_query_def result_iff split: if_splits)

lemma find_SomeD: "find P xs = Some x \<Longrightarrow> x \<in> set xs \<and> P x"
  by (auto simp: find_Some_iff)

lemma authorize_agent_Inr:
  assumes "authorize_agent cr e token s = (Inr subject, s')"
  obtains db name row where "agent_token_shaped token" and "sv_db s = Some db"
    and "(name, row) \<in> set (t_agents db)" and "agr_enabled row" and "agr_token_hash row = sha256 cr token"
    and "subject = agent_subject name"
proof -
  from assms obtain db name where "agent_token_shaped token" "sv_db s = Some db"
    "agent_for_token_hash db (sha256 cr token) = Some name" "subject = agent_subject name"
    by (auto simp: authorize_agent_def act_try_Inr result_iff split: if_splits option.splits prod.splits
        dest!: store_query_Inr)
  then show thesis
    using that by (auto simp: agent_for_token_hash_def fetch_where_def split: if_splits dest!: find_SomeD)
qed

lemma find_jwk_Some:
  "find_jwk kid s = Some jwk \<Longrightarrow> \<exists>keys. au_jwks s = Some keys \<and> (Some kid, jwk) \<in> set keys"
  by (auto simp: find_jwk_def split: option.splits dest!: find_SomeD)

lemma trusted_jwk_Inr:
  assumes "trusted_jwk e an kid s = (Inr jwk, s')"
  shows "\<exists>keys. au_jwks s' = Some keys \<and> (Some kid, jwk) \<in> set keys"
  using assms by (auto simp: trusted_jwk_def act_try_Inr result_iff split: option.splits intro: find_jwk_Some)

lemma authorize_oidc_Inr:
  assumes "authorize_oidc cr e an token s = (Inr subject, s')"
  obtains alg kid jwk keys now claims where "jwt_decode_header cr token = Some (alg, Some kid)"
    and "alg \<in> set (jv_algorithms (oidc_validation (an_config an)))"
    and "au_jwks s' = Some keys" and "(Some kid, jwk) \<in> set keys" and "jwk_usable cr jwk"
    and "jwt_decode cr now token jwk (oidc_validation (an_config an)) = Some claims"
    and "claim_allows_group (map_of (cl_extra claims) (ac_group_claim (an_config an))) (ac_allowed_groups (an_config an))"
    and "subject = cl_sub claims"
proof -
  from assms obtain alg kid where header: "jwt_decode_header cr token = Some (alg, Some kid)"
    "alg \<in> set (jv_algorithms (oidc_validation (an_config an)))"
    by (auto simp: authorize_oidc_def Let_def split: option.splits if_splits)
  with assms obtain jwk t where key: "trusted_jwk e an kid s = (Inr jwk, t)" "jwk_usable cr jwk"
    and t: "s' = t\<lparr>io_ticks := Suc (io_ticks t)\<rparr>"
    and claims: "\<exists>now claims. jwt_decode cr now token jwk (oidc_validation (an_config an)) = Some claims
      \<and> claim_allows_group (map_of (cl_extra claims) (ac_group_claim (an_config an))) (ac_allowed_groups (an_config an))
      \<and> subject = cl_sub claims"
    by (fastforce simp: authorize_oidc_def Let_def act_try_Inr split: option.splits if_splits)
  from trusted_jwk_Inr [OF key(1)] t have "\<exists>keys. au_jwks s' = Some keys \<and> (Some kid, jwk) \<in> set keys" by simp
  then show thesis using that header key(2) claims by blast
qed

lemma requested_credential_Inr:
  assumes "requested_credential e an username s = (Inr (Some credential), s')"
  shows "case sv_db s of
      Some db \<Rightarrow> basic_password_hash db username = Some (bc_password_hash credential)
    | None \<Rightarrow> credential \<in> set (an_basic_credentials an) \<and> bc_username credential = username"
  using assms
  by (auto simp: requested_credential_def act_try_Inr result_iff find_Some_iff split: option.splits prod.splits
      dest!: store_query_Inr)

lemma authorize_basic_Inr:
  assumes "authorize_basic cr e an encoded s = (Inr subject, s')"
  obtains username password credential hash where
    "base64_standard_decode cr encoded = Some (username @ CHR '':'' # password)" and "CHR '':'' \<notin> set username"
    and "subject = ''basic:'' @ username" and "password_hash_new cr (bc_password_hash credential) = Some hash"
    and "argon2_verify cr password hash"
    and "case sv_db s of
        Some db \<Rightarrow> basic_password_hash db username = Some (bc_password_hash credential)
      | None \<Rightarrow> credential \<in> set (an_basic_credentials an) \<and> bc_username credential = username"
proof -
  from assms obtain username password credential hash t where
    "base64_standard_decode cr encoded = Some (username @ CHR '':'' # password)" "CHR '':'' \<notin> set username"
    "subject = ''basic:'' @ username" "password_hash_new cr (bc_password_hash credential) = Some hash"
    "argon2_verify cr password hash" and run: "requested_credential e an username s = (Inr (Some credential), t)"
    by (auto simp: authorize_basic_def act_try_Inr result_iff split_once_Some_iff comparison_hash_def
        split: if_splits option.splits)
  then show thesis using that requested_credential_Inr [OF run] by blast
qed

lemma load_basic_credentials_Inr:
  assumes "load_basic_credentials cr e users s = (Inr credentials, s')"
  shows "map bc_username credentials = map buc_username users
    \<and> list_all (\<lambda>credential. check_password_hash cr (bc_password_hash credential) = Inr ()) credentials"
  using assms
proof (induction users arbitrary: s credentials)
  case (Cons user users)
  then obtain password_hash others t where "load_basic_credentials cr e users t = (Inr others, s')"
    "credentials = \<lparr>bc_username = buc_username user, bc_password_hash = password_hash\<rparr> # others"
    "check_password_hash cr password_hash = Inr ()"
    by (auto simp: act_try_Inr result_iff)
  then show ?case using Cons.IH by simp
qed simp

text \<open>
  What authentication needs of a relation so that it obeys it: the readings of the clock and of the semaphore, the
  lookups in the store and the refresh of the keys obey it.
\<close>

locale authentication_frame = frame_relation R
  for R :: "'z auth_server_scheme \<Rightarrow> 'z auth_server_scheme \<Rightarrow> bool" and e :: env and an :: authenticator +
  assumes clock_obeys: "obeys R (clock_now e)"
    and slot_obeys: "obeys R (tick (env_slot e))"
    and lookup_obeys: "obeys R (store_query e (lookup :: int \<Rightarrow> store_error + string option))"
    and refresh_obeys: "obeys R (refresh_jwks e an False)"
begin

lemma trusted_jwk_obeys: "obeys R (trusted_jwk e an kid)"
proof (rule obeysI)
  fix s
  have "obeys R (act_try (refresh_jwks e an False) (\<lambda>_ s. (ok_or (OidcE UntrustedKey) (find_jwk kid s), s)))"
    by (intro obeys_rules refresh_obeys) (rule obeysI, simp add: refl)
  then show "R s (snd (trusted_jwk e an kid s))"
    unfolding obeys_def trusted_jwk_def by (simp add: refl split: option.split)
qed

lemma authorize_agent_obeys: "obeys R (authorize_agent cr e token)"
proof (rule obeysI)
  fix s
  have "obeys R (act_try (act_map_err AuthStore (store_query e (\<lambda>_. Inr (agent_for_token_hash db (sha256 cr token))))) (\<lambda>found.
      act_return (rbind (ok_or (AgentE AgentUnknown) found) (\<lambda>name. Inr (agent_subject name)))))" for db
    by (intro obeys_rules lookup_obeys)
  then show "R s (snd (authorize_agent cr e token s))"
    unfolding obeys_def authorize_agent_def by (simp add: refl split: option.split)
qed

lemma requested_credential_obeys: "obeys R (requested_credential e an username)"
proof (rule obeysI)
  fix s
  have "obeys R (act_try (act_map_err AuthStore (store_query e (\<lambda>_. Inr (basic_password_hash db username)))) (\<lambda>managed_hash.
      act_return (Inr (map_option
        (\<lambda>password_hash. \<lparr>bc_username = username, bc_password_hash = password_hash\<rparr>) managed_hash))))" for db
    by (intro obeys_rules lookup_obeys)
  then show "R s (snd (requested_credential e an username s))"
    unfolding obeys_def requested_credential_def by (simp add: refl split: option.split)
qed

lemma authorize_obeys: "obeys R (authorize cr e an headers)"
proof -
  note parts = obeys_rules clock_obeys slot_obeys trusted_jwk_obeys requested_credential_obeys
  have "obeys R (authorize_oidc cr e an token)" for token
    unfolding authorize_oidc_def Let_def by (auto intro!: parts split: option.split)
  moreover have "obeys R (authorize_basic cr e an encoded)" for encoded
    unfolding authorize_basic_def by (auto intro!: parts split: option.split prod.split)
  ultimately show ?thesis
    unfolding authorize_def Let_def by (auto intro!: obeys_rules authorize_agent_obeys split: option.split)
qed

end

text \<open>
  Within the cooldown nothing is sent and the time of the last attempt stays. The relation is a frame that
  every part of \<^const>\<open>authorize\<close> obeys while the readings of the clock lie within the cooldown.
\<close>

definition within_cooldown :: "env \<Rightarrow> int \<Rightarrow> 'z auth_server_scheme \<Rightarrow> bool" where
  "within_cooldown e attempt s \<longleftrightarrow>
     au_last_attempt s = Some attempt \<and> (\<forall>n \<ge> io_ticks s. env_instant e n - attempt < jwks_refresh_cooldown)"

definition quiet :: "env \<Rightarrow> int \<Rightarrow> 'z auth_server_scheme \<Rightarrow> 'z auth_server_scheme \<Rightarrow> bool" where
  "quiet e attempt s t \<longleftrightarrow>
     (within_cooldown e attempt s \<longrightarrow>
        within_cooldown e attempt t \<and> io_sent t = io_sent s \<and> au_jwks t = au_jwks s)"

interpretation quiet: frame_relation "quiet e attempt"
  by unfold_locales (auto simp: quiet_def)

lemma tick_quiet: "obeys (quiet e attempt) (tick f)"
  by (rule obeysI) (auto simp: quiet_def within_cooldown_def)

lemma store_query_quiet: "obeys (quiet e attempt) (store_query e' query)"
  unfolding store_query_def by (intro quiet.obeys_rules tick_quiet)

lemma refresh_quiet: "obeys (quiet e attempt) (refresh_jwks e an False)"
  by (rule obeysI) (auto simp: quiet_def within_cooldown_def refresh_jwks_def)

interpretation quiet_auth: authentication_frame "quiet e attempt" e an
  by unfold_locales (rule tick_quiet store_query_quiet refresh_quiet)+

text \<open>Authentication never changes the database or the leases.\<close>

definition keeps_store :: "'z server_scheme \<Rightarrow> 'z server_scheme \<Rightarrow> bool" where
  "keeps_store s t \<longleftrightarrow> sv_db t = sv_db s \<and> sv_leases t = sv_leases s"

interpretation keeps_store: frame_relation keeps_store
  by unfold_locales (auto simp: keeps_store_def)

lemma refresh_keeps_store: "obeys keeps_store (refresh_jwks e an force)"
  by (rule obeysI)
    (auto simp: keeps_store_def refresh_jwks_def fetch_jwks_def Let_def split: option.split backend_reply.split reply_body.split)

interpretation store_auth: authentication_frame keeps_store e an
  by unfold_locales
    (auto intro!: refresh_keeps_store obeysI simp: keeps_store_def store_query_def)

lemma authorize_keeps_store: "authorize cr e an headers s = (r, t) \<Longrightarrow> sv_db t = sv_db s \<and> sv_leases t = sv_leases s"
  using obeysD [OF store_auth.authorize_obeys] by (simp add: keeps_store_def)

text \<open>Requests that arrive one after the other.\<close>

fun authorize_each ::
    "('u, 'c) auth_crates_scheme \<Rightarrow> env \<Rightarrow> authenticator \<Rightarrow> header_map list
     \<Rightarrow> ('z auth_server_scheme, (auth_error + string) list) act" where
  "authorize_each cr e an [] = act_return []"
| "authorize_each cr e an (headers # others) =
    act_bind (authorize cr e an headers) (\<lambda>r.
    act_bind (authorize_each cr e an others) (\<lambda>rs. act_return (r # rs)))"

lemma authorize_each_quiet: "obeys (quiet e attempt) (authorize_each cr e an requests)"
  by (induction requests) (simp_all del: act_bind_run act_return_run add: quiet.obeys_rules quiet_auth.authorize_obeys)

section \<open>Samples\<close>

definition sample_auth_crates :: "sample_url auth_crates" where
  "sample_auth_crates =
    crates.extend sample_crates
      (auth_crates.fields
        (\<lambda>token. if token = ''jwt'' then Some (RS256, Some ''k1'') else None)
        (\<lambda>_. True)
        (\<lambda>now token key v.
           if token = ''jwt'' \<and> key = ''key-1''
           then Some \<lparr>cl_sub = ''agent:builder'', cl_extra = [(''groups'', JArray [JString ''dev''])]\<rparr> else None)
        (\<lambda>s. if prefix ''$argon2id$'' s
             then Some \<lparr>phc_algorithm = ''argon2id'', phc_version = Some 19, phc_salt = Some ''salt'',
                        phc_hash = Some (drop 10 s)\<rparr>
             else None)
        (\<lambda>_. Some \<lparr>par_m_cost = 19456, par_t_cost = 2, par_p_cost = 1\<rparr>)
        (\<lambda>password hash. phc_hash hash = Some password)
        (\<lambda>salt password params. Some (''$argon2id$'' @ password)))"

lemmas sample_auth_crates_simps = sample_auth_crates_def sample_crates_def crates.defs auth_crates.defs

definition auth_env :: env where
  "auth_env =
    \<lparr>env_clock = (\<lambda>n. secs 1000), env_instant = (\<lambda>n. secs 30), env_file = (\<lambda>_ _. Some ''$argon2id$correcthorse ''),
     env_random = (\<lambda>n. replicate 32 (char_of n)), env_store_up = (\<lambda>_. True), env_slot = (\<lambda>_. True),
     env_backend = (\<lambda>_ _. Reply 200 (JwksBody [(Some ''k1'', ''key-1'')])), env_rfc3339 = (\<lambda>_. None)\<rparr>"

definition auth_state :: auth_server where
  "auth_state =
    \<lparr>io_ticks = 0, io_sent = [], io_tokens = (\<lambda>_. None), sv_leases = [],
     sv_db = Some (upsert_basic_user empty_db ''ada'' ''$argon2id$correcthorse''),
     au_jwks = Some [], au_last_attempt = Some 0\<rparr>"

definition sample_authenticator :: "auth_mode \<Rightarrow> authenticator" where
  "sample_authenticator mode =
    \<lparr>an_config = \<lparr>ac_mode = mode, ac_issuer = ''https://id.example.test'', ac_client_id = ''av'', ac_audiences = [],
       ac_scopes = [], ac_signing_algorithms = [Rs256], ac_allowed_groups = [''dev''], ac_group_claim = ''groups'',
       ac_basic_users = [\<lparr>buc_username = ''ada'', buc_password_hash_file = ''/run/ada''\<rparr>], ac_github = None\<rparr>,
     an_discovery = Some \<lparr>di_issuer = ''https://id.example.test'', di_authorization_endpoint = ''a'',
       di_token_endpoint = ''t'', di_jwks_uri = ''https://id.example.test/keys'', di_device_authorization_endpoint = None\<rparr>,
     an_basic_credentials = []\<rparr>"

definition authorization :: "string \<Rightarrow> header_map" where
  "authorization credential = hm_insert ''authorization'' (HeaderValue credential False) hm_new"

section \<open>Properties\<close>


lemma sample_basic_login:
  "fst (authorize sample_auth_crates auth_env (sample_authenticator Basic)
     (authorization ''Basic ada:correcthorse--------'') auth_state) = Inr ''basic:ada''"
  by code_simp


text \<open>
  Every password hash that passes the startup check is a complete Argon2id hash of version 19 whose costs
  lie in the documented bounds: 19 to 64 MiB, two to six iterations, parallelism one to four. The users are the
  configured ones, in order.
\<close>

lemma startup_hashes_bounded:
  assumes "load_basic_credentials cr e users s = (Inr credentials, s')"
  shows "map bc_username credentials = map buc_username users
    \<and> list_all (\<lambda>credential. \<exists>parsed params.
         password_hash_new cr (bc_password_hash credential) = Some parsed
         \<and> phc_algorithm parsed = ''argon2id'' \<and> phc_version parsed = Some 19
         \<and> phc_salt parsed \<noteq> None \<and> phc_hash parsed \<noteq> None \<and> argon2_params_of cr parsed = Some params
         \<and> 19 * 1024 \<le> par_m_cost params \<and> par_m_cost params \<le> 64 * 1024
         \<and> 2 \<le> par_t_cost params \<and> par_t_cost params \<le> 6
         \<and> 1 \<le> par_p_cost params \<and> par_p_cost params \<le> 4) credentials"
  using load_basic_credentials_Inr [OF assms]
  by (auto simp: list_all_iff check_password_hash_def result_iff reject_if_def basic_auth_min_memory_kib_def
      basic_auth_max_memory_kib_def basic_auth_min_iterations_def basic_auth_max_iterations_def
      basic_auth_max_parallelism_def split: if_splits)



text \<open>
  In the managed mode a wrong password and a missing or disabled user cannot be told apart: both requests
  end in the same result and the same state, and neither is authorised.
\<close>

lemma basic_failure_uniform:
  assumes "sv_db s = Some db"
    and missing: "base64_standard_decode cr encoded = Some (username @ CHR '':'' # password)"
      "utf8_valid (username @ CHR '':'' # password)" "CHR '':'' \<notin> set username"
      "basic_password_hash db username = None" "password_hash_new cr (comparison_hash an None) = Some dummy"
    and wrong: "base64_standard_decode cr encoded' = Some (username' @ CHR '':'' # password')"
      "utf8_valid (username' @ CHR '':'' # password')" "CHR '':'' \<notin> set username'"
      "basic_password_hash db username' = Some stored" "password_hash_new cr stored = Some hash"
      "\<not> argon2_verify cr password' hash"
  shows "authorize_basic cr e an encoded s = authorize_basic cr e an encoded' s
    \<and> \<not> is_ok (fst (authorize_basic cr e an encoded s))"
  using assms
  by (auto simp: authorize_basic_def act_try_def requested_credential_def store_query_def comparison_hash_def
      split: prod.splits sum.splits if_splits option.splits)

end
