(* ===== verification/Lease_Properties.thy ===== *)
theory Lease_Properties
  imports Leases Store_Properties Sample_Crates
begin

text \<open>
  What the lease registry guarantees: handles stay unique and bounded in number, a lease is renewed and revoked
  only for the subject that holds it, a lease leaves the registry only after its backend acknowledged the
  revocation, except on the paths of the environment renewal named below, and shutdown empties the registry.
\<close>

section \<open>What one action does\<close>

lemma io_extends_server:
  assumes "io_extends s t"
  shows "sv_leases t = sv_leases s \<and> sv_db t = sv_db s \<and> (\<exists>sent. io_sent t = io_sent s @ sent)"
proof -
  have t: "t = s\<lparr>io_ticks := io_ticks t, io_sent := io_sent t, io_tokens := io_tokens t\<rparr>"
    and sent: "\<exists>sent. io_sent t = io_sent s @ sent"
    using assms unfolding io_extends_def by auto
  from arg_cong [OF t, of sv_leases] arg_cong [OF t, of sv_db]
  have "sv_leases t = sv_leases s" "sv_db t = sv_db s" by simp_all
  with sent show ?thesis by blast
qed

lemma io_run:
  assumes "obeys io_extends m" and "m s = (r, s')"
  shows "sv_leases s' = sv_leases s \<and> sv_db s' = sv_db s \<and> (\<exists>sent. io_sent s' = io_sent s @ sent)"
  by (rule io_extends_server [OF obeysD [OF assms]])

lemma connector_revoke_run:
  assumes "connector_revoke cr e name connector lease s = (r, s')"
  shows "sv_leases s' = sv_leases s \<and> sv_db s' = sv_db s \<and> (\<exists>sent. io_sent s' = io_sent s @ sent)
    \<and> (r = Inr () \<longrightarrow> lease_revoked e (io_sent s') lease)"
  using io_run [OF connector_revoke_io assms] connector_revoke_Inr assms by blast

lemma connector_renew_run:
  assumes "connector_renew cr e name connector lease s = ((r, lease'), s')"
  shows "sv_leases s' = sv_leases s \<and> sv_db s' = sv_db s \<and> (\<exists>sent. io_sent s' = io_sent s @ sent)
    \<and> lease_key lease' = lease_key lease"
  using io_run [OF connector_renew_io assms] connector_renew_key assms by blast

lemma revoke_dynamic_lease_run:
  assumes "revoke_dynamic_lease cr e app active s = (r, s')"
  shows "sv_leases s' = sv_leases s \<and> sv_db s' = sv_db s \<and> (\<exists>sent. io_sent s' = io_sent s @ sent)
    \<and> (r = Inr () \<longrightarrow> lease_revoked e (io_sent s') (ad_lease active))"
proof (cases "map_of (app_connectors app) (ad_connector active)")
  case None
  with assms show ?thesis by (auto simp: revoke_dynamic_lease_def)
next
  case (Some connector)
  with assms have "connector_revoke cr e (ad_connector active) connector (ad_lease active) s = (r, s')"
    by (simp add: revoke_dynamic_lease_def)
  then show ?thesis by (rule connector_revoke_run)
qed

lemma take_for_subject_run:
  assumes "take_for_subject e handle subject s = (r, s')"
  shows "io_sent s' = io_sent s \<and> sv_db s' = sv_db s
    \<and> (case r of
         None \<Rightarrow> sv_leases s' = sv_leases s
       | Some item \<Rightarrow> map_of (sv_leases s) handle = Some item \<and> ad_subject item = subject
           \<and> sv_leases s' = AList.delete handle (sv_leases s))"
  using assms by (auto simp: take_for_subject_def split: option.splits if_splits)

lemma restore_run:
  assumes "restore handle item s = (r, s')"
  shows "io_sent s' = io_sent s \<and> sv_db s' = sv_db s
    \<and> (map_of (sv_leases s) handle = None \<longrightarrow> r = Inr () \<and> sv_leases s' = AList.update handle item (sv_leases s))
    \<and> (map_of (sv_leases s) handle \<noteq> None \<longrightarrow> r = Inl item \<and> sv_leases s' = sv_leases s)"
  using assms by (auto simp: restore_def split: if_splits)

lemma store_query_run: "store_query e query s = (r, s') \<Longrightarrow> sv_leases s' = sv_leases s \<and> sv_db s' = sv_db s \<and> io_sent s' = io_sent s"
  by (auto simp: store_query_def split: if_splits)

lemma profile_permitted_run:
  "profile_permitted e subject profile mode s = (r, s') \<Longrightarrow> sv_leases s' = sv_leases s \<and> sv_db s' = sv_db s \<and> io_sent s' = io_sent s"
  by (auto simp: profile_permitted_def split: option.splits dest: store_query_run)

lemma audit_event_run:
  assumes "audit_event_act e actor action profile route exe s = (r, s')"
  shows "sv_leases s' = sv_leases s \<and> io_sent s' = io_sent s
    \<and> (sv_db s' = sv_db s \<or> (\<exists>clock db db'. sv_db s = Some db \<and> sv_db s' = Some db'
          \<and> record_audit clock db actor action profile route exe = Inr db'))"
proof (cases "sv_db s")
  case None
  with assms show ?thesis by (simp add: audit_event_act_def)
next
  case (Some db)
  with assms show ?thesis
    by (auto simp: audit_event_act_def store_update_def act_try_def store_query_def map_error_def result_iff
        split: if_splits sum.splits prod.splits)
qed


section \<open>No lease is lost\<close>

text \<open>A lease is kept if it is registered under its handle for its subject, or its backend acknowledged its
  revocation.\<close>

definition lease_kept :: "env \<Rightarrow> string \<Rightarrow> active_dynamic_lease \<Rightarrow> 'z server_scheme \<Rightarrow> bool" where
  "lease_kept e handle item s \<longleftrightarrow>
     (\<exists>item'. map_of (sv_leases s) handle = Some item' \<and> ad_subject item' = ad_subject item
        \<and> lease_key (ad_lease item') = lease_key (ad_lease item))
     \<or> lease_revoked e (io_sent s) (ad_lease item)"

lemma lease_kept_same:
  "lease_kept e handle item s \<Longrightarrow> ad_subject item' = ad_subject item \<Longrightarrow>
     lease_key (ad_lease item') = lease_key (ad_lease item) \<Longrightarrow> lease_kept e handle item' s"
  unfolding lease_kept_def by (metis lease_revoked_key)

lemma restore_kept:
  assumes "restore handle item s = (r, s')" and "map_of (sv_leases s) handle = None"
  shows "lease_kept e handle item s' \<and> r = Inr ()"
  using restore_run [OF assms(1)] assms(2) by (simp add: lease_kept_def update_conv')

lemma revoke_or_restore_kept:
  assumes "revoke_or_restore cr e app handle item s = (r, s')" and "map_of (sv_leases s) handle = None"
  shows "lease_kept e handle item s'"
proof -
  obtain r1 s1 where 1: "revoke_dynamic_lease cr e app item s = (r1, s1)" by (cases "revoke_dynamic_lease cr e app item s")
  note run = revoke_dynamic_lease_run [OF 1]
  show ?thesis
  proof (cases r1)
    case (Inl err)
    obtain r2 where "restore handle item s1 = (r2, s')"
      using assms(1) 1 Inl by (auto simp: revoke_or_restore_def split: prod.splits)
    from restore_kept [OF this] run assms(2) show ?thesis by simp
  next
    case (Inr u)
    with assms(1) 1 have "s' = s1" by (simp add: revoke_or_restore_def)
    with run Inr show ?thesis by (simp add: lease_kept_def)
  qed
qed

lemma taken_absent:
  assumes "take_for_subject e handle subject s = (Some item, s1)"
  shows "map_of (sv_leases s1) handle = None \<and> map_of (sv_leases s) handle = Some item \<and> ad_subject item = subject"
  using take_for_subject_run [OF assms] by (simp add: delete_conv')

lemma untaken_kept:
  assumes "take_for_subject e handle subject s = (None, s1)" and "map_of (sv_leases s) handle = Some item"
  shows "lease_kept e handle item s1"
  using take_for_subject_run [OF assms(1)] assms(2) by (simp add: lease_kept_def)

lemma revoke_registered_kept:
  assumes "revoke_registered_dynamic_lease cr e app handle subject s = (r, s')" and "map_of (sv_leases s) handle = Some item"
  shows "lease_kept e handle item s'"
proof -
  obtain taken s1 where t: "take_for_subject e handle subject s = (taken, s1)" by (cases "take_for_subject e handle subject s")
  show ?thesis
  proof (cases taken)
    case None
    with t assms show ?thesis by (auto simp: revoke_registered_dynamic_lease_def dest: untaken_kept)
  next
    case (Some active)
    with t assms have "revoke_or_restore cr e app handle active s1 = (r, s')" "active = item"
      using taken_absent [of e handle subject s active s1] by (auto simp: revoke_registered_dynamic_lease_def)
    with taken_absent [of e handle subject s active s1] t Some show ?thesis
      using revoke_or_restore_kept by blast
  qed
qed

lemma renew_registered_taken:
  assumes "renew_registered_dynamic_lease cr e app handle subject s = (r, s')"
    and "take_for_subject e handle subject s = (Some item, s1)"
  shows "lease_kept e handle item s'"
proof -
  have absent: "map_of (sv_leases s1) handle = None" using taken_absent [OF assms(2)] by blast
  show ?thesis
  proof (cases "map_of (app_connectors app) (ad_connector item)")
    case None
    with assms obtain r1 where "restore handle item s1 = (r1, s')"
      by (auto simp: renew_registered_dynamic_lease_def split: prod.splits)
    from restore_kept [OF this absent] show ?thesis by blast
  next
    case (Some connector)
    obtain renewed lease s2 where renew: "connector_renew cr e (ad_connector item) connector (ad_lease item) s1 = ((renewed, lease), s2)"
      by (cases "connector_renew cr e (ad_connector item) connector (ad_lease item) s1") auto
    let ?item = "item\<lparr>ad_lease := lease\<rparr>"
    note run = connector_renew_run [OF renew]
    have absent2: "map_of (sv_leases s2) handle = None" using run absent by simp
    obtain r1 t1 where undo1: "revoke_or_restore cr e app handle item s1 = (r1, t1)"
      by (cases "revoke_or_restore cr e app handle item s1")
    obtain r2 t2 where undo2: "revoke_or_restore cr e app handle ?item s2 = (r2, t2)"
      by (cases "revoke_or_restore cr e app handle ?item s2")
    obtain r3 t3 where put: "restore handle ?item s2 = (r3, t3)" by (cases "restore handle ?item s2")
    from restore_kept [OF put absent2] have "r3 = Inr ()" by blast
    then have "s' \<in> {t1, t2, t3}"
      using assms Some renew undo1 undo2 put
      by (cases "lease_renewable (ad_lease item)"; cases renewed; cases "dynamic_lease_expiry lease")
        (simp_all add: renew_registered_dynamic_lease_def)
    moreover have "lease_kept e handle item t1" by (rule revoke_or_restore_kept [OF undo1 absent])
    moreover have "lease_kept e handle ?item t2" by (rule revoke_or_restore_kept [OF undo2 absent2])
    moreover have "lease_kept e handle ?item t3" using restore_kept [OF put absent2] by blast
    moreover have "lease_key (ad_lease item) = lease_key (ad_lease ?item)" using run by simp
    ultimately show ?thesis
      using lease_kept_same [of e handle ?item s' item] by auto
  qed
qed

lemma renew_registered_kept:
  assumes "renew_registered_dynamic_lease cr e app handle subject s = (r, s')" and "map_of (sv_leases s) handle = Some item"
  shows "lease_kept e handle item s'"
proof -
  obtain taken s1 where t: "take_for_subject e handle subject s = (taken, s1)" by (cases "take_for_subject e handle subject s")
  show ?thesis
  proof (cases taken)
    case None
    with t assms show ?thesis by (auto simp: renew_registered_dynamic_lease_def dest: untaken_kept)
  next
    case (Some active)
    with t assms(2) taken_absent [of e handle subject s active s1] have "active = item" by auto
    with renew_registered_taken [OF assms(1)] t Some show ?thesis by blast
  qed
qed


section \<open>What a call can do to the registry\<close>

text \<open>
  A call on behalf of one subject that takes the lease of one handle leaves the registry without that lease, or
  with a lease of the same subject under the same handle. Every action after the taking stays within these
  registries.
\<close>

definition own_registries ::
    "string \<Rightarrow> string \<Rightarrow> (string \<times> active_dynamic_lease) list \<Rightarrow> (string \<times> active_dynamic_lease) list set" where
  "own_registries subject handle leases =
     {AList.delete handle leases}
     \<union> {AList.update handle item (AList.delete handle leases) | item. ad_subject item = subject}"

definition stays_within :: "(string \<times> active_dynamic_lease) list set \<Rightarrow> 'z server_scheme \<Rightarrow> 'z server_scheme \<Rightarrow> bool" where
  "stays_within S s t \<longleftrightarrow> (sv_leases s \<in> S \<longrightarrow> sv_leases t \<in> S)"

interpretation within: frame_relation "stays_within S"
  by unfold_locales (auto simp: stays_within_def)

lemma stays_withinI: "(\<And>s. sv_leases (snd (m s)) = sv_leases s) \<Longrightarrow> obeys (stays_within S) m"
  by (rule obeysI) (simp add: stays_within_def)

lemma io_within: "obeys io_extends m \<Longrightarrow> obeys (stays_within S) m"
  by (rule stays_withinI) (metis io_run prod.collapse)

lemma revoke_within: "obeys (stays_within S) (revoke_dynamic_lease cr e app active)"
  by (rule stays_withinI) (metis revoke_dynamic_lease_run prod.collapse)

lemma audit_within: "obeys (stays_within S) (audit_event_act e actor action profile route exe)"
  by (rule stays_withinI) (metis audit_event_run prod.collapse)

lemma permitted_within: "obeys (stays_within S) (profile_permitted e subject profile mode)"
  by (rule stays_withinI) (metis profile_permitted_run prod.collapse)

lemma restore_within:
  assumes "ad_subject item = subject"
  shows "obeys (stays_within (own_registries subject handle leases)) (restore handle item)"
proof (rule obeysI)
  fix s :: "'z server_scheme"
  have "map_of (sv_leases s) handle = None \<Longrightarrow> sv_leases s \<in> own_registries subject handle leases \<Longrightarrow>
      sv_leases s = AList.delete handle leases"
    by (auto simp: own_registries_def update_conv')
  then show "stays_within (own_registries subject handle leases) s (snd (restore handle item s))"
    using assms by (auto simp: stays_within_def restore_def own_registries_def)
qed

lemmas within_rules = within.obeys_rules io_within [OF connector_revoke_io] io_within [OF connector_renew_io]
  revoke_within audit_within permitted_within

lemma finish_within:
  "ad_subject item = subject \<Longrightarrow>
     obeys (stays_within (own_registries subject handle leases)) (finish_environment_renewal cr e app caller handle item)"
  unfolding finish_environment_renewal_def by (intro within_rules restore_within)

lemma renew_with_within:
  "ad_subject item = subject \<Longrightarrow>
     obeys (stays_within (own_registries subject handle leases)) (renew_environment_lease_with cr e app caller handle connector item)"
  unfolding renew_environment_lease_with_def Let_def
  by (auto intro!: within_rules restore_within finish_within split: prod.split)

lemma revoke_or_restore_within:
  "ad_subject item = subject \<Longrightarrow>
     obeys (stays_within (own_registries subject handle leases)) (revoke_or_restore cr e app handle item)"
  unfolding revoke_or_restore_def by (intro within_rules restore_within)

text \<open>A call that first takes the lease, and then runs actions that stay within.\<close>

lemma take_then_within:
  assumes run: "act_bind (take_for_subject e handle subject) f s = (r, s')"
    and none: "\<And>t. snd (f None t) = t"
    and some: "\<And>item leases. ad_subject item = subject \<Longrightarrow> obeys (stays_within (own_registries subject handle leases)) (f (Some item))"
  shows "sv_leases s' = sv_leases s
    \<or> (\<exists>item. map_of (sv_leases s) handle = Some item \<and> ad_subject item = subject
         \<and> sv_leases s' \<in> own_registries subject handle (sv_leases s))"
proof -
  obtain taken s1 where t: "take_for_subject e handle subject s = (taken, s1)" by (cases "take_for_subject e handle subject s")
  note take_run = take_for_subject_run [OF t]
  show ?thesis
  proof (cases taken)
    case None
    with run t have "f None s1 = (r, s')" by simp
    with none [of s1] have "s' = s1" by simp
    with take_run None show ?thesis by simp
  next
    case (Some item)
    with take_run have start: "sv_leases s1 \<in> own_registries subject handle (sv_leases s)"
      and subject: "ad_subject item = subject" by (simp_all add: own_registries_def)
    from run t Some have "f (Some item) s1 = (r, s')" by simp
    from obeysD [OF some [OF subject] this] start
    have "sv_leases s' \<in> own_registries subject handle (sv_leases s)" by (simp add: stays_within_def)
    with take_run Some show ?thesis by simp
  qed
qed


lemma renew_registered_touches:
  assumes "renew_registered_dynamic_lease cr e app handle subject s = (r, s')"
  shows "sv_leases s' = sv_leases s
    \<or> (\<exists>item. map_of (sv_leases s) handle = Some item \<and> ad_subject item = subject
         \<and> sv_leases s' \<in> own_registries subject handle (sv_leases s))"
  using assms unfolding renew_registered_dynamic_lease_def
  by (rule take_then_within)
    (auto simp: Let_def intro!: within_rules restore_within revoke_or_restore_within split: prod.split)

lemma revoke_registered_touches:
  assumes "revoke_registered_dynamic_lease cr e app handle subject s = (r, s')"
  shows "sv_leases s' = sv_leases s
    \<or> (\<exists>item. map_of (sv_leases s) handle = Some item \<and> ad_subject item = subject
         \<and> sv_leases s' \<in> own_registries subject handle (sv_leases s))"
  using assms unfolding revoke_registered_dynamic_lease_def
  by (rule take_then_within) (auto intro!: within_rules revoke_or_restore_within)

text \<open>The two calls of the session service.\<close>

definition touches_own :: "string option \<Rightarrow> string \<Rightarrow> 'z server_scheme \<Rightarrow> 'z server_scheme \<Rightarrow> bool" where
  "touches_own who handle s s' \<longleftrightarrow>
     sv_leases s' = sv_leases s
     \<or> (\<exists>subject item. who = Some subject \<and> map_of (sv_leases s) handle = Some item \<and> ad_subject item = subject
          \<and> sv_leases s' \<in> own_registries subject handle (sv_leases s))"

lemma act_try_cases:
  assumes "act_try (act_return m) f s = (r, s')"
  obtains (error) err where "m = Inl err" "r = Inl err" "s' = s" | (ok) x where "m = Inr x" "f x s = (r, s')"
  using assms by (cases m) (auto simp: act_try_def)

lemma session_take_touches:
  assumes run: "act_try (authorize_connect who) (\<lambda>subject. act_try (act_return (validate_dynamic_lease_handle handle)) (\<lambda>_.
      act_bind (take_for_subject e handle subject) (f subject))) s = (r, s')"
    and none: "\<And>subject t. snd (f subject None t) = t"
    and some: "\<And>subject item leases. ad_subject item = subject \<Longrightarrow>
      obeys (stays_within (own_registries subject handle leases)) (f subject (Some item))"
  shows "touches_own who handle s s'"
  using run unfolding authorize_connect_def
proof (cases rule: act_try_cases)
  case (ok subject)
  from ok(2) show ?thesis
  proof (cases rule: act_try_cases)
    case ok2: (ok u)
    from take_then_within [OF ok2(2) none some] ok(1) show ?thesis
      by (auto simp: touches_own_def ok_or_def split: option.splits)
  qed (simp add: touches_own_def)
qed (simp add: touches_own_def)

lemma renew_environment_touches:
  "renew_profile_environment_lease cr e app who handle s = (r, s') \<Longrightarrow> touches_own who handle s s'"
  unfolding renew_profile_environment_lease_def
  by (erule session_take_touches) (auto intro!: within_rules restore_within renew_with_within)

lemma revoke_environment_touches:
  "revoke_profile_environment_lease cr e app who handle s = (r, s') \<Longrightarrow> touches_own who handle s s'"
  unfolding revoke_profile_environment_lease_def
  by (erule session_take_touches) (auto intro!: within_rules restore_within)

lemma own_registries_facts:
  assumes "leases' \<in> own_registries subject handle leases" and "distinct (map fst leases)"
    and "map_of leases handle = Some item" and "ad_subject item = subject"
  shows "distinct (map fst leases')" and "length leases' \<le> length leases"
    and "map_of leases h = Some other \<Longrightarrow> ad_subject other \<noteq> subject \<Longrightarrow> map_of leases' h = Some other"
proof -
  have short: "length (AList.delete handle leases) < length leases"
    using map_of_SomeD [OF assms(3)] by (simp add: AList.delete_eq length_filter_less [of "(handle, item)"])
  have "length (AList.update handle i t) \<le> Suc (length t)" for i and t :: "(string \<times> active_dynamic_lease) list"
    by (induction t) auto
  from this [of _ "AList.delete handle leases"] short assms(1) show "length leases' \<le> length leases"
    by (auto simp: own_registries_def intro: le_trans Suc_leI)
  show "distinct (map fst leases')"
    using assms(1,2) by (auto simp: own_registries_def distinct_update distinct_delete)
  assume "map_of leases h = Some other" and "ad_subject other \<noteq> subject"
  with assms(1,3,4) show "map_of leases' h = Some other"
    by (auto simp: own_registries_def update_conv' delete_conv' simp del: map_of_eq_Some_iff)
qed


section \<open>The invariant of the server\<close>

definition lease_inv :: "'z server_scheme \<Rightarrow> bool" where
  "lease_inv s \<longleftrightarrow> distinct (map fst (sv_leases s)) \<and> length (sv_leases s) \<le> max_active_dynamic_leases
     \<and> pred_option store_inv (sv_db s)"

definition keeps_inv :: "'z server_scheme \<Rightarrow> 'z server_scheme \<Rightarrow> bool" where
  "keeps_inv s t \<longleftrightarrow> (lease_inv s \<longrightarrow> lease_inv t)"

definition keeps_db :: "'z server_scheme \<Rightarrow> 'z server_scheme \<Rightarrow> bool" where
  "keeps_db s t \<longleftrightarrow> (pred_option store_inv (sv_db s) \<longrightarrow> pred_option store_inv (sv_db t))"

interpretation keeps: frame_relation keeps_inv
  by unfold_locales (auto simp: keeps_inv_def)

interpretation db: frame_relation keeps_db
  by unfold_locales (auto simp: keeps_db_def)

lemma keeps_invI: "(\<And>s. sv_leases (snd (m s)) = sv_leases s \<and> sv_db (snd (m s)) = sv_db s) \<Longrightarrow> obeys keeps_inv m"
  by (rule obeysI) (simp add: keeps_inv_def lease_inv_def)

lemma keeps_dbI: "(\<And>s. sv_db (snd (m s)) = sv_db s) \<Longrightarrow> obeys keeps_db m"
  by (rule obeysI) (simp add: keeps_db_def)

lemma io_keeps: "obeys io_extends m \<Longrightarrow> obeys keeps_inv m" "obeys io_extends m \<Longrightarrow> obeys keeps_db m"
  by (rule keeps_invI, metis io_run prod.collapse) (rule keeps_dbI, metis io_run prod.collapse)

lemma query_keeps:
  "obeys keeps_inv (revoke_dynamic_lease cr e app active)" "obeys keeps_db (revoke_dynamic_lease cr e app active)"
  "obeys keeps_inv (profile_permitted e subject profile mode)" "obeys keeps_db (profile_permitted e subject profile mode)"
  by (rule keeps_invI keeps_dbI, metis revoke_dynamic_lease_run profile_permitted_run prod.collapse)+

lemma audit_db: "obeys keeps_db (audit_event_act e actor action profile route exe)"
proof (rule obeysI)
  fix s :: "'z server_scheme"
  obtain r s' where run: "audit_event_act e actor action profile route exe s = (r, s')"
    by (cases "audit_event_act e actor action profile route exe s")
  from audit_event_run [OF run] show "keeps_db s (snd (audit_event_act e actor action profile route exe s))"
    by (auto simp: keeps_db_def run dest: record_audit_inv)
qed

lemma audit_keeps: "obeys keeps_inv (audit_event_act e actor action profile route exe)"
proof (rule obeysI)
  fix s :: "'z server_scheme"
  obtain r s' where run: "audit_event_act e actor action profile route exe s = (r, s')"
    by (cases "audit_event_act e actor action profile route exe s")
  from audit_event_run [OF run] obeysD [OF audit_db run]
  show "keeps_inv s (snd (audit_event_act e actor action profile route exe s))"
    by (simp add: keeps_inv_def keeps_db_def lease_inv_def run)
qed

lemma take_db: "obeys keeps_db (take_for_subject e handle subject)"
  by (rule keeps_dbI) (metis take_for_subject_run prod.collapse)

lemma lease_inv_delete:
  "lease_inv s \<Longrightarrow> sv_leases t = AList.delete handle (sv_leases s) \<Longrightarrow> sv_db t = sv_db s \<Longrightarrow> lease_inv t"
  by (auto simp: lease_inv_def AList.delete_eq distinct_map_filter intro: order.trans [OF length_filter_le])

lemma take_keeps: "obeys keeps_inv (take_for_subject e handle subject)"
proof (rule obeysI)
  fix s :: "'z server_scheme"
  obtain r s' where run: "take_for_subject e handle subject s = (r, s')" by (cases "take_for_subject e handle subject s")
  from take_for_subject_run [OF run] have "lease_inv s \<Longrightarrow> lease_inv s'"
    using lease_inv_delete [of s s' handle] by (cases r) (auto simp: lease_inv_def)
  then show "keeps_inv s (snd (take_for_subject e handle subject s))" by (simp add: keeps_inv_def run)
qed

lemma restore_db: "obeys keeps_db (restore handle item)"
  by (rule keeps_dbI) (simp add: restore_def)

lemma select_handle_run: "select_handle cr e n s = (r, s') \<Longrightarrow> sv_leases s' = sv_leases s \<and> sv_db s' = sv_db s \<and> io_sent s' = io_sent s
    \<and> (\<forall>handle. r = Some handle \<longrightarrow> map_of (sv_leases s) handle = None)"
proof (induction n arbitrary: s)
  case (Suc n)
  let ?s = "s\<lparr>io_ticks := Suc (io_ticks s)\<rparr>"
  let ?handle = "''av_lease_'' @ base64_url_safe_no_pad cr (env_random e (io_ticks s))"
  show ?case
  proof (cases "map_of (sv_leases s) ?handle = None")
    case True
    with Suc.prems show ?thesis by (auto simp: random_browser_token_def)
  next
    case False
    with Suc.prems have "select_handle cr e n ?s = (r, s')" by (auto simp: random_browser_token_def)
    from Suc.IH [OF this] show ?thesis by simp
  qed
qed simp

lemma registry_insert_run:
  assumes "registry_insert cr e item s = (r, s')"
  shows "sv_db s' = sv_db s \<and> io_sent s' = io_sent s
    \<and> (\<exists>now. let kept = filter (\<lambda>(_, i). lease_expires_at (ad_lease i) > now) (sv_leases s) in
         case r of
           Inl i \<Rightarrow> i = item \<and> sv_leases s' = kept
         | Inr handle \<Rightarrow> map_of kept handle = None \<and> length kept < max_active_dynamic_leases
             \<and> sv_leases s' = AList.update handle item kept)"
proof -
  let ?now = "env_clock e (io_ticks s)"
  let ?s = "snd (retain_unexpired ?now (s\<lparr>io_ticks := Suc (io_ticks s)\<rparr>))"
  obtain selected t where sel: "select_handle cr e 8 ?s = (selected, t)" by (cases "select_handle cr e 8 ?s")
  note sel_run = select_handle_run [OF sel]
  have kept: "sv_leases ?s = filter (\<lambda>(_, i). lease_expires_at (ad_lease i) > ?now) (sv_leases s)"
    by (simp add: retain_unexpired_def)
  show ?thesis
  proof (cases "max_active_dynamic_leases \<le> length (sv_leases ?s)")
    case True
    with assms have "r = Inl item" "s' = ?s" by (auto simp: registry_insert_def retain_unexpired_def)
    then show ?thesis by (auto simp: retain_unexpired_def Let_def)
  next
    case False
    with assms sel have "(case selected of None \<Rightarrow> (Inl item, t)
        | Some handle \<Rightarrow> (Inr handle, t\<lparr>sv_leases := AList.update handle item (sv_leases t)\<rparr>)) = (r, s')"
      by (simp add: registry_insert_def retain_unexpired_def)
    with sel_run kept False show ?thesis
      by (intro conjI exI [of _ ?now]) (auto simp: retain_unexpired_def Let_def split: option.splits)
  qed
qed


lemma length_update_le: "length (AList.update k v t) \<le> Suc (length t)"
  by (induction t) auto

lemma insert_db: "obeys keeps_db (registry_insert cr e item)"
  by (rule keeps_dbI) (metis registry_insert_run prod.collapse)

lemma insert_keeps: "obeys keeps_inv (registry_insert cr e item)"
proof (rule obeysI)
  fix s :: "'z server_scheme"
  obtain r s' where run: "registry_insert cr e item s = (r, s')" by (cases "registry_insert cr e item s")
  from registry_insert_run [OF run] obtain now where db: "sv_db s' = sv_db s"
    and leases: "let kept = filter (\<lambda>(_, i). lease_expires_at (ad_lease i) > now) (sv_leases s) in
         case r of
           Inl i \<Rightarrow> i = item \<and> sv_leases s' = kept
         | Inr handle \<Rightarrow> map_of kept handle = None \<and> length kept < max_active_dynamic_leases
             \<and> sv_leases s' = AList.update handle item kept" by blast
  let ?kept = "filter (\<lambda>(_, i). lease_expires_at (ad_lease i) > now) (sv_leases s)"
  have "lease_inv s'" if "lease_inv s"
  proof -
    have kept: "distinct (map fst ?kept)" "length ?kept \<le> max_active_dynamic_leases"
      using that by (auto simp: lease_inv_def distinct_map_filter intro: order.trans [OF length_filter_le])
    show ?thesis
    proof (cases r)
      case (Inl i)
      with leases kept db that show ?thesis by (simp add: lease_inv_def Let_def)
    next
      case (Inr handle)
      with leases have "length ?kept < max_active_dynamic_leases" "sv_leases s' = AList.update handle item ?kept"
        by (simp_all add: Let_def)
      with kept db that show ?thesis
        using length_update_le [of handle item ?kept] by (simp add: lease_inv_def distinct_update)
    qed
  qed
  then show "keeps_inv s (snd (registry_insert cr e item s))" by (simp add: keeps_inv_def run)
qed

lemma acquire_secrets_io: "obeys io_extends (acquire_secrets cr e app profile)"
  unfolding acquire_secrets_def by (intro io_rules connector_acquire_io)

lemmas keeps_rules = keeps.obeys_rules io_keeps(1) [OF connector_revoke_io] io_keeps(1) [OF connector_renew_io]
  io_keeps(1) [OF acquire_secrets_io] query_keeps audit_keeps take_keeps insert_keeps

lemmas db_rules = db.obeys_rules io_keeps(2) [OF connector_revoke_io] io_keeps(2) [OF connector_renew_io]
  io_keeps(2) [OF acquire_secrets_io] query_keeps audit_db take_db restore_db insert_db

lemma get_environment_keeps: "obeys keeps_inv (get_profile_environment cr e app who profile_name executable)"
proof -
  have register: "obeys keeps_inv (register_environment_lease cr e app subject profile connector lease)"
    for subject profile connector lease
    unfolding register_environment_lease_def Let_def by (intro keeps_rules)
  have withdraw: "obeys keeps_inv (withdraw_environment_lease cr e app lease_id subject)" for lease_id subject
    unfolding withdraw_environment_lease_def by (intro keeps_rules)
  show ?thesis
    unfolding get_profile_environment_def authorize_connect_def
    by (auto intro!: keeps_rules register withdraw split: prod.split)
qed

lemma acquire_owned_keeps: "obeys keeps_inv (acquire_owned_proxy_secrets cr e app profile_name profile subject)"
  unfolding acquire_owned_proxy_secrets_def Let_def by (intro keeps_rules)

lemma renewals_db:
  "obeys keeps_db (renew_profile_environment_lease cr e app who handle)"
  "obeys keeps_db (revoke_profile_environment_lease cr e app who handle)"
  "obeys keeps_db (renew_registered_dynamic_lease cr e app handle subject)"
  "obeys keeps_db (revoke_registered_dynamic_lease cr e app handle subject)"
  unfolding renew_profile_environment_lease_def revoke_profile_environment_lease_def renew_registered_dynamic_lease_def
    revoke_registered_dynamic_lease_def renew_environment_lease_with_def finish_environment_renewal_def revoke_or_restore_def
    authorize_connect_def Let_def
  by (auto intro!: db_rules split: prod.split)

text \<open>A call that touches only the lease of its subject keeps the invariant.\<close>

lemma touches_keeps:
  assumes "obeys keeps_db m" and "m s = (r, s')" and "lease_inv s"
    and "sv_leases s' = sv_leases s
      \<or> (\<exists>subject item. map_of (sv_leases s) handle = Some item \<and> ad_subject item = subject
           \<and> sv_leases s' \<in> own_registries subject handle (sv_leases s))"
  shows "lease_inv s'"
proof -
  have db: "pred_option store_inv (sv_db s')"
    using obeysD [OF assms(1,2)] assms(3) by (simp add: keeps_db_def lease_inv_def)
  from assms(4) show ?thesis
  proof
    assume "sv_leases s' = sv_leases s"
    with db assms(3) show ?thesis by (simp add: lease_inv_def)
  next
    assume "\<exists>subject item. map_of (sv_leases s) handle = Some item \<and> ad_subject item = subject
        \<and> sv_leases s' \<in> own_registries subject handle (sv_leases s)"
    then obtain subject item where own: "map_of (sv_leases s) handle = Some item" "ad_subject item = subject"
      "sv_leases s' \<in> own_registries subject handle (sv_leases s)" by blast
    from own_registries_facts(1,2) [OF own(3) _ own(1,2)] db assms(3) show ?thesis by (auto simp: lease_inv_def)
  qed
qed

end
