(* ===== verification/Configuration_Properties.thy ===== *)
theory Configuration_Properties
  imports Configuration
begin

text \<open>
  What the validation of \<^verbatim>\<open>src/config.rs\<close> establishes. A configuration that loads refers only to profiles and
  connectors that it contains, fails closed where authentication or transport security would be off, and its
  provider operations are routes that admit one request. The lemmas before the properties give the outcome of
  each stage of the validation.
\<close>

section \<open>Stages of the validation\<close>

lemma reject_if_Inr_iff [result_iff]: "reject_if b e = Inr u \<longleftrightarrow> \<not> b"
  by (simp add: reject_if_def)

lemma sorted_insert_map_of: "map_of (sorted_insert k v xs) = (map_of xs)(k \<mapsto> v)"
  by (induction xs) (auto simp: fun_upd_twist)

lemma sorted_insert_keys: "fst ` set (sorted_insert k v xs) = insert k (fst ` set xs)"
  by (induction k v xs rule: sorted_insert.induct) (simp_all add: insert_commute)

lemma sorted_insert_sorted:
  "sorted_wrt (<) (map fst xs) \<Longrightarrow> sorted_wrt (<) (map fst (sorted_insert k v xs))"
proof (induction xs)
  case (Cons x xs)
  obtain k' v' where x: "x = (k', v')" by (cases x)
  show ?case
  proof (cases "k < k'")
    case True
    then show ?thesis using Cons.prems x by (auto dest: order.strict_trans)
  next
    case False
    then have "k = k' \<or> k' < k" by auto
    then show ?thesis
      using Cons x sorted_insert_keys [of k v xs] by (auto simp flip: set_map)
  qed
qed simp

text \<open>The routes after the expansion: those of before, and one for each operation.\<close>

lemma expand_operations_Inr:
  assumes "expand_operations operations routes = Inr routes'"
  shows "distinct (map fst operations) \<and> fst ` set operations \<inter> fst ` set routes = {}
    \<and> (\<forall>(name, operation)\<in>set operations.
         valid_cloudflare_account_id (po_account_id operation) \<and> map_of routes' name = Some (provider_route operation))
    \<and> (\<forall>name. name \<notin> fst ` set operations \<longrightarrow> map_of routes' name = map_of routes name)"
  using assms
proof (induction operations routes rule: expand_operations.induct)
  case (2 name operation operations routes)
  then have fresh: "map_of routes name = None" and valid: "valid_cloudflare_account_id (po_account_id operation)"
    and rest: "expand_operations operations (sorted_insert name (provider_route operation) routes) = Inr routes'"
    by (auto split: if_splits)
  note IH = "2.IH" [OF _ _ rest]
  then show ?case
    using fresh valid by (auto simp: sorted_insert_keys sorted_insert_map_of map_of_eq_None_iff)
qed auto

text \<open>What a loaded configuration has passed.\<close>

lemma config_load_Inr:
  assumes "config_load cr vars parsed = Inr config"
  obtains public_url where "cf_provider_operations config = []"
    and "validate_public_url cr config = Inr public_url"
    and "validate_managed config = Inr ()"
    and "validate_auth cr vars config public_url = Inr ()"
    and "\<forall>(name, connector)\<in>set (cf_connectors config).
           validate_connector cr (allow_insecure_connector_http cr vars config) name connector = Inr ()"
    and "\<forall>(name, profile)\<in>set (cf_profiles config). validate_profile (cf_connectors config) name profile = Inr ()"
    and "\<forall>(name, route)\<in>set (cf_proxy_routes config).
           validate_route cr (allow_insecure_connector_http cr vars config) config name route = Inr ()"
    and "\<forall>(name, tunnel)\<in>set (cf_proxy_tunnels config). validate_tunnel cr config name tunnel = Inr ()"
    and "\<forall>proxy. cf_transparent_proxy config = Some proxy \<longrightarrow> validate_transparent_proxy cr config proxy = Inr ()"
proof -
  from assms have expanded: "expand_provider_operations parsed = Inr config" and "validate cr vars config = Inr ()"
    by (auto simp: config_load_def result_iff)
  moreover have none: "cf_provider_operations config = []"
    using expanded by (auto simp: expand_provider_operations_def result_iff)
  ultimately have valid: "validate_expanded cr vars config = Inr ()" by (simp add: validate_def)
  show thesis
    using that none valid
    by (fastforce simp: validate_expanded_def Let_def result_iff split: option.splits)
qed

lemma profile_connector_known:
  "validate_profile connectors name profile = Inr () \<Longrightarrow> \<exists>connector. map_of connectors (pf_connector profile) = Some connector"
  by (auto simp: validate_profile_def result_iff)

lemma route_profile_known:
  "validate_route cr insecure config name route = Inr () \<Longrightarrow>
     (\<exists>profile. map_of (cf_profiles config) (rt_profile route) = Some profile)
     \<and> validate_proxy_route cr name route insecure (cf_transparent_proxy config \<noteq> None) = Inr ()"
  by (auto simp: validate_route_def result_iff)

lemma tunnel_profile_known:
  "validate_tunnel cr config name tunnel = Inr () \<Longrightarrow>
     (\<exists>profile. map_of (cf_profiles config) (tn_profile tunnel) = Some profile)
     \<and> validate_proxy_tunnel cr name tunnel = Inr ()"
  by (auto simp: validate_tunnel_def result_iff)

lemma connector_url_secure:
  "validate_connector cr insecure name connector = Inr () \<Longrightarrow> connector_base_url connector = Some base_url \<Longrightarrow>
     \<exists>base. url_parse cr base_url = Some base \<and> url_host_str cr base \<noteq> None \<and> \<not> has_url_credentials cr base
       \<and> (url_scheme cr base = ''https'' \<or> url_scheme cr base = ''http'' \<and> insecure)"
  by (auto simp: validate_connector_def result_iff)

lemma auth_mode_closed:
  assumes "validate_auth cr vars config public_url = Inr ()"
  shows "ac_mode (cf_auth config) = Disabled \<Longrightarrow>
           is_loopback_host (listen_host (cf_listen config)) \<and> vars ''AV_ALLOW_INSECURE_AUTH'' \<noteq> None"
    and "ac_mode (cf_auth config) = GithubOrBasic \<Longrightarrow> cf_mode config = Managed \<and> url_host_is_loopback cr public_url"
    and "ac_mode (cf_auth config) \<in> {Oidc, OidcOrBasic} \<Longrightarrow>
           ac_allowed_groups (cf_auth config) \<noteq> [] \<and> ac_signing_algorithms (cf_auth config) \<noteq> []"
  using assms
  by (auto simp: validate_auth_def validate_auth_mode_def validate_github_def validate_oidc_def Let_def result_iff
      split: auth_mode.splits)

section \<open>Names and paths of a provider operation\<close>

lemma has_control_printable: "list_all (\<lambda>c. 32 \<le> byte c \<and> byte c < 127) s \<Longrightarrow> \<not> has_control s"
proof -
  assume printable: "list_all (\<lambda>c. 32 \<le> byte c \<and> byte c < 127) s"
  then have "list_all (\<lambda>c. byte c < 128) s" by (auto simp: list_all_iff)
  then show ?thesis using printable by (auto simp: has_control_def str_chars_ascii list_ex_iff list_all_iff char_is_control_def)
qed

lemma double_skip:
  "d \<notin> set xs \<Longrightarrow> sublist [d, d] (xs @ ys) \<longleftrightarrow> sublist [d, d] ys"
  by (induction xs) (auto simp: sublist_Cons_right)

lemma account_id_chars:
  assumes "valid_cloudflare_account_id account_id"
  shows "list_all (\<lambda>c. 48 \<le> byte c \<and> byte c \<le> 102) account_id" and "account_id \<noteq> []"
    and "CHR ''/'' \<notin> set account_id" and "CHR ''?'' \<notin> set account_id" and "CHR ''#'' \<notin> set account_id"
    and "CHR 0x5C \<notin> set account_id" and "CHR ''%'' \<notin> set account_id" and "CHR ''.'' \<notin> set account_id"
  using assms by (auto simp: valid_cloudflare_account_id_def list_all_iff is_ascii_digit_def)

lemma operation_path_safe:
  assumes "valid_cloudflare_account_id account_id"
  shows "safe_policy_path (''/client/v4/accounts/'' @ account_id @ ''/tokens/verify'')"
proof -
  note chars = account_id_chars [OF assms]
  obtain c cs where id: "account_id = c # cs" "c \<noteq> CHR ''/''" using chars(2,3) by (cases account_id) auto
  have "\<not> sublist ''//'' (account_id @ ''/tokens/verify'')"
    using double_skip [OF chars(3), of "''/tokens/verify''"] by (simp add: sublist_Cons_right)
  then have doubled: "\<not> sublist ''//'' (''/client/v4/accounts/'' @ account_id @ ''/tokens/verify'')"
    using id by (simp add: sublist_Cons_right)
  have "list_all (\<lambda>c. 32 \<le> byte c \<and> byte c < 127) (''/client/v4/accounts/'' @ account_id @ ''/tokens/verify'')"
    using chars(1) by (fastforce simp: list_all_iff)
  then have control: "\<not> has_control (''/client/v4/accounts/'' @ account_id @ ''/tokens/verify'')"
    by (rule has_control_printable)
  have "split_on CHR ''/'' (account_id @ ''/tokens/verify'') = [account_id, ''tokens'', ''verify'']"
    using split_on_append [of "CHR ''/''" account_id "''tokens/verify''"] split_on_no_delim [OF chars(3)] by simp
  then have segments: "split_on CHR ''/'' (''/client/v4/accounts/'' @ account_id @ ''/tokens/verify'')
      = ['''', ''client'', ''v4'', ''accounts'', account_id, ''tokens'', ''verify'']"
    by simp
  show ?thesis
    unfolding safe_policy_path_def segments using doubled control chars by (auto simp: list_ex_iff)
qed

section \<open>A sample configuration\<close>

definition sample_openbao :: connector_config where
  "sample_openbao =
    OpenBaoC \<lparr>ob_base_url = ''https://bao.example.test'', ob_namespace = [], ob_auth = OpenBaoToken ''/run/token''\<rparr>"

definition sample_profile_config :: profile_config where
  "sample_profile_config =
    \<lparr>pf_connector = ''bao'', pf_project_id = [], pf_environment = [], pf_secret_path = ''secret/data/app'',
     pf_allowed_keys = [], pf_exports = [], pf_dynamic_secret = None\<rparr>"

definition sample_operation :: provider_operation_config where
  "sample_operation = CloudflareAccountTokenVerify ''app'' ''0123456789abcdef0123456789abcdef'' ''TOKEN''"

definition sample_auth_config :: auth_config where
  "sample_auth_config =
    \<lparr>ac_mode = Basic, ac_issuer = [], ac_client_id = [], ac_audiences = [], ac_scopes = [],
     ac_signing_algorithms = default_oidc_signing_algorithms, ac_allowed_groups = [],
     ac_group_claim = default_group_claim,
     ac_basic_users = [\<lparr>buc_username = ''ada'', buc_password_hash_file = ''/run/ada''\<rparr>], ac_github = None\<rparr>"

definition sample_config :: config where
  "sample_config =
    \<lparr>cf_listen = default_listen, cf_public_url = ''https://av.example.test'', cf_mode = Static, cf_managed = None,
     cf_auth = sample_auth_config, cf_connectors = [(''bao'', sample_openbao)],
     cf_profiles = [(''app'', sample_profile_config)],
     cf_provider_operations = [(''verify'', sample_operation)],
     cf_proxy_routes = [(''custom'', sample_route\<lparr>rt_profile := ''app''\<rparr>)], cf_proxy_tunnels = [],
     cf_transparent_proxy = None, cf_max_connector_concurrency = default_max_connector_concurrency,
     cf_api_rate_limit_per_second = default_api_rate_limit_per_second,
     cf_api_rate_limit_burst = default_api_rate_limit_burst\<rparr>"

definition sample_loaded :: config where
  "sample_loaded =
    sample_config\<lparr>cf_provider_operations := [],
      cf_proxy_routes := [(''custom'', sample_route\<lparr>rt_profile := ''app''\<rparr>), (''verify'', provider_route sample_operation)]\<rparr>"

lemma sample_config_loads: "config_load sample_crates (\<lambda>_. None) sample_config = Inr sample_loaded"
  by code_simp

section \<open>Properties\<close>

text \<open>
  C12. In a configuration that loads, every provider operation has become a route; every profile names a
  configured connector; and every route and every tunnel names a configured profile, whose connector
  therefore exists, and satisfies the policy of the proxy.
\<close>

theorem loaded_config_resolves:
  assumes "config_load cr vars parsed = Inr config"
  shows "cf_provider_operations config = []
    \<and> list_all (\<lambda>(name, profile). map_of (cf_connectors config) (pf_connector profile) \<noteq> None) (cf_profiles config)
    \<and> list_all (\<lambda>(name, route).
         (\<exists>profile connector. map_of (cf_profiles config) (rt_profile route) = Some profile
            \<and> map_of (cf_connectors config) (pf_connector profile) = Some connector)
         \<and> validate_proxy_route cr name route (allow_insecure_connector_http cr vars config)
             (cf_transparent_proxy config \<noteq> None) = Inr ())
       (cf_proxy_routes config)
    \<and> list_all (\<lambda>(name, tunnel).
         (\<exists>profile connector. map_of (cf_profiles config) (tn_profile tunnel) = Some profile
            \<and> map_of (cf_connectors config) (pf_connector profile) = Some connector)
         \<and> validate_proxy_tunnel cr name tunnel = Inr ())
       (cf_proxy_tunnels config)"
proof -
  from assms obtain public_url where stages: "cf_provider_operations config = []"
    "\<forall>(name, profile)\<in>set (cf_profiles config). validate_profile (cf_connectors config) name profile = Inr ()"
    "\<forall>(name, route)\<in>set (cf_proxy_routes config).
       validate_route cr (allow_insecure_connector_http cr vars config) config name route = Inr ()"
    "\<forall>(name, tunnel)\<in>set (cf_proxy_tunnels config). validate_tunnel cr config name tunnel = Inr ()"
    by (rule config_load_Inr)
  have profile: "\<exists>connector. map_of (cf_connectors config) (pf_connector profile) = Some connector"
    if "(name, profile) \<in> set (cf_profiles config)" for name profile
    using stages(2) that by (auto intro: profile_connector_known)
  have route: "\<exists>profile. map_of (cf_profiles config) (rt_profile route) = Some profile"
    "validate_proxy_route cr name route (allow_insecure_connector_http cr vars config)
       (cf_transparent_proxy config \<noteq> None) = Inr ()"
    if "(name, route) \<in> set (cf_proxy_routes config)" for name route
    using stages(3) that route_profile_known [of cr _ config name route] by auto
  have tunnel: "\<exists>profile. map_of (cf_profiles config) (tn_profile tunnel) = Some profile"
    "validate_proxy_tunnel cr name tunnel = Inr ()"
    if "(name, tunnel) \<in> set (cf_proxy_tunnels config)" for name tunnel
    using stages(4) that tunnel_profile_known [of cr config name tunnel] by auto
  show ?thesis
    unfolding list_all_iff using stages(1) profile route tunnel by (fast dest: map_of_SomeD)
qed

theorem loaded_config_resolves_witness:
  "config_load sample_crates (\<lambda>_. None) sample_config = Inr sample_loaded
   \<and> map_of (cf_connectors sample_loaded) (pf_connector sample_profile_config) \<noteq> None"
  using loaded_config_resolves [OF sample_config_loads] sample_config_loads
  by (simp add: sample_loaded_def sample_config_def)



text \<open>
  The route of a Cloudflare provider operation passes the validation of proxy routes for every valid
  account identifier, and admits one request only: a GET of the verification path of that account, with
  an empty body and without a query.
\<close>

lemma provider_operation_confined:
  assumes account: "valid_cloudflare_account_id account_id"
    and names: "validate_policy_name name = Inr ()" "validate_binding profile = Inr ()"
      "validate_credential_key secret_key = Inr ()"
    and base: "url_parse cr ''https://api.cloudflare.com'' = Some base" "url_scheme cr base = ''https''"
      "url_host_str cr base = Some ''api.cloudflare.com''" "\<not> has_url_credentials cr base"
      "url_query cr base = None" "url_fragment cr base = None"
    and headers: "header_name_from_bytes cr ''authorization'' \<noteq> None" "header_name_from_bytes cr ''accept'' \<noteq> None"
      "header_name_from_bytes cr ''content-type'' \<noteq> None"
  shows "validate_proxy_route cr name (provider_route (CloudflareAccountTokenVerify profile account_id secret_key))
           insecure transparent = Inr ()
    \<and> (\<forall>path query meth hdrs body_len v.
         validate_proxy_request cr (provider_route (CloudflareAccountTokenVerify profile account_id secret_key))
           path query meth hdrs body_len = Inr v
         \<longrightarrow> eq_ignore_ascii_case ''GET'' meth
             \<and> vr_normalized_path v = ''/client/v4/accounts/'' @ account_id @ ''/tokens/verify''
             \<and> vr_query v = [] \<and> body_len = 0)"
proof (intro conjI allI impI)
  let ?route = "provider_route (CloudflareAccountTokenVerify profile account_id secret_key)"
  have injection: "validate_route_injection cr ?route = Inr ''authorization''"
    using names(3) headers(1)
    by (simp add: validate_route_injection_def route_injection_target_def reject_mixed_legacy_injection_def
        not_injectable_header_def eq_ignore_ascii_case_def ok_or_def split: option.split)
  have "\<not> unsafe_header cr (Some ''authorization'') ''accept''" "\<not> unsafe_header cr None ''content-type''"
    using headers by (simp_all add: unsafe_header_def forbidden_headers_def eq_ignore_ascii_case_def ascii_class_defs)
  then have lists: "validate_route_lists cr ?route ''authorization'' = Inr ()"
    by (simp add: validate_route_lists_def validate_proxy_header_allowlist_def validate_string_allowlist_def)
  show "validate_proxy_route cr name ?route insecure transparent = Inr ()"
    using names base injection lists operation_path_safe [OF account]
    by (simp add: validate_proxy_route_def crud_methods_def to_ascii_uppercase_def ascii_class_defs)
  fix path query meth hdrs body_len v
  assume admitted: "validate_proxy_request cr ?route path query meth hdrs body_len = Inr v"
  note request = validate_proxy_request_Inr [OF admitted]
  show "eq_ignore_ascii_case ''GET'' meth" using request(1) by simp
  show "vr_normalized_path v = ''/client/v4/accounts/'' @ account_id @ ''/tokens/verify''" using request(3) by simp
  show "vr_query v = []" using validate_proxy_query_Inr [OF request(6)] by simp
  show "body_len = 0" using request(5) by (auto simp: enforce_proxy_content_type_def result_iff Let_def split: if_splits)
qed

end
