(* ===== verification/Control_Properties.thy ===== *)
theory Control_Properties
  imports Control Auth_Properties Lease_Properties Configuration_Properties
begin

text \<open>
  What the control service guarantees: no call changes or reads the store without the role it needs, a call that
  succeeds has written its audit event, the owners survive every sequence of calls, and what an operator can do
  to an owner's account.
\<close>

section \<open>What a call may do\<close>

fun control_role :: "control_request \<Rightarrow> role \<Rightarrow> bool" where
  "control_role ListPrincipalRoles = (\<lambda>role. role = Owner)"
| "control_role (SetPrincipalRole _ _) = (\<lambda>role. role = Owner)"
| "control_role (ListAuditEvents _) = can_audit"
| "control_role _ = can_operate"

text \<open>The change of the database that a request asks for; none for a request that only reads.\<close>

fun control_change :: "control_request \<Rightarrow> store_db \<Rightarrow> store_db \<Rightarrow> bool" where
  "control_change (UpsertBasicUser username _) db db' = (\<exists>hash. db' = upsert_basic_user db username hash)"
| "control_change (SetBasicUserEnabled username enabled) db db' = (db' = fst (set_basic_user_enabled db username enabled))"
| "control_change (CreateAgent name) db db' = (\<exists>hash. create_agent db name hash = Inr db')"
| "control_change (RotateAgent name) db db' = (\<exists>hash found. rotate_agent_token db name hash = Inr (db', found))"
| "control_change (SetAgentEnabled name enabled) db db' = (db' = fst (set_agent_enabled db name enabled))"
| "control_change (DeleteAgent name) db db' = (db' = fst (delete_agent db name))"
| "control_change (SetPrincipalRole target requested) db db' =
    (\<exists>role. role_parse requested = Inr role \<and> set_principal_role db target role = Inr db')"
| "control_change (GrantProfile profile target mode expires) db db' =
    (\<exists>clock m. parse_grant_mode mode = Inr m
       \<and> grant_profile_mode clock db target profile m (if expires \<noteq> 0 then Some expires else None) = Inr db')"
| "control_change (RevokeProfile profile target) db db' = (db' = fst (revoke_profile db target profile))"
| "control_change _ db db' = False"

fun control_action :: "control_request \<Rightarrow> string" where
  "control_action (UpsertBasicUser _ _) = ''basic_user_upsert''"
| "control_action (SetBasicUserEnabled _ enabled) = (if enabled then ''basic_user_enabled'' else ''basic_user_disabled'')"
| "control_action (CreateAgent _) = ''agent_created''"
| "control_action (RotateAgent _) = ''agent_token_rotated''"
| "control_action (SetAgentEnabled _ enabled) = (if enabled then ''agent_enabled'' else ''agent_disabled'')"
| "control_action (DeleteAgent _) = ''agent_deleted''"
| "control_action (SetPrincipalRole _ _) = ''principal_role_changed''"
| "control_action (GrantProfile _ _ _ _) = ''profile_grant''"
| "control_action (RevokeProfile _ _) = ''profile_grant_revoked''"
| "control_action _ = []"

fun control_profile :: "control_request \<Rightarrow> string option" where
  "control_profile (GrantProfile profile _ _ _) = Some profile"
| "control_profile (RevokeProfile profile _) = Some profile"
| "control_profile _ = None"

definition control_reads :: "control_request \<Rightarrow> bool" where
  "control_reads request \<longleftrightarrow> control_action request = []"

section \<open>A calculus for handlers\<close>

text \<open>
  An action is \<^emph>\<open>inert\<close> if it leaves the database, the leases and the log alone. An action \<^emph>\<open>changes\<close> the store by
  a relation if it fails and leaves the database as it is, or makes one change by the relation and then either
  fails or succeeds with the audit event in place.
\<close>

definition inert :: "'z server_scheme \<Rightarrow> 'z server_scheme \<Rightarrow> bool" where
  "inert s t \<longleftrightarrow> sv_db t = sv_db s \<and> sv_leases t = sv_leases s \<and> io_sent t = io_sent s"

interpretation inert: frame_relation inert
  by unfold_locales (auto simp: inert_def)

definition change_effect ::
    "(store_db \<Rightarrow> store_db \<Rightarrow> bool) \<Rightarrow> string \<Rightarrow> string \<Rightarrow> string option
     \<Rightarrow> 'z server_scheme \<Rightarrow> 'e + 'a \<Rightarrow> 'z server_scheme \<Rightarrow> bool" where
  "change_effect C actor action profile s r t \<longleftrightarrow>
     sv_leases t = sv_leases s \<and> io_sent t = io_sent s
     \<and> (sv_db t = sv_db s \<and> \<not> is_ok r
        \<or> (\<exists>db db1. sv_db s = Some db \<and> C db db1
             \<and> (sv_db t = Some db1 \<and> \<not> is_ok r
                \<or> (\<exists>clock db2. record_audit clock db1 actor action profile None None = Inr db2
                     \<and> sv_db t = Some db2 \<and> is_ok r))))"

definition changes ::
    "(store_db \<Rightarrow> store_db \<Rightarrow> bool) \<Rightarrow> string \<Rightarrow> string \<Rightarrow> string option \<Rightarrow> ('z server_scheme, 'e + 'a) act \<Rightarrow> bool" where
  "changes C actor action profile m \<longleftrightarrow> (\<forall>s r t. m s = (r, t) \<longrightarrow> change_effect C actor action profile s r t)"

lemma changesI: "(\<And>s r t. m s = (r, t) \<Longrightarrow> change_effect C actor action profile s r t) \<Longrightarrow> changes C actor action profile m"
  by (simp add: changes_def)

lemma changesD: "changes C actor action profile m \<Longrightarrow> m s = (r, t) \<Longrightarrow> change_effect C actor action profile s r t"
  by (simp add: changes_def)

lemma tick_inert: "obeys inert (tick f)"
  by (rule obeysI) (simp add: inert_def)

lemma store_query_inert: "obeys inert (store_query e query)"
  unfolding store_query_def by (intro inert.obeys_rules tick_inert)

lemma managed_read_inert: "obeys inert (managed_read e fail query)"
proof (rule obeysI)
  fix s :: "'z server_scheme"
  have "obeys (inert :: 'z server_scheme \<Rightarrow> _) (act_map_err fail (store_query e (\<lambda>clock. query clock db)))" for db
    by (intro inert.obeys_rules store_query_inert)
  then show "inert s (snd (managed_read e fail query s))"
    unfolding obeys_def managed_read_def by (simp add: inert.refl split: option.split)
qed

lemma managed_read_Inr:
  "managed_read e fail query s = (Inr x, s') \<Longrightarrow> \<exists>db clock. sv_db s = Some db \<and> query clock db = Inr x"
  by (auto simp: managed_read_def result_iff split: option.splits prod.splits dest!: store_query_Inr)

lemma managed_write_run:
  assumes "managed_write e fail change s = (r, s')"
  shows "sv_leases s' = sv_leases s \<and> io_sent s' = io_sent s
    \<and> (case r of
         Inl _ \<Rightarrow> sv_db s' = sv_db s
       | Inr x \<Rightarrow> \<exists>db db' clock. sv_db s = Some db \<and> change clock db = Inr (db', x) \<and> sv_db s' = Some db')"
proof (cases "sv_db s")
  case None
  with assms show ?thesis by (auto simp: managed_write_def)
next
  case (Some db)
  with assms show ?thesis
    by (auto simp: managed_write_def store_update_def act_try_def store_query_def map_error_def
        split: if_splits sum.splits prod.splits)
qed

lemma changes_error: "changes C actor action profile (act_return (Inl err))"
  by (rule changesI) (auto simp: change_effect_def)

lemma changes_if:
  "changes C actor action profile m \<Longrightarrow> changes C actor action profile n \<Longrightarrow> changes C actor action profile (if b then m else n)"
  by simp

lemma changes_inert:
  assumes "obeys inert m" and "\<And>x. changes C actor action profile (f x)"
  shows "changes C actor action profile (act_bind m f)"
proof (rule changesI)
  fix s r u
  assume run: "act_bind m f s = (r, u)"
  obtain x t where x: "m s = (x, t)" by (cases "m s")
  with run have "f x t = (r, u)" by simp
  from changesD [OF assms(2) this] obeysD [OF assms(1) x]
  show "change_effect C actor action profile s r u" by (simp add: change_effect_def inert_def)
qed

lemma changes_check:
  "(\<And>x. r = Inr x \<Longrightarrow> changes C actor action profile (f x)) \<Longrightarrow> changes C actor action profile (act_try (act_return r) f)"
  by (cases r) (auto simp: changes_def act_try_def change_effect_def)

lemma audited_run:
  assumes "audited e actor action profile response s = (r, s')"
  shows "sv_leases s' = sv_leases s \<and> io_sent s' = io_sent s
    \<and> (case sv_db s of
         None \<Rightarrow> sv_db s' = None
       | Some db \<Rightarrow>
           (case r of
              Inl _ \<Rightarrow> sv_db s' = Some db
            | Inr _ \<Rightarrow> \<exists>clock db'. record_audit clock db actor action profile None None = Inr db' \<and> sv_db s' = Some db'))"
  using assms
  by (auto simp: audited_def audit_event_act_def store_update_def act_try_def store_query_def map_error_def result_iff
      split: if_splits sum.splits prod.splits option.splits)

lemma changes_write:
  assumes C: "\<And>clock db db' x. change clock db = Inr (db', x) \<Longrightarrow> C db db'"
  shows "changes C actor action profile (act_try (managed_write e fail change) (\<lambda>x.
    if missing x then act_return (Inl err) else audited e actor action profile response))"
proof (rule changesI)
  fix s r t
  assume run: "act_try (managed_write e fail change) (\<lambda>x.
    if missing x then act_return (Inl err) else audited e actor action profile response) s = (r, t)"
  obtain w s1 where w: "managed_write e fail change s = (w, s1)" by (cases "managed_write e fail change s")
  note written = managed_write_run [OF w]
  show "change_effect C actor action profile s r t"
  proof (cases w)
    case (Inl err)
    with run w written show ?thesis by (auto simp: act_try_def change_effect_def)
  next
    case (Inr x)
    with written obtain db db1 clock where db: "sv_db s = Some db" "change clock db = Inr (db1, x)" "sv_db s1 = Some db1"
      by auto
    show ?thesis
    proof (cases "missing x")
      case True
      with run w Inr written db C show ?thesis by (auto simp: act_try_def change_effect_def)
    next
      case False
      with run w Inr have "audited e actor action profile response s1 = (r, t)" by (simp add: act_try_def)
      from audited_run [OF this] written db C [OF db(2)] show ?thesis by (cases r) (auto simp: change_effect_def)
    qed
  qed
qed

lemmas changes_write_always = changes_write [where missing = "\<lambda>_. False", simplified]

text \<open>A gate lets a subject through only if its role in the current database satisfies a condition.\<close>

definition has_role :: "(role \<Rightarrow> bool) \<Rightarrow> string option \<Rightarrow> string \<Rightarrow> 'z server_scheme \<Rightarrow> bool" where
  "has_role P who subject s \<longleftrightarrow>
     who = Some subject \<and> (\<exists>db role. sv_db s = Some db \<and> principal_role db subject = Inr role \<and> P role)"

definition gated :: "(role \<Rightarrow> bool) \<Rightarrow> string option \<Rightarrow> ('z server_scheme, rpc_error + string) act \<Rightarrow> bool" where
  "gated P who gate \<longleftrightarrow>
     obeys inert gate \<and> (\<forall>s subject t. gate s = (Inr subject, t) \<longrightarrow> has_role P who subject s)"

lemma authorize_connect_Inr: "authorize_connect who s = (Inr subject, t) \<longleftrightarrow> who = Some subject \<and> t = s"
  by (auto simp: authorize_connect_def result_iff)

lemma authorize_connect_inert: "obeys inert (authorize_connect who)"
  by (simp add: authorize_connect_def inert.obeys_rules)

lemma require_owner_gated: "gated (\<lambda>role. role = Owner) who (require_owner e who)"
  unfolding gated_def require_owner_def has_role_def
  by (auto intro!: inert.obeys_rules authorize_connect_inert managed_read_inert
      simp: act_try_Inr authorize_connect_Inr is_owner_def result_iff split: if_splits dest!: managed_read_Inr)

lemma require_operator_gated: "gated can_operate who (require_operator e who)"
  unfolding gated_def require_operator_def has_role_def
  by (auto intro!: inert.obeys_rules authorize_connect_inert managed_read_inert
      simp: act_try_Inr authorize_connect_Inr split: if_splits dest!: managed_read_Inr)

lemma require_auditor_gated: "gated can_audit who (require_auditor e who)"
  unfolding gated_def require_auditor_def has_role_def
  by (auto intro!: inert.obeys_rules authorize_connect_inert managed_read_inert
      simp: act_try_Inr authorize_connect_Inr split: if_splits dest!: managed_read_Inr)

definition control_effect ::
    "(role \<Rightarrow> bool) \<Rightarrow> (string \<Rightarrow> 'z server_scheme \<Rightarrow> 'e + 'a \<Rightarrow> 'z server_scheme \<Rightarrow> bool) \<Rightarrow> string option
     \<Rightarrow> 'z server_scheme \<Rightarrow> 'e + 'a \<Rightarrow> 'z server_scheme \<Rightarrow> bool" where
  "control_effect P E who s r t \<longleftrightarrow>
     inert s t \<and> \<not> is_ok r \<or> (\<exists>subject. has_role P who subject s \<and> E subject s r t)"

lemma gated_run:
  assumes "gated P who gate" and "\<And>subject s1. body subject s1 = (r, t) \<Longrightarrow> inert s s1 \<Longrightarrow> E subject s r t"
    and "act_try gate body s = (r, t)"
  shows "control_effect P E who s r t"
proof -
  obtain g s1 where g: "gate s = (g, s1)" by (cases "gate s")
  have "obeys inert gate" using assms(1) by (simp add: gated_def)
  from obeysD [OF this g] have same: "inert s s1" .
  show ?thesis
  proof (cases g)
    case (Inl err)
    with assms(3) g same show ?thesis by (auto simp: act_try_def control_effect_def)
  next
    case (Inr subject)
    with assms(3) g have "body subject s1 = (r, t)" by (simp add: act_try_def)
    with assms(1,2) g Inr same show ?thesis unfolding gated_def control_effect_def by blast
  qed
qed

lemma gated_changes:
  assumes "gated P who gate" and "act_try gate body s = (r, t)"
    and "\<And>subject. changes C subject action profile (body subject)"
  shows "control_effect P (\<lambda>subject. change_effect C subject action profile) who s r t"
proof (rule gated_run [OF assms(1) _ assms(2)])
  fix subject s1
  assume "body subject s1 = (r, t)" and "inert s s1"
  then show "change_effect C subject action profile s r t"
    using changesD [OF assms(3)] by (force simp: change_effect_def inert_def)
qed

lemma gated_reads:
  assumes "gated P who gate" and "act_try gate body s = (r, t)" and "\<And>subject. obeys inert (body subject)"
  shows "control_effect P (\<lambda>_ s _ t. inert s t) who s r t"
proof (rule gated_run [OF assms(1) _ assms(2)])
  fix subject s1
  assume "body subject s1 = (r, t)" and "inert s s1"
  then show "inert s t" using obeysD [OF assms(3)] inert.trans by blast
qed

section \<open>The handlers\<close>

lemmas change_rules =
  changes_error changes_if changes_check changes_inert changes_write changes_write_always tick_inert
  inert.return_obeys

lemma upsert_basic_user_changes:
  "rpc_upsert_basic_user cr e who username password s = (r, t) \<Longrightarrow>
     control_effect can_operate (\<lambda>subject. change_effect (control_change (UpsertBasicUser username password)) subject
       (control_action (UpsertBasicUser username password)) (control_profile (UpsertBasicUser username password))) who s r t"
  unfolding rpc_upsert_basic_user_def rpc_invalid_def hash_basic_password_def control_action.simps control_profile.simps
  by (erule gated_changes [OF require_operator_gated]) (auto intro!: change_rules split: option.split, blast)

lemma set_basic_user_enabled_changes:
  "rpc_set_basic_user_enabled e who username enabled s = (r, t) \<Longrightarrow>
     control_effect can_operate (\<lambda>subject. change_effect (control_change (SetBasicUserEnabled username enabled)) subject
       (control_action (SetBasicUserEnabled username enabled)) (control_profile (SetBasicUserEnabled username enabled))) who s r t"
  unfolding rpc_set_basic_user_enabled_def rpc_invalid_def control_action.simps control_profile.simps
  by (erule gated_changes [OF require_operator_gated]) (auto intro!: change_rules)

lemma create_agent_changes:
  "rpc_create_agent cr e who name s = (r, t) \<Longrightarrow>
     control_effect can_operate (\<lambda>subject. change_effect (control_change (CreateAgent name)) subject
       (control_action (CreateAgent name)) (control_profile (CreateAgent name))) who s r t"
  unfolding rpc_create_agent_def rpc_invalid_def mint_agent_token_def control_action.simps control_profile.simps
  by (erule gated_changes [OF require_operator_gated]) (auto intro!: change_rules simp: result_iff )

lemma rotate_agent_changes:
  "rpc_rotate_agent cr e who name s = (r, t) \<Longrightarrow>
     control_effect can_operate (\<lambda>subject. change_effect (control_change (RotateAgent name)) subject
       (control_action (RotateAgent name)) (control_profile (RotateAgent name))) who s r t"
  unfolding rpc_rotate_agent_def rpc_invalid_def mint_agent_token_def control_action.simps control_profile.simps
  by (erule gated_changes [OF require_operator_gated]) (auto intro!: change_rules, blast)

lemma set_agent_enabled_changes:
  "rpc_set_agent_enabled e who name enabled s = (r, t) \<Longrightarrow>
     control_effect can_operate (\<lambda>subject. change_effect (control_change (SetAgentEnabled name enabled)) subject
       (control_action (SetAgentEnabled name enabled)) (control_profile (SetAgentEnabled name enabled))) who s r t"
  unfolding rpc_set_agent_enabled_def rpc_invalid_def control_action.simps control_profile.simps
  by (erule gated_changes [OF require_operator_gated]) (auto intro!: change_rules)

lemma delete_agent_changes:
  "rpc_delete_agent e who name s = (r, t) \<Longrightarrow>
     control_effect can_operate (\<lambda>subject. change_effect (control_change (DeleteAgent name)) subject
       (control_action (DeleteAgent name)) (control_profile (DeleteAgent name))) who s r t"
  unfolding rpc_delete_agent_def rpc_invalid_def control_action.simps control_profile.simps
  by (erule gated_changes [OF require_operator_gated]) (auto intro!: change_rules)

lemma set_principal_role_changes:
  "rpc_set_principal_role e who target requested s = (r, t) \<Longrightarrow>
     control_effect (\<lambda>role. role = Owner) (\<lambda>subject. change_effect (control_change (SetPrincipalRole target requested)) subject
       (control_action (SetPrincipalRole target requested)) (control_profile (SetPrincipalRole target requested))) who s r t"
  unfolding rpc_set_principal_role_def rpc_invalid_def control_action.simps control_profile.simps
  by (erule gated_changes [OF require_owner_gated]) (auto intro!: change_rules simp: result_iff split: sum.split)

lemma revoke_profile_changes:
  "rpc_revoke_profile e app who profile target s = (r, t) \<Longrightarrow>
     control_effect can_operate (\<lambda>subject. change_effect (control_change (RevokeProfile profile target)) subject
       (control_action (RevokeProfile profile target)) (control_profile (RevokeProfile profile target))) who s r t"
  unfolding rpc_revoke_profile_def rpc_invalid_def control_action.simps control_profile.simps
  by (erule gated_changes [OF require_operator_gated]) (auto intro!: change_rules)

lemma grant_profile_changes:
  "rpc_grant_profile e app who profile target mode expires s = (r, t) \<Longrightarrow>
     control_effect can_operate (\<lambda>subject. change_effect (control_change (GrantProfile profile target mode expires)) subject
       (control_action (GrantProfile profile target mode expires)) (control_profile (GrantProfile profile target mode expires)))
       who s r t"
  unfolding rpc_grant_profile_def rpc_invalid_def control_action.simps control_profile.simps Let_def
  by (erule gated_changes [OF require_operator_gated]) (auto intro!: change_rules simp: result_iff)

lemma control_handle_changes:
  assumes "control_handle cr e app who request s = (r, t)" and "\<not> control_reads request"
  shows "control_effect (control_role request)
    (\<lambda>subject. change_effect (control_change request) subject (control_action request) (control_profile request)) who s r t"
  using assms
  by (cases request, simp_all only: control_handle.simps control_role.simps upsert_basic_user_changes
      set_basic_user_enabled_changes create_agent_changes rotate_agent_changes set_agent_enabled_changes
      delete_agent_changes set_principal_role_changes revoke_profile_changes grant_profile_changes)
    (simp_all add: control_reads_def)

lemma control_handle_reads:
  assumes "control_handle cr e app who request s = (r, t)" and "control_reads request"
  shows "control_effect (control_role request) (\<lambda>_ s _ t. inert s t) who s r t"
  using assms
  by (cases request)
    (auto simp: control_reads_def rpc_list_basic_users_def rpc_list_agents_def rpc_list_principal_roles_def
      rpc_list_audit_events_def rpc_list_profile_grants_def
      elim!: gated_reads [OF require_operator_gated] gated_reads [OF require_owner_gated] gated_reads [OF require_auditor_gated]
      intro!: inert.obeys_rules managed_read_inert split: if_splits)

lemma control_change_step: "control_change request db db' \<Longrightarrow> store_step db db'"
  by (cases request) (auto intro: store_step.intros)

text \<open>Every call takes the database along steps of the store, and leaves the leases and the log alone.\<close>

lemma control_handle_steps:
  assumes "control_handle cr e app who request s = (r, t)" and "sv_db s = Some db"
  shows "\<exists>db'. sv_db t = Some db' \<and> store_step\<^sup>*\<^sup>* db db'"
proof (cases "control_reads request")
  case True
  from control_handle_reads [OF assms(1) True] assms(2) show ?thesis
    by (auto simp: control_effect_def inert_def)
next
  case False
  from control_handle_changes [OF assms(1) False] assms(2) show ?thesis
    by (auto simp: control_effect_def inert_def change_effect_def
        dest!: control_change_step step_audit intro: rtranclp.rtrancl_into_rtrancl)
qed

text \<open>A run of the service: calls of any callers, one after the other.\<close>

fun control_calls ::
    "('u, 'c) auth_crates_scheme \<Rightarrow> env \<Rightarrow> app \<Rightarrow> (string option \<times> control_request) list \<Rightarrow> 'z server_scheme \<Rightarrow> 'z server_scheme" where
  "control_calls cr e app [] s = s"
| "control_calls cr e app ((who, request) # calls) s = control_calls cr e app calls (snd (control_handle cr e app who request s))"

lemma control_calls_steps:
  "sv_db s = Some db \<Longrightarrow> \<exists>db'. sv_db (control_calls cr e app calls s) = Some db' \<and> store_step\<^sup>*\<^sup>* db db'"
proof (induction calls arbitrary: s db)
  case (Cons call calls)
  obtain who request where call: "call = (who, request)" by (cases call)
  obtain r t where run: "control_handle cr e app who request s = (r, t)" by (cases "control_handle cr e app who request s")
  from control_handle_steps [OF this Cons.prems] obtain db1 where 1: "sv_db t = Some db1" "store_step\<^sup>*\<^sup>* db db1" by blast
  from Cons.IH [OF 1(1)] 1(2) show ?case by (auto simp: call run intro: rtranclp_trans)
qed simp

section \<open>Samples\<close>

text \<open>A database in which \<open>basic:ada\<close> is an owner and \<open>oscar\<close> an operator.\<close>

definition operated_db :: store_db where
  "operated_db =
    set_principal_role_write
      (set_principal_role_write (upsert_basic_user sample_db ''ada'' ''$argon2id$correcthorse'') ''basic:ada'' Owner)
      ''oscar'' Operator"

definition operated_state :: auth_server where
  "operated_state = auth_state\<lparr>sv_db := Some operated_db\<rparr>"

definition control_app :: app where
  "control_app = \<lparr>app_connectors = [(''bao'', sample_openbao)], app_profiles = [(''app'', sample_profile_config)]\<rparr>"

lemma operated_roles:
  "principal_role operated_db ''oscar'' = Inr Operator" "principal_role operated_db ''basic:ada'' = Inr Owner"
  by code_simp+

lemma operated_db_inv: "store_inv operated_db"
proof -
  have "set_principal_role (upsert_basic_user sample_db ''ada'' ''$argon2id$correcthorse'') ''basic:ada'' Owner
      = Inr (set_principal_role_write (upsert_basic_user sample_db ''ada'' ''$argon2id$correcthorse'') ''basic:ada'' Owner)"
    by code_simp
  moreover have "set_principal_role
      (set_principal_role_write (upsert_basic_user sample_db ''ada'' ''$argon2id$correcthorse'') ''basic:ada'' Owner)
      ''oscar'' Operator = Inr operated_db"
    by code_simp
  ultimately show ?thesis
    using store_step_inv [OF store_step_inv [OF store_step_inv [OF sample_db_inv step_upsert_user] step_set_role] step_set_role]
    by blast
qed

lemma sample_grant_call:
  "is_ok (fst (control_handle sample_auth_crates auth_env control_app (Some ''oscar'')
     (GrantProfile ''app'' ''bob'' ''proxy'' 0) operated_state))"
  by code_simp

section \<open>Properties\<close>

text \<open>
  C16. A call of the control service that succeeds, or that changes the database in any way, was made by an
  authenticated subject whose role in the database at that moment allows it: owner for roles, owner or auditor
  for the audit events, owner or operator for everything else.
\<close>

theorem control_call_authorised:
  assumes "control_handle cr e app who request s = (r, t)" and "is_ok r \<or> sv_db t \<noteq> sv_db s"
  shows "\<exists>subject db role. who = Some subject \<and> sv_db s = Some db \<and> principal_role db subject = Inr role
    \<and> control_role request role"
proof (cases "control_reads request")
  case True
  from control_handle_reads [OF assms(1) True] assms(2) show ?thesis
    by (auto simp: control_effect_def inert_def has_role_def)
next
  case False
  from control_handle_changes [OF assms(1) False] assms(2) show ?thesis
    by (auto simp: control_effect_def inert_def has_role_def)
qed

theorem control_call_authorised_witness:
  "control_role (GrantProfile ''app'' ''bob'' ''proxy'' 0) Operator"
proof -
  obtain r t where run: "control_handle sample_auth_crates auth_env control_app (Some ''oscar'')
     (GrantProfile ''app'' ''bob'' ''proxy'' 0) operated_state = (r, t)"
    by fastforce
  with sample_grant_call control_call_authorised [OF run] operated_roles(1) show ?thesis
    by (auto simp: operated_state_def)
qed

text \<open>
  C17. A call of the control service that succeeds and does not only read has made exactly the change it is for
  and then appended one audit event that names the caller, the action and the profile; a call that only reads
  changes nothing; and a call that fails leaves the database as it was, or has made its change but stored no
  event for it.
\<close>

theorem control_call_audited:
  assumes "control_handle cr e app who request s = (r, t)" and "sv_db s = Some db"
  shows "if control_reads request then sv_db t = Some db
    else if is_ok r
    then \<exists>subject db1 clock. who = Some subject \<and> control_change request db db1
      \<and> sv_db t = Some (db1\<lparr>t_audit_events := t_audit_events db1
          @ [\<lparr>ae_created = clock, ae_actor = subject, ae_action = control_action request,
              ae_profile = control_profile request, ae_route = None, ae_executable_basename = None\<rparr>]\<rparr>)
    else sv_db t = Some db \<or> (\<exists>db1. control_change request db db1 \<and> sv_db t = Some db1)"
proof (cases "control_reads request")
  case True
  from control_handle_reads [OF assms(1) True] assms(2) True show ?thesis
    by (auto simp: control_effect_def inert_def)
next
  case False
  from control_handle_changes [OF assms(1) False] assms(2) False show ?thesis
    by (auto simp: control_effect_def inert_def change_effect_def has_role_def record_audit_def result_iff)
qed

theorem control_call_audited_witness:
  "\<exists>db. sv_db (snd (control_handle sample_auth_crates auth_env control_app (Some ''oscar'')
     (GrantProfile ''app'' ''bob'' ''proxy'' 0) operated_state)) = Some db \<and> ae_actor (last (t_audit_events db)) = ''oscar''"
proof -
  obtain r t where run: "control_handle sample_auth_crates auth_env control_app (Some ''oscar'')
     (GrantProfile ''app'' ''bob'' ''proxy'' 0) operated_state = (r, t)"
    by fastforce
  have "sv_db operated_state = Some operated_db" by (simp add: operated_state_def)
  from control_call_audited [OF run this] sample_grant_call run show ?thesis
    by (auto simp: control_reads_def)
qed

text \<open>
  C18. No sequence of control calls, by any callers and with any failures of the store, breaks the invariant of
  the database or removes the last owner.
\<close>

theorem control_keeps_owner:
  assumes "sv_db s = Some db" and "store_inv db" and "owners_of db \<noteq> {}"
  shows "\<exists>db'. sv_db (control_calls cr e app calls s) = Some db' \<and> store_inv db' \<and> owners_of db' \<noteq> {}"
proof -
  from control_calls_steps [OF assms(1)] obtain db' where run: "sv_db (control_calls cr e app calls s) = Some db'"
    "store_step\<^sup>*\<^sup>* db db'" by blast
  have "store_inv db'" using run(2) assms(2) by (rule store_runs.steps_inv)
  moreover have "owners_of db' \<noteq> {}"
    using run(2) assms(2,3) by (rule store_runs.steps_stable) (rule store_step_owners)
  ultimately show ?thesis using run(1) by blast
qed

theorem control_keeps_owner_witness:
  "\<exists>db'. sv_db (control_calls sample_auth_crates auth_env control_app
      [(Some ''basic:ada'', SetPrincipalRole ''alice'' ''user''), (Some ''basic:ada'', SetPrincipalRole ''basic:ada'' ''user'')]
      operated_state) = Some db' \<and> owners_of db' \<noteq> {}"
proof -
  have "sv_db operated_state = Some operated_db" by (simp add: operated_state_def)
  moreover have "map_of (t_principal_roles operated_db) ''basic:ada'' = Some ''owner''" by code_simp
  then have "owners_of operated_db \<noteq> {}" by (auto simp: owners_of_def)
  ultimately show ?thesis using control_keeps_owner [OF _ operated_db_inv] by blast
qed

text \<open>
  The documented behaviour of the \<^verbatim>\<open>argon2\<close> crate that the next property uses: hashing with the parameters of
  the server succeeds, and the hash parses and verifies the password.
\<close>

definition argon2_law :: "('u, 'c) auth_crates_scheme \<Rightarrow> bool" where
  "argon2_law cr \<longleftrightarrow>
     (\<forall>salt password. \<exists>h phc.
        argon2_hash_password cr salt password \<lparr>par_m_cost = 19 * 1024, par_t_cost = 2, par_p_cost = 1\<rparr> = Some h
        \<and> password_hash_new cr h = Some phc \<and> argon2_verify cr password phc)"

lemma sample_argon2_law: "argon2_law sample_auth_crates"
  by (auto simp: argon2_law_def sample_auth_crates_simps)

definition all_up :: "env \<Rightarrow> bool" where
  "all_up e \<longleftrightarrow>
     (\<forall>n. env_store_up e n \<and> env_slot e n \<and> 0 \<le> as_secs (env_clock e n) \<and> as_secs (env_clock e n) < 2 ^ 63)"

lemma upsert_by_operator:
  assumes up: "all_up e" and law: "argon2_law cr" and db: "sv_db s = Some db"
    and role: "principal_role db operator = Inr Operator"
    and args: "valid_basic_username username" "12 \<le> length password" "length password \<le> 1024"
  obtains t db' h phc where "fst (control_handle cr e app (Some operator) (UpsertBasicUser username password) s)
        = Inr (BasicUser \<lparr>bu_username = username, bu_enabled = True\<rparr>)"
    and "t = snd (control_handle cr e app (Some operator) (UpsertBasicUser username password) s)"
    and "sv_db t = Some db'" and "basic_password_hash db' username = Some h" and "t_principal_roles db' = t_principal_roles db"
    and "password_hash_new cr h = Some phc" and "argon2_verify cr password phc"
proof -
  let ?n = "io_ticks s"
  define m where "m = Suc (Suc (Suc ?n))"
  from law obtain h phc where h: "argon2_hash_password cr (env_random e m) password
        \<lparr>par_m_cost = 19 * 1024, par_t_cost = 2, par_p_cost = 1\<rparr> = Some h"
      "password_hash_new cr h = Some phc" "argon2_verify cr password phc"
    unfolding argon2_law_def by blast
  have now: "now_unix_seconds (as_secs (env_clock e n)) = Inr (as_secs (env_clock e n))" for n
    using up by (simp add: all_up_def)
  have steps: "env_store_up e n" "env_slot e n" for n using up by (simp_all add: all_up_def)
  let ?run = "control_handle cr e app (Some operator) (UpsertBasicUser username password) s"
  have "fst ?run = Inr (BasicUser \<lparr>bu_username = username, bu_enabled = True\<rparr>)
    \<and> (\<exists>events. sv_db (snd ?run) = Some ((upsert_basic_user db username h)\<lparr>t_audit_events := events\<rparr>))"
    using args db role h(1)
    by (simp add: rpc_upsert_basic_user_def require_operator_def authorize_connect_def managed_read_def managed_write_def
        audited_def audit_event_act_def store_update_def store_query_def act_try_def hash_basic_password_def steps now
        can_operate_def record_audit_def m_def) blast
  then show thesis
    using that h(2,3)
    by (auto simp: basic_password_hash_def upsert_basic_user_def update_conv')
qed

text \<open>
  C19. An operator can take over an owner. Whoever has the operator role can replace the password of a Basic
  account that has the owner role, and the next request with that password is authorised as the owner: the line
  between operators and owners does not hold for Basic accounts.
\<close>

theorem operator_takes_over_owner:
  assumes "all_up e" and "argon2_law cr" and "sv_db s = Some db"
    and "principal_role db operator = Inr Operator" and "principal_role db (''basic:'' @ username) = Inr Owner"
    and "valid_basic_username username" and "12 \<le> length password" and "length password \<le> 1024"
    and "ac_mode (an_config an) \<in> {Basic, OidcOrBasic, GithubOrBasic}"
    and "hm_get headers ''authorization'' = Some v" and "header_value_to_str cr v = Some (''Basic '' @ encoded)"
    and "base64_standard_decode cr encoded = Some (username @ CHR '':'' # password)"
    and "utf8_valid (username @ CHR '':'' # password)"
  shows "\<exists>t db'. t = snd (control_handle cr e app (Some operator) (UpsertBasicUser username password) s)
    \<and> is_ok (fst (control_handle cr e app (Some operator) (UpsertBasicUser username password) s))
    \<and> fst (authorize cr e an headers t) = Inr (''basic:'' @ username)
    \<and> sv_db t = Some db' \<and> principal_role db' (''basic:'' @ username) = Inr Owner"
proof -
  obtain t db' h phc where run: "fst (control_handle cr e app (Some operator) (UpsertBasicUser username password) s)
        = Inr (BasicUser \<lparr>bu_username = username, bu_enabled = True\<rparr>)"
      "t = snd (control_handle cr e app (Some operator) (UpsertBasicUser username password) s)"
      "sv_db t = Some db'" "basic_password_hash db' username = Some h" "t_principal_roles db' = t_principal_roles db"
      "password_hash_new cr h = Some phc" "argon2_verify cr password phc"
    using assms(1-4,6-8) by (rule upsert_by_operator)
  have colon: "CHR '':'' \<notin> set username" using assms(6) by (simp add: valid_basic_username_def)
  have "fst (authorize_basic cr e an encoded t) = Inr (''basic:'' @ username)"
    using assms(1,12,13) run(3,4,6,7) colon
    by (simp add: authorize_basic_def act_try_def requested_credential_def store_query_def all_up_def comparison_hash_def)
  then have "fst (authorize cr e an headers t) = Inr (''basic:'' @ username)"
    using assms(9-11) by (auto simp: authorize_def Let_def strip_prefix_def)
  moreover have "principal_role db' (''basic:'' @ username) = Inr Owner"
    using assms(5) run(5) by (simp add: principal_role_def)
  ultimately show ?thesis using run(1-3) by auto
qed

theorem operator_takes_over_owner_witness:
  "\<exists>t :: auth_server. fst (authorize sample_auth_crates auth_env (sample_authenticator Basic)
     (authorization ''Basic ada:mallorysword--------'') t) = Inr ''basic:ada''"
proof -
  have up: "all_up auth_env" by (simp add: all_up_def auth_env_def as_secs_def secs_def)
  have db: "sv_db operated_state = Some operated_db" by (simp add: operated_state_def)
  have role: "principal_role operated_db (''basic:'' @ ''ada'') = Inr Owner" by code_simp
  have args: "valid_basic_username ''ada''" "12 \<le> length ''mallorysword''" "length ''mallorysword'' \<le> 1024"
    by code_simp+
  have mode: "ac_mode (an_config (sample_authenticator Basic)) \<in> {Basic, OidcOrBasic, GithubOrBasic}"
    by (simp add: sample_authenticator_def)
  have header: "hm_get (authorization ''Basic ada:mallorysword--------'') ''authorization''
      = Some (HeaderValue ''Basic ada:mallorysword--------'' False)"
    by (simp add: authorization_def hm_defs)
  have credential: "header_value_to_str sample_auth_crates (HeaderValue ''Basic ada:mallorysword--------'' False)
      = Some (''Basic '' @ ''ada:mallorysword--------'')"
    "base64_standard_decode sample_auth_crates ''ada:mallorysword--------'' = Some (''ada'' @ CHR '':'' # ''mallorysword'')"
    "utf8_valid (''ada'' @ CHR '':'' # ''mallorysword'')"
    by code_simp+
  from operator_takes_over_owner [OF up sample_argon2_law db operated_roles(1) role args mode header credential, of control_app]
  obtain t :: auth_server where "fst (authorize sample_auth_crates auth_env (sample_authenticator Basic)
     (authorization ''Basic ada:mallorysword--------'') t) = Inr (''basic:'' @ ''ada'')"
    by blast
  then show ?thesis by (intro exI [of _ t]) simp
qed

end
