(* ===== verification/Lease_Guarantees.thy ===== *)
theory Lease_Guarantees
  imports Lease_Properties Store_Guarantees
begin

text \<open>
  What the server guarantees about dynamic leases over runs of its calls. A call runs to its end before the next
  one starts; its own steps see a clock, a store and backends that may change between any two of them.
\<close>

section \<open>Runs\<close>

inductive lease_step :: "('u, 'c) crates_scheme \<Rightarrow> env \<Rightarrow> app \<Rightarrow> server \<Rightarrow> server \<Rightarrow> bool"
  for cr e app where
  get_environment: "get_profile_environment cr e app who profile_name executable s = (r, s') \<Longrightarrow> lease_step cr e app s s'"
| renew_environment: "renew_profile_environment_lease cr e app who handle s = (r, s') \<Longrightarrow> lease_step cr e app s s'"
| revoke_environment: "revoke_profile_environment_lease cr e app who handle s = (r, s') \<Longrightarrow> lease_step cr e app s s'"
| fetch_static: "fetch_secrets cr e app profile s = (r, s') \<Longrightarrow> lease_step cr e app s s'"
| acquire_owned: "acquire_owned_proxy_secrets cr e app profile_name profile subject s = (r, s') \<Longrightarrow> lease_step cr e app s s'"
| renew_owned: "renew_registered_dynamic_lease cr e app handle subject s = (r, s') \<Longrightarrow> lease_step cr e app s s'"
| revoke_owned: "revoke_registered_dynamic_lease cr e app handle subject s = (r, s') \<Longrightarrow> lease_step cr e app s s'"
| shutdown: "revoke_all_dynamic_leases cr e app finished s = (r, s') \<Longrightarrow> lease_step cr e app s s'"
| administration: "sv_db s = Some db \<Longrightarrow> store_step db db' \<Longrightarrow> lease_step cr e app s (s\<lparr>sv_db := Some db'\<rparr>)"

lemma revoke_each_io:
  "revoke_each cr e app leases s = (r, s') \<Longrightarrow>
     sv_leases s' = sv_leases s \<and> sv_db s' = sv_db s \<and> (\<exists>sent. io_sent s' = io_sent s @ sent)"
proof (induction leases arbitrary: s)
  case (Cons active leases)
  obtain r1 s1 where 1: "revoke_dynamic_lease cr e app active s = (r1, s1)" by (cases "revoke_dynamic_lease cr e app active s")
  with Cons.prems have "revoke_each cr e app leases s1 = (r, s')" by simp
  from Cons.IH [OF this] revoke_dynamic_lease_run [OF 1] show ?case by auto
qed simp

lemma fetch_secrets_io: "obeys io_extends (fetch_secrets cr e app profile)"
  unfolding fetch_secrets_def by (intro io_rules acquire_secrets_io connector_revoke_io)

lemma lease_step_inv:
  assumes "lease_inv s" and "lease_step cr e app s s'"
  shows "lease_inv s'"
  using assms(2)
proof cases
  case (get_environment who profile_name executable r)
  from obeysD [OF get_environment_keeps this] assms(1) show ?thesis by (simp add: keeps_inv_def)
next
  case (renew_environment who handle r)
  from renew_environment_touches [OF this] show ?thesis
    by (intro touches_keeps [OF renewals_db(1) renew_environment assms(1)]) (auto simp: touches_own_def)
next
  case (revoke_environment who handle r)
  from revoke_environment_touches [OF this] show ?thesis
    by (intro touches_keeps [OF renewals_db(2) revoke_environment assms(1)]) (auto simp: touches_own_def)
next
  case (fetch_static profile r)
  from obeysD [OF io_keeps(1) [OF fetch_secrets_io] this] assms(1) show ?thesis by (simp add: keeps_inv_def)
next
  case (acquire_owned profile_name profile subject r)
  from obeysD [OF acquire_owned_keeps this] assms(1) show ?thesis by (simp add: keeps_inv_def)
next
  case (renew_owned handle subject r)
  from renew_registered_touches [OF this] show ?thesis
    by (intro touches_keeps [OF renewals_db(3) renew_owned assms(1)]) blast
next
  case (revoke_owned handle subject r)
  from revoke_registered_touches [OF this] show ?thesis
    by (intro touches_keeps [OF renewals_db(4) revoke_owned assms(1)]) blast
next
  case (shutdown finished r)
  then have "revoke_each cr e app (take finished (fst (drain s))) (s\<lparr>sv_leases := []\<rparr>) = (r, s')"
    by (simp add: revoke_all_dynamic_leases_def drain_def)
  from revoke_each_io [OF this] assms(1) show ?thesis by (simp add: lease_inv_def)
next
  case (administration db db')
  with assms(1) store_step_inv show ?thesis by (auto simp: lease_inv_def)
qed

interpretation lease_runs: invariant_system "lease_step cr e app" lease_inv
  by unfold_locales (rule lease_step_inv)


lemma revoke_environment_kept:
  assumes run: "revoke_profile_environment_lease cr e app who handle s = (r, s')" and item: "map_of (sv_leases s) handle = Some item"
  shows "lease_kept e handle item s'"
proof -
  have same: "lease_kept e handle item s" using item by (simp add: lease_kept_def)
  from run show ?thesis
    unfolding revoke_profile_environment_lease_def authorize_connect_def
  proof (cases rule: act_try_cases)
    case (ok subject)
    from ok(2) show ?thesis
    proof (cases rule: act_try_cases)
      case ok2: (ok u)
      obtain taken s1 where t: "take_for_subject e handle subject s = (taken, s1)" by (cases "take_for_subject e handle subject s")
      show ?thesis
      proof (cases taken)
        case None
        with ok2(2) t item show ?thesis by (auto dest: untaken_kept)
      next
        case (Some active)
        note t = t [unfolded Some]
        note absent = taken_absent [OF t]
        obtain r2 s2 where rv: "revoke_dynamic_lease cr e app active s1 = (r2, s2)" by (cases "revoke_dynamic_lease cr e app active s1")
        note rv_run = revoke_dynamic_lease_run [OF rv]
        show ?thesis
        proof (cases r2)
          case (Inl err)
          obtain r3 s3 where put: "restore handle active s2 = (r3, s3)" by (cases "restore handle active s2")
          with ok2(2) t Some rv Inl have "s' = s3" by simp
          with restore_kept [OF put] rv_run absent item show ?thesis by simp
        next
          case (Inr u2)
          obtain r3 s3 where au: "audit_event_act e subject ''profile_lease_revoked'' (Some (ad_profile active)) None None s2 = (r3, s3)"
            by (cases "audit_event_act e subject ''profile_lease_revoked'' (Some (ad_profile active)) None None s2")
          with ok2(2) t Some rv Inr have "s' = s3" by (auto simp: act_try_def split: sum.splits)
          with audit_event_run [OF au] rv_run Inr absent item show ?thesis by (simp add: lease_kept_def)
        qed
      qed
    qed (simp add: same)
  qed (simp add: same)
qed

section \<open>A server on which witnesses run\<close>

fun sample_backend :: "backend_request list \<Rightarrow> backend_request \<Rightarrow> backend_reply" where
  "sample_backend log (OpenBaoRead _ _ _) =
     Reply 200 (SecretBody (JObject [(''password'', JString ''p''), (''username'', JString ''u'')]) ''lease-1'' True 60)"
| "sample_backend log (OpenBaoRenew _ _ _ lease_id _) = Reply 200 (LeaseBody lease_id True 120)"
| "sample_backend log (OpenBaoRevoke _ _ _ _) = Reply 200 Undecodable"
| "sample_backend log _ = NoReply"

definition sample_env :: env where
  "sample_env = \<lparr>env_clock = (\<lambda>_. secs 1000), env_instant = (\<lambda>_. 0), env_file = (\<lambda>_ _. Some ''t''),
     env_random = (\<lambda>_. ''r''), env_store_up = (\<lambda>_. True), env_slot = (\<lambda>_. True), env_backend = sample_backend,
     env_rfc3339 = (\<lambda>_. None)\<rparr>"

definition sample_bao :: connector where
  "sample_bao = OpenBaoC \<lparr>ob_base_url = ''https://bao/'', ob_namespace = [], ob_auth = OpenBaoToken ''/token''\<rparr>"

definition sample_profile :: "(string \<times> profile_export_config) list \<Rightarrow> profile_config" where
  "sample_profile exports = \<lparr>pf_connector = ''bao'', pf_project_id = [], pf_environment = [], pf_secret_path = ''/database/creds/app'',
     pf_allowed_keys = [], pf_exports = exports,
     pf_dynamic_secret = Some \<lparr>ds_name = [], ds_project_slug = [], ds_ttl_seconds = 60\<rparr>\<rparr>"

definition sample_exports :: "(string \<times> profile_export_config) list" where
  "sample_exports = [(''DB_USER'', \<lparr>pe_resource = [], pe_field = ''username''\<rparr>)]"

definition sample_app :: app where
  "sample_app = \<lparr>app_connectors = [(''bao'', sample_bao)], app_profiles = [(''db'', sample_profile sample_exports)]\<rparr>"

definition sample_handle :: string where
  "sample_handle = ''av_lease_'' @ replicate 43 CHR ''A''"

definition sample_lease :: active_dynamic_lease where
  "sample_lease = \<lparr>ad_subject = ''alice'', ad_profile = ''db'', ad_connector = ''bao'',
     ad_lease = OpenBaoL \<lparr>obl_id = ''lease-1'', obl_renewable = True, obl_expires_at = secs 1060, obl_renew_increment = 60\<rparr>\<rparr>"

definition sample_server :: server where
  "sample_server = \<lparr>io_ticks = 0, io_sent = [], io_tokens = (\<lambda>_. None),
     sv_leases = [(''h2'', sample_lease\<lparr>ad_subject := ''bob''\<rparr>), (sample_handle, sample_lease)], sv_db = None\<rparr>"

lemma trim_t: "trim ''t'' = ''t''"
  by code_simp

lemma sample_server_inv: "lease_inv sample_server"
  by (simp add: lease_inv_def sample_server_def sample_handle_def max_active_dynamic_leases_def)

lemma sample_handle_lease: "map_of (sv_leases sample_server) sample_handle = Some sample_lease"
  by (simp add: sample_server_def sample_handle_def)

section \<open>Properties\<close>

text \<open>
  Over any run of lease calls and administration, handles stay unique, at most 1024 leases are registered
  and the database keeps its invariant.
\<close>

lemma lease_registry_invariant:
  assumes "lease_inv s" and "(lease_step cr e app)\<^sup>*\<^sup>* s s'"
  shows "lease_inv s'"
  using assms(2,1) by (rule lease_runs.steps_inv)

text \<open>
  C7. A lease that is registered is never lost by a revocation, nor by the renewal of a proxy request: after the
  call it is registered under the same handle for the same subject, or its backend acknowledged the revocation,
  whatever the store, the clock and the backends do.
\<close>

theorem lease_never_lost:
  assumes "map_of (sv_leases s) handle = Some item"
  shows "lease_kept e handle item (snd (revoke_profile_environment_lease cr e app who handle s))
    \<and> lease_kept e handle item (snd (renew_registered_dynamic_lease cr e app handle subject s))
    \<and> lease_kept e handle item (snd (revoke_registered_dynamic_lease cr e app handle subject s))"
  using revoke_environment_kept [OF prod.collapse [symmetric] assms] renew_registered_kept [OF prod.collapse [symmetric] assms]
    revoke_registered_kept [OF prod.collapse [symmetric] assms] by blast

theorem lease_never_lost_witness:
  "sv_leases (snd (revoke_profile_environment_lease sample_crates sample_env sample_app (Some ''alice'') sample_handle sample_server))
     = [(''h2'', sample_lease\<lparr>ad_subject := ''bob''\<rparr>)]
   \<and> lease_kept sample_env sample_handle sample_lease
       (snd (revoke_profile_environment_lease sample_crates sample_env sample_app (Some ''alice'') sample_handle sample_server))"
proof
  show "lease_kept sample_env sample_handle sample_lease
       (snd (revoke_profile_environment_lease sample_crates sample_env sample_app (Some ''alice'') sample_handle sample_server))"
    using lease_never_lost [OF sample_handle_lease] by blast
qed code_simp

text \<open>
  C8. A subject cannot touch the lease of another: a renewal or revocation, by handle, by anyone, leaves every
  lease of every other subject registered as it was.
\<close>

theorem lease_subject_isolation:
  assumes "lease_inv s" and "map_of (sv_leases s) h = Some item" and "who \<noteq> Some (ad_subject item)"
  shows "map_of (sv_leases (snd (renew_profile_environment_lease cr e app who handle s))) h = Some item
    \<and> map_of (sv_leases (snd (revoke_profile_environment_lease cr e app who handle s))) h = Some item"
proof -
  have "map_of (sv_leases s') h = Some item" if "touches_own who handle s s'" for s'
    using that unfolding touches_own_def
  proof
    assume "\<exists>subject own. who = Some subject \<and> map_of (sv_leases s) handle = Some own \<and> ad_subject own = subject
        \<and> sv_leases s' \<in> own_registries subject handle (sv_leases s)"
    then obtain subject own where who: "who = Some subject" and own: "map_of (sv_leases s) handle = Some own"
      "ad_subject own = subject" "sv_leases s' \<in> own_registries subject handle (sv_leases s)" by blast
    from who assms(3) have "ad_subject item \<noteq> subject" by auto
    with own_registries_facts(3) [OF own(3) _ own(1,2) assms(2)] assms(1) show ?thesis by (simp add: lease_inv_def)
  qed (simp add: assms(2))
  then show ?thesis
    using renew_environment_touches [OF prod.collapse [symmetric]] revoke_environment_touches [OF prod.collapse [symmetric]]
    by blast
qed

theorem lease_subject_isolation_witness:
  "map_of (sv_leases (snd (revoke_profile_environment_lease sample_crates sample_env sample_app (Some ''bob'') sample_handle sample_server)))
     sample_handle = Some sample_lease"
proof -
  have "Some ''bob'' \<noteq> Some (ad_subject sample_lease)" by (simp add: sample_lease_def)
  from lease_subject_isolation [OF sample_server_inv sample_handle_lease this] show ?thesis by blast
qed

text \<open>
  C11. The renewal of an environment lease loses the lease when the store fails while the grant is checked: the
  lease has left the registry, nothing was sent to its backend, and no later call can find or revoke it.
\<close>

theorem environment_renewal_loses_lease:
  assumes "map_of (sv_leases s) handle = Some item" and "validate_dynamic_lease_handle handle = Inr ()"
    and "env_clock e (io_ticks s) < lease_expires_at (ad_lease item)"
    and "sv_db s = Some db" and "\<not> env_store_up e (Suc (io_ticks s))"
  shows "fst (renew_profile_environment_lease cr e app (Some (ad_subject item)) handle s)
      = Inl (RpcError Internal ''managed store unavailable'')
    \<and> sv_leases (snd (renew_profile_environment_lease cr e app (Some (ad_subject item)) handle s)) = AList.delete handle (sv_leases s)
    \<and> io_sent (snd (renew_profile_environment_lease cr e app (Some (ad_subject item)) handle s)) = io_sent s"
  using assms
  by (simp add: renew_profile_environment_lease_def authorize_connect_def act_try_def take_for_subject_def
      profile_permitted_def store_query_def map_error_def ok_or_def)

theorem environment_renewal_loses_lease_witness:
  "map_of (sv_leases (snd (renew_profile_environment_lease sample_crates (sample_env\<lparr>env_store_up := (\<lambda>_. False)\<rparr>) sample_app
     (Some ''alice'') sample_handle (sample_server\<lparr>sv_db := Some sample_db\<rparr>)))) sample_handle = None
   \<and> io_sent (snd (renew_profile_environment_lease sample_crates (sample_env\<lparr>env_store_up := (\<lambda>_. False)\<rparr>) sample_app
     (Some ''alice'') sample_handle (sample_server\<lparr>sv_db := Some sample_db\<rparr>))) = []"
proof -
  let ?s = "sample_server\<lparr>sv_db := Some sample_db\<rparr>" and ?e = "sample_env\<lparr>env_store_up := (\<lambda>_. False)\<rparr>"
  have handle: "validate_dynamic_lease_handle sample_handle = Inr ()" by code_simp
  have lease: "map_of (sv_leases ?s) sample_handle = Some sample_lease" using sample_handle_lease by simp
  from environment_renewal_loses_lease [OF lease handle, of ?e sample_db sample_crates sample_app] show ?thesis
    by (simp add: sample_env_def sample_server_def sample_lease_def secs_def sample_handle_def)
qed





lemma revoke_each_revokes:
  assumes "active \<in> set leases" and "\<And>t :: 'z server_scheme. fst (revoke_dynamic_lease cr e app active t) = Inr ()"
  shows "lease_revoked e (io_sent (snd (revoke_each cr e app leases (s :: 'z server_scheme)))) (ad_lease active)"
  using assms(1)
proof (induction leases arbitrary: s)
  case (Cons a leases)
  obtain r1 s1 where 1: "revoke_dynamic_lease cr e app a s = (r1, s1)" by (cases "revoke_dynamic_lease cr e app a s")
  obtain r2 s2 where 2: "revoke_each cr e app leases s1 = (r2, s2)" by (cases "revoke_each cr e app leases s1")
  have all: "snd (revoke_each cr e app (a # leases) s) = s2" using 1 2 by simp
  show ?case
  proof (cases "a = active")
    case True
    with assms(2) [of s] 1 have "lease_revoked e (io_sent s1) (ad_lease active)"
      using revoke_dynamic_lease_run [OF 1] by simp
    with revoke_each_io [OF 2] all show ?thesis by (auto intro: lease_revoked_extends)
  next
    case False
    with Cons.prems Cons.IH [of s1] 2 all show ?thesis by simp
  qed
qed simp

text \<open>
  C10. Shutdown empties the registry, and every lease whose revocation the backends accept when it is tried
  within the deadline has been revoked at its backend.
\<close>

theorem shutdown_revokes_leases:
  assumes "(handle, active) \<in> set (sv_leases (s :: server))" and "length (sv_leases s) \<le> finished"
    and "\<forall>t :: server. fst (revoke_dynamic_lease cr e app active t) = Inr ()"
  shows "sv_leases (snd (revoke_all_dynamic_leases cr e app finished s)) = []
    \<and> lease_revoked e (io_sent (snd (revoke_all_dynamic_leases cr e app finished s))) (ad_lease active)"
proof -
  let ?leases = "map snd (sort_key fst (sv_leases s))"
  have run: "snd (revoke_all_dynamic_leases cr e app finished s) = snd (revoke_each cr e app ?leases (s\<lparr>sv_leases := []\<rparr>))"
    using assms(2) by (simp add: revoke_all_dynamic_leases_def drain_def)
  have "active \<in> set ?leases" using assms(1) by force
  from revoke_each_revokes [OF this assms(3) [rule_format]] revoke_each_io [OF prod.collapse [symmetric], of cr e app ?leases "s\<lparr>sv_leases := []\<rparr>"]
  show ?thesis unfolding run by simp
qed

theorem shutdown_revokes_leases_witness:
  "sv_leases (snd (revoke_all_dynamic_leases sample_crates sample_env sample_app 10 sample_server)) = []
   \<and> lease_revoked sample_env (io_sent (snd (revoke_all_dynamic_leases sample_crates sample_env sample_app 10 sample_server)))
       (ad_lease sample_lease)"
proof (rule shutdown_revokes_leases)
  show "(sample_handle, sample_lease) \<in> set (sv_leases sample_server)" "length (sv_leases sample_server) \<le> 10"
    by (simp_all add: sample_server_def)
  show "\<forall>t. fst (revoke_dynamic_lease sample_crates sample_env sample_app sample_lease (t :: server)) = Inr ()"
    by (simp add: revoke_dynamic_lease_def sample_app_def sample_lease_def sample_bao_def openbao_revoke_def
        openbao_authenticate_def read_secret_file_def sample_env_def act_try_def is_success_def trim_t)
qed

text \<open>
  A profile with exports hands out exactly the names it declares, each with the field it names, and only if
  every such field was returned by the backend and no two names share one.
\<close>

lemma exports_exact:
  assumes "pf_exports profile \<noteq> []"
  shows "apply_exports found profile = Inr out \<longleftrightarrow>
    distinct (map export_source (pf_exports profile))
    \<and> (\<forall>ex\<in>set (pf_exports profile). map_of found (export_source ex) \<noteq> None)
    \<and> out = map (\<lambda>ex. (fst ex, the (map_of found (export_source ex)))) (pf_exports profile)"
  using assms by (simp add: apply_exports_def export_fields_iff)

text \<open>
  A dynamic lease leaks when its values do not satisfy the exports: the backend has issued the lease, the
  call fails, the registry is as before, and nothing was sent to the backend after the lease was issued.
\<close>

lemma failed_exports_leak_lease:
  assumes "map_of (app_connectors app) (pf_connector profile) = Some connector" and "env_slot e (io_ticks s)"
    and "backend_acquire cr e (pf_connector profile) connector profile (s\<lparr>io_ticks := Suc (io_ticks s)\<rparr>) = (Inr acquisition, s1)"
    and "sa_lease acquisition = Some lease" and "apply_exports (sa_values acquisition) profile = Inl err"
  shows "acquire_owned_proxy_secrets cr e app profile_name profile subject s = (Inl (LeaseConnector err), s1)
    \<and> sv_leases s1 = sv_leases s"
  using assms io_run [OF backend_acquire_io assms(3)]
  by (simp add: acquire_owned_proxy_secrets_def acquire_secrets_def connector_acquire_def act_try_def map_error_def)


text \<open>
  The checksum of Google Secret Manager finds every corruption of a single byte: a payload that was accepted
  is rejected with the same checksum when any one of its bytes is another.
\<close>

lemma corrupted_payload_rejected:
  assumes "google_payload (Some (pre @ c # post, Some checksum)) = Inr text'" and "c \<noteq> d"
  shows "google_payload (Some (pre @ d # post, Some checksum)) = Inl (PayloadE ChecksumMismatch)"
proof -
  from assms(1) have "crc32c (pre @ c # post) = of_int checksum" and "0 \<le> checksum" and "checksum < 2 ^ 32"
    and "length (pre @ c # post) \<le> max_secret_bytes"
    by (auto simp: google_payload_def split: if_splits)
  moreover from this(1) have "crc32c (pre @ d # post) \<noteq> of_int checksum"
    using crc32c_byte_differs [OF assms(2), of pre post] by simp
  ultimately show ?thesis by (auto simp: google_payload_def)
qed

lemma crc32c_check_steps:
  "crc32c_bit 0xFFFFFF9E = 0x7FFFFFCF"
  "crc32c_bit 0x7FFFFFCF = 0xBD09C49F"
  "crc32c_bit 0xBD09C49F = 0xDC72D937"
  "crc32c_bit 0xDC72D937 = 0xECCF57E3"
  "crc32c_bit 0xECCF57E3 = 0xF4919089"
  "crc32c_bit 0xF4919089 = 0xF8BEF33C"
  "crc32c_bit 0xF8BEF33C = 0x7C5F799E"
  "crc32c_bit 0x7C5F799E = 0x3E2FBCCF"
  by (simp_all add: crc32c_bit_if)

lemma eight_steps: "(f ^^ 8) x = f (f (f (f (f (f (f (f x)))))))"
  by (simp add: eval_nat_numeral)

lemma crc32c_check: "crc32c ''a'' = 0xC1D04330"
proof -
  have start: "(NOT 0 :: 32 word) XOR of_nat (byte CHR ''a'') = 0xFFFFFF9E" by simp
  have "crc32c_byte (NOT 0) CHR ''a'' = 0x3E2FBCCF"
    unfolding crc32c_byte_def start by (simp only: eight_steps crc32c_check_steps)
  then show ?thesis by (simp add: crc32c_def)
qed

end
