(* ===== verification/Proxy_Samples.thy ===== *)
theory Proxy_Samples
  imports WebSocket Control_Properties Lease_Guarantees
begin

text \<open>
  A small gateway on which the witnesses of the proxy and session properties run: one profile with a dynamic
  secret, one credential route and one tunnel, a store with one Basic user who has a proxy grant and a session,
  and an upstream server that echoes the credential in its answers.
\<close>

section \<open>Crates and environment\<close>

definition sample_proxy_crates :: "sample_url proxy_crates" where
  "sample_proxy_crates =
    auth_crates.extend sample_auth_crates
      (proxy_crates.fields (\<lambda>key. ''accept-'' @ take 4 key)
        (\<lambda>message. case message of
            WsText t \<Rightarrow> length t | WsBinary b \<Rightarrow> length b | WsPing b \<Rightarrow> length b | WsPong b \<Rightarrow> length b
          | WsClose None \<Rightarrow> 0 | WsClose (Some (code, reason)) \<Rightarrow> 2 + length reason | WsFrame b \<Rightarrow> length b))"

lemmas sample_proxy_crates_simps = sample_proxy_crates_def sample_auth_crates_simps proxy_crates.defs

lemma sample_proxy_header_value_law: "header_value_law sample_proxy_crates"
  using sample_header_value_law by (simp add: header_value_law_def sample_proxy_crates_simps)

fun gateway_backend :: "backend_request list \<Rightarrow> backend_request \<Rightarrow> backend_reply" where
  "gateway_backend log (OpenBaoRead _ _ _) =
     Reply 200 (SecretBody (JObject [(''PIN'', JString ''77''), (''TOKEN'', JString ''s3+t'')]) ''lease-1'' True 60)"
| "gateway_backend log request = sample_backend log request"

definition gateway_env :: env where
  "gateway_env = auth_env\<lparr>env_random := (\<lambda>_. ''ab''), env_backend := gateway_backend\<rparr>"

lemma gateway_env_up: "all_up gateway_env"
  by (simp add: all_up_def gateway_env_def auth_env_def as_secs_def secs_def)

definition sample_upstream :: upstream_response where
  "sample_upstream =
    \<lparr>ur_status = 200, ur_content_length = None,
     ur_headers = hm_insert ''etag'' (HeaderValue ''s3+t'' False) hm_new,
     ur_chunks = [''key='', ''s3'', ''+t''], ur_complete = True\<rparr>"

definition sample_upgrade :: upstream_response where
  "sample_upgrade =
    \<lparr>ur_status = 101, ur_content_length = None,
     ur_headers = hm_insert ''connection'' (HeaderValue ''Upgrade'' False)
       (hm_insert ''upgrade'' (HeaderValue ''websocket'' False)
         (hm_insert ''sec-websocket-accept'' (HeaderValue ''accept-AAAA'' False) hm_new)),
     ur_chunks = [], ur_complete = True\<rparr>"

definition sample_network :: "sample_url network" where
  "sample_network =
    \<lparr>nw_respond = (\<lambda>_ request. Some (case ob_client request of ProxyClient \<Rightarrow> sample_upstream | WebSocketClient \<Rightarrow> sample_upgrade)),
     nw_lookup = (\<lambda>_ _. None), nw_connect = (\<lambda>_ _. ConnectFailed)\<rparr>"

section \<open>The gateway and its store\<close>

definition gateway_profile :: profile_config where
  "gateway_profile =
    sample_profile [(''PIN'', \<lparr>pe_resource = [], pe_field = ''PIN''\<rparr>), (''TOKEN'', \<lparr>pe_resource = [], pe_field = ''TOKEN''\<rparr>)]"

definition gateway_route :: proxy_route_config where
  "gateway_route =
    sample_route\<lparr>rt_injection := Some (InjHeader ''TOKEN'' ''x-key'' []), rt_body_substitutions := [],
      rt_response_mode := Streaming, rt_websocket := Some sample_websocket\<rparr>"

definition gateway_config :: config where
  "gateway_config =
    sample_config\<lparr>cf_mode := Managed, cf_connectors := [(''bao'', sample_bao)], cf_profiles := [(''example'', gateway_profile)],
      cf_provider_operations := [], cf_proxy_routes := [(''api'', gateway_route)],
      cf_proxy_tunnels := [(''logs'', sample_tunnel)]\<rparr>"

definition sample_runtime :: transparent_proxy_runtime where
  "sample_runtime =
    \<lparr>tr_listen = ''127.0.0.1:8443'', tr_proxy_url = ''https://proxy.example.test'', tr_session_ttl = secs 300,
     tr_session_max_lifetime = secs 3600, tr_catalog = sample_catalog, tr_certificate_pem = ''pem''\<rparr>"

definition sample_gateway :: gateway where
  "sample_gateway =
    \<lparr>gw_config = gateway_config, gw_auth = sample_authenticator Basic, gw_backend = Sqlite,
     gw_transparent_proxy = Some sample_runtime\<rparr>"

text \<open>The capability \<open>capability\<close> belongs to the session \<open>gateway_session\<close> of \<open>basic:ada\<close>.\<close>

definition gateway_session :: string where
  "gateway_session = replicate 22 CHR ''S''"

definition gateway_token_hash :: bytes where
  "gateway_token_hash = proxy_session_token_hash sample_proxy_crates ''capability''"

definition gateway_row :: session_row where
  "gateway_row =
    \<lparr>sr_token_hash = gateway_token_hash, sr_subject = ''basic:ada'', sr_profile = ''example'', sr_expires = 1300,
     sr_revoked = False\<rparr>"

definition gateway_db :: store_db where
  "gateway_db =
    (upsert_basic_user empty_db ''ada'' ''$argon2id$correcthorse'')\<lparr>
      t_capability_grants := [((''basic:ada'', ''example''), \<lparr>gr_mode = ''proxy'', gr_expires = None\<rparr>)],
      t_proxy_sessions := [(gateway_session, gateway_row)], t_proxy_session_bounds := [(gateway_session, 4600)]\<rparr>"

definition gateway_state :: "sample_url proxy_server" where
  "gateway_state = auth_server.extend (auth_state\<lparr>sv_db := Some gateway_db\<rparr>) (proxy_server.fields [])"

lemma gateway_state_db: "sv_db gateway_state = Some gateway_db"
  by (simp add: gateway_state_def auth_state_def auth_server.defs proxy_server.defs)

lemma gateway_db_session: "map_of (t_proxy_sessions gateway_db) gateway_session = Some gateway_row"
  by (simp add: gateway_db_def)

lemma gateway_db_inv: "store_inv gateway_db"
  by (simp add: store_inv_def roles_ok_def agents_ok_def grants_ok_def sessions_ok_def session_bounded_def mode_names_def
      gateway_db_def gateway_row_def gateway_token_hash_def empty_db_def upsert_basic_user_def)

definition ada :: header_map where
  "ada = authorization ''Basic ada:correcthorse--------''"

section \<open>Requests\<close>

definition sample_connect_target :: uri where
  "sample_connect_target = \<lparr>uri_scheme = None, uri_authority = Some ''api.example.test:443'', uri_path = [], uri_query = None\<rparr>"

definition connect_with :: "string \<Rightarrow> header_map" where
  "connect_with token =
    hm_insert ''host'' (HeaderValue ''api.example.test:443'' False)
      (hm_insert ''proxy-authorization'' (HeaderValue (''Bearer '' @ token) True) hm_new)"

definition sample_tunnel_request :: tunnel_request where
  "sample_tunnel_request =
    \<lparr>tq_method = ''POST'',
     tq_uri = \<lparr>uri_scheme = None, uri_authority = None, uri_path = ''/items/7'', uri_query = Some ''page=2''\<rparr>,
     tq_headers = hm_insert ''host'' (HeaderValue ''api.example.test'' False) sample_headers,
     tq_frames = [DataFrame ''hello'']\<rparr>"

definition sample_validated :: validated_proxy_request where
  "sample_validated = \<lparr>vr_normalized_path = ''/items/7'', vr_query = [(''page'', ''2'')]\<rparr>"

lemma sample_secret_encoding:
  "''s3+t'' \<in> set (credential_encodings sample_proxy_crates ''s3+t'')" "avoids_marker ''s3+t''"
  using secret_in_encodings avoids_marker_sample by auto

lemma gateway_secrets:
  "\<exists>secrets lease s1. acquire_owned_proxy_secrets sample_proxy_crates gateway_env (gateway_app sample_gateway) (rt_profile gateway_route)
      gateway_profile ''basic:ada'' gateway_state = (Inr (secrets, lease), s1) \<and> map_of secrets ''TOKEN'' = Some ''s3+t''"
proof -
  let ?run = "acquire_owned_proxy_secrets sample_proxy_crates gateway_env (gateway_app sample_gateway) (rt_profile gateway_route)
      gateway_profile ''basic:ada'' gateway_state"
  have "(case fst ?run of Inr (secrets, _) \<Rightarrow> map_of secrets ''TOKEN'' = Some ''s3+t'' | _ \<Rightarrow> False)" by code_simp
  then show ?thesis by (cases ?run) (auto split: sum.split_asm)
qed

lemma gateway_profile_found: "map_of (cf_profiles (gw_config sample_gateway)) (rt_profile gateway_route) = Some gateway_profile"
  by (simp add: sample_gateway_def gateway_config_def gateway_route_def sample_route_def)

end
