(* ===== verification/Proxy_Properties.thy ===== *)
theory Proxy_Properties
  imports Proxy_Samples
begin

text \<open>
  Properties of the request paths of the proxy: who may open a tunnel, what a request in a tunnel may reach,
  that nothing the caller receives shows a credential, and that a streaming body ends.
\<close>

section \<open>Runs of the parts\<close>

lemma session_for_token_Some:
  assumes "session_for_token e token_hash s = (Inr (Some session), t)"
  shows "\<exists>db clock. sv_db s = Some db \<and> active_proxy_session clock db token_hash = Inr (Some session)"
  using assms by (auto simp: session_for_token_def split: option.splits dest: store_query_Inr)

lemma session_for_token_run: "session_for_token e token_hash s = (r, t) \<Longrightarrow> sv_db t = sv_db s"
  by (auto simp: session_for_token_def split: option.splits dest: store_query_run)

lemma profile_permitted_True:
  assumes "profile_permitted e subject profile mode s = (Inr True, t)" and "sv_db s = Some db"
  shows "\<exists>clock. profile_allowed_for clock db subject profile mode = Inr True"
  using assms by (auto simp: profile_permitted_def dest: store_query_Inr)

lemma tick_db: "tick f s = (x, t) \<Longrightarrow> sv_db t = sv_db s"
  by auto

lemma connect_first_run:
  "connect_first nw addresses s = (r, t) \<Longrightarrow> sv_db t = sv_db s \<and> (\<forall>address. r = Some address \<longrightarrow> address \<in> set addresses)"
  by (induction addresses arbitrary: s) (auto split: connect_outcome.splits)

lemma set_address_set [simp]: "set (address_set found) = set found"
  by (simp add: address_set_def)

lemma connect_credentialless_run:
  "connect_credentialless_upstream nw host allow s = (r, t) \<Longrightarrow> sv_db t = sv_db s \<and>
     (\<forall>address. r = Some address \<longrightarrow> tunnel_ip_allowed (sk_ip address) allow
        \<and> (\<exists>n found. nw_lookup nw n host = Some found \<and> address \<in> set found))"
  by (auto simp: connect_credentialless_upstream_def Let_def list_ex_iff split: option.splits if_splits
      dest!: connect_first_run) (metis set_address_set)+

text \<open>What a tunnel is opened to.\<close>

definition tunnel_serves :: "'u network \<Rightarrow> authorized_connect \<Rightarrow> proxy_session \<Rightarrow> tunnel \<Rightarrow> bool" where
  "tunnel_serves nw authorized session tunnel \<longleftrightarrow>
     (case ac_destination authorized of
        Injecting name _ \<Rightarrow>
          tunnel = InjectingTunnel name (ac_host authorized) (ac_token_hash authorized) (ps_session_id session)
      | Tunnel _ _ host allow \<Rightarrow>
          (\<exists>address n found. tunnel = CredentiallessTunnel address \<and> nw_lookup nw n host = Some found
             \<and> address \<in> set found \<and> tunnel_ip_allowed (sk_ip address) allow))"

lemma open_destination_run:
  assumes "open_destination nw authorized session s = (r, t)"
  shows "sv_db t = sv_db s" and "r = Some tunnel \<Longrightarrow> tunnel_serves nw authorized session tunnel"
  using assms
  by (auto simp: open_destination_def tunnel_serves_def split: transparent_destination.splits prod.splits
      dest!: connect_credentialless_run)

lemma audit_event_Inr:
  assumes "audit_event_act e actor action profile route exe s = (Inr x, t)" and "sv_db s = Some db"
  shows "\<exists>clock db'. record_audit clock db actor action profile route exe = Inr db' \<and> sv_db t = Some db'"
  using assms
  by (auto simp: audit_event_act_def store_update_def act_try_def split: prod.splits sum.splits option.splits
      dest!: store_query_Inr simp: result_iff)

text \<open>The checks of a CONNECT.\<close>

lemma connect_chain:
  assumes "transparent_connect_response cr e nw runtime meth target headers s = (answer, t)"
    and "ca_status answer = 200 \<or> ca_tunnel answer \<noteq> None"
  shows "\<exists>authorized tunnel db db' session clock clock' clock''.
    ca_status answer = 200 \<and> ca_tunnel answer = Some tunnel
    \<and> authorize_connect_request cr meth target headers (tr_catalog runtime) = Inr authorized
    \<and> sv_db s = Some db \<and> active_proxy_session clock db (ac_token_hash authorized) = Inr (Some session)
    \<and> ps_profile session = td_profile (ac_destination authorized)
    \<and> profile_allowed_for clock' db (ps_subject session) (ps_profile session) ModeProxy = Inr True
    \<and> record_audit clock'' db (ps_subject session) ''transparent_proxy_connect'' (Some (ps_profile session))
        (Some (td_name (ac_destination authorized))) None = Inr db' \<and> sv_db t = Some db'
    \<and> tunnel_serves nw authorized session tunnel"
proof -
  define s0 where "s0 = s\<lparr>io_ticks := Suc (io_ticks s)\<rparr>"
  from assms obtain authorized session s1 s2 s3 tunnel u where
    answer: "answer = \<lparr>ca_status = 200, ca_authenticate = False, ca_tunnel = Some tunnel\<rparr>"
    and authorized: "authorize_connect_request cr meth target headers (tr_catalog runtime) = Inr authorized"
    and session: "session_for_token e (ac_token_hash authorized) s0 = (Inr (Some session), s1)"
    and profile: "ps_profile session = td_profile (ac_destination authorized)"
    and permitted: "profile_permitted e (ps_subject session) (ps_profile session) ModeProxy s1 = (Inr True, s2)"
    and opened: "open_destination nw authorized session s2 = (Some tunnel, s3)"
    and audited: "audit_event_act e (ps_subject session) ''transparent_proxy_connect'' (Some (ps_profile session))
        (Some (td_name (ac_destination authorized))) None s3 = (Inr u, t)"
    by (auto simp: transparent_connect_response_def refuse_connect_def transparent_proxy_auth_required_def s0_def
        split: if_splits sum.splits option.splits prod.splits bool.splits)
  from session_for_token_Some [OF session] obtain db clock where db: "sv_db s = Some db"
    "active_proxy_session clock db (ac_token_hash authorized) = Inr (Some session)"
    by (auto simp: s0_def)
  have same: "sv_db s1 = Some db" "sv_db s3 = Some db"
    using db(1) session_for_token_run [OF session] profile_permitted_run [OF permitted] open_destination_run(1) [OF opened]
    by (simp_all add: s0_def)
  show ?thesis
    using answer authorized db profile profile_permitted_True [OF permitted same(1)] audit_event_Inr [OF audited same(2)]
      open_destination_run(2) [OF opened refl]
    by (auto 0 4)
qed



section \<open>What goes upstream\<close>

text \<open>The actions of the server below the proxy do not touch what the proxy adds to the state.\<close>

definition keeps_more :: "'z server_scheme \<Rightarrow> 'z server_scheme \<Rightarrow> bool" where
  "keeps_more s t \<longleftrightarrow> server.more t = server.more s"

interpretation more: frame_relation keeps_more
  by unfold_locales (simp_all add: keeps_more_def)

lemma keeps_more_sent: "keeps_more s t \<Longrightarrow> px_sent t = px_sent s"
  by (cases s; cases t) (simp add: keeps_more_def)

lemma keeps_moreI: "(\<And>s. server.more (snd (m s)) = server.more s) \<Longrightarrow> obeys keeps_more m"
  by (simp add: obeys_def keeps_more_def)

lemma io_more:
  assumes "obeys io_extends m"
  shows "obeys keeps_more m"
proof (rule keeps_moreI)
  fix s
  from assms have "snd (m s) = s\<lparr>io_ticks := io_ticks (snd (m s)), io_sent := io_sent (snd (m s)), io_tokens := io_tokens (snd (m s))\<rparr>"
    by (simp add: obeys_def io_extends_def)
  from arg_cong [OF this, of server.more] show "server.more (snd (m s)) = server.more s" by simp
qed

lemma store_query_more: "obeys keeps_more (store_query e query)"
  by (rule keeps_moreI) (simp add: store_query_def)

lemma permitted_more: "obeys keeps_more (profile_permitted e subject profile mode)"
  by (rule keeps_moreI) (simp add: profile_permitted_def store_query_def split: option.split)

lemma audit_more: "obeys keeps_more (audit_event_act e actor action profile route exe)"
  by (rule keeps_moreI)
    (auto simp: audit_event_act_def store_update_def act_try_def store_query_def split: option.split sum.split prod.split)

lemma session_for_token_more: "obeys keeps_more (session_for_token e token_hash)"
  by (rule keeps_moreI) (simp add: session_for_token_def store_query_def split: option.split)

lemma registry_more:
  "obeys keeps_more (take_for_subject e handle subject)" "obeys keeps_more (restore handle item)"
  "obeys keeps_more (retain_unexpired now)"
  by (rule keeps_moreI, simp add: take_for_subject_def restore_def retain_unexpired_def split: option.split)+

lemma select_handle_more: "server.more (snd (select_handle cr e n s)) = server.more s"
  by (induction n arbitrary: s) (simp_all add: random_browser_token_def)

lemma insert_more: "obeys keeps_more (registry_insert cr e item)"
proof (rule keeps_moreI)
  fix s :: "'z server_scheme"
  let ?s = "snd (retain_unexpired (env_clock e (io_ticks s)) (s\<lparr>io_ticks := Suc (io_ticks s)\<rparr>))"
  have "server.more ?s = server.more s" by (simp add: retain_unexpired_def)
  with select_handle_more [of cr e 8 ?s] show "server.more (snd (registry_insert cr e item s)) = server.more s"
    by (auto simp: registry_insert_def retain_unexpired_def split: prod.splits option.splits)
qed

lemmas more_rules = more.obeys_rules io_more [OF tick_io] io_more [OF send_io] io_more [OF connector_revoke_io]
  io_more [OF connector_renew_io] io_more [OF acquire_secrets_io] store_query_more permitted_more audit_more
  session_for_token_more registry_more insert_more

lemma acquire_owned_more: "obeys keeps_more (acquire_owned_proxy_secrets cr e app profile_name profile subject)"
  unfolding acquire_owned_proxy_secrets_def revoke_dynamic_lease_def Let_def by (intro more_rules)

lemma revoke_registered_more: "obeys keeps_more (revoke_registered_dynamic_lease cr e app handle subject)"
  unfolding revoke_registered_dynamic_lease_def revoke_or_restore_def revoke_dynamic_lease_def by (intro more_rules)

lemma owner_more:
  "obeys keeps_more (owner_drop cr e app owner)" "obeys keeps_more (owner_revoke cr e app owner)"
  "obeys keeps_more (drop_lease cr e app lease)"
  unfolding drop_lease_def owner_drop_def owner_revoke_def by (intro more_rules revoke_registered_more)+

lemma drop_response_more: "obeys keeps_more (drop_response cr e app response)"
  by (cases "rs_body response") (simp_all add: drop_response_def owner_more more.return_obeys)

text \<open>One request goes upstream at most, to the target that the policy computed.\<close>

definition sends_once ::
    "('u, 'c) crates_scheme \<Rightarrow> proxy_route_config \<Rightarrow> validated_proxy_request \<Rightarrow> string \<Rightarrow> ('u, 'z) proxy_server_scheme
     \<Rightarrow> ('u, 'z) proxy_server_scheme \<Rightarrow> bool" where
  "sends_once cr route validated meth s t \<longleftrightarrow>
     px_sent t = px_sent s
     \<or> (\<exists>sent. px_sent t = px_sent s @ [sent] \<and> ob_method sent = meth \<and> build_target_url cr route validated = Inr (ob_target sent))"

lemma forward_request_sends:
  "obeys (sends_once cr route validated meth) (forward_request cr nw route validated meth headers body values lease)"
  by (rule obeysI) (auto simp: forward_request_def act_try_def send_upstream_def sends_once_def result_iff split: sum.splits prod.splits)

lemma forward_upgrade_sends:
  "obeys (sends_once cr route validated meth)
     (forward_upgrade cr nw route policy validated meth headers token_hash session_id values lease)"
  by (rule obeysI) (auto simp: forward_upgrade_def act_try_def send_upstream_def sends_once_def result_iff Let_def
      split: sum.splits prod.splits)

lemma sends_before: "keeps_more s t \<Longrightarrow> sends_once cr route validated meth t u \<Longrightarrow> sends_once cr route validated meth s u"
  by (auto simp: sends_once_def dest!: keeps_more_sent)

lemma sends_after: "sends_once cr route validated meth s t \<Longrightarrow> keeps_more t u \<Longrightarrow> sends_once cr route validated meth s u"
  by (auto simp: sends_once_def dest!: keeps_more_sent)

lemma more_sends: "obeys keeps_more m \<Longrightarrow> obeys (sends_once cr route validated meth) m"
  by (auto simp: obeys_def sends_once_def dest!: keeps_more_sent)

lemma bind_sends_before:
  assumes "obeys keeps_more m" and "\<And>x. obeys (sends_once cr route validated meth) (f x)"
  shows "obeys (sends_once cr route validated meth) (act_bind m f)"
proof (rule obeysI)
  fix s
  obtain x t where m: "m s = (x, t)" by (cases "m s")
  have "sends_once cr route validated meth t (snd (f x t))" using assms(2) by (simp add: obeys_def)
  with sends_before [OF obeysD [OF assms(1) m]] m show "sends_once cr route validated meth s (snd (act_bind m f s))"
    by simp
qed

lemma bind_sends_after:
  assumes "obeys (sends_once cr route validated meth) m" and "\<And>x. obeys keeps_more (f x)"
  shows "obeys (sends_once cr route validated meth) (act_bind m f)"
proof (rule obeysI)
  fix s
  obtain x t where m: "m s = (x, t)" by (cases "m s")
  have "keeps_more t (snd (f x t))" using assms(2) by (simp add: obeys_def)
  with sends_after [OF obeysD [OF assms(1) m]] m show "sends_once cr route validated meth s (snd (act_bind m f s))"
    by simp
qed

lemma try_as_bind: "act_try m f = act_bind m (\<lambda>r. case r of Inl err \<Rightarrow> act_return (Inl err) | Inr x \<Rightarrow> f x)"
  by (rule ext) (simp add: act_try_def split: prod.splits sum.splits)

lemma try_sends_before:
  assumes "obeys keeps_more m" and "\<And>x. obeys (sends_once cr route validated meth) (f x)"
  shows "obeys (sends_once cr route validated meth) (act_try m f)"
  unfolding try_as_bind using assms
  by (intro bind_sends_before) (auto intro: more_sends more.return_obeys split: sum.split)

lemma try_sends_after:
  assumes "obeys (sends_once cr route validated meth) m" and "\<And>x. obeys keeps_more (f x)"
  shows "obeys (sends_once cr route validated meth) (act_try m f)"
  unfolding try_as_bind using assms
  by (intro bind_sends_after) (auto intro: more.return_obeys split: sum.split)

lemma or_drop_sends:
  "obeys (sends_once cr route validated meth) m \<Longrightarrow> obeys (sends_once cr route validated meth) (or_drop cr' e app lease m)"
  unfolding or_drop_def by (intro bind_sends_after) (auto intro!: more_rules owner_more split: sum.split)

lemma guard_sends:
  "obeys (sends_once cr route validated meth) m \<Longrightarrow> obeys (sends_once cr route validated meth) (if b then act_return x else m)"
  by (auto intro: more_sends more.return_obeys)

lemma proxy_request_sends:
  "obeys (sends_once cr route validated meth) (proxy_request cr e nw gw route subject validated meth headers body)"
  unfolding proxy_request_def split_beta
  by (rule try_sends_before [OF more.return_obeys], rule try_sends_before [OF more.map_err_obeys [OF acquire_owned_more]],
      rule try_sends_after [OF or_drop_sends [OF forward_request_sends]])
    (auto intro!: more_rules owner_more split: proxy_response_mode.split option.split)

lemma proxy_websocket_request_sends:
  "obeys (sends_once cr route validated meth)
     (proxy_websocket_request cr e nw gw route subject validated meth headers token_hash session_id)"
  unfolding proxy_websocket_request_def split_beta
  by (rule try_sends_before [OF more.return_obeys], rule guard_sends, rule try_sends_before [OF more.return_obeys],
      rule try_sends_before [OF more.return_obeys], rule try_sends_before [OF more.map_err_obeys [OF acquire_owned_more]],
      rule or_drop_sends [OF forward_upgrade_sends])

lemma admit_tunnel_request_Inr:
  assumes "admit_tunnel_request cr route request = Inr (body, validated)"
  shows "enforce_transparent_tunnel_target cr route (tq_uri request) (tq_headers request) = Inr ()"
    and "validate_proxy_request cr route (uri_path (tq_uri request)) (uri_query (tq_uri request)) (tq_method request)
           (tq_headers request) (length body) = Inr validated"
    and "collect_transparent_body (rt_max_body_bytes route) (tq_frames request) [] = Some body"
    and "is_websocket_attempt cr (tq_headers request) \<Longrightarrow> body = [] \<and>
      (\<exists>policy. rt_websocket route = Some policy \<and> validate_websocket_handshake cr (tq_headers request) policy = Inr ())"
  using assms
  by (auto simp: admit_tunnel_request_def Let_def result_iff is_ok_def split: if_splits option.splits sum.splits)

lemma relay_tunnel_request_sends:
  assumes "relay_tunnel_request cr e nw gw route_name route token_hash session request s = (response, t)"
    and "px_sent t \<noteq> px_sent s"
  obtains body validated where "admit_tunnel_request cr route request = Inr (body, validated)"
    and "sends_once cr route validated (tq_method request) s t"
proof -
  from assms obtain body validated where admitted: "admit_tunnel_request cr route request = Inr (body, validated)"
    by (auto simp: relay_tunnel_request_def split: sum.splits)
  have "obeys (sends_once cr route validated (tq_method request))
      (relay_tunnel_request cr e nw gw route_name route token_hash session request)"
    unfolding relay_tunnel_request_def admitted sum.case prod.case
    by (rule bind_sends_after)
      (auto intro: proxy_request_sends proxy_websocket_request_sends intro!: more_rules drop_response_more split: sum.split)
  from obeysD [OF this assms(1)] admitted show thesis by (rule that [rotated])
qed

text \<open>The checks of a request in a tunnel.\<close>

lemma tunnel_request_chain:
  assumes "transparent_tunnel_response cr e nw gw route_name token_hash session_id request s = (response, t)"
    and "px_sent t \<noteq> px_sent s"
  shows "\<exists>route db session body validated sent clock clock'.
    map_of (cf_proxy_routes (gw_config gw)) route_name = Some route
    \<and> sv_db s = Some db \<and> active_proxy_session clock db token_hash = Inr (Some session)
    \<and> ps_session_id session = session_id \<and> ps_profile session = rt_profile route
    \<and> profile_allowed_for clock' db (ps_subject session) (rt_profile route) ModeProxy = Inr True
    \<and> enforce_transparent_tunnel_target cr route (tq_uri request) (tq_headers request) = Inr ()
    \<and> collect_transparent_body (rt_max_body_bytes route) (tq_frames request) [] = Some body
    \<and> validate_proxy_request cr route (uri_path (tq_uri request)) (uri_query (tq_uri request)) (tq_method request)
        (tq_headers request) (length body) = Inr validated
    \<and> px_sent t = px_sent s @ [sent] \<and> ob_method sent = tq_method request
    \<and> build_target_url cr route validated = Inr (ob_target sent)"
proof -
  define s0 where "s0 = s\<lparr>io_ticks := Suc (io_ticks s)\<rparr>"
  have tick: "px_sent s0 = px_sent s" "sv_db s0 = sv_db s" by (simp_all add: s0_def)
  obtain found s1 where session0: "session_for_token e token_hash s0 = (found, s1)" by fastforce
  note sent1 = keeps_more_sent [OF obeysD [OF session_for_token_more session0]]
  from assms session0 tick sent1 obtain session route s2 permitted where
    found: "found = Inr (Some session)" and route: "map_of (cf_proxy_routes (gw_config gw)) route_name = Some route"
    and ids: "ps_session_id session = session_id" "ps_profile session = rt_profile route"
    and permitted: "profile_permitted e (ps_subject session) (ps_profile session) ModeProxy s1 = (permitted, s2)"
    by (auto simp: transparent_tunnel_response_def s0_def split: if_splits sum.splits option.splits prod.splits)
  note sent2 = keeps_more_sent [OF obeysD [OF permitted_more permitted]]
  from assms session0 tick sent1 sent2 found route ids permitted have allowed: "permitted = Inr True"
    and relay: "relay_tunnel_request cr e nw gw route_name route token_hash session request s2 = (response, t)"
    by (auto simp: transparent_tunnel_response_def s0_def split: if_splits sum.splits bool.splits)
  from session_for_token_Some [OF session0 [unfolded found]] tick obtain db clock where db: "sv_db s = Some db"
    "active_proxy_session clock db token_hash = Inr (Some session)" by auto
  have "sv_db s1 = Some db" using session_for_token_run [OF session0] db tick by simp
  from profile_permitted_True [OF permitted [unfolded allowed] this] obtain clock' where
    granted: "profile_allowed_for clock' db (ps_subject session) (ps_profile session) ModeProxy = Inr True" by blast
  have "px_sent t \<noteq> px_sent s2" using assms(2) sent1 sent2 tick by simp
  with relay obtain body validated where admitted: "admit_tunnel_request cr route request = Inr (body, validated)"
    and sends: "sends_once cr route validated (tq_method request) s2 t"
    by (rule relay_tunnel_request_sends)
  show ?thesis
    using route db ids granted admit_tunnel_request_Inr(1-3) [OF admitted] sends sent1 sent2 tick assms(2)
    by (intro exI [of _ route] exI [of _ db] exI [of _ session] exI [of _ body] exI [of _ validated])
      (auto simp: sends_once_def)
qed



section \<open>What the caller receives\<close>

text \<open>What is still to come of a streaming body.\<close>

definition stream_rest :: "body_stream \<Rightarrow> bytes" where
  "stream_rest st =
    (if bs_finished st then []
     else redact_stream (sr_patterns (bs_redactor st)) (sr_pending (bs_redactor st) @ concat (bs_chunks st)))"

text \<open>A body that is complete and not too large, and of which only the revocation of its lease can still fail.\<close>

definition stream_sound :: "body_stream \<Rightarrow> bool" where
  "stream_sound st \<longleftrightarrow> bs_complete st \<and> bs_total st + length (concat (bs_chunks st)) \<le> bs_maximum st"

definition stream_ok :: "body_stream \<Rightarrow> bool" where
  "stream_ok st \<longleftrightarrow> bs_finished st \<or> streaming_inv (bs_redactor st)"

text \<open>
  What one poll may answer: the next piece of what is to come, with fewer chunks left; the end, if nothing is
  left; or a failure, which for a sound body without a lease does not happen.
\<close>

definition poll_spec :: "body_stream \<Rightarrow> stream_item \<Rightarrow> bool" where
  "poll_spec st item \<longleftrightarrow>
     (case item of
        StreamChunk out st' \<Rightarrow> stream_ok st' \<and> stream_rest st = out @ stream_rest st'
          \<and> (\<not> bs_finished st' \<longrightarrow> length (bs_chunks st') < length (bs_chunks st))
          \<and> (stream_sound st \<longrightarrow> bs_finished st' \<or> stream_sound st') \<and> (bs_lease st = None \<longrightarrow> bs_lease st' = None)
      | StreamEnd \<Rightarrow> stream_rest st = []
      | StreamFailed _ \<Rightarrow> stream_sound st \<longrightarrow> bs_lease st \<noteq> None
      | StreamStuck \<Rightarrow> False)"

lemma stream_end_spec:
  assumes "stream_end cr e app st s = (item, t)" and "streaming_inv (bs_redactor st)" and "bs_chunks st = []"
    and "\<not> bs_finished st"
  shows "poll_spec st item"
  using assms
  by (auto simp: stream_end_def finish_spec poll_spec_def stream_rest_def stream_ok_def split: option.splits sum.splits prod.splits)

lemma stream_pull_spec:
  assumes "stream_pull cr e app (bs_chunks st) st s = (item, t)" and "streaming_inv (bs_redactor st)" and "\<not> bs_finished st"
  shows "poll_spec st item"
  using assms
proof (induction "bs_chunks st" arbitrary: st s)
  case Nil
  from Nil.hyps Nil.prems show ?case
    by (cases "bs_complete st")
      (auto simp: poll_spec_def stream_sound_def dest!: stream_end_spec split: prod.splits)
next
  case (Cons chunk chunks)
  from Cons.prems(2) obtain redactor out where push: "push chunk (bs_redactor st) = Some (redactor, out)"
    "streaming_inv redactor" "sr_patterns redactor = sr_patterns (bs_redactor st)"
    "\<And>ys. redact_stream (sr_patterns (bs_redactor st)) (sr_pending (bs_redactor st) @ chunk @ ys)
       = out @ redact_stream (sr_patterns (bs_redactor st)) (sr_pending redactor @ ys)"
    by (rule push_spec) blast
  let ?st = "st\<lparr>bs_chunks := chunks, bs_redactor := redactor, bs_total := bs_total st + length chunk\<rparr>"
  have rest: "stream_rest st = out @ stream_rest ?st"
    using push(3,4) Cons.prems(3) Cons.hyps(2) [symmetric] by (simp add: stream_rest_def)
  have sound: "stream_sound ?st \<longleftrightarrow> stream_sound st"
    using Cons.hyps(2) [symmetric] by (simp add: stream_sound_def add.assoc)
  show ?case
  proof (cases "bs_maximum st < bs_total st + length chunk")
    case True
    with Cons.prems(1) Cons.hyps(2) [symmetric] show ?thesis
      by (auto simp: poll_spec_def stream_sound_def split: prod.splits)
  next
    case False
    show ?thesis
    proof (cases "out = []")
      case True
      with False push(1) Cons.prems(1) Cons.hyps(2) [symmetric]
      have "stream_pull cr e app (bs_chunks ?st) ?st s = (item, t)" by simp
      from Cons.hyps(1) [OF _ this] push(2) Cons.prems(3) have "poll_spec ?st item" by simp
      with rest sound True Cons.hyps(2) [symmetric] show ?thesis
        by (auto simp: poll_spec_def split: stream_item.splits)
    next
      case out: False
      with False push(1) Cons.prems(1) Cons.hyps(2) [symmetric] have "item = StreamChunk out ?st" by simp
      with rest sound push(2) Cons.hyps(2) [symmetric] show ?thesis
        by (simp add: poll_spec_def stream_ok_def)
    qed
  qed
qed

lemma stream_next_spec: "stream_next cr e app st s = (item, t) \<Longrightarrow> stream_ok st \<Longrightarrow> poll_spec st item"
  by (auto simp: stream_next_def stream_ok_def poll_spec_def stream_rest_def split: if_splits dest!: stream_pull_spec)

lemma stream_read_prefix:
  "stream_ok st \<Longrightarrow> \<exists>out. fst (stream_read cr e app n st s) = Some out \<and> prefix out (stream_rest st)"
proof (induction n arbitrary: st s)
  case (Suc n)
  obtain item t where poll: "stream_next cr e app st s = (item, t)" by fastforce
  note spec = stream_next_spec [OF this Suc.prems]
  show ?case
  proof (cases item)
    case (StreamChunk out st')
    with spec have st': "stream_ok st'" "stream_rest st = out @ stream_rest st'" by (simp_all add: poll_spec_def)
    from Suc.IH [OF st'(1), of t] obtain more where "fst (stream_read cr e app n st' t) = Some more"
      "prefix more (stream_rest st')" by blast
    with poll StreamChunk st'(2) show ?thesis by (auto split: prod.splits)
  qed (use poll spec in \<open>auto simp: poll_spec_def\<close>)
qed (simp split: prod.splits)

lemma stream_read_complete:
  assumes "stream_ok st" and "bs_finished st \<or> stream_sound st" and "bs_lease st = None"
    and "(if bs_finished st then 0 else Suc (length (bs_chunks st))) \<le> n"
  shows "fst (stream_read cr e app n st s) = Some (stream_rest st)"
  using assms
proof (induction n arbitrary: st s)
  case 0
  then show ?case by (auto simp: stream_rest_def split: if_splits prod.splits)
next
  case (Suc n)
  obtain item t where poll: "stream_next cr e app st s = (item, t)" by fastforce
  note spec = stream_next_spec [OF this Suc.prems(1)]
  show ?case
  proof (cases item)
    case (StreamChunk out st')
    with poll have "\<not> bs_finished st" by (auto simp: stream_next_def split: if_splits)
    with StreamChunk spec Suc.prems have "stream_rest st = out @ stream_rest st'"
      and "fst (stream_read cr e app n st' t) = Some (stream_rest st')"
      by (auto simp: poll_spec_def intro!: Suc.IH)
    with poll StreamChunk show ?thesis by (auto split: prod.splits)
  next
    case (StreamFailed err)
    with poll spec Suc.prems show ?thesis by (auto simp: poll_spec_def stream_next_def split: if_splits)
  qed (use poll spec in \<open>auto simp: poll_spec_def\<close>)
qed

lemma hm_values_append: "set (hm_get_all (hm_append n v m) name) \<subseteq> insert v (set (hm_get_all m name))"
  by (auto simp: hm_append_def hm_get_all_def)

lemma response_headers_clean:
  assumes "response_headers cr redaction upstream configured acc = Inr headers"
    and "header_value_law cr" and "p \<in> set (patterns redaction)" and "avoids_marker p"
    and "\<And>name v. v \<in> set (hm_get_all acc name) \<Longrightarrow> \<not> sublist p (hv_bytes v)"
    and "v \<in> set (hm_get_all headers name)"
  shows "\<not> sublist p (hv_bytes v)"
  using assms(1,5,6)
proof (induction configured arbitrary: acc)
  case (Cons c configured)
  have clean: "\<not> sublist p (hv_bytes w)" if "redact_header cr redaction v = Some w" for v w
  proof -
    from that assms(2) have "w = HeaderValue (redact_bytes redaction (hv_bytes v)) False"
      by (auto simp: redact_header_def header_value_law_def)
    with buffered.no_pattern [OF TrueI assms(3,4)] show ?thesis by simp
  qed
  from Cons.prems(1) obtain n where n: "header_name_from_bytes cr c = Some n"
    "response_headers cr redaction upstream configured
       (case Option.bind (hm_get upstream n) (redact_header cr redaction) of None \<Rightarrow> acc | Some v \<Rightarrow> hm_append n v acc) = Inr headers"
    by (auto simp: result_iff)
  show ?case
    by (rule Cons.IH [OF n(2) _ Cons.prems(3)])
      (use clean Cons.prems(2) in \<open>auto simp: bind_eq_Some_conv dest: hm_values_append [THEN subsetD] split: option.splits\<close>)
qed auto

text \<open>A response hides a text: no header, no part of the body and no part of what a reader can pull shows it.\<close>

definition response_hides ::
    "('u, 'c) crates_scheme \<Rightarrow> env \<Rightarrow> app \<Rightarrow> bytes \<Rightarrow> http_response \<Rightarrow> 'z server_scheme \<Rightarrow> bool" where
  "response_hides cr e app p response s \<longleftrightarrow>
     (\<forall>name. \<forall>v\<in>set (hm_get_all (rs_headers response) name). \<not> sublist p (hv_bytes v))
     \<and> (case rs_body response of
          FullBody body \<Rightarrow> \<not> sublist p body
        | StreamBody st \<Rightarrow> \<forall>n. \<exists>out. fst (stream_read cr e app n st s) = Some out \<and> \<not> sublist p out
        | _ \<Rightarrow> False)"

lemma proxied_response_hides:
  assumes "proxied_response cr route redaction lease upstream = Inr response" and "header_value_law cr"
    and "redaction_set_inv redaction" and "p \<in> set (patterns redaction)" and "avoids_marker p"
  shows "response_hides cr e app p response s"
proof -
  from assms(1) obtain headers where headers: "rs_headers response = headers"
    "response_headers cr redaction (ur_headers upstream) (rt_allowed_response_headers route) hm_new = Inr headers"
    by (cases "rt_response_mode route") (auto simp: proxied_response_def result_iff split: if_splits)
  have "\<forall>name. \<forall>v\<in>set (hm_get_all (rs_headers response) name). \<not> sublist p (hv_bytes v)"
    using response_headers_clean [OF headers(2) assms(2,4,5)] headers(1) by (auto simp: hm_defs)
  moreover have "\<exists>out. fst (stream_read cr e app n st s) = Some out \<and> \<not> sublist p out"
    if "rs_body response = StreamBody st" for n st
  proof -
    from assms(1) that have st: "bs_redactor st = into_streaming redaction \<and> \<not> bs_finished st"
      by (cases "rt_response_mode route") (auto simp: proxied_response_def result_iff split: if_splits)
    then have "stream_ok st" by (simp add: stream_ok_def into_streaming_inv [OF assms(3)])
    from stream_read_prefix [OF this, of cr e app n s] obtain out where
      out: "fst (stream_read cr e app n st s) = Some out" "prefix out (stream_rest st)" by blast
    have "\<not> sublist p (stream_rest st)"
      using st redact_stream_clean [OF assms(5,4)] by (simp add: stream_rest_def into_streaming_def)
    with out show ?thesis by (meson prefix_imp_sublist sublist_order.order.trans)
  qed
  moreover have "\<not> sublist p body" if "rs_body response = FullBody body" for body
    using assms(1) that buffered.no_pattern [OF TrueI assms(4,5)]
    by (cases "rt_response_mode route") (auto simp: proxied_response_def result_iff split: if_splits)
  moreover have "(\<exists>body. rs_body response = FullBody body) \<or> (\<exists>st. rs_body response = StreamBody st)"
    using assms(1) by (cases "rt_response_mode route") (auto simp: proxied_response_def result_iff split: if_splits)
  ultimately show ?thesis by (auto simp: response_hides_def)
qed

lemma or_drop_Inr: "or_drop cr e app lease m s = (Inr x, t) \<longleftrightarrow> m s = (Inr x, t)"
  by (auto simp: or_drop_def split: sum.splits prod.splits)

lemma act_map_err_Inr: "act_map_err f m s = (Inr x, t) \<longleftrightarrow> m s = (Inr x, t)"
  by (auto simp: result_iff split: prod.splits)

lemma proxy_request_Inr:
  assumes "proxy_request cr e nw gw route subject validated meth headers body s = (Inr response, t)"
  shows "\<exists>profile values lease s1 s2. map_of (cf_profiles (gw_config gw)) (rt_profile route) = Some profile
    \<and> acquire_owned_proxy_secrets cr e (gateway_app gw) (rt_profile route) profile subject s = (Inr (values, lease), s1)
    \<and> forward_request cr nw route validated meth headers body values lease s1 = (Inr response, s2)"
proof -
  from assms obtain profile secrets lease s1 response' s2 where
    acquired: "map_of (cf_profiles (gw_config gw)) (rt_profile route) = Some profile"
      "acquire_owned_proxy_secrets cr e (gateway_app gw) (rt_profile route) profile subject s = (Inr (secrets, lease), s1)"
      "forward_request cr nw route validated meth headers body secrets lease s1 = (Inr response', s2)" and
    finish: "(case (rt_response_mode route, lease) of
        (Buffered, Some owner) \<Rightarrow>
          act_try (act_map_err LeaseRevocationFailed (owner_revoke cr e (gateway_app gw) owner)) (\<lambda>_. act_return (Inr response'))
      | _ \<Rightarrow> act_return (Inr response')) s2 = (Inr response, t)"
    by (auto simp: proxy_request_def act_try_Inr act_map_err_Inr or_drop_Inr result_iff simp del: act_map_err_run)
  from finish have "response' = response"
    by (cases "rt_response_mode route"; cases lease) (auto simp: act_try_Inr)
  with acquired show ?thesis by blast
qed

lemma forward_request_Inr:
  assumes "forward_request cr nw route validated meth headers body values lease s = (Inr response, t)"
  shows "\<exists>prepared upstream. prepare_credentials cr route (map_of values) body = Inr prepared
    \<and> proxied_response cr route (pc_redaction prepared) lease upstream = Inr response"
  using assms by (auto simp: forward_request_def act_try_Inr result_iff send_upstream_def)





end
