(* ===== verification/Session_Properties.thy ===== *)
theory Session_Properties
  imports Proxy_Properties
begin

text \<open>
  Properties of proxy sessions over their whole life, across the session service, the store, the listener and
  the WebSocket relay: what a relay passes on, that a new session works, and that a revoked one is cut off
  everywhere.
\<close>

section \<open>The relay\<close>

fun message_payload :: "ws_message \<Rightarrow> bytes" where
  "message_payload (WsText text) = text"
| "message_payload (WsBinary data) = data"
| "message_payload (WsPing data) = data"
| "message_payload (WsPong data) = data"
| "message_payload (WsClose None) = []"
| "message_payload (WsClose (Some (_, reason))) = reason"
| "message_payload (WsFrame data) = data"

fun event_length :: "('u, 'c) proxy_crates_scheme \<Rightarrow> relay_event \<Rightarrow> nat" where
  "event_length cr (FromCaller (WsMessage message _)) = ws_message_len cr message"
| "event_length cr (FromUpstream (WsMessage message _)) = ws_message_len cr message"
| "event_length cr _ = 0"

lemma redact_websocket_message_clean:
  assumes "redact_websocket_message redaction message = Inr redacted"
    and "p \<in> set (patterns redaction)" and "avoids_marker p"
  shows "\<not> sublist p (message_payload redacted)"
proof -
  have clean: "\<not> sublist p (redact_bytes redaction body)" for body
    by (rule buffered.no_pattern [OF TrueI assms(2,3)])
  show ?thesis
    using assms(1) clean avoids_marker_not_Nil [OF assms(3)]
    by (cases "(redaction, message)" rule: redact_websocket_message.cases)
      (auto simp: result_iff redact_text_def Let_def split: if_splits)
qed

text \<open>
  The messages passed on are clean; and while the relay runs, the counter is the length of all messages received,
  up to saturation, and within the limit.
\<close>

definition relay_clean :: "bytes \<Rightarrow> relay_state \<Rightarrow> bool" where
  "relay_clean p st \<longleftrightarrow> list_all (\<lambda>message. \<not> sublist p (message_payload message)) (rl_to_caller st @ rl_to_upstream st)"

definition relay_counts :: "websocket_session \<Rightarrow> nat \<Rightarrow> relay_state \<Rightarrow> bool" where
  "relay_counts session received st \<longleftrightarrow>
     rl_total st = min received (2 ^ 64 - 1) \<and> rl_total st \<le> ws_max_total_bytes (wc_policy session)"

lemma relay_message_clean:
  assumes "relay_message cr session pass incoming st = (status, st')" and "pass = to_upstream \<or> pass = to_caller"
    and "p \<in> set (patterns (wc_redaction session))" and "avoids_marker p" and "relay_clean p st"
  shows "relay_clean p st'"
  using assms redact_websocket_message_clean [OF _ assms(3,4)]
  by (auto simp: relay_message_def relay_clean_def to_upstream_def to_caller_def Let_def
      split: ws_incoming.splits if_splits sum.splits)

lemma relay_message_counts:
  assumes "relay_message cr session pass (WsMessage message written) st = (Running, st')"
    and "pass = to_upstream \<or> pass = to_caller" and "relay_counts session received st"
  shows "relay_counts session (received + ws_message_len cr message) st'"
  using assms
  by (auto simp: relay_message_def relay_counts_def to_upstream_def to_caller_def Let_def min_def
      split: if_splits sum.splits)

lemma relay_message_running:
  "relay_message cr session pass incoming st = (Running, st') \<Longrightarrow> \<exists>message. incoming = WsMessage message True"
  by (auto simp: relay_message_def Let_def split: ws_incoming.splits if_splits sum.splits)

lemma relay_renewal_logs:
  "relay_renewal cr e app session st s = ((status, st'), t) \<Longrightarrow>
     rl_to_caller st' = rl_to_caller st \<and> rl_to_upstream st' = rl_to_upstream st \<and> rl_total st' = rl_total st"
  by (auto simp: relay_renewal_def Let_def split: option.splits sum.splits prod.splits)

lemma relay_step_clean:
  assumes "relay_step cr e app session event st s = ((status, st'), t)"
    and "p \<in> set (patterns (wc_redaction session))" and "avoids_marker p" and "relay_clean p st"
  shows "relay_clean p st'"
proof (cases event)
  case (FromCaller incoming)
  with assms(1) have "relay_message cr session to_upstream incoming st = (status, st')" by (simp add: relay_step_def)
  from relay_message_clean [OF this _ assms(2-4)] show ?thesis by simp
next
  case (FromUpstream incoming)
  with assms(1) have "relay_message cr session to_caller incoming st = (status, st')" by (simp add: relay_step_def)
  from relay_message_clean [OF this _ assms(2-4)] show ?thesis by simp
qed (use assms in \<open>auto simp: relay_step_def relay_clean_def split: prod.splits dest!: relay_renewal_logs\<close>)

lemma relay_step_counts:
  assumes "relay_step cr e app session event st s = ((Running, st'), t)" and "relay_counts session received st"
  shows "relay_counts session (received + event_length cr event) st'"
proof (cases event)
  case (FromCaller incoming)
  with assms have run: "relay_message cr session to_upstream incoming st = (Running, st')" by (simp add: relay_step_def)
  from relay_message_running [OF run] obtain message where "incoming = WsMessage message True" ..
  with relay_message_counts [OF run [unfolded this] _ assms(2)] FromCaller show ?thesis by simp
next
  case (FromUpstream incoming)
  with assms have run: "relay_message cr session to_caller incoming st = (Running, st')" by (simp add: relay_step_def)
  from relay_message_running [OF run] obtain message where "incoming = WsMessage message True" ..
  with relay_message_counts [OF run [unfolded this] _ assms(2)] FromUpstream show ?thesis by simp
qed (use assms in \<open>auto simp: relay_step_def relay_counts_def split: prod.splits sum.splits dest!: relay_renewal_logs\<close>)

lemma relay_loop_inv:
  assumes "relay_loop cr e app session events st s = ((status, st'), t)"
    and "p \<in> set (patterns (wc_redaction session))" and "avoids_marker p" and "relay_clean p st"
    and "relay_counts session received st"
  shows "relay_clean p st' \<and> (status = Running \<longrightarrow> relay_counts session (received + sum_list (map (event_length cr) events)) st')"
  using assms(1,4,5)
proof (induction events arbitrary: st s received)
  case (Cons event events)
  obtain status1 st1 s1 where step: "relay_step cr e app session event st s = ((status1, st1), s1)" by (metis surj_pair)
  from relay_step_clean [OF step assms(2,3) Cons.prems(2)] have clean: "relay_clean p st1" .
  show ?case
  proof (cases status1)
    case Running
    with step Cons.prems(1) have "relay_loop cr e app session events st1 s1 = ((status, st'), t)" by simp
    from Cons.IH [OF this clean relay_step_counts [OF step [unfolded Running] Cons.prems(3)]] show ?thesis
      by (simp add: add.assoc)
  next
    case (Stopped result)
    with step Cons.prems(1) clean show ?thesis by auto
  qed
qed simp

lemma forward_upgrade_Inr:
  assumes "forward_upgrade cr nw route policy validated meth headers token_hash session_id values lease s = (Inr response, t)"
  shows "\<exists>prepared session. prepare_websocket_credentials cr route (map_of values) = Inr prepared
    \<and> rs_body response = SwitchedTo session \<and> wc_redaction session = pc_redaction prepared \<and> wc_policy session = policy
    \<and> wc_token_hash session = token_hash \<and> wc_session_id session = session_id \<and> wc_profile session = rt_profile route"
  using assms by (auto simp: forward_upgrade_def act_try_Inr result_iff Let_def send_upstream_def split: prod.splits)

lemma proxy_websocket_request_Inr:
  assumes "proxy_websocket_request cr e nw gw route subject validated meth headers token_hash session_id s = (Inr response, t)"
  shows "\<exists>policy profile values lease s1. rt_websocket route = Some policy
    \<and> validate_websocket_handshake cr headers policy = Inr ()
    \<and> map_of (cf_profiles (gw_config gw)) (rt_profile route) = Some profile
    \<and> acquire_owned_proxy_secrets cr e (gateway_app gw) (rt_profile route) profile subject s = (Inr (values, lease), s1)
    \<and> forward_upgrade cr nw route policy validated meth headers token_hash session_id values lease s1 = (Inr response, t)"
  using assms
  by (auto simp: proxy_websocket_request_def act_try_Inr act_map_err_Inr or_drop_Inr result_iff simp del: act_map_err_run
      split: if_splits)



section \<open>The life of a session\<close>

lemma authenticate_keeps:
  "authenticate cr e gw headers s = (r, t) \<Longrightarrow> sv_db t = sv_db s"
  by (auto simp: authenticate_def split: prod.splits dest!: authorize_keeps_store)

lemma session_update_Inr:
  assumes "session_update e change s = (Inr x, t)"
  shows "\<exists>db clock db'. sv_db s = Some db \<and> change clock db = Inr (db', x) \<and> sv_db t = Some db'"
  using assms
  by (auto simp: session_update_def store_update_def act_try_Inr split: option.splits dest!: store_query_Inr)

lemma require_session_store_Inr: "require_session_store s = (Inr x, t) \<Longrightarrow> t = s \<and> sv_db s \<noteq> None"
  by (auto simp: require_session_store_def split: if_splits)

text \<open>A token without an active session opens nothing, sends nothing and ends a relay at its next check.\<close>

definition dead_token :: "store_db \<Rightarrow> bytes \<Rightarrow> bool" where
  "dead_token db token_hash \<longleftrightarrow> (\<forall>clock session. active_proxy_session clock db token_hash \<noteq> Inr (Some session))"

lemma dead_token_session:
  assumes "dead_token db token_hash" and "sv_db s = Some db"
  shows "session_for_token e token_hash s \<noteq> (Inr (Some session), t)"
  using assms by (auto simp: dead_token_def dest!: session_for_token_Some)

lemma dead_token_connect:
  assumes "dead_token db (ac_token_hash authorized)" and "sv_db s = Some db"
    and "authorize_connect_request cr meth target headers (tr_catalog runtime) = Inr authorized"
  shows "ca_tunnel (fst (transparent_connect_response cr e nw runtime meth target headers s)) = None"
  using assms dead_token_session [OF assms(1), of "s\<lparr>io_ticks := Suc (io_ticks s)\<rparr>"]
  by (auto simp: transparent_connect_response_def refuse_connect_def transparent_proxy_auth_required_def
      split: option.splits sum.splits prod.splits)

lemma dead_token_tunnel:
  assumes "dead_token db token_hash" and "sv_db s = Some db"
  shows "px_sent (snd (transparent_tunnel_response cr e nw gw route_name token_hash session_id request s)) = px_sent s"
proof -
  obtain found t where found: "session_for_token e token_hash (s\<lparr>io_ticks := Suc (io_ticks s)\<rparr>) = (found, t)" by fastforce
  with dead_token_session [OF assms(1), of "s\<lparr>io_ticks := Suc (io_ticks s)\<rparr>"] assms(2)
  have "found = Inr None \<or> (\<exists>err. found = Inl err)" by (cases found; cases "projr found") auto
  moreover from keeps_more_sent [OF obeysD [OF session_for_token_more found]] have "px_sent t = px_sent s" by simp
  ultimately show ?thesis using found by (auto simp: transparent_tunnel_response_def)
qed

lemma websocket_session_is_active_True:
  assumes "websocket_session_is_active e token_hash session_id profile s = (Inr True, t)" and "sv_db s = Some db"
  shows "\<exists>clock session. active_proxy_session clock db token_hash = Inr (Some session)"
proof -
  from assms obtain found s' where query: "store_query e (\<lambda>clock. active_proxy_session clock db token_hash) s = (Inr found, s')"
    and found: "found \<noteq> None"
    by (auto simp: websocket_session_is_active_def act_try_Inr act_map_err_Inr simp del: act_map_err_run not_None_eq
        split: option.split_asm)
  from store_query_Inr [OF query] found show ?thesis by auto
qed

lemma dead_token_relay:
  assumes "dead_token db (wc_token_hash session)" and "sv_db s = Some db"
  shows "\<exists>err. fst (relay_loop cr e app session (SessionCheck # events) st s) = (Stopped (Inl err), st)"
proof -
  obtain active t where run: "require_active e session s = (active, t)" by fastforce
  have "active \<noteq> Inr ()"
  proof
    assume "active = Inr ()"
    with run have "\<exists>t. websocket_session_is_active e (wc_token_hash session) (wc_session_id session) (wc_profile session) s = (Inr True, t)"
      by (auto simp: require_active_def act_try_Inr split: if_split_asm)
    with websocket_session_is_active_True assms show False unfolding dead_token_def by metis
  qed
  with run show ?thesis by (cases active) (auto simp: relay_step_def)
qed

lemma revoke_for_subject_row:
  assumes "store_inv db" and "map_of (t_proxy_sessions db) session_id = Some row"
    and "revoke_proxy_session_for_subject db session_id subject = (db', True)"
  shows "map_of (t_proxy_sessions db') session_id = Some (row\<lparr>sr_revoked := True\<rparr>)"
proof -
  from assms(3) have "0 < rows_affected (\<lambda>k row. k = session_id \<and> sr_subject row = subject \<and> \<not> sr_revoked row) (t_proxy_sessions db)"
    by (simp add: revoke_proxy_session_for_subject_def)
  then obtain row' where "(session_id, row') \<in> set (t_proxy_sessions db)" "sr_subject row' = subject" "\<not> sr_revoked row'"
    by (auto simp: rows_affected_pos)
  moreover have "distinct (map fst (t_proxy_sessions db))" using assms(1) by (simp add: store_inv_def sessions_ok_def)
  ultimately have "row' = row" "sr_subject row = subject" using assms(2) by (auto dest: map_of_SomeD)
  with \<open>\<not> sr_revoked row'\<close> assms(2,3) show ?thesis
    by (auto simp: revoke_proxy_session_for_subject_def map_of_update_where simp del: map_of_eq_Some_iff)
qed

lemma rpc_revoke_Inr:
  assumes "rpc_revoke_proxy_session cr e gw headers session_id s = (Inr lease, t)" and "sv_db s = Some db"
  shows "\<exists>subject db1 db2 clock. revoke_proxy_session_for_subject db session_id subject = (db1, psl_revoked lease)
    \<and> record_audit clock db1 subject ''transparent_proxy_session_revoked'' None (Some session_id) None = Inr db2
    \<and> sv_db t = Some db2"
proof -
  from assms(1) obtain subject s1 s2 revoked s3 u where
    steps: "authenticate cr e gw headers s = (Inr subject, s1)" "require_session_store s1 = (Inr u, s2)"
      "session_update e (\<lambda>_ db. Inr (revoke_proxy_session_for_subject db session_id subject)) s2 = (Inr revoked, s3)"
      "audit_event_act e subject ''transparent_proxy_session_revoked'' None (Some session_id) None s3 = (Inr (), t)"
    and lease: "psl_revoked lease = revoked"
    by (auto simp: rpc_revoke_proxy_session_def act_try_Inr act_map_err_Inr simp del: act_map_err_run)
  from authenticate_keeps [OF steps(1)] require_session_store_Inr [OF steps(2)] assms(2) have "sv_db s2 = Some db" by simp
  with session_update_Inr [OF steps(3)] obtain db1 where db1: "revoke_proxy_session_for_subject db session_id subject = (db1, revoked)"
    "sv_db s3 = Some db1" by auto
  from audit_event_Inr [OF steps(4) db1(2)] db1(1) lease show ?thesis by blast
qed

text \<open>
  C25. A revocation reaches every path. After the owner of a session has revoked it, and whatever happens to the
  store after that, a CONNECT with its token opens no tunnel, a request in a tunnel opened before sends nothing
  upstream, and a WebSocket relay that still runs ends at its next check of the session without passing on
  another message.
\<close>

theorem revoked_session_cut_off:
  assumes "sv_db s = Some db" and "store_inv db"
    and "rpc_revoke_proxy_session cr e gw headers session_id s = (Inr lease, t)" and "psl_revoked lease"
    and "map_of (t_proxy_sessions db) session_id = Some row"
    and "sv_db t = Some db'" and "store_step\<^sup>*\<^sup>* db' db''" and "sv_db u = Some db''"
  shows "(\<forall>authorized. authorize_connect_request cr meth target connect_headers (tr_catalog runtime) = Inr authorized
           \<and> ac_token_hash authorized = sr_token_hash row
         \<longrightarrow> ca_tunnel (fst (transparent_connect_response cr e nw runtime meth target connect_headers u)) = None)
    \<and> px_sent (snd (transparent_tunnel_response cr e nw gw route_name (sr_token_hash row) session_id request u)) = px_sent u
    \<and> (wc_token_hash session = sr_token_hash row
         \<longrightarrow> (\<exists>err. fst (relay_loop cr e app session (SessionCheck # events) st u) = (Stopped (Inl err), st)))"
proof -
  from rpc_revoke_Inr [OF assms(3,1)] assms(4,6) obtain subject db1 clock where
    db1: "revoke_proxy_session_for_subject db session_id subject = (db1, True)"
    "record_audit clock db1 subject ''transparent_proxy_session_revoked'' None (Some session_id) None = Inr db'" by auto
  from step_revoke_own_session [of db session_id subject] db1(1) have "store_step db db1" by simp
  with assms(2) have "store_inv db1" by (rule store_step_inv)
  then have "store_inv db'" using step_audit [OF db1(2)] by (rule store_step_inv)
  moreover have "map_of (t_proxy_sessions db') session_id = Some (row\<lparr>sr_revoked := True\<rparr>)"
    using revoke_for_subject_row [OF assms(2,5) db1(1)] frame_audit [OF db1(2)] by simp
  ultimately have "dead_token db'' (sr_token_hash row)"
    using revoked_row_stays_dead [of db' session_id "row\<lparr>sr_revoked := True\<rparr>" db''] assms(7)
    by (auto simp: dead_token_def)
  then show ?thesis
    using dead_token_connect [OF _ assms(8)] dead_token_tunnel [OF _ assms(8)] dead_token_relay [OF _ assms(8)] by metis
qed

theorem revoked_session_cut_off_witness:
  "\<exists>u :: sample_url proxy_server. px_sent (snd (transparent_tunnel_response sample_proxy_crates gateway_env sample_network sample_gateway
      ''api'' gateway_token_hash gateway_session sample_tunnel_request u)) = px_sent u
    \<and> u = snd (rpc_revoke_proxy_session sample_proxy_crates gateway_env sample_gateway ada gateway_session gateway_state)"
proof -
  let ?run = "rpc_revoke_proxy_session sample_proxy_crates gateway_env sample_gateway ada gateway_session gateway_state"
  have "(case fst ?run of Inr lease \<Rightarrow> psl_revoked lease | _ \<Rightarrow> False)" by code_simp
  then obtain lease t where run: "?run = (Inr lease, t)" "psl_revoked lease" by (cases ?run) (auto split: sum.split_asm)
  from rpc_revoke_Inr [OF run(1) gateway_state_db] obtain db' where db': "sv_db t = Some db'" by blast
  from revoked_session_cut_off [OF gateway_state_db gateway_db_inv run gateway_db_session db' rtranclp.rtrancl_refl db'] run(1)
  show ?thesis by (simp add: gateway_row_def)
qed

subsection \<open>From the creation of a session to its tunnel\<close>

lemma rpc_create_Inr:
  assumes "rpc_create_proxy_session cr e gw headers profile s = (Inr lease, t)" and "sv_db s = Some db"
    and "authenticate cr e gw headers s = (Inr subject, s1)"
  shows "\<exists>clock clock' db1 db2 maximum.
    create_proxy_session clock db (psl_session_id lease) (proxy_session_token_hash cr (psl_token lease)) subject profile
      (psl_expires_unix_seconds lease) maximum = Inr db1
    \<and> record_audit clock' db1 subject ''transparent_proxy_session_created'' (Some profile) (Some (psl_session_id lease)) None = Inr db2
    \<and> sv_db t = Some db2"
proof -
  from assms(1,3) obtain s2 s3 s5 permitted sid hash token expires maximum x y k where
    steps: "require_session_store s1 = (Inr x, s2)" "profile_permitted e subject profile ModeProxy s2 = (Inr permitted, s3)"
      "session_update e (\<lambda>clock db. rbind (create_proxy_session clock db sid (proxy_session_token_hash cr token) subject
         profile expires maximum) (\<lambda>db'. Inr (db', ()))) (s3\<lparr>io_ticks := k\<rparr>) = (Inr y, s5)"
      "audit_event_act e subject ''transparent_proxy_session_created'' (Some profile) (Some sid) None s5 = (Inr (), t)"
    and lease: "psl_session_id lease = sid" "psl_token lease = token" "psl_expires_unix_seconds lease = expires"
    by (clarsimp simp: rpc_create_proxy_session_def act_try_Inr act_map_err_Inr mint_proxy_session_credential_def Let_def
        simp del: act_map_err_run split: if_split_asm)
  from authenticate_keeps [OF assms(3)] require_session_store_Inr [OF steps(1)] profile_permitted_run [OF steps(2)] assms(2)
  have "sv_db (s3\<lparr>io_ticks := k\<rparr>) = Some db" by simp
  with session_update_Inr [OF steps(3)] obtain clock db1 where db1: "create_proxy_session clock db sid
      (proxy_session_token_hash cr token) subject profile expires maximum = Inr db1" "sv_db s5 = Some db1"
    by (auto simp: result_iff)
  from audit_event_Inr [OF steps(4) db1(2)] db1(1) lease show ?thesis by blast
qed

lemma created_session_active:
  assumes "create_proxy_session clock db session_id token_hash subject profile expires maximum = Inr db'"
    and "0 \<le> now" and "now < expires" and "now < 2 ^ 63"
  shows "active_proxy_session now db' token_hash = Inr (Some
      \<lparr>ps_session_id = session_id, ps_subject = subject, ps_profile = profile, ps_expires = expires\<rparr>)"
proof -
  have "find (\<lambda>(k, row). sr_token_hash row = token_hash \<and> \<not> sr_revoked row \<and> now < sr_expires row) rows = None"
    if "\<not> list_ex (\<lambda>(_, row). sr_token_hash row = token_hash) rows" for rows :: "(string \<times> session_row) list"
    using that by (induction rows) auto
  moreover have "find P (xs @ [x]) = (case find P xs of None \<Rightarrow> if P x then Some x else None | Some y \<Rightarrow> Some y)"
    for P :: "string \<times> session_row \<Rightarrow> bool" and xs x by (induction xs) auto
  ultimately show ?thesis
    using assms
    by (auto simp: create_proxy_session_def validate_proxy_session_def active_proxy_session_def fetch_where_def
        session_of_row_def result_iff split: if_split_asm)
qed

lemma active_proxy_session_cong:
  "t_proxy_sessions db = t_proxy_sessions db' \<Longrightarrow> active_proxy_session clock db token_hash = active_proxy_session clock db' token_hash"
  by (simp add: active_proxy_session_def)

lemma admitted_connect:
  assumes up: "all_up e" and db: "sv_db u = Some db"
    and request: "authorize_connect_request cr meth target headers (tr_catalog runtime) = Inr authorized"
      "hm_get headers ''content-length'' = None" "ac_destination authorized = Injecting name (ps_profile session)"
    and active: "\<And>n. active_proxy_session (as_secs (env_clock e n)) db (ac_token_hash authorized) = Inr (Some session)"
    and granted: "\<And>n. profile_allowed_for (as_secs (env_clock e n)) db (ps_subject session) (ps_profile session) ModeProxy = Inr True"
  shows "fst (transparent_connect_response cr e nw runtime meth target headers u) =
    \<lparr>ca_status = 200, ca_authenticate = False,
     ca_tunnel = Some (InjectingTunnel name (ac_host authorized) (ac_token_hash authorized) (ps_session_id session))\<rparr>"
proof -
  have steps: "env_store_up e n" "env_slot e n" "now_unix_seconds (as_secs (env_clock e n)) = Inr (as_secs (env_clock e n))" for n
    using up by (simp_all add: all_up_def)
  show ?thesis
    by (simp add: transparent_connect_response_def request session_for_token_def profile_permitted_def store_query_def
        open_destination_def audit_event_act_def store_update_def record_audit_def act_try_def db active granted steps)
qed

text \<open>
  C26. A new session is usable. When a caller with a proxy grant has created a session, the store answers and the
  session and the grant have not run out, then a CONNECT with the token of the answer to a credential route of the
  profile is answered 200, and its tunnel carries the route, the hash of the token and the id of the new session.
\<close>

theorem created_session_usable:
  assumes "all_up e" and "sv_db s = Some db" and "authenticate cr e gw headers s = (Inr subject, s1)"
    and "rpc_create_proxy_session cr e gw headers profile s = (Inr lease, t)"
    and "sv_db u = sv_db t"
    and "\<And>n. as_secs (env_clock e n) < psl_expires_unix_seconds lease"
    and "\<And>n. profile_allowed_for (as_secs (env_clock e n)) db subject profile ModeProxy = Inr True"
    and "authorize_connect_request cr meth target connect_headers (tr_catalog runtime) = Inr authorized"
    and "hm_get connect_headers ''content-length'' = None"
    and "ac_destination authorized = Injecting name profile"
    and "ac_token_hash authorized = proxy_session_token_hash cr (psl_token lease)"
  shows "fst (transparent_connect_response cr e nw runtime meth target connect_headers u) =
    \<lparr>ca_status = 200, ca_authenticate = False,
     ca_tunnel = Some (InjectingTunnel name (ac_host authorized) (ac_token_hash authorized) (psl_session_id lease))\<rparr>"
proof -
  let ?session = "\<lparr>ps_session_id = psl_session_id lease, ps_subject = subject, ps_profile = profile,
    ps_expires = psl_expires_unix_seconds lease\<rparr>"
  from rpc_create_Inr [OF assms(4,2,3)] obtain clock clock' db1 db2 maximum where created:
    "create_proxy_session clock db (psl_session_id lease) (proxy_session_token_hash cr (psl_token lease)) subject profile
      (psl_expires_unix_seconds lease) maximum = Inr db1"
    "record_audit clock' db1 subject ''transparent_proxy_session_created'' (Some profile) (Some (psl_session_id lease)) None = Inr db2"
    "sv_db t = Some db2" by blast
  have times: "0 \<le> as_secs (env_clock e n)" "as_secs (env_clock e n) < 2 ^ 63" for n using assms(1) by (simp_all add: all_up_def)
  have tables: "t_proxy_sessions db2 = t_proxy_sessions db1" "t_capability_grants db2 = t_capability_grants db"
    using created(1,2) by (auto simp: record_audit_def create_proxy_session_def result_iff split: if_split_asm)
  have "active_proxy_session (as_secs (env_clock e n)) db2 (ac_token_hash authorized) = Inr (Some ?session)" for n
    using created_session_active [OF created(1) times(1) assms(6) times(2)] assms(11)
      active_proxy_session_cong [OF tables(1)] by simp
  moreover have "profile_allowed_for (as_secs (env_clock e n)) db2 (ps_subject ?session) (ps_profile ?session) ModeProxy = Inr True" for n
    using assms(7) tables(2) by (simp add: profile_allowed_for_def)
  ultimately show ?thesis
    using admitted_connect [OF assms(1) _ assms(8,9), of u db2 name ?session nw] assms(5,10) created(3) by simp
qed

theorem created_session_usable_witness:
  "\<exists>t :: sample_url proxy_server. ca_status (fst (transparent_connect_response sample_proxy_crates gateway_env sample_network sample_runtime
      ''CONNECT'' sample_connect_target (connect_with ''YWI'') t)) = 200"
proof -
  let ?auth = "authenticate sample_proxy_crates gateway_env sample_gateway ada gateway_state"
  let ?run = "rpc_create_proxy_session sample_proxy_crates gateway_env sample_gateway ada ''example'' gateway_state"
  let ?connect = "authorize_connect_request sample_proxy_crates ''CONNECT'' sample_connect_target (connect_with ''YWI'') (tr_catalog sample_runtime)"
  have "fst ?auth = Inr ''basic:ada''" by code_simp
  then obtain s1 where auth: "?auth = (Inr ''basic:ada'', s1)" by (cases ?auth) auto
  have "(case fst ?run of Inr lease \<Rightarrow> psl_token lease = ''YWI'' \<and> psl_expires_unix_seconds lease = 1300 | _ \<Rightarrow> False)" by code_simp
  then obtain lease t where run: "?run = (Inr lease, t)" "psl_token lease = ''YWI''" "psl_expires_unix_seconds lease = 1300"
    by (cases ?run) (auto split: sum.split_asm)
  have "(case ?connect of Inr authorized \<Rightarrow> ac_destination authorized = Injecting ''api'' ''example''
      \<and> ac_token_hash authorized = proxy_session_token_hash sample_proxy_crates ''YWI'' | _ \<Rightarrow> False)" by code_simp
  then obtain authorized where authorized: "?connect = Inr authorized" "ac_destination authorized = Injecting ''api'' ''example''"
    "ac_token_hash authorized = proxy_session_token_hash sample_proxy_crates ''YWI''" by (auto split: sum.split_asm)
  have clock: "as_secs (env_clock gateway_env n) = 1000" for n by (simp add: gateway_env_def auth_env_def as_secs_def secs_def)
  have granted: "profile_allowed_for 1000 gateway_db ''basic:ada'' ''example'' ModeProxy = Inr True" by code_simp
  have none: "hm_get (connect_with ''YWI'') ''content-length'' = None" by code_simp
  have "ca_status (fst (transparent_connect_response sample_proxy_crates gateway_env sample_network sample_runtime
      ''CONNECT'' sample_connect_target (connect_with ''YWI'') t)) = 200"
    using created_session_usable [OF gateway_env_up gateway_state_db auth run(1) refl _ _ authorized(1) none authorized(2)]
      run(2,3) authorized(3) clock granted by simp
  then show ?thesis by blast
qed

end
