(* ===== verification/Client_Host.thy ===== *)
theory Client_Host
  imports Sessions
begin

text \<open>
  The machine that the command line client (\<^verbatim>\<open>src/main.rs\<close>) runs on: environment variables, files with their
  modes, processes that it starts, the AV server and the identity provider that it talks to, and its clocks.
  What the machine answers is a field of \<open>host_env\<close>; what the client did to it is the state \<open>host\<close>. The kernel
  keyring, \<^verbatim>\<open>src/keyring.rs\<close>, is reached through the program \<^verbatim>\<open>keyctl\<close>.
\<close>

section \<open>Calls\<close>

text \<open>The requests to the AV server and their answers; the control service has its own types.\<close>

record rpc_auth_config =
  ra_client_id :: string
  ra_scopes :: "string list"
  ra_token_endpoint :: string
  ra_device_authorization_endpoint :: string

datatype client_call =
  GetAuthConfig
| ListProfiles
| ListProxyDestinations
| GetProfileEnvironment string string
| RenewProfileEnvironmentLease string
| RevokeProfileEnvironmentLease string
| CreateProxySession string
| RenewProxySession string
| RevokeProxySession string
| ControlCall control_request

datatype client_reply =
  AuthConfigReply rpc_auth_config
| ProfilesReply "profile_summary list"
| DestinationsReply "proxy_destination list"
| EnvironmentReply profile_environment
| EnvironmentLeaseReply profile_environment_lease
| ProxySessionReply proxy_session_lease
| ControlReply control_response

record client_request =
  cq_url :: string
  cq_authorization :: "string option"
  cq_call :: client_call

text \<open>An answer of the server; \<open>None\<close> is a body that does not decode.\<close>

record client_response =
  cp_status :: nat
  cp_body :: "client_reply option"

text \<open>The requests to the identity provider, and what it answers.\<close>

record device_authorization =
  da_device_code :: string
  da_user_code :: string
  da_verification_uri :: string
  da_verification_uri_complete :: "string option"
  da_expires_in :: nat
  da_interval :: nat

datatype oauth_body =
  DeviceBody device_authorization
| TokenBody string
| OAuthErrorBody string
| OtherBody

record form_post =
  fp_url :: string
  fp_form :: "(string \<times> string) list"

section \<open>Files and processes\<close>

datatype file_node = Directory (node_mode: nat) | RegularFile (node_mode: nat) bytes | OtherNode (node_mode: nat)

text \<open>A program that is run to its end, and the result.\<close>

record process =
  pr_program :: string
  pr_args :: "string list"
  pr_stdin :: bytes

record process_result =
  po_success :: bool
  po_stdout :: bytes

text \<open>A child process: its environment is that of the client with the changes of \<open>Command\<close>.\<close>

record child =
  ch_program :: string
  ch_args :: "string list"
  ch_env :: "string \<Rightarrow> bytes option"

section \<open>The machine\<close>

text \<open>
  The answers: \<open>he_fs\<close> says whether a file system call succeeds that nothing in the model stops, \<open>he_delay\<close> by how
  many nanoseconds a sleep is longer than asked for. \<open>he_create_mode\<close> and \<open>he_directory_mode\<close> are the modes of a
  new file and a new directory, \<open>he_user\<close> the user and group that files of the client belong to, \<open>he_ready\<close> whether
  the relay container has written its file yet. The fields at the end are calls of the crates.
\<close>

record host_env =
  he_var_os :: "string \<Rightarrow> bytes option"
  he_clock :: "nat \<Rightarrow> int"
  he_delay :: "nat \<Rightarrow> nat"
  he_fs :: "nat \<Rightarrow> bool"
  he_create_mode :: nat
  he_directory_mode :: nat
  he_server :: "client_request list \<Rightarrow> client_request \<Rightarrow> client_response option"
  he_post :: "form_post list \<Rightarrow> form_post \<Rightarrow> (nat \<times> oauth_body) option"
  he_run :: "process list \<Rightarrow> process \<Rightarrow> process_result option"
  he_spawn :: "child list \<Rightarrow> child \<Rightarrow> bool"
  he_port :: "nat \<Rightarrow> nat option"
  he_tempdir :: "nat \<Rightarrow> string \<Rightarrow> string option"
  he_canonical :: "string \<Rightarrow> string option"
  he_ready :: "nat \<Rightarrow> bool"
  he_process_id :: nat
  he_user :: "nat \<times> nat"
  he_terminal :: bool
  he_json_pretty :: "json \<Rightarrow> bytes option"
  he_pem_certificates :: "bytes \<Rightarrow> bytes list option"
  he_root_valid :: "bytes \<Rightarrow> bool"
  he_server_name :: "string \<Rightarrow> bool"

record host =
  ho_ticks :: nat
  ho_now :: nat
  ho_files :: "string \<Rightarrow> file_node option"
  ho_output :: "string list"
  ho_calls :: "client_request list"
  ho_posts :: "form_post list"
  ho_processes :: "process list"
  ho_children :: "child list"

definition host_tick :: "(nat \<Rightarrow> 'a) \<Rightarrow> (host, 'a) act" where
  "host_tick f s = (f (ho_ticks s), s\<lparr>ho_ticks := Suc (ho_ticks s)\<rparr>)"

text \<open>\<open>env::var\<close> refuses a value that is not UTF-8.\<close>

definition env_var :: "host_env \<Rightarrow> string \<Rightarrow> string option" where
  "env_var e name =
    (case he_var_os e name of None \<Rightarrow> None | Some v \<Rightarrow> if utf8_valid v then Some v else None)"

definition println :: "string \<Rightarrow> (host, unit) act" where
  "println text s = ((), s\<lparr>ho_output := ho_output s @ [text]\<rparr>)"

definition sleep :: "host_env \<Rightarrow> nat \<Rightarrow> (host, unit) act" where
  "sleep e nanos s =
    ((), s\<lparr>ho_ticks := Suc (ho_ticks s), ho_now := ho_now s + nanos + he_delay e (ho_ticks s)\<rparr>)"

definition call_server :: "host_env \<Rightarrow> client_request \<Rightarrow> (host, client_response option) act" where
  "call_server e request s = (he_server e (ho_calls s) request, s\<lparr>ho_calls := ho_calls s @ [request]\<rparr>)"

definition post_form :: "host_env \<Rightarrow> form_post \<Rightarrow> (host, (nat \<times> oauth_body) option) act" where
  "post_form e post s = (he_post e (ho_posts s) post, s\<lparr>ho_posts := ho_posts s @ [post]\<rparr>)"

definition run_process :: "host_env \<Rightarrow> string \<Rightarrow> string list \<Rightarrow> bytes \<Rightarrow> (host, process_result option) act" where
  "run_process e program args input s =
    (let process = \<lparr>pr_program = program, pr_args = args, pr_stdin = input\<rparr>
     in (he_run e (ho_processes s) process, s\<lparr>ho_processes := ho_processes s @ [process]\<rparr>))"

definition spawn_child :: "host_env \<Rightarrow> child \<Rightarrow> (host, bool) act" where
  "spawn_child e child s = (he_spawn e (ho_children s) child, s\<lparr>ho_children := ho_children s @ [child]\<rparr>)"

section \<open>Paths\<close>

text \<open>\<open>Path\<close> on Unix, for paths without \<^verbatim>\<open>.\<close> components: \<open>join\<close>, \<open>parent\<close>, \<open>file_name\<close> and \<open>is_absolute\<close>.\<close>

definition path_absolute :: "string \<Rightarrow> bool" where
  "path_absolute path \<longleftrightarrow> prefix ''/'' path"

definition path_join :: "string \<Rightarrow> string \<Rightarrow> string" where
  "path_join base path =
    (if path_absolute path \<or> base = [] then path
     else if suffix ''/'' base then base @ path
     else base @ CHR ''/'' # path)"

definition path_parent :: "string \<Rightarrow> string option" where
  "path_parent path =
    (let p = trim_end_matches CHR ''/'' path in
     if p = [] then None
     else case rsplit_once CHR ''/'' p of
       None \<Rightarrow> Some []
     | Some (front, _) \<Rightarrow>
         let q = trim_end_matches CHR ''/'' front in Some (if q = [] then ''/'' else q))"

definition path_file_name :: "string \<Rightarrow> string option" where
  "path_file_name path =
    (let p = trim_end_matches CHR ''/'' path;
         name = (case rsplit_once CHR ''/'' p of None \<Rightarrow> p | Some (_, segment) \<Rightarrow> segment)
     in if name = [] \<or> name = ''..'' then None else Some name)"

text \<open>A path with its ancestors, the shortest first.\<close>

definition path_chain :: "string \<Rightarrow> string list" where
  "path_chain path =
    (let segments = split_on CHR ''/'' (trim_end_matches CHR ''/'' path)
     in filter (\<lambda>p. p \<noteq> [] \<and> \<not> suffix ''/'' p)
          (map (\<lambda>n. join_on CHR ''/'' (take n segments)) [1..<Suc (length segments)]))"

section \<open>The file system\<close>

datatype io_error = IoNotFound | IoWrongKind | IoDenied

text \<open>\<open>fs::create_dir_all\<close>: the empty path is there already.\<close>

definition create_dir_all :: "host_env \<Rightarrow> string \<Rightarrow> (host, io_error + unit) act" where
  "create_dir_all e path s =
    (if path = [] then (Inr (), s)
     else
       let chain = path_chain path; s' = s\<lparr>ho_ticks := Suc (ho_ticks s)\<rparr> in
       if \<not> he_fs e (ho_ticks s) then (Inl IoDenied, s')
       else if list_ex (\<lambda>p. case ho_files s p of None \<Rightarrow> False | Some (Directory _) \<Rightarrow> False | _ \<Rightarrow> True) chain
       then (Inl IoWrongKind, s')
       else (Inr (), s'\<lparr>ho_files := (\<lambda>p. if p \<in> set chain \<and> ho_files s p = None
                                        then Some (Directory (he_directory_mode e)) else ho_files s p)\<rparr>))"

fun with_mode :: "nat \<Rightarrow> file_node \<Rightarrow> file_node" where
  "with_mode mode (Directory _) = Directory mode"
| "with_mode mode (RegularFile _ contents) = RegularFile mode contents"
| "with_mode mode (OtherNode _) = OtherNode mode"

definition set_permissions :: "host_env \<Rightarrow> string \<Rightarrow> nat \<Rightarrow> (host, io_error + unit) act" where
  "set_permissions e path mode s =
    (let s' = s\<lparr>ho_ticks := Suc (ho_ticks s)\<rparr> in
     case (if path = [] then None else ho_files s path) of
       None \<Rightarrow> (Inl IoNotFound, s')
     | Some node \<Rightarrow>
         if \<not> he_fs e (ho_ticks s) then (Inl IoDenied, s')
         else (Inr (), s'\<lparr>ho_files := (ho_files s)(path \<mapsto> with_mode mode node)\<rparr>))"

text \<open>\<open>fs::write\<close>: a file that is there keeps its mode. A relative name without a parent is in the working
  directory, which is there.\<close>

definition fs_write :: "host_env \<Rightarrow> string \<Rightarrow> bytes \<Rightarrow> (host, io_error + unit) act" where
  "fs_write e path contents s =
    (let s' = s\<lparr>ho_ticks := Suc (ho_ticks s)\<rparr> in
     if path = [] \<or> (case path_parent path of
                       None \<Rightarrow> True
                     | Some parent \<Rightarrow> parent \<noteq> [] \<and> parent \<noteq> ''/''
                         \<and> (case ho_files s parent of Some (Directory _) \<Rightarrow> False | _ \<Rightarrow> True))
     then (Inl IoNotFound, s')
     else if \<not> he_fs e (ho_ticks s) then (Inl IoDenied, s')
     else case ho_files s path of
       None \<Rightarrow> (Inr (), s'\<lparr>ho_files := (ho_files s)(path \<mapsto> RegularFile (he_create_mode e) contents)\<rparr>)
     | Some (RegularFile mode _) \<Rightarrow> (Inr (), s'\<lparr>ho_files := (ho_files s)(path \<mapsto> RegularFile mode contents)\<rparr>)
     | Some _ \<Rightarrow> (Inl IoWrongKind, s'))"

definition fs_metadata :: "string \<Rightarrow> (host, io_error + file_node) act" where
  "fs_metadata path s = (ok_or IoNotFound (if path = [] then None else ho_files s path), s)"

definition fs_read :: "host_env \<Rightarrow> string \<Rightarrow> (host, io_error + bytes) act" where
  "fs_read e path s =
    (let s' = s\<lparr>ho_ticks := Suc (ho_ticks s)\<rparr> in
     case (if path = [] then None else ho_files s path) of
       Some (RegularFile _ contents) \<Rightarrow> (if he_fs e (ho_ticks s) then Inr contents else Inl IoDenied, s')
     | Some _ \<Rightarrow> (Inl IoWrongKind, s')
     | None \<Rightarrow> (Inl IoNotFound, s'))"

definition path_exists :: "string \<Rightarrow> (host, bool) act" where
  "path_exists path s = (path \<noteq> [] \<and> ho_files s path \<noteq> None, s)"

definition is_file :: "file_node option \<Rightarrow> bool" where
  "is_file node = (case node of Some (RegularFile _ _) \<Rightarrow> True | _ \<Rightarrow> False)"

definition is_dir :: "file_node option \<Rightarrow> bool" where
  "is_dir node = (case node of Some (Directory _) \<Rightarrow> True | _ \<Rightarrow> False)"

text \<open>The modes \<^verbatim>\<open>0o700\<close> and \<^verbatim>\<open>0o600\<close>.\<close>

definition restrict_directory :: "host_env \<Rightarrow> string \<Rightarrow> (host, io_error + unit) act" where
  "restrict_directory e path = set_permissions e path 448"

definition restrict_file :: "host_env \<Rightarrow> string \<Rightarrow> (host, io_error + unit) act" where
  "restrict_file e path = set_permissions e path 384"

definition write_private_file :: "host_env \<Rightarrow> string \<Rightarrow> bytes \<Rightarrow> (host, io_error + unit) act" where
  "write_private_file e path contents =
    act_try
      (case path_parent path of
         None \<Rightarrow> act_return (Inr ())
       | Some parent \<Rightarrow> act_try (create_dir_all e parent) (\<lambda>_. restrict_directory e parent)) (\<lambda>_.
    act_try (fs_write e path contents) (\<lambda>_. restrict_file e path))"

definition xdg_path :: "host_env \<Rightarrow> string \<Rightarrow> string \<Rightarrow> string" where
  "xdg_path e variable fallback_suffix =
    (case he_var_os e variable of
       Some path \<Rightarrow> path
     | None \<Rightarrow> path_join (case he_var_os e ''HOME'' of None \<Rightarrow> ''.'' | Some home \<Rightarrow> home) fallback_suffix)"

section \<open>The keyring\<close>

datatype keyring_error = KeyctlUnavailable | EmptyToken | KeyctlRejected | KeyctlUnreadable | KeyctlUnlink | KeyctlText

definition keyring_description :: string where
  "keyring_description = ''av:oidc-access-token''"

definition keyring_search :: "host_env \<Rightarrow> (host, keyring_error + string option) act" where
  "keyring_search e =
    act_bind (run_process e ''keyctl'' [''search'', ''@u'', ''user'', keyring_description] []) (\<lambda>result.
      act_return
        (case result of
           None \<Rightarrow> Inl KeyctlUnavailable
         | Some output \<Rightarrow>
             if \<not> po_success output then Inr None
             else if \<not> utf8_valid (po_stdout output) then Inl KeyctlText
             else Inr (Some (trim (po_stdout output)))))"

definition keyring_load :: "host_env \<Rightarrow> (host, keyring_error + string option) act" where
  "keyring_load e =
    act_try (keyring_search e) (\<lambda>found.
      case found of
        None \<Rightarrow> act_return (Inr None)
      | Some key \<Rightarrow>
          act_bind (run_process e ''keyctl'' [''pipe'', key] []) (\<lambda>result.
            act_return
              (case result of
                 None \<Rightarrow> Inl KeyctlUnavailable
               | Some output \<Rightarrow>
                   if \<not> po_success output then Inl KeyctlUnreadable
                   else if \<not> utf8_valid (po_stdout output) then Inl KeyctlText
                   else Inr (Some (trim (po_stdout output))))))"

definition keyring_remove :: "host_env \<Rightarrow> (host, keyring_error + unit) act" where
  "keyring_remove e =
    act_try (keyring_search e) (\<lambda>found.
      case found of
        None \<Rightarrow> act_return (Inr ())
      | Some key \<Rightarrow>
          act_bind (run_process e ''keyctl'' [''unlink'', key, ''@u''] []) (\<lambda>result.
            act_return
              (case result of
                 None \<Rightarrow> Inl KeyctlUnavailable
               | Some output \<Rightarrow> if po_success output then Inr () else Inl KeyctlUnlink)))"

definition keyring_store :: "host_env \<Rightarrow> string \<Rightarrow> (host, keyring_error + unit) act" where
  "keyring_store e token =
    (if token = [] then act_return (Inl EmptyToken)
     else
       act_bind (keyring_remove e) (\<lambda>_.
       act_bind (run_process e ''keyctl'' [''padd'', ''user'', keyring_description, ''@u''] token) (\<lambda>result.
         act_return
           (case result of
              None \<Rightarrow> Inl KeyctlUnavailable
            | Some output \<Rightarrow> if po_success output then Inr () else Inl KeyctlRejected))))"

end
