(* ===== verification/Client_Calls.thy ===== *)
theory Client_Calls
  imports Client_Host
begin

text \<open>
  The calls of the command line client, \<^verbatim>\<open>src/main.rs\<close>: the credential of a call, the call itself, the
  administration commands, the initialisation of a local instance and the device login.
\<close>

section \<open>Errors\<close>

text \<open>An error is the text of its message, or the error of a file, the keyring or the configuration.\<close>

datatype client_error =
  Failure string
| FileFailed io_error
| KeyringFailed keyring_error
| ConfigInvalid config_error
| StatusError nat

section \<open>Credentials\<close>

definition is_loopback :: "string \<Rightarrow> bool" where
  "is_loopback host \<longleftrightarrow>
     eq_ignore_ascii_case host ''localhost''
     \<or> (case parse_ip_addr host of None \<Rightarrow> False | Some address \<Rightarrow> ip_is_loopback address)"

definition client :: "('u, 'z) crates_scheme \<Rightarrow> string \<Rightarrow> client_error + bool" where
  "client cr api_url =
    rbind (ok_or (Failure ''AV_URL must be a URL'') (url_parse cr api_url)) (\<lambda>url.
      if url_scheme cr url \<noteq> ''https'' \<and> \<not> (case url_host_str cr url of None \<Rightarrow> False | Some host \<Rightarrow> is_loopback host)
      then Inl (Failure ''AV_URL must use HTTPS unless it is loopback'')
      else Inr (url_scheme cr url = ''https''))"

text \<open>The mode test is \<^verbatim>\<open>mode & 0o077\<close>, the lowest six bits.\<close>

definition read_agent_token :: "host_env \<Rightarrow> string \<Rightarrow> (host, client_error + string) act" where
  "read_agent_token e path =
    act_try (act_map_err FileFailed (fs_metadata path)) (\<lambda>node.
      case node of
        RegularFile mode contents \<Rightarrow>
          if 256 < length contents then act_return (Inl (Failure ''AV agent token file must be a regular file no larger than 256 bytes''))
          else if mode mod 64 \<noteq> 0 then act_return (Inl (Failure ''AV agent token file must not be accessible by group or other users''))
          else
            act_try (act_map_err FileFailed (fs_read e path)) (\<lambda>raw.
              if \<not> utf8_valid raw then act_return (Inl (FileFailed IoWrongKind))
              else
                let token = (case strip_suffix [CHR 0x0A] raw of None \<Rightarrow> raw | Some t \<Rightarrow> t) in
                if length token \<noteq> 52 \<or> \<not> prefix ''av_agent_'' token
                   \<or> CHR 0x0D \<in> set token \<or> CHR 0x0A \<in> set token
                   \<or> \<not> list_all (\<lambda>c. is_ascii_alphanumeric c \<or> c = CHR ''-'' \<or> c = CHR ''_'') (drop 9 token)
                then act_return (Inl (Failure ''AV agent token file contains an invalid token''))
                else act_return (Inr token))
      | _ \<Rightarrow> act_return (Inl (Failure ''AV agent token file must be a regular file no larger than 256 bytes'')))"

definition authenticate_request ::
    "('u, 'z) crates_scheme \<Rightarrow> host_env \<Rightarrow> (host, client_error + string) act" where
  "authenticate_request cr e =
    (case env_var e ''AV_AGENT_TOKEN_FILE'' of
       Some path \<Rightarrow> act_try (read_agent_token e path) (\<lambda>token. act_return (Inr (''Agent '' @ token)))
     | None \<Rightarrow>
     (case env_var e ''AV_AGENT_TOKEN'' of
        Some token \<Rightarrow> act_return (Inr (''Agent '' @ token))
      | None \<Rightarrow>
      (case env_var e ''AV_TOKEN'' of
         Some token \<Rightarrow> act_return (Inr (''Bearer '' @ token))
       | None \<Rightarrow>
       (case (env_var e ''AV_BASIC_USER'', env_var e ''AV_BASIC_PASSWORD'') of
          (Some username, Some password) \<Rightarrow>
            act_return (Inr (''Basic '' @ base64_standard cr (username @ CHR '':'' # password)))
        | _ \<Rightarrow>
            act_try (act_map_err KeyringFailed (keyring_load e)) (\<lambda>stored.
              act_return (case stored of Some token \<Rightarrow> Inr (''Bearer '' @ token) | None \<Rightarrow> Inl (Failure ''not logged in'')))))))"

section \<open>A call\<close>

fun control_procedure :: "control_request \<Rightarrow> string" where
  "control_procedure ListBasicUsers = ''ListBasicUsers''"
| "control_procedure (UpsertBasicUser _ _) = ''UpsertBasicUser''"
| "control_procedure (SetBasicUserEnabled _ _) = ''SetBasicUserEnabled''"
| "control_procedure ListAgents = ''ListAgents''"
| "control_procedure (CreateAgent _) = ''CreateAgent''"
| "control_procedure (RotateAgent _) = ''RotateAgent''"
| "control_procedure (SetAgentEnabled _ _) = ''SetAgentEnabled''"
| "control_procedure (DeleteAgent _) = ''DeleteAgent''"
| "control_procedure ListPrincipalRoles = ''ListPrincipalRoles''"
| "control_procedure (SetPrincipalRole _ _) = ''SetPrincipalRole''"
| "control_procedure (ListAuditEvents _) = ''ListAuditEvents''"
| "control_procedure (ListProfileGrants _) = ''ListProfileGrants''"
| "control_procedure (GrantProfile _ _ _ _) = ''GrantProfile''"
| "control_procedure (RevokeProfile _ _) = ''RevokeProfile''"

fun procedure :: "client_call \<Rightarrow> string" where
  "procedure GetAuthConfig = ''av.v1.SessionService/GetAuthConfig''"
| "procedure ListProfiles = ''av.v1.SessionService/ListProfiles''"
| "procedure ListProxyDestinations = ''av.v1.SessionService/ListProxyDestinations''"
| "procedure (GetProfileEnvironment _ _) = ''av.v1.SessionService/GetProfileEnvironment''"
| "procedure (RenewProfileEnvironmentLease _) = ''av.v1.SessionService/RenewProfileEnvironmentLease''"
| "procedure (RevokeProfileEnvironmentLease _) = ''av.v1.SessionService/RevokeProfileEnvironmentLease''"
| "procedure (CreateProxySession _) = ''av.v1.SessionService/CreateProxySession''"
| "procedure (RenewProxySession _) = ''av.v1.SessionService/RenewProxySession''"
| "procedure (RevokeProxySession _) = ''av.v1.SessionService/RevokeProxySession''"
| "procedure (ControlCall request) = ''av.v1.ControlService/'' @ control_procedure request"

text \<open>A credential that is no header value fails when the request is sent; \<open>error_for_status\<close> refuses the
  statuses from 400 to 599.\<close>

definition send_request ::
    "('u, 'z) crates_scheme \<Rightarrow> host_env \<Rightarrow> string \<Rightarrow> client_call \<Rightarrow> string option \<Rightarrow> (host, client_error + client_reply) act" where
  "send_request cr e api_url call credential =
    (if (case credential of None \<Rightarrow> False | Some text \<Rightarrow> header_value_from_str cr text = None)
     then act_return (Inl (Failure ''builder error''))
     else
       act_bind (call_server e
         \<lparr>cq_url = trim_end_matches CHR ''/'' api_url @ CHR ''/'' # procedure call, cq_authorization = credential,
          cq_call = call\<rparr>) (\<lambda>response.
         act_return
           (case response of
              None \<Rightarrow> Inl (Failure ''error sending request'')
            | Some answer \<Rightarrow>
                if cp_status answer = 401 then Inl (Failure ''session is unauthorized or expired'')
                else if 400 \<le> cp_status answer \<and> cp_status answer < 600 then Inl (StatusError (cp_status answer))
                else ok_or (Failure ''error decoding response body'') (cp_body answer))))"

definition connect_request ::
    "('u, 'z) crates_scheme \<Rightarrow> host_env \<Rightarrow> string \<Rightarrow> client_call \<Rightarrow> bool \<Rightarrow> (host, client_error + client_reply) act" where
  "connect_request cr e api_url call authenticated =
    act_try (act_return (client cr api_url)) (\<lambda>_.
      if authenticated
      then act_try (authenticate_request cr e) (\<lambda>credential. send_request cr e api_url call (Some credential))
      else send_request cr e api_url call None)"

text \<open>The answer as the type that the caller asks for.\<close>

definition expect :: "('r \<Rightarrow> 'a option) \<Rightarrow> (host, client_error + 'r) act \<Rightarrow> (host, client_error + 'a) act" where
  "expect decode m = act_try m (\<lambda>reply. act_return (ok_or (Failure ''error decoding response body'') (decode reply)))"

definition control_call ::
    "('u, 'z) crates_scheme \<Rightarrow> host_env \<Rightarrow> string \<Rightarrow> control_request \<Rightarrow> (host, client_error + control_response) act" where
  "control_call cr e api_url request =
    expect (\<lambda>reply. case reply of ControlReply response \<Rightarrow> Some response | _ \<Rightarrow> None)
      (connect_request cr e api_url (ControlCall request) True)"

fun print_all :: "string list \<Rightarrow> (host, unit) act" where
  "print_all [] = act_return ()"
| "print_all (line # others) = act_bind (println line) (\<lambda>_. print_all others)"

abbreviation tab :: string where "tab \<equiv> [CHR 0x09]"

section \<open>Administration\<close>

datatype role_command = RoleList | RoleSet string string

datatype agent_command =
  AgentList
| AgentCreate string "string option"
| AgentRotate string "string option"
| AgentEnable string
| AgentDisable string
| AgentDelete string
| AgentGrant string string string int
| AgentRevoke string string

definition manage_role ::
    "('u, 'z) crates_scheme \<Rightarrow> host_env \<Rightarrow> string \<Rightarrow> role_command \<Rightarrow> (host, client_error + unit) act" where
  "manage_role cr e api_url command =
    (case command of
       RoleList \<Rightarrow>
         act_try (expect (\<lambda>r. case r of PrincipalRoles roles \<Rightarrow> Some roles | _ \<Rightarrow> None)
           (control_call cr e api_url ListPrincipalRoles)) (\<lambda>roles.
           act_bind (print_all (map (\<lambda>(subject, role). subject @ tab @ role) roles)) (\<lambda>_. act_return (Inr ())))
     | RoleSet subject role \<Rightarrow>
         act_try (control_call cr e api_url (SetPrincipalRole subject role)) (\<lambda>_. act_return (Inr ())))"

definition emit_agent_token :: "host_env \<Rightarrow> string \<Rightarrow> string option \<Rightarrow> (host, client_error + unit) act" where
  "emit_agent_token e token output =
    (case output of
       Some path \<Rightarrow>
         act_try (act_map_err FileFailed (write_private_file e path token)) (\<lambda>_.
           act_bind (println (''agent token written to '' @ path)) (\<lambda>_. act_return (Inr ())))
     | None \<Rightarrow> act_bind (println token) (\<lambda>_. act_return (Inr ())))"

definition issue_agent_token ::
    "('u, 'z) crates_scheme \<Rightarrow> host_env \<Rightarrow> string \<Rightarrow> control_request \<Rightarrow> string option \<Rightarrow> (host, client_error + unit) act" where
  "issue_agent_token cr e api_url request output =
    act_try (expect (\<lambda>r. case r of AgentCredential _ token \<Rightarrow> Some token | _ \<Rightarrow> None)
      (control_call cr e api_url request)) (\<lambda>token. emit_agent_token e token output)"

definition manage_agent ::
    "('u, 'z) crates_scheme \<Rightarrow> host_env \<Rightarrow> string \<Rightarrow> agent_command \<Rightarrow> (host, client_error + unit) act" where
  "manage_agent cr e api_url command =
    (case command of
       AgentList \<Rightarrow>
         act_try (expect (\<lambda>r. case r of Agents agents \<Rightarrow> Some agents | _ \<Rightarrow> None)
           (control_call cr e api_url ListAgents)) (\<lambda>agents.
           act_bind (print_all (map (\<lambda>agent. agent_name agent @ tab
                 @ (if agent_enabled agent then ''enabled'' else ''disabled'')) agents)) (\<lambda>_. act_return (Inr ())))
     | AgentCreate name output \<Rightarrow> issue_agent_token cr e api_url (CreateAgent name) output
     | AgentRotate name output \<Rightarrow> issue_agent_token cr e api_url (RotateAgent name) output
     | AgentEnable name \<Rightarrow> act_try (control_call cr e api_url (SetAgentEnabled name True)) (\<lambda>_. act_return (Inr ()))
     | AgentDisable name \<Rightarrow> act_try (control_call cr e api_url (SetAgentEnabled name False)) (\<lambda>_. act_return (Inr ()))
     | AgentDelete name \<Rightarrow> act_try (control_call cr e api_url (DeleteAgent name)) (\<lambda>_. act_return (Inr ()))
     | AgentGrant name profile mode expires \<Rightarrow>
         act_try (control_call cr e api_url (GrantProfile profile (''agent:'' @ name) mode expires)) (\<lambda>_. act_return (Inr ()))
     | AgentRevoke name profile \<Rightarrow>
         act_try (control_call cr e api_url (RevokeProfile profile (''agent:'' @ name))) (\<lambda>_. act_return (Inr ())))"

text \<open>\<open>list_profiles\<close> and \<open>list_proxy_destinations\<close> of the client.\<close>

definition show_profiles :: "('u, 'z) crates_scheme \<Rightarrow> host_env \<Rightarrow> string \<Rightarrow> (host, client_error + unit) act" where
  "show_profiles cr e api_url =
    act_try (expect (\<lambda>r. case r of ProfilesReply profiles \<Rightarrow> Some profiles | _ \<Rightarrow> None)
      (connect_request cr e api_url ListProfiles True)) (\<lambda>profiles.
      act_bind (print_all (map (\<lambda>p. sm_name p @ tab @ sm_environment p @ tab @ sm_secret_path p) profiles)) (\<lambda>_.
        act_return (Inr ())))"

definition show_proxy_destinations :: "('u, 'z) crates_scheme \<Rightarrow> host_env \<Rightarrow> string \<Rightarrow> (host, client_error + unit) act" where
  "show_proxy_destinations cr e api_url =
    act_try (expect (\<lambda>r. case r of DestinationsReply destinations \<Rightarrow> Some destinations | _ \<Rightarrow> None)
      (connect_request cr e api_url ListProxyDestinations True)) (\<lambda>destinations.
      act_bind (print_all (map (\<lambda>d. pd_name d @ tab @ pd_mode d @ tab @ pd_profile d @ tab @ pd_host d) destinations)) (\<lambda>_.
        act_return (Inr ())))"

section \<open>A local instance\<close>

definition local_config :: "string \<Rightarrow> string \<Rightarrow> string \<Rightarrow> string \<Rightarrow> string \<Rightarrow> config" where
  "local_config database_url_file issuer client_id allowed_role owner_subject =
    \<lparr>cf_listen = ''127.0.0.1:14322'', cf_public_url = ''http://127.0.0.1:14322'', cf_mode = Managed,
     cf_managed = Some
       \<lparr>mg_database_url_file = database_url_file, mg_database_credentials_file = [], mg_postgres = None,
        mg_database_reload_interval_seconds = 0, mg_initial_owner_oidc_subject = owner_subject\<rparr>,
     cf_auth =
       \<lparr>ac_mode = Oidc, ac_issuer = issuer, ac_client_id = client_id, ac_audiences = [client_id],
        ac_scopes = [''openid'', ''profile'', ''email''], ac_signing_algorithms = [Rs256], ac_allowed_groups = [allowed_role],
        ac_group_claim = ''urn:zitadel:iam:org:project:roles'', ac_basic_users = [], ac_github = None\<rparr>,
     cf_connectors = [], cf_profiles = [], cf_provider_operations = [], cf_proxy_routes = [], cf_proxy_tunnels = [],
     cf_transparent_proxy = None, cf_max_connector_concurrency = 16, cf_api_rate_limit_per_second = 50,
     cf_api_rate_limit_burst = 100\<rparr>"

definition json_texts :: "string list \<Rightarrow> json" where
  "json_texts texts = JArray (map JString texts)"

definition local_json :: "string \<Rightarrow> config \<Rightarrow> string \<Rightarrow> json" where
  "local_json database_url_file config owner_subject =
    JObject
      [(''listen'', JString (cf_listen config)),
       (''public_url'', JString (cf_public_url config)),
       (''mode'', JString ''managed''),
       (''managed'', JObject
         [(''database_url_file'', JString database_url_file), (''initial_owner_oidc_subject'', JString owner_subject)]),
       (''auth'', JObject
         [(''mode'', JString ''oidc''), (''issuer'', JString (ac_issuer (cf_auth config))),
          (''client_id'', JString (ac_client_id (cf_auth config))),
          (''audiences'', json_texts (ac_audiences (cf_auth config))), (''scopes'', json_texts (ac_scopes (cf_auth config))),
          (''signing_algorithms'', json_texts [''RS256'']),
          (''allowed_groups'', json_texts (ac_allowed_groups (cf_auth config))),
          (''group_claim'', JString (ac_group_claim (cf_auth config))), (''basic_users'', JArray [])]),
       (''connectors'', JObject []), (''profiles'', JObject []), (''provider_operations'', JObject []),
       (''proxy_routes'', JObject []), (''proxy_tunnels'', JObject []), (''transparent_proxy'', JNull),
       (''max_connector_concurrency'', JNumber (decimal (cf_max_connector_concurrency config))),
       (''api_rate_limit_per_second'', JNumber (decimal (cf_api_rate_limit_per_second config))),
       (''api_rate_limit_burst'', JNumber (decimal (cf_api_rate_limit_burst config)))]"

fun private_directories :: "host_env \<Rightarrow> string list \<Rightarrow> (host, client_error + unit) act" where
  "private_directories e [] = act_return (Inr ())"
| "private_directories e (directory # others) =
    act_try (act_map_err FileFailed (create_dir_all e directory)) (\<lambda>_.
    act_try (act_map_err FileFailed (restrict_directory e directory)) (\<lambda>_. private_directories e others))"

definition local_init ::
    "('u, 'z) crates_scheme \<Rightarrow> host_env \<Rightarrow> string option \<Rightarrow> bool \<Rightarrow> string \<Rightarrow> string \<Rightarrow> string \<Rightarrow> string
     \<Rightarrow> (host, client_error + unit) act" where
  "local_init cr e config_path force issuer client_id allowed_role owner_subject =
    (if issuer = [] \<or> client_id = [] \<or> allowed_role = [] \<or> owner_subject = []
     then act_return (Inl (Failure ''issuer, client-id, allowed-role, and owner-subject must be non-empty''))
     else
       let config_root = path_join (xdg_path e ''XDG_CONFIG_HOME'' ''.config'') ''av'';
           state_root = path_join (xdg_path e ''XDG_STATE_HOME'' ''.local/state'') ''av'';
           data_root = path_join (xdg_path e ''XDG_DATA_HOME'' ''.local/share'') ''av'';
           path = (case config_path of Some p \<Rightarrow> p | None \<Rightarrow> path_join config_root ''bootstrap.json'')
       in
       act_bind (path_exists path) (\<lambda>exists.
         if exists \<and> \<not> force
         then act_return (Inl (Failure ''the configuration already exists; use --force only after reviewing it''))
         else
           act_try (private_directories e [config_root, state_root, data_root, path_join data_root ''secrets'']) (\<lambda>_.
           let database_url_file = path_join data_root ''secrets/database-url'';
               database_path = path_join state_root ''av.sqlite3'' in
           act_try (act_map_err FileFailed (write_private_file e database_url_file (''sqlite:'' @ database_path))) (\<lambda>_.
           let config = local_config database_url_file issuer client_id allowed_role owner_subject in
           act_try (act_return (map_error ConfigInvalid (validate cr (he_var_os e) config))) (\<lambda>_.
           act_try (act_return (ok_or (Failure ''serialize local AV configuration'')
             (he_json_pretty e (local_json database_url_file config owner_subject)))) (\<lambda>rendered.
           act_try (act_map_err FileFailed (write_private_file e path rendered)) (\<lambda>_.
           act_bind (println (''local AV initialized at '' @ path)) (\<lambda>_.
           act_bind (println (''start it with: av serve --config '' @ path)) (\<lambda>_. act_return (Inr ()))))))))))"

section \<open>Login\<close>

text \<open>
  One round of the polling loop, after the sleep: the token, an error, or the interval of the next round. The
  interval is not bounded here; with one that \<^verbatim>\<open>u64\<close> cannot hold the deadline has passed long before.
\<close>

datatype poll_result = PollDone string | PollFailed client_error | PollAgain nat

definition poll_once :: "host_env \<Rightarrow> string \<Rightarrow> string \<Rightarrow> string \<Rightarrow> nat \<Rightarrow> (host, poll_result) act" where
  "poll_once e token_endpoint device_code client_id interval =
    act_bind (post_form e
      \<lparr>fp_url = token_endpoint,
       fp_form = [(''grant_type'', ''urn:ietf:params:oauth:grant-type:device_code''), (''device_code'', device_code),
                  (''client_id'', client_id)]\<rparr>) (\<lambda>response.
      act_return
        (case response of
           None \<Rightarrow> PollFailed (Failure ''error sending request'')
         | Some (status, body) \<Rightarrow>
             if 200 \<le> status \<and> status < 300
             then (case body of TokenBody token \<Rightarrow> PollDone token | _ \<Rightarrow> PollFailed (Failure ''error decoding response body''))
             else if status = 400
             then (case body of
                     OAuthErrorBody error \<Rightarrow>
                       if error = ''authorization_pending'' then PollAgain interval
                       else if error = ''slow_down'' then PollAgain (interval + 5)
                       else if error = ''access_denied'' then PollFailed (Failure ''OIDC login was denied'')
                       else if error = ''expired_token'' then PollFailed (Failure ''OIDC device code expired'')
                       else PollFailed (Failure (''OIDC login failed: '' @ error))
                   | _ \<Rightarrow> PollFailed (Failure ''error decoding response body''))
             else PollFailed (StatusError status)))"

partial_function (option) poll_token ::
    "host_env \<Rightarrow> string \<Rightarrow> string \<Rightarrow> string \<Rightarrow> nat \<Rightarrow> nat \<Rightarrow> host \<Rightarrow> ((client_error + string) \<times> host) option" where
  "poll_token e token_endpoint device_code client_id deadline interval s =
    (if deadline \<le> ho_now s then Some (Inl (Failure ''OIDC device code expired''), s)
     else
       let (_, s1) = sleep e (interval * 1000000000) s;
           (result, s2) = poll_once e token_endpoint device_code client_id interval s1
       in case result of
            PollDone token \<Rightarrow> Some (Inr token, s2)
          | PollFailed err \<Rightarrow> Some (Inl err, s2)
          | PollAgain interval \<Rightarrow> poll_token e token_endpoint device_code client_id deadline interval s2)"

text \<open>\<open>Instant + Duration\<close> panics when the seconds leave \<^verbatim>\<open>i64\<close>.\<close>

definition device_deadline :: "nat \<Rightarrow> nat \<Rightarrow> nat option" where
  "device_deadline now expires_in =
    (if (now + expires_in * 1000000000) div 1000000000 < 2 ^ 63 then Some (now + expires_in * 1000000000) else None)"

text \<open>The login: the device authorisation, the polling, and the token in the keyring.\<close>

definition authorize_device ::
    "('u, 'z) crates_scheme \<Rightarrow> host_env \<Rightarrow> string \<Rightarrow> (host, client_error + rpc_auth_config \<times> device_authorization) act" where
  "authorize_device cr e api_url =
    act_try (act_return (client cr api_url)) (\<lambda>_.
    act_try (expect (\<lambda>r. case r of AuthConfigReply config \<Rightarrow> Some config | _ \<Rightarrow> None)
      (connect_request cr e api_url GetAuthConfig False)) (\<lambda>auth.
      if ra_device_authorization_endpoint auth = []
      then act_return (Inl (Failure ''the configured OIDC client does not expose device authorization''))
      else if ra_token_endpoint auth = [] then act_return (Inl (Failure ''OIDC token endpoint is unavailable''))
      else
        act_bind (post_form e
          \<lparr>fp_url = ra_device_authorization_endpoint auth,
           fp_form = [(''client_id'', ra_client_id auth), (''scope'', join_on CHR '' '' (ra_scopes auth))]\<rparr>) (\<lambda>response.
        act_try (act_return
          (case response of
             None \<Rightarrow> Inl (Failure ''error sending request'')
           | Some (status, body) \<Rightarrow>
               if 400 \<le> status \<and> status < 600 then Inl (StatusError status)
               else (case body of DeviceBody device \<Rightarrow> Inr device | _ \<Rightarrow> Inl (Failure ''error decoding response body'')))) (\<lambda>device.
        act_bind (println (''Open '' @ da_verification_uri device @ '' and enter code '' @ da_user_code device)) (\<lambda>_.
        act_bind (run_process e ''xdg-open''
          [case da_verification_uri_complete device of Some url \<Rightarrow> url | None \<Rightarrow> da_verification_uri device] []) (\<lambda>_.
          act_return (Inr (auth, device))))))))"

definition keep_token :: "host_env \<Rightarrow> string \<Rightarrow> (host, client_error + unit) act" where
  "keep_token e token =
    act_try (act_map_err KeyringFailed (keyring_store e token)) (\<lambda>_.
    act_bind (println ''OIDC session stored in the Linux kernel user keyring'') (\<lambda>_. act_return (Inr ())))"

definition login :: "('u, 'z) crates_scheme \<Rightarrow> host_env \<Rightarrow> string \<Rightarrow> host \<Rightarrow> ((client_error + unit) \<times> host) option" where
  "login cr e api_url s =
    (case authorize_device cr e api_url s of
       (Inl err, s1) \<Rightarrow> Some (Inl err, s1)
     | (Inr (auth, device), s1) \<Rightarrow>
         (case device_deadline (ho_now s1) (da_expires_in device) of
            None \<Rightarrow> Some (Inl (Failure ''overflow when adding duration to instant''), s1)
          | Some deadline \<Rightarrow>
              (case poll_token e (ra_token_endpoint auth) (da_device_code device) (ra_client_id auth) deadline
                 (max (da_interval device) 1) s1 of
                 None \<Rightarrow> None
               | Some (Inl err, s2) \<Rightarrow> Some (Inl err, s2)
               | Some (Inr token, s2) \<Rightarrow> Some (keep_token e token s2))))"

end
