(* ===== verification/Local_Proxy.thy ===== *)
theory Local_Proxy
  imports Client_Calls
begin

text \<open>
  The proxy that the client runs for its child, \<^verbatim>\<open>src/main.rs\<close>: it listens on loopback or on a Unix socket,
  reads the head of a CONNECT request, adds the session token and forwards it over TLS to the proxy of the
  server. Also the trust store that the child gets.
\<close>

section \<open>The head of a request\<close>

definition crlf :: string where
  "crlf = [CHR 0x0D, CHR 0x0A]"

text \<open>What a read of a stream gives; no read left is the end of the stream, as is a read of no byte.\<close>

datatype stream_read = ReadData bytes | ReadFailed

definition max_proxy_header :: nat where
  "max_proxy_header = 16 * 1024"

fun read_proxy_header :: "stream_read list \<Rightarrow> bytes \<Rightarrow> client_error + bytes \<times> bytes \<times> stream_read list" where
  "read_proxy_header reads bytes =
    (case find_window (crlf @ crlf) bytes of
       Some index \<Rightarrow> Inr (take (index + 4) bytes, drop (index + 4) bytes, reads)
     | None \<Rightarrow>
         if max_proxy_header \<le> length bytes then Inl (Failure ''proxy request headers are too large'')
         else case reads of
           [] \<Rightarrow> Inl (Failure ''proxy connection closed before request headers'')
         | ReadFailed # _ \<Rightarrow> Inl (Failure ''read proxy headers'')
         | ReadData chunk # others \<Rightarrow>
             if chunk = [] then Inl (Failure ''proxy connection closed before request headers'')
             else read_proxy_header others (bytes @ chunk))"

declare read_proxy_header.simps [simp del]

text \<open>\<open>str::split("\r\n")\<close> and \<open>split_ascii_whitespace\<close>.\<close>

fun split_crlf :: "string \<Rightarrow> string list" where
  "split_crlf [] = [[]]"
| "split_crlf [c] = [[c]]"
| "split_crlf (a # b # cs) =
    (if a = CHR 0x0D \<and> b = CHR 0x0A then [] # split_crlf cs
     else case split_crlf (b # cs) of [] \<Rightarrow> [[a]] | x # xs \<Rightarrow> (a # x) # xs)"

definition ascii_words :: "string \<Rightarrow> string list" where
  "ascii_words s =
    filter (\<lambda>w. w \<noteq> []) (split_on CHR '' '' (map (\<lambda>c. if is_ascii_whitespace c then CHR '' '' else c) s))"

fun inject_lines :: "string list \<Rightarrow> nat \<Rightarrow> string \<Rightarrow> client_error + nat \<times> string" where
  "inject_lines [] host_count output = Inr (host_count, output)"
| "inject_lines (line # lines) host_count output =
    (if line = [] then Inr (host_count, output)
     else if hd line = CHR '' '' \<or> hd line = CHR 0x09 then Inl (Failure ''proxy request contains folded headers'')
     else case split_once CHR '':'' line of
       None \<Rightarrow> Inl (Failure ''proxy request has an invalid header'')
     | Some (name, val) \<Rightarrow>
         if eq_ignore_ascii_case name ''proxy-authorization'' then inject_lines lines host_count output
         else
           let host_count = (if eq_ignore_ascii_case name ''host'' then host_count + 1 else host_count) in
           if name = [] \<or> CHR 0x0D \<in> set val \<or> CHR 0x0A \<in> set val then Inl (Failure ''proxy request has an invalid header'')
           else inject_lines lines host_count (output @ line @ crlf))"

definition valid_proxy_token :: "string \<Rightarrow> bool" where
  "valid_proxy_token token \<longleftrightarrow> token \<noteq> [] \<and> \<not> list_ex (\<lambda>c. is_ascii_whitespace c \<or> is_ascii_control c) token"

definition inject_proxy_authorization :: "bytes \<Rightarrow> string \<Rightarrow> client_error + bytes" where
  "inject_proxy_authorization header token =
    (if \<not> valid_proxy_token token then Inl (Failure ''proxy session token is invalid'')
     else if \<not> utf8_valid header then Inl (Failure ''proxy request headers are not UTF-8'')
     else
       let lines = split_crlf header; request_line = hd lines in
       if \<not> (case ascii_words request_line of
               [meth, _, version] \<Rightarrow> meth = ''CONNECT'' \<and> version = ''HTTP/1.1''
             | _ \<Rightarrow> False)
       then Inl (Failure ''local proxy helper accepts CONNECT HTTP/1.1 only'')
       else
         rbind (inject_lines (tl lines) 0 (request_line @ crlf)) (\<lambda>(host_count, output).
           if host_count \<noteq> 1 then Inl (Failure ''proxy CONNECT request requires exactly one Host header'')
           else Inr (output @ ''Proxy-Authorization: Bearer '' @ token @ crlf @ crlf)))"

section \<open>One connection\<close>

text \<open>How the calls for the connection to the server go: TCP, TLS and the four writes.\<close>

record connection =
  cn_tcp :: bool
  cn_tls :: bool
  cn_write_request :: bool
  cn_write_response :: bool
  cn_write_remaining :: bool
  cn_write_remote_remaining :: bool

record connection_outcome =
  co_to_remote :: bytes
  co_to_client :: bytes
  co_result :: "client_error + bool"

text \<open>The bytes that were written and the result: an error, or whether the two sides are joined now.\<close>

definition proxy_local_connection ::
    "connection \<Rightarrow> string \<Rightarrow> stream_read list \<Rightarrow> stream_read list \<Rightarrow> connection_outcome" where
  "proxy_local_connection cn token client_reads remote_reads =
    (let stop = (\<lambda>to_remote to_client err. \<lparr>co_to_remote = to_remote, co_to_client = to_client, co_result = Inl (Failure err)\<rparr>) in
     case rbind (read_proxy_header client_reads []) (\<lambda>(header, remaining, _).
            rbind (inject_proxy_authorization header token) (\<lambda>rewritten. Inr (rewritten, remaining))) of
       Inl err \<Rightarrow> \<lparr>co_to_remote = [], co_to_client = [], co_result = Inl err\<rparr>
     | Inr (rewritten, remaining) \<Rightarrow>
         if \<not> cn_tcp cn then stop [] [] ''connect private AV proxy''
         else if \<not> cn_tls cn then stop [] [] ''verify private AV proxy transport TLS''
         else if \<not> cn_write_request cn then stop [] [] ''write''
         else (case read_proxy_header remote_reads [] of
           Inl err \<Rightarrow> \<lparr>co_to_remote = rewritten, co_to_client = [], co_result = Inl err\<rparr>
         | Inr (response, remote_remaining, _) \<Rightarrow>
             if \<not> cn_write_response cn then stop rewritten [] ''write''
             else if \<not> prefix ''HTTP/1.1 200'' response \<and> \<not> prefix ''HTTP/1.0 200'' response
             then \<lparr>co_to_remote = rewritten, co_to_client = response, co_result = Inr False\<rparr>
             else if remaining \<noteq> [] \<and> \<not> cn_write_remaining cn then stop rewritten response ''write''
             else if remote_remaining \<noteq> [] \<and> \<not> cn_write_remote_remaining cn then stop (rewritten @ remaining) response ''write''
             else \<lparr>co_to_remote = rewritten @ remaining, co_to_client = response @ remote_remaining, co_result = Inr True\<rparr>))"

section \<open>The server's proxy\<close>

record remote_proxy = rp_address :: string rp_server_name :: string

definition remote_proxy_target ::
    "('u, 'z) crates_scheme \<Rightarrow> host_env \<Rightarrow> string \<Rightarrow> client_error + remote_proxy" where
  "remote_proxy_target cr e remote_proxy_url =
    rbind (ok_or (Failure ''proxy session has an invalid proxy URL'') (url_parse cr remote_proxy_url)) (\<lambda>remote.
      case (url_host_str cr remote, url_port cr remote) of
        (Some host, Some port) \<Rightarrow>
          if url_scheme cr remote \<noteq> ''https'' \<or> parse_ip_addr host \<noteq> None
             \<or> url_username cr remote \<noteq> [] \<or> url_password cr remote \<noteq> None
             \<or> url_query cr remote \<noteq> None \<or> url_fragment cr remote \<noteq> None
             \<or> url_path cr remote \<notin> {[], ''/''}
          then Inl (Failure ''proxy session has an unsafe proxy URL'')
          else if \<not> he_server_name e host then Inl (Failure ''proxy session has an invalid DNS name'')
          else Inr \<lparr>rp_address = host @ CHR '':'' # decimal port, rp_server_name = host\<rparr>
      | _ \<Rightarrow> Inl (Failure ''proxy session has an unsafe proxy URL''))"

text \<open>The roots that are trusted besides the built-in ones.\<close>

definition transport_client_config :: "host_env \<Rightarrow> (host, client_error + bytes list) act" where
  "transport_client_config e =
    (case he_var_os e ''AV_PROXY_TRANSPORT_CA_FILE'' of
       None \<Rightarrow> act_return (Inr [])
     | Some path \<Rightarrow>
         if \<not> path_absolute path
         then act_return (Inl (Failure ''AV_PROXY_TRANSPORT_CA_FILE must be an absolute path''))
         else
           act_try (act_map_err FileFailed (fs_read e path)) (\<lambda>pem.
             if 256 * 1024 < length pem then act_return (Inl (Failure ''proxy transport CA certificate is too large''))
             else
               act_try (act_return (ok_or (Failure ''parse proxy transport CA certificate'') (he_pem_certificates e pem))) (\<lambda>certificates.
                 if certificates = [] then act_return (Inl (Failure ''proxy transport CA certificate is empty''))
                 else if \<not> list_all (he_root_valid e) certificates
                 then act_return (Inl (Failure ''proxy transport CA certificate is invalid''))
                 else act_return (Inr certificates))))"

text \<open>A listener: where it listens, where it forwards to and what it trusts.\<close>

record listener =
  li_address :: string
  li_remote :: remote_proxy
  li_roots :: "bytes list"
  li_token :: string

definition start_loopback_proxy ::
    "('u, 'z) crates_scheme \<Rightarrow> host_env \<Rightarrow> string \<Rightarrow> string \<Rightarrow> (host, client_error + listener) act" where
  "start_loopback_proxy cr e remote_proxy_url token =
    act_try (transport_client_config e) (\<lambda>roots.
    act_try (act_return (remote_proxy_target cr e remote_proxy_url)) (\<lambda>remote.
    act_bind (host_tick (he_port e)) (\<lambda>port.
      act_return
        (case port of
           None \<Rightarrow> Inl (Failure ''bind local proxy helper'')
         | Some p \<Rightarrow> Inr \<lparr>li_address = ''127.0.0.1:'' @ decimal p, li_remote = remote, li_roots = roots, li_token = token\<rparr>))))"

definition start_unix_proxy ::
    "('u, 'z) crates_scheme \<Rightarrow> host_env \<Rightarrow> string \<Rightarrow> string \<Rightarrow> string \<Rightarrow> (host, client_error + listener) act" where
  "start_unix_proxy cr e socket_path remote_proxy_url token =
    act_bind (path_exists socket_path) (\<lambda>exists.
      if \<not> path_absolute socket_path \<or> exists
      then act_return (Inl (Failure ''container relay socket must be a new absolute path''))
      else
        act_try (act_return (remote_proxy_target cr e remote_proxy_url)) (\<lambda>remote.
        act_try (transport_client_config e) (\<lambda>roots.
        act_bind (host_tick (he_fs e)) (\<lambda>bound.
          if \<not> bound then act_return (Inl (Failure ''bind private container relay socket''))
          else (\<lambda>s. (Inr \<lparr>li_address = socket_path, li_remote = remote, li_roots = roots, li_token = token\<rparr>,
                     s\<lparr>ho_files := (ho_files s)(socket_path \<mapsto> OtherNode (he_create_mode e))\<rparr>))))))"

section \<open>The trust store of a child\<close>

definition pem_begin :: string where
  "pem_begin = ''-----BEGIN CERTIFICATE-----''"

definition system_ca_bundles :: "string list" where
  "system_ca_bundles =
    [''/etc/ssl/certs/ca-certificates.crt'', ''/etc/pki/tls/certs/ca-bundle.crt'', ''/etc/ssl/ca-bundle.pem'',
     ''/etc/pki/ca-trust/extracted/pem/tls-ca-bundle.pem'']"

definition read_system_ca_bundle :: "host_env \<Rightarrow> (host, client_error + bytes) act" where
  "read_system_ca_bundle e s =
    (let explicit = (case he_var_os e ''AV_SYSTEM_CA_FILE'' of None \<Rightarrow> [] | Some path \<Rightarrow> [path]) in
     case find (\<lambda>path. path_absolute path \<and> is_file (ho_files s path)) (explicit @ system_ca_bundles) of
       None \<Rightarrow> (Inl (Failure ''no system CA bundle found''), s)
     | Some path \<Rightarrow>
         act_try (act_map_err FileFailed (fs_metadata path)) (\<lambda>node.
           if (case node of RegularFile _ contents \<Rightarrow> contents = [] \<or> 4 * 1024 * 1024 < length contents | _ \<Rightarrow> True)
           then act_return (Inl (Failure ''system CA bundle has an unsafe size''))
           else
             act_try (act_map_err FileFailed (fs_read e path)) (\<lambda>bundle.
               if \<not> sublist pem_begin bundle then act_return (Inl (Failure ''system CA bundle does not contain PEM certificates''))
               else act_return (Inr bundle))) s)"

text \<open>A private temporary directory, and its removal when its owner is dropped.\<close>

definition make_tempdir :: "host_env \<Rightarrow> string \<Rightarrow> (host, client_error + string) act" where
  "make_tempdir e name_prefix s =
    (let s' = s\<lparr>ho_ticks := Suc (ho_ticks s)\<rparr> in
     case he_tempdir e (ho_ticks s) name_prefix of
       None \<Rightarrow> (Inl (Failure ''create private directory''), s')
     | Some path \<Rightarrow> (Inr path, s'\<lparr>ho_files := (ho_files s)(path \<mapsto> Directory 448)\<rparr>))"

definition remove_tree :: "string \<Rightarrow> (host, unit) act" where
  "remove_tree path s =
    ((), s\<lparr>ho_files := (\<lambda>p. if p = path \<or> prefix (path @ ''/'') p then None else ho_files s p)\<rparr>)"

record proxy_ca_file = pc_directory :: string pc_bundle_path :: string pc_additional_path :: string

definition write_proxy_ca :: "host_env \<Rightarrow> string \<Rightarrow> (host, client_error + proxy_ca_file) act" where
  "write_proxy_ca e certificate_pem =
    (if \<not> sublist pem_begin certificate_pem \<or> 256 * 1024 < length certificate_pem
     then act_return (Inl (Failure ''AV returned an invalid proxy CA certificate''))
     else
       act_try (make_tempdir e ''av-proxy-'') (\<lambda>directory.
       let additional_path = path_join directory ''proxy-ca.pem''; bundle_path = path_join directory ''ca-bundle.pem'' in
       act_bind
         (act_try (act_map_err FileFailed (restrict_directory e directory)) (\<lambda>_.
          act_try (act_map_err FileFailed (write_private_file e additional_path certificate_pem)) (\<lambda>_.
          act_try (read_system_ca_bundle e) (\<lambda>system_ca.
          let bundle = system_ca @ (if suffix [CHR 0x0A] system_ca then [] else [CHR 0x0A]) @ certificate_pem in
          act_map_err FileFailed (write_private_file e bundle_path bundle)))))
         (\<lambda>written.
           case written of
             Inl err \<Rightarrow> act_bind (remove_tree directory) (\<lambda>_. act_return (Inl err))
           | Inr _ \<Rightarrow>
               act_return (Inr \<lparr>pc_directory = directory, pc_bundle_path = bundle_path, pc_additional_path = additional_path\<rparr>))))"

end
