(* ===== verification/Client_Run.thy ===== *)
theory Client_Run
  imports Local_Proxy
begin

text \<open>
  The commands of the client that run a child, \<^verbatim>\<open>src/main.rs\<close>: with the values of a profile in its environment,
  behind a local proxy, or in a container without a network. A run waits for several things at once
  (\<open>tokio::select!\<close>); the order in which they happen is the argument \<open>events\<close>, and a result of \<open>None\<close> is a run
  that still waits at the end of the list.
\<close>

section \<open>Clock and environment\<close>

text \<open>\<open>Url::as_str\<close> is used by the client only.\<close>

record 'u client_crates = "'u crates" +
  url_text :: "'u \<Rightarrow> string"

definition unix_now :: "host_env \<Rightarrow> (host, client_error + int) act" where
  "unix_now e =
    act_bind (host_tick (he_clock e)) (\<lambda>now.
      act_return
        (if now < 0 then Inl (Failure ''system clock is before Unix epoch'')
         else if 2 ^ 63 \<le> as_secs now then Inl (Failure ''system clock is outside supported range'')
         else Inr (as_secs now)))"

text \<open>\<open>checked_sub\<close> of two \<^verbatim>\<open>i64\<close>; the quotient of a positive number rounds down.\<close>

definition renewal_delay :: "host_env \<Rightarrow> int \<Rightarrow> (host, client_error + int) act" where
  "renewal_delay e expires =
    act_try (unix_now e) (\<lambda>now.
      act_return
        (let remaining = expires - now in
         if remaining < - (2 ^ 63) \<or> remaining \<le> 0 then Inl (Failure ''expired before renewal'')
         else Inr (max (remaining div 2) 1)))"

definition valid_env_name :: "string \<Rightarrow> bool" where
  "valid_env_name name \<longleftrightarrow>
     (case name of
        [] \<Rightarrow> False
      | c # cs \<Rightarrow> (is_ascii_alphabetic c \<or> c = CHR ''_'') \<and> list_all (\<lambda>c. is_ascii_alphanumeric c \<or> c = CHR ''_'') cs)"

text \<open>\<open>Command::envs\<close> and \<open>Command::env_remove\<close> on the inherited environment.\<close>

definition env_remove :: "string list \<Rightarrow> (string \<Rightarrow> bytes option) \<Rightarrow> string \<Rightarrow> bytes option" where
  "env_remove names env name = (if name \<in> set names then None else env name)"

definition env_set :: "(string \<times> bytes) list \<Rightarrow> (string \<Rightarrow> bytes option) \<Rightarrow> string \<Rightarrow> bytes option" where
  "env_set bindings env name = (case map_of bindings name of Some v \<Rightarrow> Some v | None \<Rightarrow> env name)"

definition profile_command :: "host_env \<Rightarrow> string \<Rightarrow> string list \<Rightarrow> (string \<times> string) list \<Rightarrow> child" where
  "profile_command e executable arguments secrets =
    \<lparr>ch_program = executable, ch_args = arguments,
     ch_env = env_remove
       [''AV_AGENT_TOKEN_FILE'', ''AV_AGENT_TOKEN'', ''AV_TOKEN'', ''AV_BASIC_USER'', ''AV_BASIC_PASSWORD'',
        ''AV_PROXY_TRANSPORT_CA_FILE'']
       (env_set secrets (he_var_os e))\<rparr>"

definition proxy_child_command ::
    "('u, 'z) client_crates_scheme \<Rightarrow> host_env \<Rightarrow> string \<Rightarrow> string list \<Rightarrow> string \<Rightarrow> string \<Rightarrow> string \<Rightarrow> client_error + child" where
  "proxy_child_command cr e executable arguments proxy_url ca_bundle_path additional_ca_path =
    rbind (ok_or (Failure ''local proxy URL is invalid'') (url_parse cr proxy_url)) (\<lambda>url.
      if url_scheme cr url \<noteq> ''http''
         \<or> (case url_host_str cr url of None \<Rightarrow> True | Some host \<Rightarrow> \<not> is_loopback host)
         \<or> url_port cr url = None \<or> url_username cr url \<noteq> [] \<or> url_password cr url \<noteq> None
         \<or> url_query cr url \<noteq> None \<or> url_fragment cr url \<noteq> None \<or> url_path cr url \<notin> {[], ''/''}
      then Inl (Failure ''local proxy URL must be a credential-free loopback HTTP origin'')
      else Inr
        \<lparr>ch_program = executable, ch_args = arguments,
         ch_env = env_remove
           [''AV_AGENT_TOKEN_FILE'', ''AV_AGENT_TOKEN'', ''AV_TOKEN'', ''AV_BASIC_USER'', ''AV_BASIC_PASSWORD'',
            ''AV_PROXY_TRANSPORT_CA_FILE'', ''AV_SYSTEM_CA_FILE'', ''NO_PROXY'', ''no_proxy'', ''ALL_PROXY'', ''all_proxy'']
           (env_set
             [(''HTTP_PROXY'', url_text cr url), (''HTTPS_PROXY'', url_text cr url), (''http_proxy'', url_text cr url),
              (''https_proxy'', url_text cr url), (''SSL_CERT_FILE'', ca_bundle_path),
              (''NODE_EXTRA_CA_CERTS'', additional_ca_path), (''CURL_CA_BUNDLE'', ca_bundle_path),
              (''REQUESTS_CA_BUNDLE'', ca_bundle_path), (''GIT_SSL_CAINFO'', ca_bundle_path),
              (''CODEX_CA_CERTIFICATE'', additional_ca_path)]
             (he_var_os e))\<rparr>)"

section \<open>Waiting for a child\<close>

text \<open>
  How a child ends: it exits with a code or by a signal (\<open>None\<close>), it is killed after an interrupt and then exits,
  or waiting for it or for the interrupt fails.
\<close>

datatype child_end = Exited "int option" | Interrupted "int option" | WaitFailed | SignalFailed

definition exit_code :: "int \<Rightarrow> int option \<Rightarrow> nat" where
  "exit_code fallback code = nat (max 0 (min 255 (case code of None \<Rightarrow> fallback | Some c \<Rightarrow> c)))"

fun child_result :: "child_end \<Rightarrow> client_error + nat" where
  "child_result (Exited code) = Inr (exit_code 1 code)"
| "child_result (Interrupted code) = Inr (exit_code 1 code)"
| "child_result WaitFailed = Inl (Failure ''wait for child process'')"
| "child_result SignalFailed = Inl (Failure ''wait for interrupt'')"

text \<open>\<open>RenewalDue\<close> is the end of the sleep before a renewal.\<close>

datatype 'a run_event = Ends 'a | RenewalDue

type_synonym run_result = "(client_error + nat) option"

definition run_try ::
    "(host, client_error + 'a) act \<Rightarrow> ('a \<Rightarrow> (host, run_result) act) \<Rightarrow> (host, run_result) act" where
  "run_try m f = act_bind m (\<lambda>r. case r of Inl err \<Rightarrow> act_return (Some (Inl err)) | Inr x \<Rightarrow> f x)"

text \<open>
  A child without a lease, and a child with the renewal of one, whichever ends first. The delay is computed
  before every sleep, so an expired lease ends the run. \<open>renew\<close> is one renewal; it gives the new expiry. The child
  is started first; \<open>select!\<close> may also look at the renewal first and so not start the child of a lease that has
  already run out.
\<close>

fun await_end :: "('a \<Rightarrow> client_error + nat) \<Rightarrow> 'a run_event list \<Rightarrow> (host, run_result) act" where
  "await_end outcome [] = act_return None"
| "await_end outcome (Ends x # _) = act_return (Some (outcome x))"
| "await_end outcome (RenewalDue # events) = await_end outcome events"

fun await_renewing ::
    "host_env \<Rightarrow> (host, client_error + int) act \<Rightarrow> ('a \<Rightarrow> client_error + nat) \<Rightarrow> int \<Rightarrow> 'a run_event list \<Rightarrow> (host, run_result) act" where
  "await_renewing e renew outcome expires [] = run_try (renewal_delay e expires) (\<lambda>_. act_return None)"
| "await_renewing e renew outcome expires (Ends x # _) =
    run_try (renewal_delay e expires) (\<lambda>_. act_return (Some (outcome x)))"
| "await_renewing e renew outcome expires (RenewalDue # events) =
    run_try (renewal_delay e expires) (\<lambda>_.
    run_try renew (\<lambda>expires. await_renewing e renew outcome expires events))"

text \<open>The answers of the server in a run. \<open>expires \<le> unix_now()?\<close> reads the clock only when the answer fits.\<close>

definition check_renewal :: "host_env \<Rightarrow> bool \<Rightarrow> int \<Rightarrow> (host, client_error + int) act" where
  "check_renewal e fits expires =
    (if \<not> fits then act_return (Inl (Failure ''AV returned an invalid renewal''))
     else
       act_try (unix_now e) (\<lambda>now.
         act_return (if expires \<le> now then Inl (Failure ''AV returned an invalid renewal'') else Inr expires)))"

definition renew_environment_lease ::
    "('u, 'z) crates_scheme \<Rightarrow> host_env \<Rightarrow> string \<Rightarrow> string \<Rightarrow> (host, client_error + int) act" where
  "renew_environment_lease cr e api_url lease_id =
    act_try (expect (\<lambda>r. case r of EnvironmentLeaseReply lease \<Rightarrow> Some lease | _ \<Rightarrow> None)
      (connect_request cr e api_url (RenewProfileEnvironmentLease lease_id) True)) (\<lambda>renewed.
      check_renewal e (pel_lease_id renewed = lease_id \<and> \<not> pel_revoked renewed) (pel_expires_unix_seconds renewed))"

definition proxy_session_call ::
    "('u, 'z) crates_scheme \<Rightarrow> host_env \<Rightarrow> string \<Rightarrow> client_call \<Rightarrow> (host, client_error + proxy_session_lease) act" where
  "proxy_session_call cr e api_url call =
    expect (\<lambda>r. case r of ProxySessionReply lease \<Rightarrow> Some lease | _ \<Rightarrow> None) (connect_request cr e api_url call True)"

definition renew_proxy_session ::
    "('u, 'z) crates_scheme \<Rightarrow> host_env \<Rightarrow> string \<Rightarrow> string \<Rightarrow> (host, client_error + int) act" where
  "renew_proxy_session cr e api_url session_id =
    act_try (proxy_session_call cr e api_url (RenewProxySession session_id)) (\<lambda>renewed.
      check_renewal e (psl_session_id renewed = session_id \<and> \<not> psl_revoked renewed) (psl_expires_unix_seconds renewed))"

section \<open>A child with the values of a profile\<close>

fun check_duplicates :: "string list \<Rightarrow> string list \<Rightarrow> client_error + unit" where
  "check_duplicates seen [] = Inr ()"
| "check_duplicates seen (name # names) =
    (if name \<in> set seen then Inl (Failure (''profile returned duplicate environment variable '' @ name))
     else check_duplicates (name # seen) names)"

definition check_environment :: "(string \<times> string) list \<Rightarrow> client_error + unit" where
  "check_environment values =
    rbind (check_duplicates [] (map fst values)) (\<lambda>_.
      case find (\<lambda>name. \<not> valid_env_name name) (sort (map fst values)) of
        Some name \<Rightarrow> Inl (Failure (''profile contains a key that is not a valid environment variable: '' @ name))
      | None \<Rightarrow> Inr ())"

definition start_child :: "host_env \<Rightarrow> child \<Rightarrow> (host, client_error + unit) act" where
  "start_child e child =
    act_bind (spawn_child e child) (\<lambda>started.
      act_return (if started then Inr () else Inl (Failure ''start child process'')))"

text \<open>The result of a run and of the revocation that ends it.\<close>

definition revoked_status :: "client_error + nat \<Rightarrow> client_error + profile_environment_lease \<Rightarrow> client_error + nat" where
  "revoked_status status revoke =
    (case (status, revoke) of
       (Inr code, Inr response) \<Rightarrow>
         if pel_revoked response then Inr code else Inl (Failure ''AV returned an invalid dynamic lease revocation'')
     | (Inl err, _) \<Rightarrow> Inl err
     | (Inr _, Inl err) \<Rightarrow> Inl err)"

definition profile_arguments :: "string list \<Rightarrow> client_error + string \<times> string \<times> string list \<times> string" where
  "profile_arguments arguments =
    (if length arguments < 2 then Inl (Failure ''usage: av <profile> -- <command> [args...]'')
     else if \<not> utf8_valid (hd arguments) then Inl (Failure ''profile must be UTF-8'')
     else
       let rest = (if hd (tl arguments) = ''--'' then tl (tl arguments) else tl arguments) in
       case rest of
         [] \<Rightarrow> Inl (Failure ''usage: av <profile> -- <command> [args...]'')
       | executable # others \<Rightarrow>
           (case path_file_name executable of
              Some basename \<Rightarrow>
                if utf8_valid basename then Inr (hd arguments, executable, others, basename)
                else Inl (Failure ''command name must be valid UTF-8'')
            | None \<Rightarrow> Inl (Failure ''command name must be valid UTF-8'')))"

definition run_profile ::
    "('u, 'z) crates_scheme \<Rightarrow> host_env \<Rightarrow> string \<Rightarrow> string list \<Rightarrow> child_end run_event list \<Rightarrow> (host, run_result) act" where
  "run_profile cr e api_url arguments events =
    run_try (act_return (profile_arguments arguments)) (\<lambda>(profile, executable, arguments, basename).
    run_try (expect (\<lambda>r. case r of EnvironmentReply environment \<Rightarrow> Some environment | _ \<Rightarrow> None)
      (connect_request cr e api_url (GetProfileEnvironment profile basename) True)) (\<lambda>environment.
    run_try (act_return (check_environment (env_values environment))) (\<lambda>_.
    let child = profile_command e executable arguments (env_values environment);
        lease_id = env_lease_id environment in
    if lease_id = []
    then if env_expires_unix_seconds environment \<noteq> 0
         then act_return (Some (Inl (Failure ''AV returned an invalid static profile environment'')))
         else run_try (start_child e child) (\<lambda>_. await_end child_result events)
    else if env_expires_unix_seconds environment \<le> 0
    then act_return (Some (Inl (Failure ''AV returned an invalid dynamic profile lease'')))
    else
      act_bind (run_try (start_child e child) (\<lambda>_.
        await_renewing e (renew_environment_lease cr e api_url lease_id) child_result
          (env_expires_unix_seconds environment) events)) (\<lambda>result.
        case result of
          None \<Rightarrow> act_return None
        | Some status \<Rightarrow>
            act_bind (expect (\<lambda>r. case r of EnvironmentLeaseReply lease \<Rightarrow> Some lease | _ \<Rightarrow> None)
              (connect_request cr e api_url (RevokeProfileEnvironmentLease lease_id) True)) (\<lambda>revoke.
              act_return (Some (revoked_status status revoke)))))))"

section \<open>A child behind the local proxy\<close>

definition complete_session :: "proxy_session_lease \<Rightarrow> bool" where
  "complete_session lease \<longleftrightarrow>
     psl_session_id lease \<noteq> [] \<and> psl_token lease \<noteq> [] \<and> psl_proxy_url lease \<noteq> [] \<and> psl_ca_certificate_pem lease \<noteq> []"

text \<open>A run inside a session: whatever its result, the session is revoked after it.\<close>

definition session_status :: "client_error + nat \<Rightarrow> client_error + proxy_session_lease \<Rightarrow> client_error + nat" where
  "session_status status revoke =
    (case (status, revoke) of
       (Inl err, _) \<Rightarrow> Inl err
     | (Inr _, Inl err) \<Rightarrow> Inl err
     | (Inr code, Inr _) \<Rightarrow> Inr code)"

definition within_session ::
    "('u, 'z) crates_scheme \<Rightarrow> host_env \<Rightarrow> string \<Rightarrow> string \<Rightarrow> (proxy_session_lease \<Rightarrow> (host, run_result) act) \<Rightarrow> (host, run_result) act" where
  "within_session cr e api_url profile body =
    run_try (proxy_session_call cr e api_url (CreateProxySession profile)) (\<lambda>lease.
      if \<not> complete_session lease then act_return (Some (Inl (Failure ''AV returned an incomplete proxy session'')))
      else
        act_bind (body lease) (\<lambda>result.
          case result of
            None \<Rightarrow> act_return None
          | Some status \<Rightarrow>
              act_bind (proxy_session_call cr e api_url (RevokeProxySession (psl_session_id lease))) (\<lambda>revoke.
                act_return (Some (session_status status revoke)))))"

text \<open>A temporary directory that goes away with the end of a run.\<close>

definition then_remove :: "string \<Rightarrow> (host, run_result) act \<Rightarrow> (host, run_result) act" where
  "then_remove directory m =
    act_bind m (\<lambda>result.
      case result of None \<Rightarrow> act_return None | Some status \<Rightarrow> act_bind (remove_tree directory) (\<lambda>_. act_return (Some status)))"

definition child_arguments :: "string list \<Rightarrow> client_error + string \<times> string list" where
  "child_arguments command =
    (let command = (case command of first # rest \<Rightarrow> if first = ''--'' then rest else command | [] \<Rightarrow> []) in
     case command of [] \<Rightarrow> Inl (Failure ''usage: av run <profile> -- <command> [args...]'') | executable # arguments \<Rightarrow> Inr (executable, arguments))"

definition run_transparent_proxy ::
    "('u, 'z) client_crates_scheme \<Rightarrow> host_env \<Rightarrow> string \<Rightarrow> string \<Rightarrow> string list \<Rightarrow> child_end run_event list
     \<Rightarrow> (host, run_result) act" where
  "run_transparent_proxy cr e api_url profile command events =
    run_try (act_return (child_arguments command)) (\<lambda>(executable, arguments).
    within_session cr e api_url profile (\<lambda>lease.
      run_try (write_proxy_ca e (psl_ca_certificate_pem lease)) (\<lambda>ca.
      then_remove (pc_directory ca)
       (run_try (start_loopback_proxy cr e (psl_proxy_url lease) (psl_token lease)) (\<lambda>listener.
        run_try (act_return (proxy_child_command cr e executable arguments (''http://'' @ li_address listener)
          (pc_bundle_path ca) (pc_additional_path ca))) (\<lambda>child.
        run_try (start_child e child) (\<lambda>_.
          await_renewing e (renew_proxy_session cr e api_url (psl_session_id lease)) child_result
            (psl_expires_unix_seconds lease) events)))))))"

end
