(* ===== verification/Container.thy ===== *)
theory Container
  imports Client_Run
begin

text \<open>
  The run of a child in a container, \<^verbatim>\<open>src/main.rs\<close>: the images must be pinned, a helper container without a
  network relays to the client, and the child shares the network of the helper. The containers are started,
  inspected and removed with the program \<^verbatim>\<open>docker\<close>.
\<close>

section \<open>Images\<close>

definition lower_hex :: "char \<Rightarrow> bool" where
  "lower_hex c \<longleftrightarrow> is_ascii_digit c \<or> (97 \<le> byte c \<and> byte c \<le> 102)"

definition sha256_digest :: "string \<Rightarrow> bool" where
  "sha256_digest digest \<longleftrightarrow> length digest = 64 \<and> list_all lower_hex digest"

text \<open>\<open>str::rsplit_once\<close> at a text.\<close>

definition rsplit_text :: "string \<Rightarrow> string \<Rightarrow> (string \<times> string) option" where
  "rsplit_text pattern s =
    (case find_window (rev pattern) (rev s) of
       None \<Rightarrow> None
     | Some n \<Rightarrow> Some (rev (drop (n + length pattern) (rev s)), rev (take n (rev s))))"

definition validate_digest_pinned_image :: "string \<Rightarrow> client_error + unit" where
  "validate_digest_pinned_image image_ref =
    (if (case strip_prefix ''sha256:'' image_ref of None \<Rightarrow> False | Some digest \<Rightarrow> sha256_digest digest) then Inr ()
     else case rsplit_text ''@sha256:'' image_ref of
       None \<Rightarrow> Inl (Failure ''image must be pinned by sha256 digest'')
     | Some (name, digest) \<Rightarrow>
         if name = [] \<or> CHR ''@'' \<in> set name \<or> has_whitespace name \<or> \<not> sha256_digest digest
         then Inl (Failure ''image has an invalid sha256 reference'')
         else Inr ())"

section \<open>Docker\<close>

definition docker :: "host_env \<Rightarrow> string list \<Rightarrow> (host, process_result option) act" where
  "docker e args = run_process e ''docker'' args []"

definition docker_succeeds :: "host_env \<Rightarrow> string list \<Rightarrow> string \<Rightarrow> string \<Rightarrow> (host, client_error + unit) act" where
  "docker_succeeds e args not_started failed =
    act_bind (docker e args) (\<lambda>result.
      act_return
        (case result of
           None \<Rightarrow> Inl (Failure not_started)
         | Some output \<Rightarrow> if po_success output then Inr () else Inl (Failure failed)))"

definition docker_preflight :: "host_env \<Rightarrow> string \<Rightarrow> string \<Rightarrow> (host, client_error + unit) act" where
  "docker_preflight e image_ref helper_image =
    act_try (docker_succeeds e [''version'', ''--format'', ''{{.Server.Version}}'']
      ''run Docker Engine preflight'' ''Docker Engine is unavailable'') (\<lambda>_.
    act_try (docker_succeeds e [''image'', ''inspect'', image_ref]
      ''inspect container image'' ''container image is not present locally'') (\<lambda>_.
    docker_succeeds e [''image'', ''inspect'', helper_image]
      ''inspect AV helper image'' ''AV helper image is not present locally''))"

definition unique_container_names :: "host_env \<Rightarrow> (host, client_error + string \<times> string) act" where
  "unique_container_names e =
    act_bind (host_tick (he_clock e)) (\<lambda>now.
      if now < 0 then act_return (Inl (Failure ''system clock is before Unix epoch''))
      else
        let name_prefix = ''av-'' @ decimal (he_process_id e) @ ''-'' @ decimal (nat now) in
        act_return (Inr (name_prefix @ ''-relay'', name_prefix @ ''-child'')))"

definition user_text :: "host_env \<Rightarrow> string" where
  "user_text e = decimal (fst (he_user e)) @ '':'' @ decimal (snd (he_user e))"

definition container_relay_command :: "host_env \<Rightarrow> string \<Rightarrow> string \<Rightarrow> string \<Rightarrow> string \<Rightarrow> string \<Rightarrow> client_error + string list" where
  "container_relay_command e helper_image helper_name relay_directory socket_path ready_path =
    rbind (ok_or (Failure ''container relay socket has no portable file name'')
      (Option.bind (path_file_name socket_path) (\<lambda>name. if utf8_valid name then Some name else None))) (\<lambda>socket_name.
    rbind (ok_or (Failure ''container relay ready path has no portable file name'')
      (Option.bind (path_file_name ready_path) (\<lambda>name. if utf8_valid name then Some name else None))) (\<lambda>ready_name.
    Inr
      [''run'', ''--detach'', ''--pull'', ''never'', ''--name'', helper_name, ''--network'', ''none'', ''--read-only'',
       ''--cap-drop'', ''ALL'', ''--security-opt'', ''no-new-privileges:true'', ''--pids-limit'', ''64'',
       ''--user'', user_text e, ''--mount'', ''type=bind,src='' @ relay_directory @ '',dst=/run/av'',
       ''--entrypoint'', ''/usr/local/bin/av'', helper_image, ''container-relay'',
       ''--socket'', ''/run/av/'' @ socket_name, ''--ready'', ''/run/av/'' @ ready_name]))"

definition proxy_variables :: "(string \<times> string) list" where
  "proxy_variables =
    [(''HOME'', ''/home/av''), (''HTTP_PROXY'', ''http://127.0.0.1:3128''), (''HTTPS_PROXY'', ''http://127.0.0.1:3128''),
     (''http_proxy'', ''http://127.0.0.1:3128''), (''https_proxy'', ''http://127.0.0.1:3128''), (''NO_PROXY'', []),
     (''no_proxy'', []), (''ALL_PROXY'', []), (''all_proxy'', []), (''SSL_CERT_FILE'', ''/run/av-ca/ca-bundle.pem''),
     (''CURL_CA_BUNDLE'', ''/run/av-ca/ca-bundle.pem''), (''REQUESTS_CA_BUNDLE'', ''/run/av-ca/ca-bundle.pem''),
     (''GIT_SSL_CAINFO'', ''/run/av-ca/ca-bundle.pem''), (''NODE_EXTRA_CA_CERTS'', ''/run/av-ca/proxy-ca.pem''),
     (''CODEX_CA_CERTIFICATE'', ''/run/av-ca/proxy-ca.pem'')]"

definition enforced_container_command ::
    "host_env \<Rightarrow> string \<Rightarrow> string \<Rightarrow> string \<Rightarrow> string \<Rightarrow> string \<Rightarrow> string \<Rightarrow> string list \<Rightarrow> client_error + string list" where
  "enforced_container_command e image_ref helper_name target_name workspace ca_directory executable arguments =
    (if \<not> utf8_valid executable then Inl (Failure ''container executable must be valid UTF-8'')
     else if executable = [] then Inl (Failure ''container executable cannot be empty'')
     else Inr
       ([''run'', ''--pull'', ''never'', ''--name'', target_name, ''--network'', ''container:'' @ helper_name, ''--read-only'',
         ''--cap-drop'', ''ALL'', ''--security-opt'', ''no-new-privileges:true'', ''--pids-limit'', ''512'',
         ''--user'', user_text e, ''--tmpfs'', ''/tmp:rw,nosuid,nodev,noexec,size=1g,mode=1777'',
         ''--tmpfs'', ''/home/av:rw,nosuid,nodev,size=256m,mode=1777'',
         ''--mount'', ''type=bind,src='' @ workspace @ '',dst=/workspace'',
         ''--mount'', ''type=bind,src='' @ ca_directory @ '',dst=/run/av-ca,readonly'', ''--workdir'', ''/workspace'']
        @ concat (map (\<lambda>(name, v). [''--env'', name @ ''='' @ v]) proxy_variables)
        @ [''--entrypoint'', executable, ''--interactive''] @ (if he_terminal e then [''--tty''] else [])
        @ image_ref # arguments))"

section \<open>The relay\<close>

text \<open>Waiting for the relay: every round that goes on has slept a tenth of a second.\<close>

function wait_for_container_relay :: "host_env \<Rightarrow> string \<Rightarrow> nat \<Rightarrow> host \<Rightarrow> (client_error + unit) \<times> host" where
  "wait_for_container_relay e helper_name deadline s =
    (if deadline \<le> ho_now s then (Inl (Failure ''AV network-none relay did not become ready''), s)
     else
       case host_tick (he_ready e) s of
         (True, s1) \<Rightarrow> (Inr (), s1)
       | (False, s1) \<Rightarrow>
           (case docker e [''inspect'', ''--format'', ''{{.State.Running}}'', helper_name] s1 of
              (None, s2) \<Rightarrow> (Inl (Failure ''inspect AV container relay''), s2)
            | (Some output, s2) \<Rightarrow>
                if \<not> po_success output \<or> po_stdout output \<noteq> ''true'' @ [CHR 0x0A]
                then (Inl (Failure ''AV network-none relay exited before becoming ready''), s2)
                else wait_for_container_relay e helper_name deadline (snd (sleep e 100000000 s2))))"
  by pat_completeness auto
termination
  by (relation "measure (\<lambda>(e, helper_name, deadline, s). deadline - ho_now s)")
    (auto simp: host_tick_def docker_def run_process_def Let_def sleep_def)

declare wait_for_container_relay.simps [simp del]

text \<open>The relay in the helper container, up to its loop that joins every connection to the socket.\<close>

definition run_container_relay :: "host_env \<Rightarrow> string \<Rightarrow> string \<Rightarrow> (host, client_error + unit) act" where
  "run_container_relay e socket_path ready_path s =
    (let socket_is_unix = (case ho_files s socket_path of Some (OtherNode _) \<Rightarrow> True | _ \<Rightarrow> False) in
     if \<not> path_absolute socket_path \<or> \<not> path_absolute ready_path \<or> path_parent socket_path \<noteq> path_parent ready_path
        \<or> \<not> socket_is_unix \<or> ho_files s ready_path \<noteq> None
     then (Inl (Failure ''container relay requires a mounted Unix socket and new ready path''), s)
     else
       act_bind (host_tick (he_fs e)) (\<lambda>bound.
         if \<not> bound then act_return (Inl (Failure ''bind network-none loopback relay''))
         else act_map_err FileFailed (write_private_file e ready_path (''ready'' @ [CHR 0x0A]))) s)"

section \<open>The run\<close>

text \<open>How the containers end: the child exits, the helper stops, or the user interrupts.\<close>

datatype container_end =
  TargetExited "int option" | TargetWaitFailed | HelperExited | HelperWaitFailed
| RunInterrupted "int option" | RunSignalFailed | RunInterruptWaitFailed

fun container_result :: "container_end \<Rightarrow> client_error + nat" where
  "container_result (TargetExited code) = Inr (exit_code 1 code)"
| "container_result TargetWaitFailed = Inl (Failure ''wait for enforced container'')"
| "container_result HelperExited = Inl (Failure ''AV network-none relay stopped while the container was running'')"
| "container_result HelperWaitFailed = Inl (Failure ''wait for AV container relay'')"
| "container_result (RunInterrupted code) = Inr (exit_code 130 code)"
| "container_result RunSignalFailed = Inl (Failure ''wait for interrupt'')"
| "container_result RunInterruptWaitFailed = Inl (Failure ''wait for interrupted container'')"

text \<open>\<open>DockerContainerCleanup\<close>: the containers are removed when the run is over, the last name first.\<close>

definition remove_containers :: "host_env \<Rightarrow> string \<Rightarrow> string \<Rightarrow> (host, unit) act" where
  "remove_containers e helper_name target_name =
    act_bind (docker e [''rm'', ''--force'', target_name]) (\<lambda>_.
    act_bind (docker e [''rm'', ''--force'', helper_name]) (\<lambda>_. act_return ()))"

definition then_cleanup :: "host_env \<Rightarrow> string \<Rightarrow> string \<Rightarrow> (host, run_result) act \<Rightarrow> (host, run_result) act" where
  "then_cleanup e helper_name target_name m =
    act_bind m (\<lambda>result.
      case result of
        None \<Rightarrow> act_return None
      | Some status \<Rightarrow> act_bind (remove_containers e helper_name target_name) (\<lambda>_. act_return (Some status)))"

definition run_containers ::
    "('u, 'z) crates_scheme \<Rightarrow> host_env \<Rightarrow> string \<Rightarrow> string \<Rightarrow> string \<Rightarrow> string \<Rightarrow> string \<Rightarrow> string list \<Rightarrow> proxy_session_lease
     \<Rightarrow> proxy_ca_file \<Rightarrow> string \<Rightarrow> container_end run_event list \<Rightarrow> (host, run_result) act" where
  "run_containers cr e api_url image_ref helper_image workspace executable arguments lease ca relay_directory events =
    run_try (act_map_err FileFailed (restrict_directory e relay_directory)) (\<lambda>_.
    let socket_path = path_join relay_directory ''proxy.sock''; ready_path = path_join relay_directory ''ready'' in
    run_try (start_unix_proxy cr e socket_path (psl_proxy_url lease) (psl_token lease)) (\<lambda>listener.
    run_try (unique_container_names e) (\<lambda>(helper_name, target_name).
    then_cleanup e helper_name target_name
     (run_try (act_return (container_relay_command e helper_image helper_name relay_directory socket_path ready_path)) (\<lambda>relay.
      run_try (docker_succeeds e relay ''start AV network-none relay container'' ''AV network-none relay container failed to start'') (\<lambda>_.
      run_try (\<lambda>s. wait_for_container_relay e helper_name (ho_now s + 10000000000) s) (\<lambda>_.
      run_try (act_return (enforced_container_command e image_ref helper_name target_name workspace (pc_directory ca) executable arguments)) (\<lambda>target.
      run_try (start_child e \<lparr>ch_program = ''docker'', ch_args = target, ch_env = he_var_os e\<rparr>) (\<lambda>_.
      run_try (start_child e \<lparr>ch_program = ''docker'', ch_args = [''wait'', helper_name], ch_env = he_var_os e\<rparr>) (\<lambda>_.
        await_renewing e (renew_proxy_session cr e api_url (psl_session_id lease)) container_result
          (psl_expires_unix_seconds lease) events))))))))))"

definition run_enforced_container ::
    "('u, 'z) crates_scheme \<Rightarrow> host_env \<Rightarrow> string \<Rightarrow> string \<Rightarrow> string \<Rightarrow> string \<Rightarrow> string \<Rightarrow> string list \<Rightarrow> container_end run_event list
     \<Rightarrow> (host, run_result) act" where
  "run_enforced_container cr e api_url profile image_ref helper_image workspace command events =
    run_try (act_return (child_arguments command)) (\<lambda>(executable, arguments).
    run_try (act_return (validate_digest_pinned_image image_ref)) (\<lambda>_.
    run_try (act_return (validate_digest_pinned_image helper_image)) (\<lambda>_.
    run_try (act_return (ok_or (Failure ''resolve container workspace'') (he_canonical e workspace))) (\<lambda>workspace s.
      run_try (act_return
        (if \<not> is_dir (ho_files s workspace) \<or> workspace = ''/''
         then Inl (Failure ''container workspace must be an existing directory other than /'')
         else if CHR '','' \<in> set workspace then Inl (Failure ''container workspace cannot contain a comma'')
         else Inr ())) (\<lambda>_.
      run_try (docker_preflight e image_ref helper_image) (\<lambda>_.
      within_session cr e api_url profile (\<lambda>lease.
        run_try (write_proxy_ca e (psl_ca_certificate_pem lease)) (\<lambda>ca.
        then_remove (pc_directory ca)
         (run_try (make_tempdir e ''av-container-relay-'') (\<lambda>relay_directory.
          then_remove relay_directory
            (run_containers cr e api_url image_ref helper_image workspace executable arguments lease ca relay_directory events)))))))
        s))))"

section \<open>The command line\<close>

text \<open>\<open>run\<close> of \<^verbatim>\<open>main.rs\<close> after the arguments are parsed; \<^verbatim>\<open>serve\<close> starts the server and is not a command of the client.
  A command that waits for events has them as an argument.\<close>

datatype cli_command =
  Login
| Logout
| Profiles
| Routes
| RunChild string "string list" "child_end run_event list"
| RunContainer string string string "string option" "string list" "container_end run_event list"
| ContainerRelay string string
| AgentsCommand agent_command
| RolesCommand role_command
| LocalInit string string string string "string option" bool
| ProfileCommand "string list" "child_end run_event list"
| NoCommand

definition as_run :: "(host, client_error + unit) act \<Rightarrow> (host, run_result) act" where
  "as_run m = run_try m (\<lambda>_. act_return (Some (Inr 0)))"

definition run_cli :: "('u, 'z) client_crates_scheme \<Rightarrow> host_env \<Rightarrow> string \<Rightarrow> cli_command \<Rightarrow> host \<Rightarrow> (run_result \<times> host) option" where
  "run_cli cr e api_url command s =
    (case command of
       Login \<Rightarrow>
         (case login cr e api_url s of
            None \<Rightarrow> None
          | Some (result, t) \<Rightarrow> Some (Some (case result of Inl err \<Rightarrow> Inl err | Inr _ \<Rightarrow> Inr 0), t))
     | Logout \<Rightarrow>
         Some (as_run (act_try (act_map_err KeyringFailed (keyring_remove e)) (\<lambda>_.
           act_bind (println ''OIDC session removed from the kernel keyring'') (\<lambda>_. act_return (Inr ())))) s)
     | Profiles \<Rightarrow> Some (as_run (show_profiles cr e api_url) s)
     | Routes \<Rightarrow> Some (as_run (show_proxy_destinations cr e api_url) s)
     | RunChild profile command events \<Rightarrow> Some (run_transparent_proxy cr e api_url profile command events s)
     | RunContainer profile image_ref helper_image workspace command events \<Rightarrow>
         Some (run_enforced_container cr e api_url profile image_ref helper_image
           (case workspace of None \<Rightarrow> ''.'' | Some path \<Rightarrow> path) command events s)
     | ContainerRelay socket ready \<Rightarrow> Some (as_run (run_container_relay e socket ready) s)
     | AgentsCommand command \<Rightarrow> Some (as_run (manage_agent cr e api_url command) s)
     | RolesCommand command \<Rightarrow> Some (as_run (manage_role cr e api_url command) s)
     | LocalInit issuer client_id allowed_role owner_subject config_path force \<Rightarrow>
         Some (as_run (local_init cr e config_path force issuer client_id allowed_role owner_subject) s)
     | ProfileCommand arguments events \<Rightarrow> Some (run_profile cr e api_url arguments events s)
     | NoCommand \<Rightarrow> Some (Some (Inr 2), s))"

end
