(* ===== verification/Client_Frames.thy ===== *)
theory Client_Frames
  imports Container
begin

text \<open>
  What every command of the client keeps. A relation of states that the single steps on the machine obey (a
  call of the server for a URL the client accepts, a child that one of the commands makes, and anything that
  touches neither) is obeyed by every command.
\<close>

definition request_of :: "string \<Rightarrow> string option \<Rightarrow> client_call \<Rightarrow> client_request" where
  "request_of api_url credential call =
    \<lparr>cq_url = trim_end_matches CHR ''/'' api_url @ CHR ''/'' # procedure call, cq_authorization = credential, cq_call = call\<rparr>"

text \<open>The steps that make no call and start no child.\<close>

definition same_traffic :: "host \<Rightarrow> host \<Rightarrow> bool" where
  "same_traffic s t \<longleftrightarrow> ho_calls t = ho_calls s \<and> ho_children t = ho_children s"

lemma wait_same_traffic: "same_traffic s (snd (wait_for_container_relay e helper_name deadline s))"
proof (induction e helper_name deadline s rule: wait_for_container_relay.induct)
  case (1 e helper_name deadline s)
  then show ?case
    by (subst wait_for_container_relay.simps)
      (auto simp: same_traffic_def sleep_def docker_def run_process_def host_tick_def Let_def split: bool.split option.split)
qed

locale client_frame = frame_relation R for R :: "host \<Rightarrow> host \<Rightarrow> bool" +
  fixes cr :: "('u, 'z) client_crates_scheme" and e :: host_env and api_url :: string
  assumes traffic: "same_traffic s t \<Longrightarrow> R s t"
    and call_obeys: "is_ok (client cr api_url) \<Longrightarrow> obeys R (call_server e (request_of api_url credential call))"
    and profile_child: "obeys R (spawn_child e (profile_command e executable arguments secrets))"
    and proxy_child: "proxy_child_command cr e executable arguments proxy_url ca_path additional = Inr child \<Longrightarrow> obeys R (spawn_child e child)"
    and docker_child: "obeys R (spawn_child e \<lparr>ch_program = ''docker'', ch_args = args, ch_env = he_var_os e\<rparr>)"
begin

lemma quiet_obeys: "(\<And>s. same_traffic s (snd (m s))) \<Longrightarrow> obeys R m"
  by (simp add: obeys_def traffic)

lemma host_steps:
  "obeys R (host_tick f)" "obeys R (println text)" "obeys R (sleep e n)" "obeys R (post_form e post)"
  "obeys R (run_process e program args input)"
  by (rule quiet_obeys, simp add: same_traffic_def host_tick_def println_def sleep_def post_form_def run_process_def Let_def)+

lemma file_steps:
  "obeys R (create_dir_all e path)" "obeys R (set_permissions e path mode)" "obeys R (fs_write e path contents)"
  "obeys R (fs_metadata path)" "obeys R (fs_read e path)" "obeys R (path_exists path)"
  "obeys R (make_tempdir e name)" "obeys R (remove_tree path)"
  by (rule quiet_obeys, simp add: same_traffic_def create_dir_all_def set_permissions_def fs_write_def fs_metadata_def fs_read_def
      path_exists_def make_tempdir_def remove_tree_def Let_def split: option.split file_node.split)+

lemma run_try_obeys: "obeys R m \<Longrightarrow> (\<And>x. obeys R (f x)) \<Longrightarrow> obeys R (run_try m f)"
  unfolding run_try_def by (intro bind_obeys sum_obeys return_obeys)

lemma prod_obeys: "(\<And>x y. obeys R (f x y)) \<Longrightarrow> obeys R (case p of (x, y) \<Rightarrow> f x y)"
  by (cases p) simp

lemma bool_obeys: "obeys R m \<Longrightarrow> obeys R n \<Longrightarrow> obeys R (case b of True \<Rightarrow> m | False \<Rightarrow> n)"
  by (cases b) simp_all

lemma node_obeys:
  "(\<And>mode contents. obeys R (f mode contents)) \<Longrightarrow> (\<And>mode. obeys R (g mode)) \<Longrightarrow> (\<And>mode. obeys R (h mode))
   \<Longrightarrow> obeys R (case node of Directory mode \<Rightarrow> g mode | RegularFile mode contents \<Rightarrow> f mode contents | OtherNode mode \<Rightarrow> h mode)"
  by (cases node) simp_all

lemmas steps = node_obeys host_steps file_steps run_try_obeys prod_obeys bool_obeys obeys_rules

lemma private_file_obeys: "obeys R (write_private_file e path contents)"
  unfolding write_private_file_def restrict_directory_def restrict_file_def by (intro steps)

lemma keyring_obeys: "obeys R (keyring_search e)" "obeys R (keyring_load e)" "obeys R (keyring_remove e)" "obeys R (keyring_store e token)"
  unfolding keyring_store_def keyring_load_def keyring_remove_def keyring_search_def by (intro steps)+

lemma read_agent_token_obeys: "obeys R (read_agent_token e path)"
  unfolding read_agent_token_def Let_def by (intro steps)

lemma authenticate_obeys: "obeys R (authenticate_request cr e)"
  unfolding authenticate_request_def by (intro steps keyring_obeys read_agent_token_obeys)

lemma connect_obeys: "obeys R (connect_request cr e api_url call authenticated)"
proof (cases "client cr api_url")
  case (Inl err)
  then have "connect_request cr e api_url call authenticated = act_return (Inl err)"
    by (intro ext) (simp add: connect_request_def act_try_def)
  then show ?thesis by (simp add: return_obeys)
next
  case (Inr secure)
  then have send: "obeys R (send_request cr e api_url call credential)" for credential
    using call_obeys [of credential call] unfolding send_request_def request_of_def by (intro steps) simp_all
  show ?thesis unfolding connect_request_def by (intro steps send authenticate_obeys)
qed

lemma expect_obeys: "obeys R m \<Longrightarrow> obeys R (expect decode m)"
  unfolding expect_def by (intro steps)

lemma control_call_obeys: "obeys R (control_call cr e api_url request)"
  unfolding control_call_def by (intro expect_obeys connect_obeys)

lemma print_all_obeys: "obeys R (print_all lines)"
  by (induction lines) (simp_all del: act_bind_run act_return_run add: steps)

lemma admin_obeys:
  "obeys R (manage_role cr e api_url role_command)" "obeys R (manage_agent cr e api_url agent_command)"
  "obeys R (show_profiles cr e api_url)" "obeys R (show_proxy_destinations cr e api_url)"
proof -
  show "obeys R (manage_role cr e api_url role_command)" unfolding manage_role_def
    by (cases role_command) (simp_all del: act_bind_run act_return_run add: steps expect_obeys control_call_obeys print_all_obeys)
  have issue: "obeys R (issue_agent_token cr e api_url request out)" for request out
    unfolding issue_agent_token_def emit_agent_token_def by (intro steps expect_obeys control_call_obeys private_file_obeys)
  show "obeys R (manage_agent cr e api_url agent_command)" unfolding manage_agent_def
    by (cases agent_command) (simp_all del: act_bind_run act_return_run add: steps expect_obeys control_call_obeys print_all_obeys issue)
  show "obeys R (show_profiles cr e api_url)" "obeys R (show_proxy_destinations cr e api_url)"
    unfolding show_profiles_def show_proxy_destinations_def by (intro steps expect_obeys connect_obeys print_all_obeys)+
qed

lemma local_init_obeys: "obeys R (local_init cr e config_path force issuer client_id allowed_role owner_subject)"
proof -
  have "obeys R (private_directories e directories)" for directories
    by (induction directories) (simp_all del: act_bind_run act_return_run add: steps restrict_directory_def)
  then show ?thesis unfolding local_init_def Let_def by (intro steps private_file_obeys)
qed

lemma login_obeys: "obeys R (authorize_device cr e api_url)" "obeys R (keep_token e token)"
proof -
  show "obeys R (authorize_device cr e api_url)" unfolding authorize_device_def by (intro steps expect_obeys connect_obeys)
  show "obeys R (keep_token e token)" unfolding keep_token_def by (intro steps keyring_obeys)
qed

lemma listener_obeys:
  "obeys R (transport_client_config e)" "obeys R (start_loopback_proxy cr e remote token)"
  "obeys R (start_unix_proxy cr e socket remote token)"
proof -
  show transport: "obeys R (transport_client_config e)" unfolding transport_client_config_def by (intro steps)
  show "obeys R (start_loopback_proxy cr e remote token)" unfolding start_loopback_proxy_def by (intro steps transport)
  have "obeys R (\<lambda>s. (Inr listener, s\<lparr>ho_files := (ho_files s)(socket \<mapsto> OtherNode (he_create_mode e))\<rparr>))"
    for listener :: listener by (rule quiet_obeys) (simp add: same_traffic_def)
  then show "obeys R (start_unix_proxy cr e socket remote token)" unfolding start_unix_proxy_def by (intro steps transport)
qed

lemma system_ca_obeys: "obeys R (read_system_ca_bundle e)"
proof (rule obeysI)
  fix s
  let ?read_ca = "\<lambda>path. act_try (act_map_err FileFailed (fs_metadata path)) (\<lambda>node.
           if (case node of RegularFile _ contents \<Rightarrow> contents = [] \<or> 4 * 1024 * 1024 < length contents | _ \<Rightarrow> True)
           then act_return (Inl (Failure ''system CA bundle has an unsafe size''))
           else
             act_try (act_map_err FileFailed (fs_read e path)) (\<lambda>bundle.
               if \<not> sublist pem_begin bundle then act_return (Inl (Failure ''system CA bundle does not contain PEM certificates''))
               else act_return (Inr bundle)))"
  have "obeys R (?read_ca path)" for path by (intro steps)
  then show "R s (snd (read_system_ca_bundle e s))"
    unfolding read_system_ca_bundle_def Let_def by (auto simp: obeys_def refl split: option.split)
qed

lemma write_proxy_ca_obeys: "obeys R (write_proxy_ca e pem)"
  unfolding write_proxy_ca_def restrict_directory_def Let_def by (intro steps private_file_obeys system_ca_obeys)

lemma await_renewing_obeys:
  assumes "obeys R renew"
  shows "obeys R (await_renewing e renew outcome expires events)"
proof -
  have delay: "obeys R (renewal_delay e expires)" for expires unfolding renewal_delay_def unix_now_def Let_def by (intro steps)
  show ?thesis
  proof (induction events arbitrary: expires)
    case Nil
    show ?case unfolding await_renewing.simps by (intro steps delay)
  next
    case (Cons event events)
    show ?case by (cases event; simp only: await_renewing.simps; intro steps delay assms Cons.IH)
  qed
qed

lemma await_end_obeys: "obeys R (await_end outcome events)"
  by (induction outcome events rule: await_end.induct) (simp_all del: act_return_run add: steps)

lemma session_calls_obey:
  "obeys R (check_renewal e fits expires)" "obeys R (renew_environment_lease cr e api_url lease_id)"
  "obeys R (proxy_session_call cr e api_url call)" "obeys R (renew_proxy_session cr e api_url session_id)"
proof -
  show check: "obeys R (check_renewal e fits expires)" for fits expires unfolding check_renewal_def unix_now_def by (intro steps)
  show "obeys R (renew_environment_lease cr e api_url lease_id)" unfolding renew_environment_lease_def
    by (intro steps expect_obeys connect_obeys check)
  show call: "obeys R (proxy_session_call cr e api_url call)" for call unfolding proxy_session_call_def
    by (intro expect_obeys connect_obeys)
  show "obeys R (renew_proxy_session cr e api_url session_id)" unfolding renew_proxy_session_def by (intro steps call check)
qed

lemma run_profile_obeys: "obeys R (run_profile cr e api_url arguments events)"
proof -
  have start: "obeys R (start_child e (profile_command e executable arguments secrets))" for executable arguments secrets
    unfolding start_child_def by (intro steps profile_child)
  show ?thesis unfolding run_profile_def Let_def
    by (intro steps start expect_obeys connect_obeys await_end_obeys await_renewing_obeys session_calls_obey)
qed

lemma within_session_obeys:
  assumes "\<And>lease. obeys R (body lease)"
  shows "obeys R (within_session cr e api_url profile body)"
  unfolding within_session_def by (intro steps session_calls_obey assms)

lemma then_remove_obeys: "obeys R m \<Longrightarrow> obeys R (then_remove directory m)"
  unfolding then_remove_def by (intro steps)

lemma run_transparent_proxy_obeys: "obeys R (run_transparent_proxy cr e api_url profile arguments events)"
proof -
  have child: "obeys R (run_try (act_return (proxy_child_command cr e executable arguments proxy_url ca_path additional))
      (\<lambda>child. run_try (start_child e child) (\<lambda>_. m)))"
    if "obeys R m" for executable arguments proxy_url ca_path additional m
  proof (cases "proxy_child_command cr e executable arguments proxy_url ca_path additional")
    case (Inl err)
    then show ?thesis unfolding run_try_def by (intro obeysI) (simp add: refl)
  next
    case (Inr child)
    then have "obeys R (start_child e child)" unfolding start_child_def by (intro steps proxy_child)
    with that have "obeys R (run_try (start_child e child) (\<lambda>_. m))" by (intro run_try_obeys)
    with Inr show ?thesis unfolding run_try_def by (auto simp: obeys_def)
  qed
  show ?thesis unfolding run_transparent_proxy_def
    by (intro steps within_session_obeys write_proxy_ca_obeys then_remove_obeys listener_obeys child await_renewing_obeys session_calls_obey)
qed

lemma docker_obeys:
  "obeys R (docker e args)" "obeys R (docker_succeeds e args not_started failed)" "obeys R (docker_preflight e image_ref helper_image)"
proof -
  show "obeys R (docker e args)" for args unfolding docker_def by (intro steps)
  then show succeeds: "obeys R (docker_succeeds e args not_started failed)" for args not_started failed
    unfolding docker_succeeds_def by (intro steps)
  show "obeys R (docker_preflight e image_ref helper_image)" unfolding docker_preflight_def by (intro steps succeeds)
qed

lemma relay_obeys: "obeys R (\<lambda>s. wait_for_container_relay e helper_name (deadline s) s)" "obeys R (run_container_relay e socket ready)"
proof -
  have "R s (snd (wait_for_container_relay e helper_name deadline s))" for deadline s
    by (rule traffic [OF wait_same_traffic])
  then show "obeys R (\<lambda>s. wait_for_container_relay e helper_name (deadline s) s)" by (simp add: obeys_def)
  have "obeys R (act_bind (host_tick (he_fs e)) (\<lambda>bound.
         if \<not> bound then act_return (Inl (Failure ''bind network-none loopback relay''))
         else act_map_err FileFailed (write_private_file e ready (''ready'' @ [CHR 0x0A]))))"
    by (intro steps private_file_obeys)
  then show "obeys R (run_container_relay e socket ready)"
    unfolding run_container_relay_def obeys_def Let_def by (auto simp: refl simp del: act_bind_run)
qed

lemma run_container_obeys:
  "obeys R (run_enforced_container cr e api_url profile image_ref helper_image workspace arguments events)"
proof -
  have start: "obeys R (start_child e \<lparr>ch_program = ''docker'', ch_args = args, ch_env = he_var_os e\<rparr>)" for args
    unfolding start_child_def by (intro steps docker_child)
  have cleanup: "obeys R m \<Longrightarrow> obeys R (then_cleanup e helper_name target_name m)" for helper_name target_name m
    unfolding then_cleanup_def remove_containers_def by (intro steps docker_obeys)
  have names: "obeys R (unique_container_names e)" unfolding unique_container_names_def Let_def by (intro steps)
  have "obeys R (run_containers cr e api_url image_ref helper_image workspace executable arguments lease ca relay_directory events)"
    for workspace executable arguments lease ca relay_directory
    unfolding run_containers_def restrict_directory_def Let_def
    by (intro steps listener_obeys names cleanup docker_obeys relay_obeys start await_renewing_obeys session_calls_obey)
  then have body: "obeys R (within_session cr e api_url profile (\<lambda>lease.
        run_try (write_proxy_ca e (psl_ca_certificate_pem lease)) (\<lambda>ca.
        then_remove (pc_directory ca)
         (run_try (make_tempdir e ''av-container-relay-'') (\<lambda>relay_directory.
          then_remove relay_directory
            (run_containers cr e api_url image_ref helper_image workspace executable arguments lease ca relay_directory events))))))"
    for workspace executable arguments
    by (intro steps within_session_obeys write_proxy_ca_obeys then_remove_obeys)
  have at_state: "obeys R (\<lambda>s. run_try (act_return (g s)) f s)" if "\<And>x. obeys R (f x)"
    for g :: "host \<Rightarrow> client_error + unit" and f
  proof (rule obeysI)
    fix s
    from run_try_obeys [OF return_obeys that] have "obeys R (run_try (act_return (g s)) f)" .
    then show "R s (snd (run_try (act_return (g s)) f s))" unfolding obeys_def by blast
  qed
  show ?thesis unfolding run_enforced_container_def
    by (intro run_try_obeys return_obeys prod_obeys at_state docker_obeys body)
qed

end

end
