(* ===== verification/Client_Properties.thy ===== *)
theory Client_Properties
  imports Client_Frames Proxy_Properties
begin

text \<open>
  Properties of the client: where its requests go and what its children see, that a run which reports success
  has given its lease or session back, that the login ends, what the local proxy makes of a request, that a
  token written to a file is read back, and that a contained child shares the network of a pinned helper.
\<close>

section \<open>The traffic of a command\<close>

definition secure_url :: "('u, 'z) crates_scheme \<Rightarrow> string \<Rightarrow> bool" where
  "secure_url cr api_url \<longleftrightarrow>
     (\<exists>url. url_parse cr api_url = Some url
        \<and> (url_scheme cr url = ''https'' \<or> (\<exists>host. url_host_str cr url = Some host \<and> is_loopback host)))"

definition call_confined :: "('u, 'z) crates_scheme \<Rightarrow> string \<Rightarrow> client_request \<Rightarrow> bool" where
  "call_confined cr api_url request \<longleftrightarrow>
     secure_url cr api_url \<and> cq_url request = trim_end_matches CHR ''/'' api_url @ CHR ''/'' # procedure (cq_call request)"

definition credential_variables :: "string list" where
  "credential_variables = [''AV_AGENT_TOKEN_FILE'', ''AV_AGENT_TOKEN'', ''AV_TOKEN'', ''AV_BASIC_USER'', ''AV_BASIC_PASSWORD'']"

definition child_confined :: "child \<Rightarrow> bool" where
  "child_confined child \<longleftrightarrow> ch_program child = ''docker'' \<or> list_all (\<lambda>name. ch_env child name = None) credential_variables"

definition confined :: "('u, 'z) crates_scheme \<Rightarrow> string \<Rightarrow> host \<Rightarrow> host \<Rightarrow> bool" where
  "confined cr api_url s t \<longleftrightarrow>
     (\<exists>calls children. ho_calls t = ho_calls s @ calls \<and> ho_children t = ho_children s @ children
        \<and> list_all (call_confined cr api_url) calls \<and> list_all child_confined children)"

lemma confined_trans:
  assumes "confined cr api_url s t" and "confined cr api_url t u"
  shows "confined cr api_url s u"
proof -
  from assms obtain c1 k1 c2 k2 where
    "ho_calls t = ho_calls s @ c1" "ho_children t = ho_children s @ k1" "list_all (call_confined cr api_url) c1" "list_all child_confined k1"
    "ho_calls u = ho_calls t @ c2" "ho_children u = ho_children t @ k2" "list_all (call_confined cr api_url) c2" "list_all child_confined k2"
    unfolding confined_def by blast
  then show ?thesis unfolding confined_def by (intro exI [of _ "c1 @ c2"] exI [of _ "k1 @ k2"]) simp
qed

lemma client_secure: "is_ok (client cr api_url) \<Longrightarrow> secure_url cr api_url"
  by (auto simp: is_ok_iff client_def secure_url_def result_iff split: option.split_asm)

lemma spawn_confined: "child_confined child \<Longrightarrow> obeys (confined cr api_url) (spawn_child e child)"
  by (auto simp: obeys_def confined_def spawn_child_def)

interpretation confined: client_frame "confined cr api_url" cr e api_url for cr :: "('u, 'z) client_crates_scheme" and e api_url
proof
  fix s t u :: host
  show "confined cr api_url s s" by (simp add: confined_def)
  show "confined cr api_url s t \<Longrightarrow> confined cr api_url t u \<Longrightarrow> confined cr api_url s u" by (rule confined_trans)
  show "same_traffic s t \<Longrightarrow> confined cr api_url s t" by (simp add: confined_def same_traffic_def)
  fix credential call
  show "is_ok (client cr api_url) \<Longrightarrow> obeys (confined cr api_url) (call_server e (request_of api_url credential call))"
    by (auto simp: obeys_def confined_def call_server_def call_confined_def request_of_def dest: client_secure)
  fix executable arguments secrets
  show "obeys (confined cr api_url) (spawn_child e (profile_command e executable arguments secrets))"
    by (rule spawn_confined) (simp add: child_confined_def credential_variables_def profile_command_def env_remove_def)
next
  fix executable arguments proxy_url ca_path additional child
  assume "proxy_child_command cr e executable arguments proxy_url ca_path additional = Inr child"
  then show "obeys (confined cr api_url) (spawn_child e child)"
    by (intro spawn_confined) (auto simp: child_confined_def credential_variables_def proxy_child_command_def env_remove_def result_iff)
next
  fix args
  show "obeys (confined cr api_url) (spawn_child e \<lparr>ch_program = ''docker'', ch_args = args, ch_env = he_var_os e\<rparr>)"
    by (rule spawn_confined) (simp add: child_confined_def)
qed

section \<open>The login ends\<close>

lemma poll_once_run:
  assumes "poll_once e token_endpoint device_code client_id interval s = (result, t)"
  shows "same_traffic s t" and "ho_now t = ho_now s" and "length (ho_posts t) = Suc (length (ho_posts s))"
    and "result = PollAgain next \<Longrightarrow> interval \<le> next"
  using assms
  by (auto simp: poll_once_def post_form_def same_traffic_def split: option.split_asm oauth_body.split_asm if_split_asm)

text \<open>A round takes at least its interval, so the rounds are bounded by the time to the deadline.\<close>

lemma poll_token_returns:
  assumes "0 < interval"
  shows "\<exists>result t. poll_token e token_endpoint device_code client_id deadline interval s = Some (result, t)
    \<and> same_traffic s t
    \<and> length (ho_posts t) \<le> length (ho_posts s) + (deadline - ho_now s + 999999999) div 1000000000"
  using assms
proof (induction "deadline - ho_now s" arbitrary: s interval rule: less_induct)
  case less
  show ?case
  proof (cases "deadline \<le> ho_now s")
    case True
    then show ?thesis by (subst poll_token.simps) (simp add: same_traffic_def)
  next
    case False
    define s1 where "s1 = snd (sleep e (interval * 1000000000) s)"
    have s1: "same_traffic s s1" "ho_now s + 1000000000 \<le> ho_now s1" "ho_posts s1 = ho_posts s"
      using less.prems by (auto simp: s1_def sleep_def same_traffic_def)
    obtain result s2 where poll: "poll_once e token_endpoint device_code client_id interval s1 = (result, s2)" by fastforce
    note run = poll_once_run [OF poll]
    have traffic: "same_traffic s s2" using s1(1) run(1) by (simp add: same_traffic_def)
    have spent: "ho_now s + 1000000000 \<le> ho_now s2" using s1(2) run(2) by simp
    have posts: "length (ho_posts s2) = Suc (length (ho_posts s))" using s1(3) run(3) by simp
    have room: "1 \<le> (deadline - ho_now s + 999999999) div 1000000000" using False by linarith
    have step: "poll_token e token_endpoint device_code client_id deadline interval s =
      (case result of PollDone token \<Rightarrow> Some (Inr token, s2) | PollFailed err \<Rightarrow> Some (Inl err, s2)
       | PollAgain interval \<Rightarrow> poll_token e token_endpoint device_code client_id deadline interval s2)"
      using False poll by (subst poll_token.simps) (auto simp: s1_def Let_def split: prod.split)
    show ?thesis
    proof (cases result)
      case (PollAgain next_interval)
      have "0 < next_interval" using run(4) [OF PollAgain] less.prems by simp
      moreover have "deadline - ho_now s2 < deadline - ho_now s" using spent False by linarith
      ultimately obtain final t where rest: "poll_token e token_endpoint device_code client_id deadline next_interval s2 = Some (final, t)"
        "same_traffic s2 t" "length (ho_posts t) \<le> length (ho_posts s2) + (deadline - ho_now s2 + 999999999) div 1000000000"
        using less.hyps by blast
      have "Suc ((deadline - ho_now s2 + 999999999) div 1000000000) \<le> (deadline - ho_now s + 999999999) div 1000000000"
      proof (cases "deadline \<le> ho_now s2")
        case True
        with room show ?thesis by simp
      next
        case False
        with spent have "deadline - ho_now s2 + 999999999 + 1000000000 \<le> deadline - ho_now s + 999999999" by linarith
        then have "(deadline - ho_now s2 + 999999999 + 1000000000) div 1000000000 \<le> (deadline - ho_now s + 999999999) div 1000000000"
          by (rule div_le_mono)
        moreover have "(x + 1000000000) div 1000000000 = Suc (x div 1000000000)" for x :: nat by simp
        ultimately show ?thesis by metis
      qed
      with rest posts traffic step PollAgain show ?thesis by (auto simp: same_traffic_def)
    qed (use step posts room traffic in auto)
  qed
qed

lemma login_run:
  fixes cr :: "('u, 'z) client_crates_scheme"
  shows "\<exists>result t. login cr e api_url s = Some (result, t) \<and> confined cr api_url s t"
proof -
  obtain r s1 where start: "authorize_device cr e api_url s = (r, s1)" by fastforce
  note s1 = obeysD [OF confined.login_obeys(1) start]
  show ?thesis
  proof (cases r)
    case (Inl err)
    with start s1 show ?thesis by (simp add: login_def)
  next
    case (Inr found)
    obtain auth device where found: "found = (auth, device)" by fastforce
    show ?thesis
    proof (cases "device_deadline (ho_now s1) (da_expires_in device)")
      case None
      with start Inr found s1 show ?thesis by (simp add: login_def)
    next
      case (Some deadline)
      obtain result s2 where poll: "poll_token e (ra_token_endpoint auth) (da_device_code device) (ra_client_id auth) deadline
          (max (da_interval device) 1) s1 = Some (result, s2)" "same_traffic s1 s2"
        using poll_token_returns [of "max (da_interval device) 1"] by fastforce
      have s2: "confined cr api_url s s2" using s1 poll(2) confined.traffic confined_trans by blast
      show ?thesis
      proof (cases result)
        case (Inl err)
        with start Inr found Some poll(1) s2 show ?thesis by (simp add: login_def)
      next
        case (Inr token)
        obtain r' t where t: "keep_token e token s2 = (r', t)" by fastforce
        from obeysD [OF confined.login_obeys(2) t] s2 confined_trans have "confined cr api_url s t" by blast
        with start \<open>r = Inr found\<close> found Some poll(1) Inr t show ?thesis by (simp add: login_def)
      qed
    qed
  qed
qed

section \<open>What a run leaves behind\<close>

lemma run_try_Some:
  "run_try m f s = (Some result, t) \<longleftrightarrow>
     (\<exists>err. m s = (Inl err, t) \<and> result = Inl err) \<or> (\<exists>x s'. m s = (Inr x, s') \<and> f x s' = (Some result, t))"
  by (auto simp: run_try_def split: prod.splits sum.splits)

definition ends_session ::
    "('u, 'z) crates_scheme \<Rightarrow> host_env \<Rightarrow> string \<Rightarrow> string \<Rightarrow> client_error + nat \<Rightarrow> host \<Rightarrow> bool" where
  "ends_session cr e api_url profile result t \<longleftrightarrow>
     (\<exists>s0 created. proxy_session_call cr e api_url (CreateProxySession profile) s0 = (created, t)
        \<and> (\<forall>lease. created = Inr lease \<longrightarrow> \<not> complete_session lease) \<and> \<not> is_ok result)
     \<or> (\<exists>s0 s1 s2 lease revoke. proxy_session_call cr e api_url (CreateProxySession profile) s0 = (Inr lease, s1)
        \<and> complete_session lease
        \<and> proxy_session_call cr e api_url (RevokeProxySession (psl_session_id lease)) s2 = (revoke, t)
        \<and> (is_ok result \<longrightarrow> is_ok revoke))"

lemma within_session_ends:
  assumes "within_session cr e api_url profile body s = (Some result, t)"
  shows "ends_session cr e api_url profile result t"
proof -
  obtain created s1 where created: "proxy_session_call cr e api_url (CreateProxySession profile) s = (created, s1)" by fastforce
  show ?thesis
  proof (cases "\<exists>lease. created = Inr lease \<and> complete_session lease")
    case False
    with assms created have "t = s1" "\<not> is_ok result"
      by (cases created; auto simp: within_session_def run_try_def)+
    with created False show ?thesis unfolding ends_session_def by blast
  next
    case True
    then obtain lease where lease: "created = Inr lease" "complete_session lease" by blast
    obtain ended s2 where ended: "body lease s1 = (ended, s2)" by fastforce
    with assms created lease obtain status where status: "ended = Some status"
      by (cases ended) (auto simp: within_session_def run_try_def)
    obtain revoke s3 where revoke: "proxy_session_call cr e api_url (RevokeProxySession (psl_session_id lease)) s2 = (revoke, s3)"
      by fastforce
    from assms created lease ended status revoke have "t = s3" "result = session_status status revoke"
      by (auto simp: within_session_def run_try_def)
    moreover from this(2) have "is_ok result \<longrightarrow> is_ok revoke" by (auto simp: session_status_def split: sum.split_asm)
    ultimately show ?thesis using created lease revoke unfolding ends_session_def by blast
  qed
qed

text \<open>The checks before a session is asked for make no call.\<close>

lemma preflight_calls: "docker_preflight e image_ref helper_image s = (r, t) \<Longrightarrow> ho_calls t = ho_calls s"
  by (auto simp: docker_preflight_def docker_succeeds_def docker_def run_process_def act_try_def Let_def
      split: prod.split_asm sum.split_asm option.split_asm if_split_asm)

lemma transparent_run_ends:
  assumes "run_transparent_proxy cr e api_url profile command events s = (Some result, t)"
  shows "ho_calls t = ho_calls s \<and> \<not> is_ok result \<or> ends_session cr e api_url profile result t"
  using assms unfolding run_transparent_proxy_def run_try_Some
  by (auto split: prod.split_asm dest!: within_session_ends)

lemma container_run_ends:
  assumes "run_enforced_container cr e api_url profile image_ref helper_image workspace command events s = (Some result, t)"
  shows "ho_calls t = ho_calls s \<and> \<not> is_ok result \<or> ends_session cr e api_url profile result t"
proof (cases "ends_session cr e api_url profile result t")
  case False
  with assms show ?thesis
    by (cases "child_arguments command")
      (auto simp: run_enforced_container_def run_try_Some dest!: within_session_ends preflight_calls split: prod.split_asm)
qed simp

section \<open>The head of a request\<close>

definition header_name :: "string \<Rightarrow> string" where
  "header_name field = (case split_once CHR '':'' field of None \<Rightarrow> field | Some (name, _) \<Rightarrow> name)"

definition head_lines :: "bytes \<Rightarrow> string list" where
  "head_lines header = takeWhile (\<lambda>field. field \<noteq> []) (tl (split_crlf header))"

definition is_header :: "string \<Rightarrow> string \<Rightarrow> bool" where
  "is_header name field \<longleftrightarrow> eq_ignore_ascii_case (header_name field) name"

lemma inject_lines_Inr:
  assumes "inject_lines lines n out = Inr (m, result)"
  shows "let kept = filter (\<lambda>field. \<not> is_header ''proxy-authorization'' field) (takeWhile (\<lambda>field. field \<noteq> []) lines)
    in result = out @ concat (map (\<lambda>field. field @ crlf) kept) \<and> m = n + length (filter (is_header ''host'') kept)
       \<and> list_all (\<lambda>field. CHR '':'' \<in> set field \<and> header_name field \<noteq> []) kept"
  using assms
proof (induction lines arbitrary: n out)
  case (Cons field lines)
  show ?case
  proof (cases "field = []")
    case False
    with Cons.prems obtain name val where split: "split_once CHR '':'' field = Some (name, val)"
      by (auto split: if_split_asm option.split_asm)
    then have name: "header_name field = name" "CHR '':'' \<in> set field" by (auto simp: header_name_def split_once_Some_iff)
    let ?n = "if is_header ''host'' field then Suc n else n"
    from Cons.prems False split name consider
      "is_header ''proxy-authorization'' field" "inject_lines lines n out = Inr (m, result)"
      | "\<not> is_header ''proxy-authorization'' field" "name \<noteq> []" "inject_lines lines ?n (out @ field @ crlf) = Inr (m, result)"
      by (auto simp: is_header_def Let_def split: if_split_asm)
    then show ?thesis
      by cases (use False name Cons.IH in \<open>fastforce simp: Let_def\<close>)+
  qed (use Cons.prems in simp)
qed simp

lemma split_crlf_not_Nil [simp]: "split_crlf s \<noteq> []"
  by (induction s rule: split_crlf.induct) (auto split: list.split)

lemma split_crlf_line:
  assumes "\<not> sublist crlf field"
  shows "split_crlf (field @ crlf @ rest) = field # split_crlf rest"
  using assms
proof (induction field)
  case Nil
  then show ?case by (simp add: crlf_def)
next
  case (Cons c field)
  have "\<not> sublist crlf field" using Cons.prems by (auto simp: sublist_Cons_right)
  with Cons show ?case by (cases field) (auto simp: crlf_def sublist_Cons_right)
qed

lemma split_crlf_hd: "split_crlf (c # s) = x # xs \<Longrightarrow> x \<noteq> [] \<Longrightarrow> hd x = c"
  by (cases s) (auto split: if_split_asm list.split_asm)

lemma split_crlf_pieces: "x \<in> set (split_crlf s) \<Longrightarrow> \<not> sublist crlf x"
proof (induction s arbitrary: x rule: split_crlf.induct)
  case (3 a b cs)
  show ?case
  proof (cases "a = CHR 0x0D \<and> b = CHR 0x0A")
    case True
    with 3 show ?thesis by (auto simp: crlf_def)
  next
    case False
    obtain y ys where rest: "split_crlf (b # cs) = y # ys" using split_crlf_not_Nil by (meson neq_Nil_conv)
    with False 3(3) consider "x = a # y" | "x \<in> set ys" by auto
    then show ?thesis
    proof cases
      case 1
      moreover have "\<not> sublist crlf y" using 3(2) [OF False] rest by simp
      moreover have "\<not> prefix crlf (a # y)" using split_crlf_hd [OF rest] False by (cases y) (auto simp: crlf_def)
      ultimately show ?thesis by (auto simp: sublist_Cons_right)
    qed (use 3(2) [OF False] rest in simp)
  qed
qed (auto simp: crlf_def sublist_Cons_right)

lemma split_crlf_lines:
  assumes "list_all (\<lambda>field. \<not> sublist crlf field) lines"
  shows "split_crlf (concat (map (\<lambda>field. field @ crlf) lines) @ rest) = lines @ split_crlf rest"
  using assms by (induction lines) (simp_all add: split_crlf_line)

text \<open>A server that splits the rewritten head again finds the request line, the fields that were kept and the
  token.\<close>

definition token_field :: "string \<Rightarrow> string" where
  "token_field token = ''Proxy-Authorization: Bearer '' @ token"

lemma inject_Inr:
  assumes "inject_proxy_authorization header token = Inr out"
  shows "hd (split_crlf out) = hd (split_crlf header)"
    and "\<exists>authority. ascii_words (hd (split_crlf header)) = [''CONNECT'', authority, ''HTTP/1.1'']"
    and "head_lines out = filter (\<lambda>field. \<not> is_header ''proxy-authorization'' field) (head_lines header) @ [token_field token]"
    and "length (filter (is_header ''host'') (head_lines out)) = 1"
proof -
  let ?request = "hd (split_crlf header)"
  let ?kept = "filter (\<lambda>field. \<not> is_header ''proxy-authorization'' field) (head_lines header)"
  from assms obtain n body where body: "inject_lines (tl (split_crlf header)) 0 (?request @ crlf) = Inr (n, body)" "n = 1"
      "out = body @ token_field token @ crlf @ crlf" and token: "valid_proxy_token token"
      and "(case ascii_words ?request of [meth, _, version] \<Rightarrow> meth = ''CONNECT'' \<and> version = ''HTTP/1.1'' | _ \<Rightarrow> False)"
    by (auto simp: inject_proxy_authorization_def Let_def result_iff token_field_def)
  then show "\<exists>authority. ascii_words ?request = [''CONNECT'', authority, ''HTTP/1.1'']"
    by (auto split: list.split_asm)
  from inject_lines_Inr [OF body(1)] have lines: "body = ?request @ crlf @ concat (map (\<lambda>field. field @ crlf) ?kept)"
    "n = length (filter (is_header ''host'') ?kept)" by (simp_all add: Let_def head_lines_def)
  have piece: "x \<in> set (tl (split_crlf header)) \<Longrightarrow> \<not> sublist crlf x" for x
    using split_crlf_pieces [of x header] by (cases "split_crlf header") auto
  have "CHR 0x0D \<notin> set token" using token by (auto simp: valid_proxy_token_def list_ex_iff is_ascii_whitespace_def)
  then have "CHR 0x0D \<notin> set (token_field token)" by (simp add: token_field_def)
  then have "\<not> sublist crlf (token_field token)" by (auto simp: crlf_def dest: set_mono_sublist)
  moreover have "\<not> sublist crlf ?request" using split_crlf_pieces [of ?request header] by simp
  moreover have "list_all (\<lambda>field. \<not> sublist crlf field) ?kept"
    using piece by (auto simp: list_all_iff head_lines_def dest: set_takeWhileD)
  ultimately have "split_crlf out = ?request # ?kept @ [token_field token, [], []]"
    using split_crlf_lines [of "?request # ?kept @ [token_field token]" crlf] body(3) lines(1)
    by (simp add: crlf_def)
  then have out: "hd (split_crlf out) = ?request" "tl (split_crlf out) = (?kept @ [token_field token]) @ [[], []]" by simp_all
  have "list_all (\<lambda>field. field \<noteq> []) (?kept @ [token_field token])"
    by (auto simp: list_all_iff head_lines_def token_field_def dest: set_takeWhileD)
  then have "takeWhile (\<lambda>field. field \<noteq> []) ((?kept @ [token_field token]) @ [[], []]) = ?kept @ [token_field token]"
    by (subst takeWhile_append2) (simp_all only: list_all_iff takeWhile.simps simp_thms if_False append_Nil2)
  with out show "hd (split_crlf out) = ?request" and fields: "head_lines out = ?kept @ [token_field token]"
    by (simp_all only: head_lines_def)
  have "header_name (token_field token) = ''Proxy-Authorization''" by (simp add: header_name_def token_field_def)
  then have "\<not> is_header ''host'' (token_field token)" by (simp add: is_header_def eq_ignore_ascii_case_def to_ascii_lowercase_def)
  with fields lines(2) body(2) show "length (filter (is_header ''host'') (head_lines out)) = 1" by simp
qed

section \<open>A token in a file\<close>

lemma utf8_valid_ascii: "list_all (\<lambda>c. byte c < 128) s \<Longrightarrow> utf8_valid s"
  by (induction s) auto

lemma write_private_file_Inr:
  assumes "write_private_file e path contents s = (Inr (), t)"
  shows "ho_files t path = Some (RegularFile 384 contents)"
proof -
  from assms obtain s1 s2 where "fs_write e path contents s1 = (Inr (), s2)" "restrict_file e path s2 = (Inr (), t)"
    unfolding write_private_file_def act_try_Inr by auto
  then show ?thesis
    by (auto simp: fs_write_def restrict_file_def set_permissions_def Let_def split: if_split_asm option.split_asm file_node.split_asm)
qed

text \<open>What the crate \<open>base64\<close> makes of 32 bytes: 43 letters of the URL-safe alphabet.\<close>

definition base64_url_law :: "('u, 'z) crates_scheme \<Rightarrow> bool" where
  "base64_url_law cr \<longleftrightarrow>
     (\<forall>b. length b = 32 \<longrightarrow> length (base64_url_safe_no_pad cr b) = 43
        \<and> list_all (\<lambda>c. is_ascii_alphanumeric c \<or> c = CHR ''-'' \<or> c = CHR ''_'') (base64_url_safe_no_pad cr b))"

lemma minted_token_form:
  assumes "base64_url_law cr" and "\<And>n. length (env_random e n) = 32" and "mint_agent_token cr e s = ((token, token_hash), t)"
  shows "length token = 52" "prefix ''av_agent_'' token" "token_hash = sha256 cr token"
    "list_all (\<lambda>c. is_ascii_alphanumeric c \<or> c = CHR ''-'' \<or> c = CHR ''_'') (drop 9 token)" "list_all (\<lambda>c. 32 < byte c \<and> byte c < 128) token"
proof -
  let ?text = "base64_url_safe_no_pad cr (env_random e (io_ticks s))"
  have token: "token = ''av_agent_'' @ ?text" "token_hash = sha256 cr token" using assms(3) by (auto simp: mint_agent_token_def Let_def)
  have letters: "length ?text = 43" "list_all (\<lambda>c. is_ascii_alphanumeric c \<or> c = CHR ''-'' \<or> c = CHR ''_'') ?text"
    using assms(1,2) by (auto simp: base64_url_law_def)
  then show "length token = 52" "prefix ''av_agent_'' token" "token_hash = sha256 cr token"
    "list_all (\<lambda>c. is_ascii_alphanumeric c \<or> c = CHR ''-'' \<or> c = CHR ''_'') (drop 9 token)" using token by simp_all
  have "32 < byte c \<and> byte c < 128" if "is_ascii_alphanumeric c \<or> c = CHR ''-'' \<or> c = CHR ''_''" for c
    using that by (auto simp: ascii_class_defs)
  then have "list_all (\<lambda>c. 32 < byte c \<and> byte c < 128) ?text" using letters(2) by (simp add: list_all_iff)
  then show "list_all (\<lambda>c. 32 < byte c \<and> byte c < 128) token" using token(1) by simp
qed

lemma read_written_token:
  assumes "ho_files t path = Some (RegularFile 384 token)" and "path \<noteq> []" and "he_fs e (ho_ticks t)"
    and "length token = 52" "prefix ''av_agent_'' token" "list_all (\<lambda>c. 32 < byte c \<and> byte c < 128) token"
    and "list_all (\<lambda>c. is_ascii_alphanumeric c \<or> c = CHR ''-'' \<or> c = CHR ''_'') (drop 9 token)"
  shows "fst (read_agent_token e path t) = Inr token"
proof -
  have "list_all (\<lambda>c. byte c < 128) token" using assms(6) by (simp add: list_all_iff)
  then have "utf8_valid token" by (rule utf8_valid_ascii)
  moreover have "CHR 0x0D \<notin> set token" "CHR 0x0A \<notin> set token" using assms(6) by (auto simp: list_all_iff)
  moreover from this(2) have "strip_suffix [CHR 0x0A] token = None" by (auto simp: strip_suffix_def suffix_def)
  ultimately show ?thesis
    using assms by (simp add: read_agent_token_def fs_metadata_def fs_read_def act_try_def Let_def)
qed

section \<open>A sample machine\<close>

definition sample_client_crates :: "sample_url client_crates" where
  "sample_client_crates =
    crates.extend sample_crates
      (client_crates.fields (\<lambda>url. su_scheme url @ ''://'' @ su_host url @ su_path url))"

fun sample_av_server :: "client_call \<Rightarrow> client_reply" where
  "sample_av_server (CreateProxySession _) =
    ProxySessionReply \<lparr>psl_session_id = ''s1'', psl_token = ''capability'', psl_proxy_url = ''https://proxy.example.test:8443'',
      psl_ca_certificate_pem = pem_begin, psl_expires_unix_seconds = 1300, psl_revoked = False\<rparr>"
| "sample_av_server (RevokeProxySession session_id) =
    ProxySessionReply \<lparr>psl_session_id = session_id, psl_token = [], psl_proxy_url = [], psl_ca_certificate_pem = [],
      psl_expires_unix_seconds = 0, psl_revoked = True\<rparr>"
| "sample_av_server _ = ProfilesReply []"

definition sample_host_env :: host_env where
  "sample_host_env =
    \<lparr>he_var_os = [''AV_TOKEN'' \<mapsto> ''jwt'', ''AV_AGENT_TOKEN_FILE'' \<mapsto> ''/home/ada/token''], he_clock = (\<lambda>_. secs 1000),
     he_delay = (\<lambda>_. 0), he_fs = (\<lambda>_. True), he_create_mode = 420, he_directory_mode = 493,
     he_server = (\<lambda>_ request. Some \<lparr>cp_status = 200, cp_body = Some (sample_av_server (cq_call request))\<rparr>),
     he_post = (\<lambda>_ _. Some (400, OAuthErrorBody ''authorization_pending'')), he_run = (\<lambda>_ _. None), he_spawn = (\<lambda>_ _. True),
     he_port = (\<lambda>_. Some 4000), he_tempdir = (\<lambda>_ name. Some (''/tmp/'' @ name)), he_canonical = Some, he_ready = (\<lambda>_. True),
     he_process_id = 7, he_user = (1000, 1000), he_terminal = False, he_json_pretty = (\<lambda>_. None),
     he_pem_certificates = (\<lambda>_. None), he_root_valid = (\<lambda>_. False), he_server_name = (\<lambda>_. True)\<rparr>"

definition sample_agent_token :: string where
  "sample_agent_token = ''av_agent_'' @ replicate 43 CHR ''A''"

definition sample_host :: host where
  "sample_host =
    \<lparr>ho_ticks = 0, ho_now = 0,
     ho_files = [''/home/ada'' \<mapsto> Directory 493, ''/home/ada/token'' \<mapsto> RegularFile 384 sample_agent_token, ''/tmp'' \<mapsto> Directory 511,
       ''/etc/ssl/certs/ca-certificates.crt'' \<mapsto> RegularFile 420 pem_begin],
     ho_output = [], ho_calls = [], ho_posts = [], ho_processes = [], ho_children = []\<rparr>"

section \<open>Properties\<close>


text \<open>
  C29. The login ends. With a device code that is valid for a number of seconds the client asks for the token at most
  that number of times, whatever the provider answers and however it slows the client down, and then returns.
\<close>

theorem login_polls_bounded:
  "\<exists>result t. poll_token e token_endpoint device_code client_id (ho_now s + expires_in * 1000000000) (max interval 1) s = Some (result, t)
    \<and> length (ho_posts t) \<le> length (ho_posts s) + expires_in"
proof -
  have "0 < max interval 1" by simp
  from poll_token_returns [OF this, of e token_endpoint device_code client_id "ho_now s + expires_in * 1000000000" s]
  show ?thesis by auto
qed

text \<open>
  C28. A session does not outlive its run. When \<^verbatim>\<open>av run\<close>, with or without a container, has ended, then it had not
  called the server at all and reports an error; or it got no complete session and reports an error; or the last thing it did
  was the call that revokes its session, and if it reports the exit code of the child, the server had
  answered that call. This holds for every failure in between.
\<close>

theorem finished_run_revokes:
  fixes cr :: "('u, 'z) client_crates_scheme"
  assumes "run_transparent_proxy cr e api_url profile command events s = (Some result, t)
    \<or> run_enforced_container cr e api_url profile image_ref helper_image workspace command container_events s = (Some result, t)"
  shows "ho_calls t = ho_calls s \<and> \<not> is_ok result \<or> ends_session cr e api_url profile result t"
  using assms
proof
  assume "run_transparent_proxy cr e api_url profile command events s = (Some result, t)"
  then show ?thesis by (rule transparent_run_ends)
next
  assume "run_enforced_container cr e api_url profile image_ref helper_image workspace command container_events s = (Some result, t)"
  then show ?thesis by (rule container_run_ends)
qed

theorem finished_run_revokes_witness:
  "\<exists>t. run_transparent_proxy sample_client_crates sample_host_env ''https://av.example.test'' ''example'' [''--'', ''make'']
      [Ends (Exited (Some 0))] sample_host = (Some (Inr 0), t)
    \<and> ends_session sample_client_crates sample_host_env ''https://av.example.test'' ''example'' (Inr 0) t"
proof -
  let ?run = "run_transparent_proxy sample_client_crates sample_host_env ''https://av.example.test'' ''example'' [''--'', ''make'']
      [Ends (Exited (Some 0))] sample_host"
  have "fst ?run = Some (Inr 0)" by code_simp
  then obtain t where run: "?run = (Some (Inr 0), t)" by (cases ?run) auto
  with finished_run_revokes [OF disjI1 [OF run]] show ?thesis by auto
qed

text \<open>
  The local proxy speaks for its child with the token of the session and nothing else. Whatever the child sends,
  what goes to the server is nothing, or a head with the child's CONNECT line, the child's fields without any Proxy-Authorization, exactly
  one Host field and, as the only Proxy-Authorization field, the token; after it only what the child sent behind its
  head, and that only once the server has answered with 200.
\<close>

lemma local_proxy_speaks_with_token:
  assumes "proxy_local_connection cn token client_reads remote_reads = outcome" and "co_to_remote outcome \<noteq> []"
  shows "\<exists>header remaining reads out. read_proxy_header client_reads [] = Inr (header, remaining, reads)
    \<and> inject_proxy_authorization header token = Inr out
    \<and> (co_to_remote outcome = out \<or> co_to_remote outcome = out @ remaining
         \<and> (prefix ''HTTP/1.1 200'' (co_to_client outcome) \<or> prefix ''HTTP/1.0 200'' (co_to_client outcome)))
    \<and> hd (split_crlf out) = hd (split_crlf header)
    \<and> (\<exists>authority. ascii_words (hd (split_crlf out)) = [''CONNECT'', authority, ''HTTP/1.1''])
    \<and> head_lines out = filter (\<lambda>field. \<not> is_header ''proxy-authorization'' field) (head_lines header) @ [token_field token]
    \<and> length (filter (is_header ''host'') (head_lines out)) = 1"
proof -
  from assms obtain header remaining reads out where
    head: "read_proxy_header client_reads [] = Inr (header, remaining, reads)" "inject_proxy_authorization header token = Inr out"
    by (cases "read_proxy_header client_reads []"; cases "inject_proxy_authorization (fst (projr (read_proxy_header client_reads []))) token")
      (auto simp: proxy_local_connection_def Let_def)
  with assms have "co_to_remote outcome = out \<or> co_to_remote outcome = out @ remaining
      \<and> (prefix ''HTTP/1.1 200'' (co_to_client outcome) \<or> prefix ''HTTP/1.0 200'' (co_to_client outcome))"
    by (auto simp: proxy_local_connection_def Let_def split: sum.split_asm if_split_asm)
  with head inject_Inr [OF head(2)] show ?thesis by auto
qed

text \<open>
  C30. The token of an agent gets from the server back to the server. A token that the server mints and the client writes to a file is
  private to its owner, and a later call of the client that is pointed to the file presents exactly this
  token; its digest is the one that the server keeps.
\<close>

theorem agent_token_roundtrip:
  assumes "base64_url_law cr" and "\<And>n. length (env_random es n) = 32" and "mint_agent_token cr es s0 = ((token, token_hash), s1)"
    and "emit_agent_token e token (Some path) s = (Inr (), t)" and "path \<noteq> []"
    and "env_var e ''AV_AGENT_TOKEN_FILE'' = Some path" and "he_fs e (ho_ticks t)"
  shows "ho_files t path = Some (RegularFile 384 token)
    \<and> fst (authenticate_request cr' e t) = Inr (''Agent '' @ token) \<and> token_hash = sha256 cr token"
proof -
  note form = minted_token_form [OF assms(1-3)]
  from assms(4) obtain t0 where "write_private_file e path token s = (Inr (), t0)" "ho_files t = ho_files t0"
    by (auto simp: emit_agent_token_def act_try_Inr act_map_err_Inr println_def simp del: act_map_err_run)
  with write_private_file_Inr have stored: "ho_files t path = Some (RegularFile 384 token)" by metis
  from read_written_token [OF stored assms(5,7) form(1,2,5,4)] have "fst (read_agent_token e path t) = Inr token" .
  with assms(6) have "fst (authenticate_request cr' e t) = Inr (''Agent '' @ token)"
    by (cases "read_agent_token e path t") (simp add: authenticate_request_def act_try_def)
  with stored form(3) show ?thesis by simp
qed

lemma sample_base64_length:
  "length (sample_base64 base64_url_alphabet False bs) = (4 * length bs + 2) div 3"
  by (induction base64_url_alphabet False bs rule: sample_base64.induct) auto

lemma sample_base64_letters:
  assumes "list_all (\<lambda>b. b < 256) bs"
  shows "list_all (\<lambda>c. is_ascii_alphanumeric c \<or> c = CHR ''-'' \<or> c = CHR ''_'') (sample_base64 base64_url_alphabet False bs)"
proof -
  have letters: "list_all (\<lambda>c. is_ascii_alphanumeric c \<or> c = CHR ''-'' \<or> c = CHR ''_'') base64_url_alphabet" by code_simp
  have "length base64_url_alphabet = 64" by code_simp
  with letters have letter: "n < 64 \<Longrightarrow> is_ascii_alphanumeric (base64_url_alphabet ! n) \<or> base64_url_alphabet ! n = CHR ''-'' \<or> base64_url_alphabet ! n = CHR ''_''" for n
    by (auto simp: list_all_length)
  show ?thesis using assms
    by (induction base64_url_alphabet False bs rule: sample_base64.induct) (auto intro!: letter)
qed

lemma sample_base64_url_law: "base64_url_law sample_auth_crates"
  unfolding base64_url_law_def
proof (intro allI impI)
  fix b :: bytes
  assume "length b = 32"
  then show "length (base64_url_safe_no_pad sample_auth_crates b) = 43
    \<and> list_all (\<lambda>c. is_ascii_alphanumeric c \<or> c = CHR ''-'' \<or> c = CHR ''_'') (base64_url_safe_no_pad sample_auth_crates b)"
    using sample_base64_length [of "map byte b"] sample_base64_letters [of "map byte b"]
    by (simp add: sample_auth_crates_simps list_all_iff nat_of_char_less_256)
qed

theorem agent_token_roundtrip_witness:
  "\<exists>token t. fst (authenticate_request sample_crates sample_host_env t) = Inr (''Agent '' @ token)
    \<and> ho_files t ''/home/ada/token'' = Some (RegularFile 384 token)"
proof -
  obtain token token_hash s1 where minted: "mint_agent_token sample_auth_crates auth_env auth_state = ((token, token_hash), s1)"
    by (metis surj_pair)
  have random: "length (env_random auth_env n) = 32" for n by (simp add: auth_env_def)
  have parent: "path_parent ''/home/ada/token'' = Some ''/home/ada''" by code_simp
  have chain: "path_chain ''/home/ada'' = [''/home'', ''/home/ada'']" by code_simp
  let ?run = "emit_agent_token sample_host_env token (Some ''/home/ada/token'') sample_host"
  have "fst ?run = Inr ()"
    by (simp add: emit_agent_token_def write_private_file_def parent create_dir_all_def chain restrict_directory_def restrict_file_def
        set_permissions_def fs_write_def println_def act_try_def sample_host_env_def sample_host_def Let_def)
  then obtain t where run: "?run = (Inr (), t)" by (cases ?run) auto
  have env: "env_var sample_host_env ''AV_AGENT_TOKEN_FILE'' = Some ''/home/ada/token''" by code_simp
  have "he_fs sample_host_env (ho_ticks t)" by (simp add: sample_host_env_def)
  from agent_token_roundtrip [OF sample_base64_url_law random minted run _ env this] show ?thesis by auto
qed

end
