(* ===== verification/Interception.thy ===== *)
theory Interception
  imports Proxy
begin

text \<open>
  The TLS side of the transparent proxy: the certificate authority that mints a certificate for one host,
  \<^verbatim>\<open>crates/av-credential-proxy/src/ca.rs\<close>, the transport certificate that is read again for every connection,
  \<^verbatim>\<open>src/transport_tls.rs\<close>, and the service of a connection and of a tunnel in \<^verbatim>\<open>src/server.rs\<close>. Keys and certificates are
  texts; what the TLS crates make of them is a parameter, \<open>tls_crates\<close>.
\<close>

section \<open>Data\<close>

datatype key_usage = DigitalSignature | KeyEncipherment

datatype extended_key_usage = ServerAuth

record leaf_params =
  lf_names :: "string list"
  lf_is_ca :: bool
  lf_key_usages :: "key_usage list"
  lf_extended_key_usages :: "extended_key_usage list"
  lf_not_before :: int
  lf_not_after :: int

record tls_crates =
  tc_key_pair_from_pem :: "string \<Rightarrow> string option"
  tc_issuer_from_ca_cert_pem :: "string \<Rightarrow> string \<Rightarrow> string option"
  tc_certificate_params :: "string list \<Rightarrow> bool"
  tc_key_pair_generate :: "bytes \<Rightarrow> string option"
  tc_signed_by :: "leaf_params \<Rightarrow> string \<Rightarrow> string \<Rightarrow> string option"
  tc_certificates_from_pem :: "bytes \<Rightarrow> string list option"
  tc_private_key_from_pem :: "bytes \<Rightarrow> string option"
  tc_with_single_cert :: "string list \<Rightarrow> string \<Rightarrow> bool"
  tc_provider_installed :: bool

record proxy_certificate_authority =
  pc_issuer :: string
  pc_certificate_pem :: string

record server_config =
  sc_certificates :: "string list"
  sc_private_key :: string

datatype tls_error =
  CaCertificateUnreadable | CaKeyUnreadable | CaKeyInvalid | CaCertificateInvalid
| LeafHost | LeafParams | LeafKey | LeafSignature | LeafConfiguration
| ProviderMissing | TransportCertificateUnreadable | TransportKeyUnreadable | TransportChainInvalid | TransportChainEmpty
| TransportKeyInvalid | TransportMismatch

section \<open>The certificate authority\<close>

definition leaf_validity :: int where
  "leaf_validity = secs (8 * 60 * 60)"

definition authority_load ::
    "tls_crates \<Rightarrow> env \<Rightarrow> string \<Rightarrow> string \<Rightarrow> ('z io_scheme, tls_error + proxy_certificate_authority) act" where
  "authority_load tc e certificate_path private_key_path =
    act_try (act_bind (tick (\<lambda>n. env_file e n certificate_path)) (\<lambda>read. act_return (ok_or CaCertificateUnreadable read))) (\<lambda>certificate_pem.
    act_try (act_bind (tick (\<lambda>n. env_file e n private_key_path)) (\<lambda>read. act_return (ok_or CaKeyUnreadable read))) (\<lambda>private_key_pem.
      act_return
        (rbind (ok_or CaKeyInvalid (tc_key_pair_from_pem tc private_key_pem)) (\<lambda>signing_key.
         rbind (ok_or CaCertificateInvalid (tc_issuer_from_ca_cert_pem tc certificate_pem signing_key)) (\<lambda>issuer.
           Inr \<lparr>pc_issuer = issuer, pc_certificate_pem = certificate_pem\<rparr>)))))"

definition validate_leaf_host :: "('u, 'c) crates_scheme \<Rightarrow> string \<Rightarrow> tls_error + unit" where
  "validate_leaf_host cr host = rbind (with_context LeafHost (canonical_tunnel_host cr host)) (\<lambda>_. Inr ())"

definition leaf_for :: "string \<Rightarrow> int \<Rightarrow> leaf_params" where
  "leaf_for host now =
    \<lparr>lf_names = [host], lf_is_ca = False, lf_key_usages = [DigitalSignature, KeyEncipherment],
     lf_extended_key_usages = [ServerAuth], lf_not_before = now - secs (5 * 60), lf_not_after = now + leaf_validity\<rparr>"

definition issue_server_config ::
    "('u, 'c) crates_scheme \<Rightarrow> tls_crates \<Rightarrow> env \<Rightarrow> proxy_certificate_authority \<Rightarrow> string
     \<Rightarrow> ('z io_scheme, tls_error + server_config) act" where
  "issue_server_config cr tc e authority host =
    act_try (act_return (validate_leaf_host cr host)) (\<lambda>_.
      if \<not> tc_certificate_params tc [host] then act_return (Inl LeafParams)
      else act_bind (clock_now e) (\<lambda>now.
        act_try (tick (\<lambda>n. ok_or LeafKey (tc_key_pair_generate tc (env_random e n)))) (\<lambda>signing_key.
          act_return
            (rbind (ok_or LeafSignature (tc_signed_by tc (leaf_for host now) signing_key (pc_issuer authority))) (\<lambda>certificate.
               if tc_with_single_cert tc [certificate] signing_key
               then Inr \<lparr>sc_certificates = [certificate], sc_private_key = signing_key\<rparr>
               else Inl LeafConfiguration)))))"

section \<open>The transport certificate\<close>

record transport = io +
  ts_current :: server_config

definition load_server_config ::
    "tls_crates \<Rightarrow> env \<Rightarrow> string \<Rightarrow> string \<Rightarrow> ('z io_scheme, tls_error + server_config) act" where
  "load_server_config tc e certificate_path private_key_path =
    (if \<not> tc_provider_installed tc then act_return (Inl ProviderMissing)
     else
       act_try (act_bind (tick (\<lambda>n. env_file e n certificate_path)) (\<lambda>read. act_return (ok_or TransportCertificateUnreadable read))) (\<lambda>certificate_pem.
       act_try (act_bind (tick (\<lambda>n. env_file e n private_key_path)) (\<lambda>read. act_return (ok_or TransportKeyUnreadable read))) (\<lambda>private_key_pem.
         act_return
           (rbind (ok_or TransportChainInvalid (tc_certificates_from_pem tc certificate_pem)) (\<lambda>certificates.
              if certificates = [] then Inl TransportChainEmpty
              else rbind (ok_or TransportKeyInvalid (tc_private_key_from_pem tc private_key_pem)) (\<lambda>private_key.
                if tc_with_single_cert tc certificates private_key
                then Inr \<lparr>sc_certificates = certificates, sc_private_key = private_key\<rparr>
                else Inl TransportMismatch))))))"

text \<open>A valid replacement is used at once; an invalid one leaves the configuration as it is and is reported.\<close>

definition acceptor ::
    "tls_crates \<Rightarrow> env \<Rightarrow> string \<Rightarrow> string \<Rightarrow> ('z transport_scheme, server_config \<times> tls_error option) act" where
  "acceptor tc e certificate_path private_key_path =
    act_bind (load_server_config tc e certificate_path private_key_path) (\<lambda>loaded s.
      case loaded of
        Inr replacement \<Rightarrow> ((replacement, None), s\<lparr>ts_current := replacement\<rparr>)
      | Inl err \<Rightarrow> ((ts_current s, Some err), s))"

fun acceptors ::
    "tls_crates \<Rightarrow> env \<Rightarrow> string \<Rightarrow> string \<Rightarrow> nat \<Rightarrow> ('z transport_scheme, (server_config \<times> tls_error option) list) act" where
  "acceptors tc e certificate_path private_key_path 0 = act_return []"
| "acceptors tc e certificate_path private_key_path (Suc n) =
    act_bind (acceptor tc e certificate_path private_key_path) (\<lambda>first.
    act_bind (acceptors tc e certificate_path private_key_path n) (\<lambda>rest. act_return (first # rest)))"

section \<open>A connection of a client\<close>

record connect_message =
  cn_method :: string
  cn_target :: uri
  cn_headers :: header_map

text \<open>
  The requests of a connection are answered in order until one of them opens a tunnel, which takes the connection over
  (\<open>serve_transparent_proxy_connection\<close>).
\<close>

fun serve_connects ::
    "('u, 'c) crates_scheme \<Rightarrow> env \<Rightarrow> 'u network \<Rightarrow> transparent_proxy_runtime \<Rightarrow> connect_message list
     \<Rightarrow> ('z server_scheme, connect_answer list) act" where
  "serve_connects cr e nw runtime [] = act_return []"
| "serve_connects cr e nw runtime (request # requests) =
    act_bind (transparent_connect_response cr e nw runtime (cn_method request) (cn_target request) (cn_headers request)) (\<lambda>answer.
      if ca_tunnel answer \<noteq> None then act_return [answer]
      else act_bind (serve_connects cr e nw runtime requests) (\<lambda>answers. act_return (answer # answers)))"

fun serve_tunnel_requests ::
    "('u, 'c) proxy_crates_scheme \<Rightarrow> env \<Rightarrow> 'u network \<Rightarrow> gateway \<Rightarrow> string \<Rightarrow> bytes \<Rightarrow> string \<Rightarrow> tunnel_request list
     \<Rightarrow> (('u, 'z) proxy_server_scheme, http_response list) act" where
  "serve_tunnel_requests cr e nw gw route_name token_hash session_id [] = act_return []"
| "serve_tunnel_requests cr e nw gw route_name token_hash session_id (request # requests) =
    act_bind (transparent_tunnel_response cr e nw gw route_name token_hash session_id request) (\<lambda>response.
    act_bind (serve_tunnel_requests cr e nw gw route_name token_hash session_id requests) (\<lambda>responses.
      act_return (response # responses)))"

text \<open>\<open>handshake\<close> says whether the client completes the TLS handshake with a configuration.\<close>

datatype tunnel_error = TunnelCertificate tls_error | TunnelHandshake

definition serve_transparent_tls_tunnel ::
    "('u, 'c) proxy_crates_scheme \<Rightarrow> tls_crates \<Rightarrow> env \<Rightarrow> 'u network \<Rightarrow> gateway \<Rightarrow> proxy_certificate_authority
     \<Rightarrow> (server_config \<Rightarrow> bool) \<Rightarrow> string \<Rightarrow> string \<Rightarrow> bytes \<Rightarrow> string \<Rightarrow> tunnel_request list
     \<Rightarrow> (('u, 'z) proxy_server_scheme, tunnel_error + server_config \<times> http_response list) act" where
  "serve_transparent_tls_tunnel cr tc e nw gw authority handshake route_name host token_hash session_id requests =
    act_try (act_map_err TunnelCertificate (issue_server_config cr tc e authority host)) (\<lambda>config.
      if \<not> handshake config then act_return (Inl TunnelHandshake)
      else act_bind (serve_tunnel_requests cr e nw gw route_name token_hash session_id requests) (\<lambda>responses.
        act_return (Inr (config, responses))))"

text \<open>One connection: the requests outside, and the requests in the tunnel if one of them opens one.\<close>

definition serve_transparent_connection ::
    "('u, 'c) proxy_crates_scheme \<Rightarrow> tls_crates \<Rightarrow> env \<Rightarrow> 'u network \<Rightarrow> gateway \<Rightarrow> transparent_proxy_runtime
     \<Rightarrow> proxy_certificate_authority \<Rightarrow> (server_config \<Rightarrow> bool) \<Rightarrow> connect_message list \<Rightarrow> tunnel_request list
     \<Rightarrow> (('u, 'z) proxy_server_scheme, connect_answer list \<times> (tunnel_error + server_config \<times> http_response list) option) act" where
  "serve_transparent_connection cr tc e nw gw runtime authority handshake connects requests =
    act_bind (serve_connects cr e nw runtime connects) (\<lambda>answers.
      case (if answers = [] then None else ca_tunnel (last answers)) of
        Some (InjectingTunnel route_name host token_hash session_id) \<Rightarrow>
          act_bind (serve_transparent_tls_tunnel cr tc e nw gw authority handshake route_name host token_hash session_id requests) (\<lambda>served.
            act_return (answers, Some served))
      | _ \<Rightarrow> act_return (answers, None))"

end
