(* ===== verification/Browser.thy ===== *)
theory Browser
  imports Proxy Control
begin

text \<open>
  The browser side of the server, \<^verbatim>\<open>src/server.rs\<close>: the sign-in with GitHub, its cookies and its sessions, and the
  session store that remembers who signed in. GitHub is a parameter, \<open>github_network\<close>: its answer to a request,
  given the requests it has answered before. The state keeps the exchanges with it.
\<close>

section \<open>State\<close>

record 'u browser_crates = "'u proxy_crates" +
  url_into_string :: "'u \<Rightarrow> string"
  url_origin_text :: "'u \<Rightarrow> string"
  connect_error_text :: "rpc_error \<Rightarrow> string"

record github_pending_login =
  gp_verifier :: string
  gp_expires_at :: int

record github_browser_session =
  gs_identity :: string
  gs_expires_at :: int

datatype github_request =
  ExchangeCode "(string \<times> string) list"
| FetchUser string
| FetchMembership string string

text \<open>What a response body decodes to: \<open>GithubTokenResponse\<close>, \<open>GithubUser\<close>, \<open>GithubOrganizationMembership\<close>, or none of them.\<close>

datatype github_body =
  GithubToken string
| GithubUser nat
| GithubMembership string
| GithubOther

type_synonym github_reply = "(nat \<times> github_body) option"

type_synonym github_network = "(github_request \<times> github_reply) list \<Rightarrow> github_request \<Rightarrow> github_reply"

record github_browser_auth =
  ga_client_id :: string
  ga_client_secret :: string
  ga_allowed_user_ids :: "nat list"
  ga_allowed_organizations :: "string list"
  ga_network :: github_network

record 'u browser_server = "'u proxy_server" +
  br_pending :: "(string \<times> github_pending_login) list"
  br_sessions :: "(string \<times> github_browser_session) list"
  br_github :: "(github_request \<times> github_reply) list"

record github_callback_query =
  gc_code :: "string option"
  gc_state :: "string option"
  gc_error :: "string option"

datatype github_error =
  SecretUnreadable | SecretEmpty
| StateRejected | ExchangeFailed | ExchangeStatus nat | ExchangeDecode
| IdentityFailed | IdentityStatus nat | IdentityDecode
| MembershipFailed | MembershipStatus nat | MembershipDecode
| UserNotAllowed

definition github_authorization_endpoint :: string where
  "github_authorization_endpoint = ''https://github.com/login/oauth/authorize''"

definition github_membership_prefix :: string where
  "github_membership_prefix = ''https://api.github.com/user/memberships/orgs''"

definition github_state_cookie_name :: string where
  "github_state_cookie_name = ''av_github_state''"

definition github_session_cookie_name :: string where
  "github_session_cookie_name = ''av_github_session''"

definition github_auth_ttl :: int where
  "github_auth_ttl = secs (10 * 60)"

definition github_session_ttl :: int where
  "github_session_ttl = secs (60 * 60)"

section \<open>The sign-in\<close>

definition github_new ::
    "env \<Rightarrow> github_network \<Rightarrow> github_auth_config \<Rightarrow> ('z io_scheme, github_error + github_browser_auth) act" where
  "github_new e network config =
    act_bind (tick (\<lambda>n. env_file e n (gh_client_secret_file config))) (\<lambda>contents.
      case contents of
        None \<Rightarrow> act_return (Inl SecretUnreadable)
      | Some contents \<Rightarrow>
          if trim contents = [] then act_return (Inl SecretEmpty)
          else act_return (Inr
            \<lparr>ga_client_id = gh_client_id config, ga_client_secret = trim contents,
             ga_allowed_user_ids = gh_allowed_user_ids config,
             ga_allowed_organizations = sort (remdups (map to_ascii_lowercase (gh_allowed_organizations config))),
             ga_network = network\<rparr>))"

definition github_scope :: "github_browser_auth \<Rightarrow> string" where
  "github_scope github = (if ga_allowed_organizations github = [] then ''read:user'' else ''read:user read:org'')"

text \<open>The result is the location and the state; none if the endpoint is not a URL, where the code panics.\<close>

definition github_start_login ::
    "('u, 'c) browser_crates_scheme \<Rightarrow> env \<Rightarrow> github_browser_auth \<Rightarrow> string
     \<Rightarrow> (('u, 'z) browser_server_scheme, (string \<times> string) option) act" where
  "github_start_login cr e github redirect_uri =
    act_bind (random_browser_token cr e) (\<lambda>state.
    act_bind (random_browser_token cr e) (\<lambda>first.
    act_bind (random_browser_token cr e) (\<lambda>second.
    act_bind (clock_now e) (\<lambda>now.
    act_bind (\<lambda>s. ((), s\<lparr>br_pending :=
        AList.update state \<lparr>gp_verifier = first @ second, gp_expires_at = now + github_auth_ttl\<rparr>
          (filter (\<lambda>(_, item). gp_expires_at item > now) (br_pending s))\<rparr>)) (\<lambda>_.
      act_return
        (case url_parse cr github_authorization_endpoint of
           None \<Rightarrow> None
         | Some url \<Rightarrow>
             Some (url_into_string cr (url_extend_pairs cr
               [(''client_id'', ga_client_id github),
                (''redirect_uri'', redirect_uri),
                (''scope'', github_scope github),
                (''state'', state),
                (''code_challenge'', base64_url_safe_no_pad cr (sha256 cr (first @ second))),
                (''code_challenge_method'', ''S256'')] url), state)))))))"

text \<open>One request, and \<open>error_for_status\<close>, which lets every status below 400 pass.\<close>

definition github_send :: "github_browser_auth \<Rightarrow> github_request \<Rightarrow> (('u, 'z) browser_server_scheme, github_reply) act" where
  "github_send github request s =
    (let reply = ga_network github (br_github s) request
     in (reply, s\<lparr>br_github := br_github s @ [(request, reply)]\<rparr>))"

definition is_error_status :: "nat \<Rightarrow> bool" where
  "is_error_status status \<longleftrightarrow> 400 \<le> status \<and> status < 600"

definition exchange_code ::
    "github_browser_auth \<Rightarrow> string \<Rightarrow> string \<Rightarrow> string \<Rightarrow> (('u, 'z) browser_server_scheme, github_error + string) act" where
  "exchange_code github code redirect_uri verifier =
    act_bind (github_send github (ExchangeCode
        [(''client_id'', ga_client_id github),
         (''client_secret'', ga_client_secret github),
         (''code'', code),
         (''redirect_uri'', redirect_uri),
         (''code_verifier'', verifier)])) (\<lambda>reply.
      act_return
        (case reply of
           None \<Rightarrow> Inl ExchangeFailed
         | Some (status, body) \<Rightarrow>
             if is_error_status status then Inl (ExchangeStatus status)
             else (case body of GithubToken access_token \<Rightarrow> Inr access_token | _ \<Rightarrow> Inl ExchangeDecode)))"

definition fetch_github_user ::
    "github_browser_auth \<Rightarrow> string \<Rightarrow> (('u, 'z) browser_server_scheme, github_error + nat) act" where
  "fetch_github_user github access_token =
    act_bind (github_send github (FetchUser access_token)) (\<lambda>reply.
      act_return
        (case reply of
           None \<Rightarrow> Inl IdentityFailed
         | Some (status, body) \<Rightarrow>
             if is_error_status status then Inl (IdentityStatus status)
             else (case body of GithubUser user_id \<Rightarrow> Inr user_id | _ \<Rightarrow> Inl IdentityDecode)))"

definition github_organization_membership_endpoint :: "string \<Rightarrow> string" where
  "github_organization_membership_endpoint organization = github_membership_prefix @ ''/'' @ organization"

definition has_active_organization_membership ::
    "github_browser_auth \<Rightarrow> string \<Rightarrow> string \<Rightarrow> (('u, 'z) browser_server_scheme, github_error + bool) act" where
  "has_active_organization_membership github access_token organization =
    act_bind (github_send github
        (FetchMembership (github_organization_membership_endpoint organization) access_token)) (\<lambda>reply.
      act_return
        (case reply of
           None \<Rightarrow> Inl MembershipFailed
         | Some (status, body) \<Rightarrow>
             if status = 404 then Inr False
             else if is_error_status status then Inl (MembershipStatus status)
             else (case body of GithubMembership state \<Rightarrow> Inr (state = ''active'') | _ \<Rightarrow> Inl MembershipDecode)))"

fun any_active_membership ::
    "github_browser_auth \<Rightarrow> string \<Rightarrow> string list \<Rightarrow> (('u, 'z) browser_server_scheme, github_error + bool) act" where
  "any_active_membership github access_token [] = act_return (Inr False)"
| "any_active_membership github access_token (organization # organizations) =
    act_try (has_active_organization_membership github access_token organization) (\<lambda>active.
      if active then act_return (Inr True) else any_active_membership github access_token organizations)"

definition is_allowed_user ::
    "github_browser_auth \<Rightarrow> nat \<Rightarrow> string \<Rightarrow> (('u, 'z) browser_server_scheme, github_error + bool) act" where
  "is_allowed_user github user_id access_token =
    (if user_id \<in> set (ga_allowed_user_ids github) then act_return (Inr True)
     else any_active_membership github access_token (ga_allowed_organizations github))"

definition github_subject :: "nat \<Rightarrow> string" where
  "github_subject user_id = ''github:'' @ decimal user_id"

text \<open>The pending login is gone whether or not it is still valid.\<close>

definition take_pending ::
    "env \<Rightarrow> string \<Rightarrow> (('u, 'z) browser_server_scheme, github_error + github_pending_login) act" where
  "take_pending e state s =
    (let removed = map_of (br_pending s) state; s = s\<lparr>br_pending := AList.delete state (br_pending s)\<rparr>
     in case removed of
          None \<Rightarrow> (Inl StateRejected, s)
        | Some item \<Rightarrow>
            act_bind (clock_now e) (\<lambda>now.
              act_return (if gp_expires_at item > now then Inr item else Inl StateRejected)) s)"

definition github_finish_login ::
    "env \<Rightarrow> github_browser_auth \<Rightarrow> string \<Rightarrow> string \<Rightarrow> string \<Rightarrow> (('u, 'z) browser_server_scheme, github_error + string) act" where
  "github_finish_login e github state code redirect_uri =
    act_try (take_pending e state) (\<lambda>pending.
    act_try (exchange_code github code redirect_uri (gp_verifier pending)) (\<lambda>access_token.
    act_try (fetch_github_user github access_token) (\<lambda>user_id.
    act_try (is_allowed_user github user_id access_token) (\<lambda>allowed.
      act_return (if \<not> allowed then Inl UserNotAllowed else Inr (github_subject user_id))))))"

section \<open>Sessions\<close>

definition retain_sessions :: "int \<Rightarrow> (('u, 'z) browser_server_scheme, unit) act" where
  "retain_sessions now s =
    ((), s\<lparr>br_sessions := filter (\<lambda>(_, session). gs_expires_at session > now) (br_sessions s)\<rparr>)"

definition create_session ::
    "('u, 'c) browser_crates_scheme \<Rightarrow> env \<Rightarrow> string \<Rightarrow> (('u, 'z) browser_server_scheme, string) act" where
  "create_session cr e identity =
    act_bind (random_browser_token cr e) (\<lambda>token.
    act_bind (clock_now e) (\<lambda>now.
    act_bind (retain_sessions now) (\<lambda>_ s.
      (token, s\<lparr>br_sessions :=
        AList.update token \<lparr>gs_identity = identity, gs_expires_at = now + github_session_ttl\<rparr> (br_sessions s)\<rparr>))))"

definition session_identity :: "env \<Rightarrow> string \<Rightarrow> (('u, 'z) browser_server_scheme, string option) act" where
  "session_identity e token =
    act_bind (clock_now e) (\<lambda>now.
    act_bind (retain_sessions now) (\<lambda>_ s.
      (map_option gs_identity (map_of (br_sessions s) token), s)))"

definition remove_session :: "string \<Rightarrow> (('u, 'z) browser_server_scheme, unit) act" where
  "remove_session token s = ((), s\<lparr>br_sessions := AList.delete token (br_sessions s)\<rparr>)"

section \<open>Cookies\<close>

definition cookie_byte :: "char \<Rightarrow> bool" where
  "cookie_byte c \<longleftrightarrow> is_ascii_alphanumeric c \<or> c = CHR ''-'' \<or> c = CHR ''_''"

fun find_cookie :: "string \<Rightarrow> string list \<Rightarrow> string option" where
  "find_cookie name [] = None"
| "find_cookie name (pair # pairs) =
    (case split_once CHR ''='' pair of
       Some (key, content) \<Rightarrow> if key = name then Some content else find_cookie name pairs
     | None \<Rightarrow> find_cookie name pairs)"

definition cookie_text :: "string \<Rightarrow> string \<Rightarrow> string option" where
  "cookie_text name header =
    (case find_cookie name (map trim (split_on CHR '';'' header)) of
       None \<Rightarrow> None
     | Some content \<Rightarrow> if content \<noteq> [] \<and> list_all cookie_byte content then Some content else None)"

definition cookie_value :: "('u, 'c) crates_scheme \<Rightarrow> header_map \<Rightarrow> string \<Rightarrow> string option" where
  "cookie_value cr headers name =
    Option.bind (Option.bind (hm_get headers ''cookie'') (header_value_to_str cr)) (cookie_text name)"

definition github_state_cookie :: "string \<Rightarrow> string" where
  "github_state_cookie state =
    github_state_cookie_name @ ''='' @ state @ ''; Path=/auth/github; HttpOnly; SameSite=Lax; Max-Age=''
      @ decimal (nat (as_secs github_auth_ttl))"

definition clear_github_state_cookie :: string where
  "clear_github_state_cookie = github_state_cookie_name @ ''=; Path=/auth/github; HttpOnly; SameSite=Lax; Max-Age=0''"

definition github_session_cookie :: "string \<Rightarrow> string" where
  "github_session_cookie session =
    github_session_cookie_name @ ''='' @ session @ ''; Path=/; HttpOnly; SameSite=Lax; Max-Age=''
      @ decimal (nat (as_secs github_session_ttl))"

definition clear_github_session_cookie :: string where
  "clear_github_session_cookie = github_session_cookie_name @ ''=; Path=/; HttpOnly; SameSite=Lax; Max-Age=0''"

definition github_callback_url :: "string \<Rightarrow> string" where
  "github_callback_url public_url = trim_end_matches CHR ''/'' public_url @ ''/auth/github/callback''"

end
