(* ===== verification/Browser_UI.thy ===== *)
theory Browser_UI
  imports Browser
begin

text \<open>
  The pages and the forms of the browser, \<^verbatim>\<open>src/server.rs\<close>: who a browser request comes from, the sign-in handlers,
  the page of a session, the owner panel, the handlers of its forms, and the plain endpoints beside them.
  A page is the data that the template is rendered from; rendering and the static assets are not modelled.
\<close>

section \<open>Pages and responses\<close>

record owner_grant =
  og_profile :: string
  og_mode :: string
  og_expires :: "int option"

record owner_principal =
  op_label :: string
  op_kind :: string
  op_subject :: string
  op_role :: string
  op_grants :: "owner_grant list"

record issued_agent_credential =
  ic_name :: string
  ic_token :: string

record owner_panel =
  pn_basic_users :: "basic_user list"
  pn_agents :: "agent list"
  pn_profiles :: "string list"
  pn_principals :: "owner_principal list"
  pn_issued :: "issued_agent_credential option"
  pn_can_manage_roles :: bool

datatype page =
  Raw response_body
| SessionPage public_status "profile_summary list"
| OwnerPage owner_panel
| AuthConfigJson public_auth_config
| StatusJson public_status
| ProfilesJson "profile_summary list"

record ui_response =
  ui_status :: nat
  ui_headers :: header_map
  ui_body :: page

definition ui_raw :: "http_response \<Rightarrow> ui_response" where
  "ui_raw response = \<lparr>ui_status = rs_status response, ui_headers = rs_headers response, ui_body = Raw (rs_body response)\<rparr>"

definition ui_message :: "nat \<Rightarrow> string \<Rightarrow> ui_response" where
  "ui_message status message = ui_raw (no_store (full_response status (line message)))"

definition ui_page :: "page \<Rightarrow> ui_response" where
  "ui_page body = (ui_raw (no_store (full_response 200 [])))\<lparr>ui_body := body\<rparr>"

definition ui_not_found :: ui_response where
  "ui_not_found = ui_message 404 ''not found''"

definition ui_bad_request :: "string \<Rightarrow> ui_response" where
  "ui_bad_request message = ui_message 400 message"

definition ui_forbidden :: "string \<Rightarrow> ui_response" where
  "ui_forbidden message = ui_message 403 message"

text \<open>The end of a handler whose early returns are errors of an action.\<close>

definition respond :: "('s, ui_response + ui_response) act \<Rightarrow> ('s, ui_response) act" where
  "respond m = act_bind m (\<lambda>r. act_return (case r of Inl response \<Rightarrow> response | Inr response \<Rightarrow> response))"

definition ui_unavailable :: "'e \<Rightarrow> ui_response" where
  "ui_unavailable _ = ui_raw internal_error"

section \<open>Who asks\<close>

definition github_session ::
    "('u, 'c) browser_crates_scheme \<Rightarrow> env \<Rightarrow> github_browser_auth option \<Rightarrow> header_map
     \<Rightarrow> (('u, 'z) browser_server_scheme, string option) act" where
  "github_session cr e github headers =
    (case github of
       None \<Rightarrow> act_return None
     | Some _ \<Rightarrow>
         (case cookie_value cr headers github_session_cookie_name of
            None \<Rightarrow> act_return None
          | Some session \<Rightarrow> session_identity e session))"

definition ui_identity ::
    "('u, 'c) browser_crates_scheme \<Rightarrow> env \<Rightarrow> gateway \<Rightarrow> github_browser_auth option \<Rightarrow> header_map
     \<Rightarrow> (('u, 'z) browser_server_scheme, auth_error + string) act" where
  "ui_identity cr e gw github headers =
    act_bind (github_session cr e github headers) (\<lambda>found.
      case found of
        Some identity \<Rightarrow> act_return (Inr identity)
      | None \<Rightarrow> authorize cr e (gw_auth gw) headers)"

text \<open>One operation of the store; without a store the handler answers not found.\<close>

definition ui_read ::
    "env \<Rightarrow> (int \<Rightarrow> store_db \<Rightarrow> store_error + 'a) \<Rightarrow> ('z server_scheme, ui_response + 'a) act" where
  "ui_read e query s =
    (case sv_db s of
       None \<Rightarrow> (Inl ui_not_found, s)
     | Some db \<Rightarrow> act_map_err ui_unavailable (store_query e (\<lambda>clock. query clock db)) s)"

definition ui_write ::
    "env \<Rightarrow> (store_failure \<Rightarrow> ui_response) \<Rightarrow> (int \<Rightarrow> store_db \<Rightarrow> store_error + store_db \<times> 'a)
     \<Rightarrow> ('z server_scheme, ui_response + 'a) act" where
  "ui_write e fail change s =
    (case sv_db s of
       None \<Rightarrow> (Inl ui_not_found, s)
     | Some db \<Rightarrow> act_map_err fail (store_update e (\<lambda>clock. change clock db)) s)"

definition ui_require_owner ::
    "('u, 'c) browser_crates_scheme \<Rightarrow> env \<Rightarrow> gateway \<Rightarrow> github_browser_auth option \<Rightarrow> header_map
     \<Rightarrow> (('u, 'z) browser_server_scheme, ui_response + string) act" where
  "ui_require_owner cr e gw github headers =
    act_try (act_map_err (\<lambda>_. ui_raw unauthorized) (ui_identity cr e gw github headers)) (\<lambda>subject.
    act_try (ui_read e (\<lambda>_ db. is_owner db subject)) (\<lambda>owner.
      act_return (if owner then Inr subject else Inl (ui_forbidden ''owner access required''))))"

definition ui_require_operator ::
    "('u, 'c) browser_crates_scheme \<Rightarrow> env \<Rightarrow> gateway \<Rightarrow> github_browser_auth option \<Rightarrow> header_map
     \<Rightarrow> (('u, 'z) browser_server_scheme, ui_response + string) act" where
  "ui_require_operator cr e gw github headers =
    act_try (act_map_err (\<lambda>_. ui_raw unauthorized) (ui_identity cr e gw github headers)) (\<lambda>subject.
    act_try (ui_read e (\<lambda>_ db. principal_role db subject)) (\<lambda>role.
      act_return (if can_operate role then Inr subject else Inl (ui_forbidden ''operator access required''))))"

definition ui_check_origin :: "('u, 'c) crates_scheme \<Rightarrow> gateway \<Rightarrow> header_map \<Rightarrow> ui_response + unit" where
  "ui_check_origin cr gw headers =
    (if is_trusted_browser_origin cr headers (cf_public_url (gw_config gw)) then Inr ()
     else Inl (ui_forbidden ''owner request forbidden''))"

definition ui_authorize_owner_mutation ::
    "('u, 'c) browser_crates_scheme \<Rightarrow> env \<Rightarrow> gateway \<Rightarrow> github_browser_auth option \<Rightarrow> header_map
     \<Rightarrow> (('u, 'z) browser_server_scheme, ui_response + string) act" where
  "ui_authorize_owner_mutation cr e gw github headers =
    act_try (act_return (ui_check_origin cr gw headers)) (\<lambda>_. ui_require_operator cr e gw github headers)"

section \<open>The owner panel\<close>

definition display_principal :: "string \<Rightarrow> string \<times> string" where
  "display_principal subject =
    (case strip_prefix ''basic:'' subject of
       Some username \<Rightarrow> (username, ''Basic account'')
     | None \<Rightarrow>
         (case strip_prefix ''github:'' subject of
            Some account_id \<Rightarrow> (''GitHub account #'' @ account_id, ''GitHub'')
          | None \<Rightarrow>
              (case strip_prefix ''agent:'' subject of
                 Some name \<Rightarrow> (name, ''Agent'')
               | None \<Rightarrow> (''OIDC identity'', ''OIDC''))))"

text \<open>The two maps that the panel is made from; a principal takes its entries out of both.\<close>

record panel_maps =
  pm_grants :: "(string \<times> owner_grant list) list"
  pm_roles :: "(string \<times> role) list"

definition add_panel_grant :: "profile_grant \<Rightarrow> (string \<times> owner_grant list) list \<Rightarrow> (string \<times> owner_grant list) list" where
  "add_panel_grant grant grants =
    AList.map_default (pg_subject grant) [] (\<lambda>others. others
      @ [\<lparr>og_profile = pg_profile grant, og_mode = mode_as_str (pg_mode grant), og_expires = pg_expires grant\<rparr>]) grants"

definition role_or_user :: "role option \<Rightarrow> role" where
  "role_or_user found = (case found of None \<Rightarrow> User | Some role \<Rightarrow> role)"

definition take_principal :: "string \<Rightarrow> string \<Rightarrow> string \<Rightarrow> panel_maps \<Rightarrow> owner_principal \<times> panel_maps" where
  "take_principal label kind subject maps =
    (\<lparr>op_label = label, op_kind = kind, op_subject = subject,
      op_role = role_as_str (role_or_user (map_of (pm_roles maps) subject)),
      op_grants = (case map_of (pm_grants maps) subject of None \<Rightarrow> [] | Some grants \<Rightarrow> grants)\<rparr>,
     \<lparr>pm_grants = AList.delete subject (pm_grants maps), pm_roles = AList.delete subject (pm_roles maps)\<rparr>)"

fun take_principals :: "(string \<times> string \<times> string) list \<Rightarrow> panel_maps \<Rightarrow> owner_principal list \<times> panel_maps" where
  "take_principals [] maps = ([], maps)"
| "take_principals ((label, kind, subject) # rest) maps =
    (case take_principal label kind subject maps of
       (entry, maps') \<Rightarrow> (case take_principals rest maps' of (entries, maps'') \<Rightarrow> (entry # entries, maps'')))"

definition displayed :: "string \<Rightarrow> string \<times> string \<times> string" where
  "displayed subject = (fst (display_principal subject), snd (display_principal subject), subject)"

text \<open>First the accounts, then the agents, then what is left of the grants and of the roles in the order of the subjects.\<close>

definition panel_principals :: "basic_user list \<Rightarrow> agent list \<Rightarrow> panel_maps \<Rightarrow> owner_principal list" where
  "panel_principals users agents maps =
    (case take_principals (map (\<lambda>user. (bu_username user, ''Basic account'', ''basic:'' @ bu_username user)) users) maps of
       (accounts, maps1) \<Rightarrow>
     case take_principals (map (\<lambda>agent. (agent_name agent, ''Agent'', ''agent:'' @ agent_name agent)) agents) maps1 of
       (named, maps2) \<Rightarrow>
     case take_principals (map (displayed \<circ> fst) (sort_key fst (pm_grants maps2))) maps2 of
       (granted, maps3) \<Rightarrow>
     case take_principals (map (displayed \<circ> fst) (sort_key fst (pm_roles maps3))) maps3 of
       (others, _) \<Rightarrow> sort_key op_subject (accounts @ named @ granted @ others))"

fun read_profile_grants ::
    "env \<Rightarrow> string list \<Rightarrow> (string \<times> owner_grant list) list
     \<Rightarrow> ('z server_scheme, ui_response + (string \<times> owner_grant list) list) act" where
  "read_profile_grants e [] grants = act_return (Inr grants)"
| "read_profile_grants e (profile # profiles) grants =
    act_try (ui_read e (\<lambda>_ db. list_profile_grants db profile)) (\<lambda>found.
      read_profile_grants e profiles (fold add_panel_grant found grants))"

definition render_owner_panel ::
    "env \<Rightarrow> gateway \<Rightarrow> string \<Rightarrow> issued_agent_credential option \<Rightarrow> ('z server_scheme, ui_response + ui_response) act" where
  "render_owner_panel e gw viewer issued =
    act_try (ui_read e (\<lambda>_ db. Inr (list_basic_users db))) (\<lambda>users.
    act_try (ui_read e (\<lambda>_ db. Inr (list_agents db))) (\<lambda>agents.
    act_try (ui_read e (\<lambda>_ db. list_principal_roles db)) (\<lambda>bindings.
    act_try (ui_read e (\<lambda>_ db. principal_role db viewer)) (\<lambda>viewer_role.
    let profiles = map fst (cf_profiles (gw_config gw)) in
    act_try (read_profile_grants e profiles []) (\<lambda>grants.
      act_return (Inr (ui_page (OwnerPage
        \<lparr>pn_basic_users = users, pn_agents = agents, pn_profiles = profiles,
         pn_principals = panel_principals users agents
           \<lparr>pm_grants = grants, pm_roles = fold (\<lambda>b. AList.update (prb_subject b) (prb_role b)) bindings []\<rparr>,
         pn_issued = issued, pn_can_manage_roles = (viewer_role = Owner)\<rparr>))))))))"

section \<open>The handlers of the sign-in\<close>

definition github_callback_rejected :: ui_response where
  "github_callback_rejected =
    ui_raw (no_store ((full_response 401 (line ''GitHub login was rejected''))
      \<lparr>rs_headers := hm_insert ''set-cookie'' (static_value clear_github_state_cookie) hm_new\<rparr>))"

text \<open>\<open>None\<close> is a panic: the endpoint is not a URL, or a cookie with a random token in it is not a header value.
  A header that \<open>into_response\<close> cannot convert makes an error response.\<close>

definition redirect_response :: "('u, 'c) crates_scheme \<Rightarrow> string \<Rightarrow> string \<Rightarrow> ui_response" where
  "redirect_response cr location cookie =
    (case (header_value_from_str cr location, header_value_from_str cr cookie) of
       (Some location, Some cookie) \<Rightarrow>
         ui_raw (no_store ((full_response 302 [])
           \<lparr>rs_headers := hm_insert ''set-cookie'' cookie (hm_insert ''location'' location hm_new)\<rparr>))
     | _ \<Rightarrow> ui_raw (no_store (full_response 500 ''failed to parse header value'')))"

definition github_start ::
    "('u, 'c) browser_crates_scheme \<Rightarrow> env \<Rightarrow> gateway \<Rightarrow> github_browser_auth option
     \<Rightarrow> (('u, 'z) browser_server_scheme, ui_response option) act" where
  "github_start cr e gw github =
    (case github of
       None \<Rightarrow> act_return (Some ui_not_found)
     | Some github \<Rightarrow>
         act_bind (github_start_login cr e github (github_callback_url (cf_public_url (gw_config gw)))) (\<lambda>started.
           act_return (map_option (\<lambda>(location, state). redirect_response cr location (github_state_cookie state)) started)))"

definition github_callback_success :: "('u, 'c) crates_scheme \<Rightarrow> string \<Rightarrow> ui_response option" where
  "github_callback_success cr session =
    Option.bind (header_value_from_str cr (github_session_cookie session)) (\<lambda>established.
    Option.bind (header_value_from_str cr clear_github_state_cookie) (\<lambda>cleared.
      let response = no_store ((full_response 302 [])\<lparr>rs_headers := hm_insert ''location'' (static_value ''/'') hm_new\<rparr>)
      in Some (ui_raw (response\<lparr>rs_headers :=
           hm_append ''set-cookie'' cleared (hm_append ''set-cookie'' established (rs_headers response))\<rparr>))))"

text \<open>The state and the code of a callback that gets as far as GitHub.\<close>

definition callback_arguments ::
    "('u, 'c) crates_scheme \<Rightarrow> header_map \<Rightarrow> github_callback_query \<Rightarrow> (string \<times> string) option" where
  "callback_arguments cr headers query =
    Option.bind (gc_state query) (\<lambda>state.
    Option.bind (cookie_value cr headers github_state_cookie_name) (\<lambda>cookie_state.
      if gc_error query \<noteq> None \<or> cookie_state \<noteq> state then None
      else map_option (Pair state) (gc_code query)))"

definition github_callback ::
    "('u, 'c) browser_crates_scheme \<Rightarrow> env \<Rightarrow> gateway \<Rightarrow> github_browser_auth option \<Rightarrow> header_map \<Rightarrow> github_callback_query
     \<Rightarrow> (('u, 'z) browser_server_scheme, ui_response option) act" where
  "github_callback cr e gw github headers query =
    (case github of
       None \<Rightarrow> act_return (Some ui_not_found)
     | Some github \<Rightarrow>
         (case callback_arguments cr headers query of
            None \<Rightarrow> act_return (Some github_callback_rejected)
          | Some (state, code) \<Rightarrow>
              act_bind (github_finish_login e github state code (github_callback_url (cf_public_url (gw_config gw)))) (\<lambda>finished.
                case finished of
                  Inl _ \<Rightarrow> act_return (Some github_callback_rejected)
                | Inr identity \<Rightarrow>
                    act_bind (create_session cr e identity) (\<lambda>session.
                      act_return (github_callback_success cr session)))))"

definition github_logout ::
    "('u, 'c) browser_crates_scheme \<Rightarrow> github_browser_auth option \<Rightarrow> header_map \<Rightarrow> (('u, 'z) browser_server_scheme, ui_response) act" where
  "github_logout cr github headers =
    act_bind
      (case github of
         None \<Rightarrow> act_return ()
       | Some _ \<Rightarrow>
           (case cookie_value cr headers github_session_cookie_name of
              None \<Rightarrow> act_return ()
            | Some session \<Rightarrow> remove_session session)) (\<lambda>_.
      act_return (ui_raw (no_store ((full_response 204 [])
        \<lparr>rs_headers := hm_insert ''set-cookie'' (static_value clear_github_session_cookie) hm_new\<rparr>))))"

section \<open>Pages\<close>

definition profile_summaries :: "gateway \<Rightarrow> string list \<Rightarrow> profile_summary list" where
  "profile_summaries gw allowed =
    map (\<lambda>(name, profile). \<lparr>sm_name = name, sm_environment = pf_environment profile, sm_secret_path = pf_secret_path profile\<rparr>)
      (filter (\<lambda>(name, _). name \<in> set allowed) (cf_profiles (gw_config gw)))"

definition ui_session ::
    "('u, 'c) browser_crates_scheme \<Rightarrow> env \<Rightarrow> gateway \<Rightarrow> github_browser_auth option \<Rightarrow> header_map
     \<Rightarrow> (('u, 'z) browser_server_scheme, ui_response) act" where
  "ui_session cr e gw github headers = respond
    (act_try (act_map_err (\<lambda>_. ui_raw unauthorized) (ui_identity cr e gw github headers)) (\<lambda>subject.
     act_try (act_map_err ui_unavailable (permitted_profile_names e (gateway_app gw) subject)) (\<lambda>allowed.
       act_return (Inr (ui_page (SessionPage (public_status_of (gw_config gw)) (profile_summaries gw allowed)))))))"

definition ui_owner ::
    "('u, 'c) browser_crates_scheme \<Rightarrow> env \<Rightarrow> gateway \<Rightarrow> github_browser_auth option \<Rightarrow> header_map
     \<Rightarrow> (('u, 'z) browser_server_scheme, ui_response) act" where
  "ui_owner cr e gw github headers = respond
    (act_try (ui_require_operator cr e gw github headers) (\<lambda>subject. render_owner_panel e gw subject None))"

section \<open>Plain endpoints\<close>

definition rest_status ::
    "('u, 'c) auth_crates_scheme \<Rightarrow> env \<Rightarrow> gateway \<Rightarrow> header_map \<Rightarrow> ('z auth_server_scheme, ui_response) act" where
  "rest_status cr e gw headers = respond
    (act_try (act_map_err (\<lambda>_. ui_raw unauthorized) (authorize cr e (gw_auth gw) headers)) (\<lambda>_.
       act_return (Inr (ui_page (StatusJson (public_status_of (gw_config gw)))))))"

definition rest_profiles ::
    "('u, 'c) auth_crates_scheme \<Rightarrow> env \<Rightarrow> gateway \<Rightarrow> header_map \<Rightarrow> ('z auth_server_scheme, ui_response) act" where
  "rest_profiles cr e gw headers = respond
    (act_try (act_map_err (\<lambda>_. ui_raw unauthorized) (authorize cr e (gw_auth gw) headers)) (\<lambda>subject.
     act_try (act_map_err ui_unavailable (permitted_profile_names e (gateway_app gw) subject)) (\<lambda>allowed.
       act_return (Inr (ui_page (ProfilesJson (profile_summaries gw allowed)))))))"

definition auth_config_page :: "gateway \<Rightarrow> ui_response" where
  "auth_config_page gw = ui_page (AuthConfigJson (public_config (gw_auth gw)))"

text \<open>The remote call gives the same configuration, with an empty text for an endpoint there is none of.\<close>

record rpc_auth_config =
  ra_mode :: string
  ra_issuer :: string
  ra_client_id :: string
  ra_scopes :: "string list"
  ra_authorization_endpoint :: string
  ra_token_endpoint :: string
  ra_device_authorization_endpoint :: string

definition or_empty :: "string option \<Rightarrow> string" where
  "or_empty found = (case found of None \<Rightarrow> [] | Some content \<Rightarrow> content)"

definition get_auth_config :: "gateway \<Rightarrow> rpc_auth_config" where
  "get_auth_config gw =
    (let auth = public_config (gw_auth gw)
     in \<lparr>ra_mode = pa_mode auth, ra_issuer = pa_issuer auth, ra_client_id = pa_client_id auth, ra_scopes = pa_scopes auth,
         ra_authorization_endpoint = or_empty (pa_authorization_endpoint auth),
         ra_token_endpoint = or_empty (pa_token_endpoint auth),
         ra_device_authorization_endpoint = or_empty (pa_device_authorization_endpoint auth)\<rparr>)"

text \<open>\<open>store.health_check()\<close> under its timeout succeeds exactly when the store is up; \<open>shutting_down\<close> is the flag.\<close>

definition readiness :: "env \<Rightarrow> bool \<Rightarrow> ('z server_scheme, http_response) act" where
  "readiness e shutting_down s =
    (if shutting_down then (full_response 503 (line ''not ready''), s)
     else case sv_db s of
       None \<Rightarrow> (full_response 200 (line ''ok''), s)
     | Some _ \<Rightarrow>
         act_bind (store_query e (\<lambda>_. Inr ())) (\<lambda>ready.
           act_return (if is_ok ready then full_response 200 (line ''ok'') else full_response 503 (line ''not ready''))) s)"

definition health :: http_response where
  "health = full_response 200 (line ''ok'')"

definition quoted :: "string \<Rightarrow> string" where
  "quoted source = [CHR 0x27] @ source @ [CHR 0x27]"

definition content_security_policy :: "('u, 'c) browser_crates_scheme \<Rightarrow> config \<Rightarrow> header_value option" where
  "content_security_policy cr config =
    Option.bind
      (if ac_mode (cf_auth config) \<in> {Oidc, OidcOrBasic}
       then map_option (\<lambda>issuer. quoted ''self'' @ '' '' @ url_origin_text cr issuer)
              (url_parse cr (ac_issuer (cf_auth config)))
       else Some (quoted ''self'')) (\<lambda>connect_src.
      header_value_from_str cr
        (''default-src '' @ quoted ''self'' @ ''; connect-src '' @ connect_src
         @ ''; script-src '' @ quoted ''self'' @ ''; style-src '' @ quoted ''self''
         @ ''; img-src '' @ quoted ''self'' @ '' data:; base-uri '' @ quoted ''none''
         @ ''; frame-ancestors '' @ quoted ''none'' @ ''; form-action '' @ quoted ''self''))"

end
