(* ===== verification/Browser_Forms.thy ===== *)
theory Browser_Forms
  imports Browser_UI
begin

text \<open>
  The handlers of the forms of the owner panel, \<^verbatim>\<open>src/server.rs\<close>. Each checks where the request comes from, who makes
  it and what it asks for, changes the store, writes an audit event and answers with the panel.
\<close>

section \<open>Numbers in a form\<close>

text \<open>\<open>str::parse\<close> to an unsigned and to a signed 64-bit integer: digits after an optional sign, in range.\<close>

definition digits_value :: "string \<Rightarrow> nat option" where
  "digits_value text =
    (if text \<noteq> [] \<and> list_all is_ascii_digit text
     then Some (foldl (\<lambda>n c. 10 * n + (of_char c - 48)) 0 text) else None)"

definition parse_u64 :: "string \<Rightarrow> nat option" where
  "parse_u64 text =
    Option.bind (digits_value (case strip_prefix ''+'' text of None \<Rightarrow> text | Some rest \<Rightarrow> rest)) (\<lambda>n.
      if n < 2 ^ 64 then Some n else None)"

definition parse_i64 :: "string \<Rightarrow> int option" where
  "parse_i64 text =
    (case strip_prefix ''-'' text of
       Some rest \<Rightarrow> Option.bind (digits_value rest) (\<lambda>n. if n \<le> 2 ^ 63 then Some (- int n) else None)
     | None \<Rightarrow>
         Option.bind (digits_value (case strip_prefix ''+'' text of None \<Rightarrow> text | Some rest \<Rightarrow> rest)) (\<lambda>n.
           if n < 2 ^ 63 then Some (int n) else None))"

section \<open>Forms\<close>

record profile_grant_form =
  gf_profile :: string
  gf_subject :: string
  gf_mode :: string
  gf_expires :: string

datatype owner_form =
  BasicUserForm string string
| BasicUserEnabledForm string bool
| CreateAgentForm string
| RotateAgentForm string
| AgentEnabledForm string bool
| DeleteAgentForm string
| PrincipalRoleForm string string
| GrantForm profile_grant_form
| ExternalGrantForm string string profile_grant_form
| RevokeForm profile_grant_form

datatype identity_error = GithubIdInvalid | OidcSubjectInvalid | IdentityKindInvalid

fun identity_error_text :: "identity_error \<Rightarrow> string" where
  "identity_error_text GithubIdInvalid = ''GitHub account ID must be numeric''"
| "identity_error_text OidcSubjectInvalid = ''OIDC subject is invalid''"
| "identity_error_text IdentityKindInvalid = ''identity kind is invalid''"

definition external_identity_subject :: "string \<Rightarrow> string \<Rightarrow> identity_error + string" where
  "external_identity_subject kind identity =
    (let identity = trim identity
     in if kind = ''github''
        then rbind (ok_or GithubIdInvalid (parse_u64 identity)) (\<lambda>account_id.
               if account_id = 0 then Inl GithubIdInvalid else Inr (github_subject account_id))
        else if kind = ''oidc''
        then (if \<not> valid_policy_subject identity \<or> prefix ''basic:'' identity \<or> prefix ''github:'' identity
              then Inl OidcSubjectInvalid else Inr identity)
        else Inl IdentityKindInvalid)"

section \<open>Handlers\<close>

text \<open>The end of every change: the audit event, then the panel.\<close>

definition ui_audited ::
    "env \<Rightarrow> gateway \<Rightarrow> string \<Rightarrow> string \<Rightarrow> string option \<Rightarrow> issued_agent_credential option
     \<Rightarrow> ('z server_scheme, ui_response + ui_response) act" where
  "ui_audited e gw subject action profile issued =
    act_try (act_map_err ui_unavailable (audit_event_act e subject action profile None (Some ''managed-ui''))) (\<lambda>_.
      render_owner_panel e gw subject issued)"

definition ui_upsert_basic_user ::
    "('u, 'c) browser_crates_scheme \<Rightarrow> env \<Rightarrow> gateway \<Rightarrow> github_browser_auth option \<Rightarrow> header_map \<Rightarrow> string \<Rightarrow> string
     \<Rightarrow> (('u, 'z) browser_server_scheme, ui_response + ui_response) act" where
  "ui_upsert_basic_user cr e gw github headers username password =
    act_try (act_return (ui_check_origin cr gw headers)) (\<lambda>_.
    act_try (ui_require_operator cr e gw github headers) (\<lambda>subject.
      if \<not> valid_basic_username username then act_return (Inl (ui_bad_request ''invalid Basic username''))
      else if length password < 12 \<or> 1024 < length password
      then act_return (Inl (ui_bad_request ''Basic passwords must be between 12 and 1024 characters''))
      else act_bind (tick (env_slot e)) (\<lambda>joined.
        if \<not> joined then act_return (Inl (ui_raw internal_error))
        else act_bind (hash_basic_password cr e password) (\<lambda>hashed.
          case hashed of
            None \<Rightarrow> act_return (Inl (ui_raw internal_error))
          | Some password_hash \<Rightarrow>
              act_try (ui_write e ui_unavailable (\<lambda>_ db. Inr (upsert_basic_user db username password_hash, ()))) (\<lambda>_.
                ui_audited e gw subject ''basic_user_upsert'' None None)))))"

definition ui_set_basic_user_enabled ::
    "('u, 'c) browser_crates_scheme \<Rightarrow> env \<Rightarrow> gateway \<Rightarrow> github_browser_auth option \<Rightarrow> header_map \<Rightarrow> string \<Rightarrow> bool
     \<Rightarrow> (('u, 'z) browser_server_scheme, ui_response + ui_response) act" where
  "ui_set_basic_user_enabled cr e gw github headers username enabled =
    act_try (act_return (ui_check_origin cr gw headers)) (\<lambda>_.
    act_try (ui_require_operator cr e gw github headers) (\<lambda>subject.
      if \<not> valid_basic_username username then act_return (Inl (ui_bad_request ''invalid Basic username''))
      else act_try (ui_write e ui_unavailable (\<lambda>_ db. Inr (set_basic_user_enabled db username enabled))) (\<lambda>found.
        if \<not> found then act_return (Inl (ui_bad_request ''Basic user not found''))
        else ui_audited e gw subject (if enabled then ''basic_user_enabled'' else ''basic_user_disabled'') None None)))"

definition ui_create_error :: "store_failure \<Rightarrow> ui_response" where
  "ui_create_error err =
    (if err = StoreFailed ConstraintViolation then ui_bad_request ''agent already exists'' else ui_raw internal_error)"

definition ui_create_agent ::
    "('u, 'c) browser_crates_scheme \<Rightarrow> env \<Rightarrow> gateway \<Rightarrow> github_browser_auth option \<Rightarrow> header_map \<Rightarrow> string
     \<Rightarrow> (('u, 'z) browser_server_scheme, ui_response + ui_response) act" where
  "ui_create_agent cr e gw github headers name =
    act_try (ui_authorize_owner_mutation cr e gw github headers) (\<lambda>subject.
      if \<not> valid_agent_name name then act_return (Inl (ui_bad_request ''invalid agent name''))
      else act_bind (mint_agent_token cr e) (\<lambda>(token, token_hash).
        act_try (ui_write e ui_create_error (\<lambda>_ db. rbind (create_agent db name token_hash) (\<lambda>db'. Inr (db', ())))) (\<lambda>_.
          ui_audited e gw subject ''agent_created'' None (Some \<lparr>ic_name = name, ic_token = token\<rparr>))))"

definition ui_rotate_agent ::
    "('u, 'c) browser_crates_scheme \<Rightarrow> env \<Rightarrow> gateway \<Rightarrow> github_browser_auth option \<Rightarrow> header_map \<Rightarrow> string
     \<Rightarrow> (('u, 'z) browser_server_scheme, ui_response + ui_response) act" where
  "ui_rotate_agent cr e gw github headers name =
    act_try (ui_authorize_owner_mutation cr e gw github headers) (\<lambda>subject.
      if \<not> valid_agent_name name then act_return (Inl (ui_bad_request ''invalid agent name''))
      else act_bind (mint_agent_token cr e) (\<lambda>(token, token_hash).
        act_try (ui_write e ui_unavailable (\<lambda>_ db. rotate_agent_token db name token_hash)) (\<lambda>found.
          if \<not> found then act_return (Inl (ui_bad_request ''agent not found''))
          else ui_audited e gw subject ''agent_token_rotated'' None (Some \<lparr>ic_name = name, ic_token = token\<rparr>))))"

definition ui_set_agent_enabled ::
    "('u, 'c) browser_crates_scheme \<Rightarrow> env \<Rightarrow> gateway \<Rightarrow> github_browser_auth option \<Rightarrow> header_map \<Rightarrow> string \<Rightarrow> bool
     \<Rightarrow> (('u, 'z) browser_server_scheme, ui_response + ui_response) act" where
  "ui_set_agent_enabled cr e gw github headers name enabled =
    act_try (ui_authorize_owner_mutation cr e gw github headers) (\<lambda>subject.
      if \<not> valid_agent_name name then act_return (Inl (ui_bad_request ''invalid agent name''))
      else act_try (ui_write e ui_unavailable (\<lambda>_ db. Inr (set_agent_enabled db name enabled))) (\<lambda>found.
        if \<not> found then act_return (Inl (ui_bad_request ''agent not found''))
        else ui_audited e gw subject (if enabled then ''agent_enabled'' else ''agent_disabled'') None None))"

definition ui_delete_agent ::
    "('u, 'c) browser_crates_scheme \<Rightarrow> env \<Rightarrow> gateway \<Rightarrow> github_browser_auth option \<Rightarrow> header_map \<Rightarrow> string
     \<Rightarrow> (('u, 'z) browser_server_scheme, ui_response + ui_response) act" where
  "ui_delete_agent cr e gw github headers name =
    act_try (ui_authorize_owner_mutation cr e gw github headers) (\<lambda>subject.
      if \<not> valid_agent_name name then act_return (Inl (ui_bad_request ''invalid agent name''))
      else act_try (ui_write e ui_unavailable (\<lambda>_ db. Inr (delete_agent db name))) (\<lambda>found.
        if \<not> found then act_return (Inl (ui_bad_request ''agent not found''))
        else ui_audited e gw subject ''agent_deleted'' None None))"

definition ui_role_error :: "store_failure \<Rightarrow> ui_response" where
  "ui_role_error err =
    (if err = StoreFailed LastOwner then ui_bad_request ''cannot remove the last owner'' else ui_raw internal_error)"

definition ui_set_principal_role ::
    "('u, 'c) browser_crates_scheme \<Rightarrow> env \<Rightarrow> gateway \<Rightarrow> github_browser_auth option \<Rightarrow> header_map \<Rightarrow> string \<Rightarrow> string
     \<Rightarrow> (('u, 'z) browser_server_scheme, ui_response + ui_response) act" where
  "ui_set_principal_role cr e gw github headers target requested =
    act_try (act_return (ui_check_origin cr gw headers)) (\<lambda>_.
    act_try (ui_require_owner cr e gw github headers) (\<lambda>subject.
      if \<not> valid_policy_subject target then act_return (Inl (ui_bad_request ''invalid policy subject''))
      else case role_parse requested of
        Inl _ \<Rightarrow> act_return (Inl (ui_bad_request ''role must be owner, operator, auditor, or user''))
      | Inr role \<Rightarrow>
          act_try (ui_write e ui_role_error (\<lambda>_ db. rbind (set_principal_role db target role) (\<lambda>db'. Inr (db', ())))) (\<lambda>_.
            ui_audited e gw subject ''principal_role_changed'' None None)))"

definition ui_grant_error :: "store_failure \<Rightarrow> ui_response" where
  "ui_grant_error err =
    (if err = StoreFailed GrantExpiryPast then ui_bad_request ''grant expiry must be in the future'' else ui_raw internal_error)"

definition ui_grant_mode :: "string \<Rightarrow> ui_response + grant_mode" where
  "ui_grant_mode v =
    (if v = [] \<or> v = ''both'' then Inr ModeBoth
     else if v = ''proxy'' then Inr ModeProxy
     else if v = ''environment'' then Inr ModeEnvironment
     else Inl (ui_bad_request ''grant mode must be both, proxy, or environment''))"

definition ui_grant_expiry :: "string \<Rightarrow> ui_response + int option" where
  "ui_grant_expiry v =
    (if trim v = [] then Inr None
     else rbind (ok_or (ui_bad_request ''grant expiry must be a Unix timestamp'') (parse_i64 v)) (\<lambda>expires. Inr (Some expires)))"

text \<open>How a \<open>ConnectError\<close> displays is up to its crate.\<close>

definition ui_known_profile :: "('u, 'c) browser_crates_scheme \<Rightarrow> gateway \<Rightarrow> string \<Rightarrow> ui_response + unit" where
  "ui_known_profile cr gw profile =
    map_error (\<lambda>err. ui_bad_request (connect_error_text cr err)) (require_known_profile (gateway_app gw) profile)"

definition ui_grant_profile_subject ::
    "('u, 'c) browser_crates_scheme \<Rightarrow> env \<Rightarrow> gateway \<Rightarrow> github_browser_auth option \<Rightarrow> header_map \<Rightarrow> profile_grant_form
     \<Rightarrow> (('u, 'z) browser_server_scheme, ui_response + ui_response) act" where
  "ui_grant_profile_subject cr e gw github headers form =
    act_try (act_return (ui_check_origin cr gw headers)) (\<lambda>_.
    act_try (ui_require_operator cr e gw github headers) (\<lambda>subject.
    act_try (act_return (ui_known_profile cr gw (gf_profile form))) (\<lambda>_.
      if \<not> valid_policy_subject (gf_subject form) then act_return (Inl (ui_bad_request ''invalid policy subject''))
      else
        act_try (act_return (ui_grant_mode (gf_mode form))) (\<lambda>mode.
        act_try (act_return (ui_grant_expiry (gf_expires form))) (\<lambda>expires.
        act_try (ui_write e ui_grant_error (\<lambda>clock db.
            rbind (grant_profile_mode clock db (gf_subject form) (gf_profile form) mode expires) (\<lambda>db'. Inr (db', ())))) (\<lambda>_.
          ui_audited e gw subject ''profile_grant'' (Some (gf_profile form)) None))))))"

definition ui_grant_external_profile ::
    "('u, 'c) browser_crates_scheme \<Rightarrow> env \<Rightarrow> gateway \<Rightarrow> github_browser_auth option \<Rightarrow> header_map
     \<Rightarrow> string \<Rightarrow> string \<Rightarrow> profile_grant_form \<Rightarrow> (('u, 'z) browser_server_scheme, ui_response + ui_response) act" where
  "ui_grant_external_profile cr e gw github headers kind identity form =
    (case external_identity_subject kind identity of
       Inl err \<Rightarrow> act_return (Inl (ui_bad_request (identity_error_text err)))
     | Inr subject \<Rightarrow> ui_grant_profile_subject cr e gw github headers (form\<lparr>gf_subject := subject\<rparr>))"

definition ui_revoke_profile ::
    "('u, 'c) browser_crates_scheme \<Rightarrow> env \<Rightarrow> gateway \<Rightarrow> github_browser_auth option \<Rightarrow> header_map \<Rightarrow> profile_grant_form
     \<Rightarrow> (('u, 'z) browser_server_scheme, ui_response + ui_response) act" where
  "ui_revoke_profile cr e gw github headers form =
    act_try (act_return (ui_check_origin cr gw headers)) (\<lambda>_.
    act_try (ui_require_operator cr e gw github headers) (\<lambda>subject.
    act_try (act_return (ui_known_profile cr gw (gf_profile form))) (\<lambda>_.
      if \<not> valid_policy_subject (gf_subject form) then act_return (Inl (ui_bad_request ''invalid policy subject''))
      else act_try (ui_write e ui_unavailable (\<lambda>_ db. Inr (revoke_profile db (gf_subject form) (gf_profile form)))) (\<lambda>found.
        if \<not> found then act_return (Inl (ui_bad_request ''profile grant not found''))
        else ui_audited e gw subject ''profile_grant_revoked'' (Some (gf_profile form)) None))))"

text \<open>One handler for each form.\<close>

fun ui_submit ::
    "('u, 'c) browser_crates_scheme \<Rightarrow> env \<Rightarrow> gateway \<Rightarrow> github_browser_auth option \<Rightarrow> header_map \<Rightarrow> owner_form
     \<Rightarrow> (('u, 'z) browser_server_scheme, ui_response + ui_response) act" where
  "ui_submit cr e gw github headers (BasicUserForm username password) =
    ui_upsert_basic_user cr e gw github headers username password"
| "ui_submit cr e gw github headers (BasicUserEnabledForm username enabled) =
    ui_set_basic_user_enabled cr e gw github headers username enabled"
| "ui_submit cr e gw github headers (CreateAgentForm name) = ui_create_agent cr e gw github headers name"
| "ui_submit cr e gw github headers (RotateAgentForm name) = ui_rotate_agent cr e gw github headers name"
| "ui_submit cr e gw github headers (AgentEnabledForm name enabled) = ui_set_agent_enabled cr e gw github headers name enabled"
| "ui_submit cr e gw github headers (DeleteAgentForm name) = ui_delete_agent cr e gw github headers name"
| "ui_submit cr e gw github headers (PrincipalRoleForm target requested) =
    ui_set_principal_role cr e gw github headers target requested"
| "ui_submit cr e gw github headers (GrantForm form) = ui_grant_profile_subject cr e gw github headers form"
| "ui_submit cr e gw github headers (ExternalGrantForm kind identity form) =
    ui_grant_external_profile cr e gw github headers kind identity form"
| "ui_submit cr e gw github headers (RevokeForm form) = ui_revoke_profile cr e gw github headers form"

end
