(* ===== verification/Connection.thy ===== *)
theory Connection
  imports Leases Configuration
begin

text \<open>
  The connection of the managed store, \<^verbatim>\<open>src/store.rs\<close>: where the database is, with which credentials the server
  connects, and the task that takes up new PostgreSQL credentials while the server runs. The database drivers are
  parameters, \<open>database_env\<close>: whether a connection succeeds at a time. A pool is what it connects to and the time
  at which it was opened, which tells two pools apart.
\<close>

section \<open>Data\<close>

record pg_options =
  po_host :: string
  po_port :: nat
  po_database :: string
  po_username :: string
  po_password :: string
  po_ssl_mode :: managed_postgres_ssl_mode

text \<open>Options with the statement that every new connection runs, or the text of a URL.\<close>

datatype pool_target =
  WithCredentials pg_options string
| PostgresUrl string
| SqliteOptions string

record pool =
  pl_opened :: nat
  pl_target :: pool_target

record database_credentials =
  dc_username :: string
  dc_password :: string

record database_env =
  de_credentials_json :: "bytes \<Rightarrow> database_credentials option"
  de_sqlite_options :: "string \<Rightarrow> bool"
  de_connect :: "nat \<Rightarrow> pool_target \<Rightarrow> bool"
  de_select :: "nat \<Rightarrow> pool_target \<Rightarrow> bool"
  de_migrate :: "nat \<Rightarrow> bool"
  de_bootstrap :: "nat \<Rightarrow> bool"

text \<open>\<open>ReloadablePostgres\<close>, and the pools that have been closed. The generation is an \<open>AtomicU64\<close>.\<close>

record reloadable = io +
  rl_current :: pool
  rl_fingerprint :: "bytes option"
  rl_generation :: "64 word"
  rl_closed :: "pool list"

datatype connection_error =
  UrlFileUnreadable | UrlFileInvalid | UrlScheme | SqliteUrlInvalid
| CredentialsUnreadable | CredentialsSize | CredentialsJson | CredentialsFields
| PostgresMetadataMissing | ConnectRefused | MigrateFailed | BootstrapFailed | ReloadUnsupported

section \<open>Opening the database\<close>

definition read_database_url :: "env \<Rightarrow> string \<Rightarrow> ('z io_scheme, connection_error + string) act" where
  "read_database_url e path =
    act_bind (tick (\<lambda>n. env_file e n path)) (\<lambda>contents.
      act_return
        (case contents of
           None \<Rightarrow> Inl UrlFileUnreadable
         | Some contents \<Rightarrow>
             let content = trim contents
             in if content = [] \<or> CHR 0x0D \<in> set content \<or> CHR 0x0A \<in> set content then Inl UrlFileInvalid else Inr content))"

definition credentials_bounded :: "database_credentials \<Rightarrow> bool" where
  "credentials_bounded credentials \<longleftrightarrow>
     \<not> (dc_username credentials = [] \<or> 1024 < length (dc_username credentials) \<or> has_control (dc_username credentials)
        \<or> dc_password credentials = [] \<or> 16 * 1024 < length (dc_password credentials))"

definition parse_database_credentials ::
    "('u, 'c) crates_scheme \<Rightarrow> database_env \<Rightarrow> bytes \<Rightarrow> connection_error + database_credentials \<times> bytes" where
  "parse_database_credentials cr de contents =
    (if contents = [] \<or> 64 * 1024 < length contents then Inl CredentialsSize
     else rbind (ok_or CredentialsJson (de_credentials_json de contents)) (\<lambda>credentials.
       if \<not> credentials_bounded credentials then Inl CredentialsFields
       else Inr (credentials, sha256 cr contents)))"

definition read_database_credentials ::
    "('u, 'c) crates_scheme \<Rightarrow> env \<Rightarrow> database_env \<Rightarrow> string
     \<Rightarrow> ('z io_scheme, connection_error + database_credentials \<times> bytes) act" where
  "read_database_credentials cr e de path =
    act_bind (tick (\<lambda>n. env_file e n path)) (\<lambda>contents.
      act_return (rbind (ok_or CredentialsUnreadable contents) (parse_database_credentials cr de)))"

definition postgres_connect_options :: "managed_postgres_config \<Rightarrow> database_credentials \<Rightarrow> pg_options" where
  "postgres_connect_options postgres credentials =
    \<lparr>po_host = mp_host postgres, po_port = mp_port postgres, po_database = mp_database postgres,
     po_username = dc_username credentials, po_password = dc_password credentials, po_ssl_mode = mp_ssl_mode postgres\<rparr>"

definition role_statement :: "managed_postgres_config \<Rightarrow> string" where
  "role_statement postgres = ''SET ROLE '' @ mp_role postgres"

definition credentials_target :: "managed_postgres_config \<Rightarrow> database_credentials \<Rightarrow> pool_target" where
  "credentials_target postgres credentials =
    WithCredentials (postgres_connect_options postgres credentials) (role_statement postgres)"

text \<open>A pool opens its first connection, with the statement of the role, before it is returned.\<close>

definition open_pool :: "database_env \<Rightarrow> pool_target \<Rightarrow> ('z io_scheme, connection_error + pool) act" where
  "open_pool de target =
    tick (\<lambda>n. if de_connect de n target then Inr \<lparr>pl_opened = n, pl_target = target\<rparr> else Inl ConnectRefused)"

definition connect_postgres_with_credentials ::
    "database_env \<Rightarrow> managed_postgres_config \<Rightarrow> database_credentials \<Rightarrow> ('z io_scheme, connection_error + pool) act" where
  "connect_postgres_with_credentials de postgres credentials =
    act_try (open_pool de (credentials_target postgres credentials)) (\<lambda>pool.
      tick (\<lambda>n. if de_select de n (pl_target pool) then Inr pool else Inl ConnectRefused))"

definition connect_postgres_credentials ::
    "('u, 'c) crates_scheme \<Rightarrow> env \<Rightarrow> database_env \<Rightarrow> managed_config \<Rightarrow> ('z io_scheme, connection_error + pool \<times> bytes) act" where
  "connect_postgres_credentials cr e de managed =
    (case mg_postgres managed of
       None \<Rightarrow> act_return (Inl PostgresMetadataMissing)
     | Some postgres \<Rightarrow>
         act_try (read_database_credentials cr e de (mg_database_credentials_file managed)) (\<lambda>(credentials, fingerprint).
         act_try (connect_postgres_with_credentials de postgres credentials) (\<lambda>pool.
           act_return (Inr (pool, fingerprint)))))"

definition open_store ::
    "('u, 'c) crates_scheme \<Rightarrow> env \<Rightarrow> database_env \<Rightarrow> managed_config
     \<Rightarrow> ('z io_scheme, connection_error + backend \<times> pool \<times> bytes option) act" where
  "open_store cr e de managed =
    (if mg_database_credentials_file managed \<noteq> []
     then act_try (connect_postgres_credentials cr e de managed) (\<lambda>(pool, fingerprint).
            act_return (Inr (Postgres, pool, Some fingerprint)))
     else act_try (read_database_url e (mg_database_url_file managed)) (\<lambda>database_url.
       if prefix ''postgres://'' database_url \<or> prefix ''postgresql://'' database_url
       then act_try (open_pool de (PostgresUrl database_url)) (\<lambda>pool. act_return (Inr (Postgres, pool, None)))
       else if prefix ''sqlite:'' database_url
       then (if \<not> de_sqlite_options de database_url then act_return (Inl SqliteUrlInvalid)
             else act_try (open_pool de (SqliteOptions database_url)) (\<lambda>pool. act_return (Inr (Sqlite, pool, None))))
       else act_return (Inl UrlScheme)))"

text \<open>\<open>Store::connect\<close>. The last component of the result says whether the task that reloads the credentials is started.\<close>

definition store_connect ::
    "('u, 'c) crates_scheme \<Rightarrow> env \<Rightarrow> database_env \<Rightarrow> managed_config \<Rightarrow> store_db
     \<Rightarrow> ('z io_scheme, connection_error + backend \<times> pool \<times> bytes option \<times> store_db \<times> bool) act" where
  "store_connect cr e de managed db =
    act_try (open_store cr e de managed) (\<lambda>(be, pool, fingerprint).
    act_try (tick (\<lambda>n. if de_migrate de n then Inr () else Inl MigrateFailed)) (\<lambda>_.
    act_try (tick (\<lambda>n. if mg_initial_owner_oidc_subject managed = [] \<or> de_bootstrap de n then Inr () else Inl BootstrapFailed)) (\<lambda>_.
      if 0 < mg_database_reload_interval_seconds managed \<and> be \<noteq> Postgres then act_return (Inl ReloadUnsupported)
      else act_return (Inr (be, pool, fingerprint, connect_database be (mg_initial_owner_oidc_subject managed) db,
             0 < mg_database_reload_interval_seconds managed)))))"

definition reloadable_new :: "pool \<Rightarrow> bytes option \<Rightarrow> io \<Rightarrow> reloadable" where
  "reloadable_new pool fingerprint s =
    io.extend s (reloadable.fields pool fingerprint 1 [])"

definition health_check :: "database_env \<Rightarrow> ('z reloadable_scheme, bool) act" where
  "health_check de s = tick (\<lambda>n. de_select de n (pl_target (rl_current s))) s"

section \<open>Reloading the credentials\<close>

definition swap_pool :: "pool \<Rightarrow> ('z reloadable_scheme, pool) act" where
  "swap_pool replacement s = (rl_current s, s\<lparr>rl_current := replacement\<rparr>)"

definition rotate :: "pool \<Rightarrow> bytes \<Rightarrow> ('z reloadable_scheme, unit) act" where
  "rotate replacement fingerprint =
    act_bind (swap_pool replacement) (\<lambda>old s.
      ((), s\<lparr>rl_fingerprint := Some fingerprint, rl_generation := rl_generation s + 1, rl_closed := rl_closed s @ [old]\<rparr>))"

text \<open>One turn of the loop: a rejected update keeps the pool that is there.\<close>

definition reload_turn ::
    "('u, 'c) crates_scheme \<Rightarrow> env \<Rightarrow> database_env \<Rightarrow> managed_config \<Rightarrow> ('z reloadable_scheme, unit) act" where
  "reload_turn cr e de managed =
    act_bind (read_database_credentials cr e de (mg_database_credentials_file managed)) (\<lambda>result s.
      case result of
        Inl _ \<Rightarrow> ((), s)
      | Inr (credentials, fingerprint) \<Rightarrow>
          if rl_fingerprint s = Some fingerprint then ((), s)
          else (case mg_postgres managed of
                  None \<Rightarrow> ((), s)
                | Some postgres \<Rightarrow>
                    act_bind (connect_postgres_with_credentials de postgres credentials) (\<lambda>connected.
                      case connected of
                        Inl _ \<Rightarrow> act_return ()
                      | Inr replacement \<Rightarrow> rotate replacement fingerprint) s))"

fun reload_turns ::
    "('u, 'c) crates_scheme \<Rightarrow> env \<Rightarrow> database_env \<Rightarrow> managed_config \<Rightarrow> nat \<Rightarrow> ('z reloadable_scheme, unit) act" where
  "reload_turns cr e de managed 0 = act_return ()"
| "reload_turns cr e de managed (Suc n) = act_bind (reload_turn cr e de managed) (\<lambda>_. reload_turns cr e de managed n)"

end
