(* ===== verification/Rate_Limit.thy ===== *)
theory Rate_Limit
  imports Complex_Main Proxy
begin

text \<open>
  The rate limiter of the API, \<open>ApiRateLimiter\<close> of \<^verbatim>\<open>src/server.rs\<close>. It computes with \<open>f64\<close>; a number is the real number it
  stands for, and every operation whose result may not be representable rounds it by \<open>rnd\<close>, the rounding of IEEE 754,
  which is a parameter. What is shown uses only the documented facts about it that \<open>f64_rounding\<close> states.
\<close>

section \<open>The limiter\<close>

record api_rate_limiter =
  li_rate_per_second :: real
  li_capacity :: real

record api_rate_limit_state =
  li_tokens :: real
  li_last_refill :: int

definition limiter_new :: "nat \<Rightarrow> nat \<Rightarrow> api_rate_limiter" where
  "limiter_new rate_per_second burst = \<lparr>li_rate_per_second = real rate_per_second, li_capacity = real burst\<rparr>"

definition limiter_start :: "nat \<Rightarrow> int \<Rightarrow> api_rate_limit_state" where
  "limiter_start burst now = \<lparr>li_tokens = real burst, li_last_refill = now\<rparr>"

text \<open>\<open>Duration::as_secs_f64\<close>: the seconds and the nanoseconds are converted and added.\<close>

definition as_secs_f64 :: "(real \<Rightarrow> real) \<Rightarrow> int \<Rightarrow> real" where
  "as_secs_f64 rnd duration =
    rnd (rnd (real_of_int (duration div 1000000000)) + rnd (real_of_int (duration mod 1000000000) / 1000000000))"

text \<open>\<open>Instant::duration_since\<close> is zero for an instant in the future.\<close>

definition refill :: "(real \<Rightarrow> real) \<Rightarrow> api_rate_limiter \<Rightarrow> int \<Rightarrow> api_rate_limit_state \<Rightarrow> real" where
  "refill rnd limiter now st =
    min (rnd (li_tokens st + rnd (as_secs_f64 rnd (max 0 (now - li_last_refill st)) * li_rate_per_second limiter)))
      (li_capacity limiter)"

definition try_acquire ::
    "(real \<Rightarrow> real) \<Rightarrow> api_rate_limiter \<Rightarrow> int \<Rightarrow> api_rate_limit_state \<Rightarrow> bool \<times> api_rate_limit_state" where
  "try_acquire rnd limiter now st =
    (let tokens = refill rnd limiter now st
     in if tokens < 1 then (False, \<lparr>li_tokens = tokens, li_last_refill = now\<rparr>)
        else (True, \<lparr>li_tokens = rnd (tokens - 1), li_last_refill = now\<rparr>))"

text \<open>The middleware: whether a request of a path goes on to its handler, and the answer if it does not.\<close>

definition rate_limited_path :: "string \<Rightarrow> bool" where
  "rate_limited_path path \<longleftrightarrow> prefix ''/v1/'' path \<or> prefix ''/av.v1.'' path"

definition rate_limit_response :: http_response where
  "rate_limit_response =
    (let response = full_response 429 (line ''api rate limit exceeded'')
     in no_store (response\<lparr>rs_headers := hm_insert ''retry-after'' (static_value ''1'') (rs_headers response)\<rparr>))"

definition enforce_api_rate_limit ::
    "(real \<Rightarrow> real) \<Rightarrow> api_rate_limiter \<Rightarrow> int \<Rightarrow> string \<Rightarrow> api_rate_limit_state \<Rightarrow> http_response option \<times> api_rate_limit_state" where
  "enforce_api_rate_limit rnd limiter now path st =
    (if rate_limited_path path
     then (case try_acquire rnd limiter now st of (acquired, st') \<Rightarrow>
             (if \<not> acquired then Some rate_limit_response else None, st'))
     else (None, st))"

text \<open>The calls that are let through of those that come at some times, one after the other.\<close>

fun granted :: "(real \<Rightarrow> real) \<Rightarrow> api_rate_limiter \<Rightarrow> int list \<Rightarrow> api_rate_limit_state \<Rightarrow> nat" where
  "granted rnd limiter [] st = 0"
| "granted rnd limiter (now # nows) st =
    (case try_acquire rnd limiter now st of (acquired, st') \<Rightarrow>
       (if acquired then Suc (granted rnd limiter nows st') else granted rnd limiter nows st'))"

section \<open>Rounding\<close>

text \<open>
  Rounding to the nearest 64-bit number keeps the order, keeps the integers up to \<open>2\<^sup>5\<^sup>3\<close>, and has a relative error of at most
  \<open>2\<^sup>-\<^sup>5\<^sup>3\<close>, or an absolute one of at most the smallest subnormal number.
\<close>

definition roundoff :: real where
  "roundoff = 1 / 2 ^ 53"

definition smallest :: real where
  "smallest = 1 / 2 ^ 1074"

definition f64_range :: real where
  "f64_range = 2 ^ 1000"

definition f64_rounding :: "(real \<Rightarrow> real) \<Rightarrow> bool" where
  "f64_rounding rnd \<longleftrightarrow>
     (\<forall>x y. 0 \<le> x \<longrightarrow> x \<le> y \<longrightarrow> y \<le> f64_range \<longrightarrow> rnd x \<le> rnd y)
     \<and> (\<forall>n. n \<le> 2 ^ 53 \<longrightarrow> rnd (real n) = real n)
     \<and> (\<forall>x. 0 \<le> x \<longrightarrow> x \<le> f64_range \<longrightarrow> \<bar>rnd x - x\<bar> \<le> max (roundoff * x) smallest)"

lemma rnd_nonneg:
  assumes "f64_rounding rnd" "0 \<le> x" "x \<le> f64_range"
  shows "0 \<le> rnd x"
proof -
  have "rnd (real 0) = real 0" using assms(1) unfolding f64_rounding_def by blast
  moreover have "rnd 0 \<le> rnd x" using assms unfolding f64_rounding_def by auto
  ultimately show ?thesis by simp
qed

lemma rnd_upper:
  assumes "f64_rounding rnd" "0 \<le> x" "x \<le> f64_range"
  shows "rnd x \<le> (1 + roundoff) * x + smallest"
proof -
  have "rnd x - x \<le> max (roundoff * x) smallest" using assms unfolding f64_rounding_def by (metis abs_le_D1)
  moreover have "0 \<le> roundoff * x" "0 \<le> smallest" using assms(2) by (simp_all add: roundoff_def smallest_def)
  ultimately show ?thesis by (simp add: distrib_right)
qed

definition inflation :: real where
  "inflation = 1 + roundoff"

lemma inflation_bounds:
  "1 \<le> inflation" "inflation \<le> 2" "0 \<le> smallest" "smallest \<le> 1 / 2 ^ 200" "(2 :: real) ^ 128 \<le> f64_range"
proof -
  show "1 \<le> inflation" "inflation \<le> 2" by (simp_all add: inflation_def roundoff_def)
  show "0 \<le> smallest" by (simp add: smallest_def)
  have "(2 :: real) ^ 200 \<le> 2 ^ 1074" by (rule power_increasing) simp_all
  then show "smallest \<le> 1 / 2 ^ 200" unfolding smallest_def by (intro divide_left_mono) simp_all
  show "(2 :: real) ^ 128 \<le> f64_range" unfolding f64_range_def by (rule power_increasing) simp_all
qed

lemma rnd_inflated:
  assumes "f64_rounding rnd" "0 \<le> x" "x \<le> y" "y \<le> f64_range"
  shows "0 \<le> rnd x" "rnd x \<le> inflation * y + smallest"
proof -
  have x: "x \<le> f64_range" using assms(3,4) by simp
  show "0 \<le> rnd x" by (rule rnd_nonneg [OF assms(1,2) x])
  have "inflation * x \<le> inflation * y" using assms(3) inflation_bounds(1) by (intro mult_left_mono) auto
  with rnd_upper [OF assms(1,2) x] show "rnd x \<le> inflation * y + smallest" by (simp add: inflation_def)
qed

lemma as_secs_f64_bounds:
  assumes "f64_rounding rnd" "0 \<le> d" "d \<le> 2 ^ 63 * 1000000000"
  shows "0 \<le> as_secs_f64 rnd d" "as_secs_f64 rnd d \<le> inflation\<^sup>2 * (real_of_int d / 1000000000) + 8 * smallest"
proof -
  let ?a = "real_of_int (d div 1000000000)" and ?b = "real_of_int (d mod 1000000000) / 1000000000"
  let ?x = "real_of_int d / 1000000000"
  have whole: "?a + ?b = ?x"
  proof -
    have "real_of_int d = real_of_int (d div 1000000000 * 1000000000 + d mod 1000000000)" by simp
    also have "\<dots> = ?a * 1000000000 + real_of_int (d mod 1000000000)" by (simp only: of_int_add of_int_mult of_int_numeral)
    finally show ?thesis by (simp add: field_simps)
  qed
  have "0 \<le> d div 1000000000" using assms(2) by (simp add: pos_imp_zdiv_nonneg_iff)
  then have a: "0 \<le> ?a" by simp
  have b: "0 \<le> ?b" by simp
  have x: "?x \<le> 2 ^ 63" using assms(3) by (simp add: field_simps)
  have "(2 :: real) ^ 66 \<le> 2 ^ 128" by simp
  with inflation_bounds(5) have range: "2 ^ 66 \<le> f64_range" by linarith
  have "?a \<le> f64_range" using x whole b range by simp
  moreover have "?b \<le> f64_range" using x whole a range by simp
  ultimately have range': "?a \<le> f64_range" "?b \<le> f64_range" by simp_all
  note sa = rnd_inflated [OF assms(1) a order_refl range'(1)] and sb = rnd_inflated [OF assms(1) b order_refl range'(2)]
  have sum: "rnd ?a + rnd ?b \<le> inflation * ?x + 2 * smallest"
  proof -
    have "inflation * ?a + inflation * ?b = inflation * ?x" by (simp only: whole flip: distrib_left)
    with sa sb show ?thesis by linarith
  qed
  have "inflation * ?x \<le> 2 * 2 ^ 63"
    using x inflation_bounds a b whole by (intro mult_mono) auto
  then have large: "inflation * ?x + 2 * smallest \<le> f64_range" using inflation_bounds(4) range by simp
  show "0 \<le> as_secs_f64 rnd d"
    using rnd_inflated(1) [OF assms(1) _ sum large] sa(1) sb(1) by (simp add: as_secs_f64_def)
  have "as_secs_f64 rnd d \<le> inflation * (inflation * ?x + 2 * smallest) + smallest"
    using rnd_inflated(2) [OF assms(1) _ sum large] sa(1) sb(1) by (simp add: as_secs_f64_def)
  moreover have "inflation * (2 * smallest) \<le> 2 * (2 * smallest)" using inflation_bounds by (intro mult_right_mono) auto
  ultimately show "as_secs_f64 rnd d \<le> inflation\<^sup>2 * ?x + 8 * smallest"
    using inflation_bounds(3) by (simp only: power2_eq_square distrib_left mult.assoc)
qed

text \<open>The tokens after a refill: at most what they were, what the time adds, and the error of the rounding.\<close>

lemma refill_upper:
  assumes rnd: "f64_rounding rnd" and tokens: "0 \<le> tokens" "tokens \<le> 2 ^ 32" and rate: "0 \<le> rate" "rate \<le> 2 ^ 32"
    and d: "0 \<le> d" "d \<le> 2 ^ 63 * 1000000000"
  shows "0 \<le> rnd (tokens + rnd (as_secs_f64 rnd d * rate))"
    and "rnd (tokens + rnd (as_secs_f64 rnd d * rate))
      \<le> tokens + roundoff * tokens + inflation ^ 4 * (real_of_int d / 1000000000 * rate) + 2 ^ 40 * smallest"
proof -
  let ?x = "real_of_int d / 1000000000" and ?s = "as_secs_f64 rnd d"
  let ?y = "(inflation\<^sup>2 * ?x + 8 * smallest) * rate"
  note secs = as_secs_f64_bounds [OF rnd d]
  have x: "0 \<le> ?x" "?x \<le> 2 ^ 63" using d by (simp_all add: field_simps)
  have square: "0 \<le> inflation\<^sup>2" "inflation\<^sup>2 \<le> 4"
    using inflation_bounds(1,2) power_mono [of inflation 2 2] by simp_all
  have "inflation\<^sup>2 * ?x \<le> 4 * 2 ^ 63" using x square by (intro mult_mono) simp_all
  then have "inflation\<^sup>2 * ?x + 8 * smallest \<le> 2 ^ 66" using inflation_bounds(4) by simp
  then have y: "?y \<le> 2 ^ 66 * 2 ^ 32" using x rate square inflation_bounds(3) by (intro mult_mono) simp_all
  have "(2 :: real) ^ 101 \<le> 2 ^ 128" by simp
  with inflation_bounds(5) have range: "2 ^ 101 \<le> f64_range" by linarith
  have sy: "?s * rate \<le> ?y" using secs(2) rate(1) by (rule mult_right_mono)
  have "0 \<le> ?s * rate" using secs(1) rate(1) by simp
  note product = rnd_inflated [OF rnd this sy]
  have "?y \<le> f64_range" using y range by simp
  note product = product [OF this]
  have "inflation * ?y \<le> 2 * (2 ^ 66 * 2 ^ 32)"
    by (rule mult_mono [OF inflation_bounds(2) y]) (use x rate square inflation_bounds(3) in simp_all)
  then have sum: "tokens + (inflation * ?y + smallest) \<le> f64_range" using tokens(2) inflation_bounds(4) range by simp
  have below: "tokens + rnd (?s * rate) \<le> tokens + (inflation * ?y + smallest)" using product(2) by simp
  have "0 \<le> tokens + rnd (?s * rate)" using tokens(1) product(1) by simp
  note total = rnd_inflated [OF rnd this below sum]
  show "0 \<le> rnd (tokens + rnd (?s * rate))" by (rule total(1))
  have "inflation * (tokens + (inflation * ?y + smallest)) + smallest =
      tokens + roundoff * tokens + inflation ^ 4 * (?x * rate) + (8 * inflation\<^sup>2 * rate + inflation + 1) * smallest"
    by (simp add: inflation_def algebra_simps power2_eq_square power4_eq_xxxx)
  moreover have "(8 * inflation\<^sup>2 * rate + inflation + 1) * smallest \<le> 2 ^ 40 * smallest"
  proof (rule mult_right_mono)
    have "inflation\<^sup>2 * rate \<le> 4 * 2 ^ 32" using square rate by (intro mult_mono) simp_all
    then show "8 * inflation\<^sup>2 * rate + inflation + 1 \<le> 2 ^ 40" using inflation_bounds(2) by simp
  qed (rule inflation_bounds(3))
  ultimately show "rnd (tokens + rnd (?s * rate))
      \<le> tokens + roundoff * tokens + inflation ^ 4 * (?x * rate) + 2 ^ 40 * smallest"
    using total(2) by linarith
qed

definition limiter_ok :: "api_rate_limiter \<Rightarrow> api_rate_limit_state \<Rightarrow> bool" where
  "limiter_ok limiter st \<longleftrightarrow>
     0 \<le> li_tokens st \<and> li_tokens st \<le> li_capacity limiter \<and> 0 \<le> li_rate_per_second limiter
     \<and> li_rate_per_second limiter \<le> 2 ^ 32 \<and> (\<exists>burst < 2 ^ 32. li_capacity limiter = real burst)"

lemma noise:
  assumes "0 \<le> tokens" "tokens \<le> 2 ^ 32 - 1"
  shows "roundoff * tokens + 2 ^ 41 * smallest \<le> 1 / 2 ^ 21"
proof -
  have "roundoff * tokens \<le> roundoff * (2 ^ 32 - 1)" using assms(2) by (intro mult_left_mono) (simp_all add: roundoff_def)
  moreover have "(2 :: real) ^ 41 * smallest \<le> 2 ^ 41 * (1 / 2 ^ 200)" using inflation_bounds(4) by (intro mult_left_mono) simp_all
  moreover have "roundoff * (2 ^ 32 - 1) + 2 ^ 41 * (1 / 2 ^ 200) \<le> 1 / 2 ^ 21" by (simp add: roundoff_def)
  ultimately show ?thesis by linarith
qed

lemma try_acquire_bounds:
  assumes rnd: "f64_rounding rnd" and ok: "limiter_ok limiter st"
    and now: "li_last_refill st \<le> now" "now - li_last_refill st \<le> 2 ^ 63 * 1000000000"
    and run: "try_acquire rnd limiter now st = (acquired, st')"
  shows "limiter_ok limiter st'" and "li_last_refill st' = now"
    and "li_tokens st' + (if acquired then 1 else 0)
      \<le> li_tokens st + inflation ^ 4 * (real_of_int (now - li_last_refill st) / 1000000000 * li_rate_per_second limiter) + 1 / 2 ^ 20"
proof -
  let ?d = "now - li_last_refill st" and ?tokens = "refill rnd limiter now st"
  let ?gain = "inflation ^ 4 * (real_of_int ?d / 1000000000 * li_rate_per_second limiter)"
  have tokens: "0 \<le> li_tokens st" "li_tokens st \<le> 2 ^ 32 - 1" and rate: "0 \<le> li_rate_per_second limiter" "li_rate_per_second limiter \<le> 2 ^ 32"
    and capacity: "0 \<le> li_capacity limiter" "li_capacity limiter \<le> 2 ^ 32 - 1"
    using ok by (auto simp: limiter_ok_def)
  obtain burst where burst: "burst < 2 ^ 32" "li_capacity limiter = real burst" using ok by (auto simp: limiter_ok_def)
  have refill: "0 \<le> ?tokens" "?tokens \<le> li_capacity limiter"
    "?tokens \<le> li_tokens st + roundoff * li_tokens st + ?gain + 2 ^ 40 * smallest"
    using refill_upper [OF rnd tokens(1) _ rate _ now(2)] tokens(2) now capacity
    by (auto simp: refill_def max_def min_le_iff_disj)
  have small: "roundoff * li_tokens st + 2 ^ 41 * smallest \<le> 1 / 2 ^ 21" by (rule noise [OF tokens])
  show last: "li_last_refill st' = now" using run by (auto simp: try_acquire_def Let_def split: if_splits)
  have "limiter_ok limiter st' \<and> li_tokens st' + (if acquired then 1 else 0) \<le> li_tokens st + ?gain + 1 / 2 ^ 20"
  proof (cases "?tokens < 1")
    case True
    with run have st': "acquired = False" "li_tokens st' = ?tokens" by (auto simp: try_acquire_def Let_def)
    then show ?thesis using refill ok small inflation_bounds(3) by (simp add: limiter_ok_def)
  next
    case False
    with run have st': "acquired = True" "li_tokens st' = rnd (?tokens - 1)" by (auto simp: try_acquire_def Let_def)
    have "?tokens - 1 \<le> 2 ^ 32 - 1" using refill(2) capacity(2) by linarith
    have "(2 :: real) ^ 32 - 1 \<le> 2 ^ 128" by simp
    with inflation_bounds(5) \<open>?tokens - 1 \<le> 2 ^ 32 - 1\<close> have range: "?tokens - 1 \<le> f64_range" by linarith
    have positive: "0 \<le> ?tokens - 1" using False by simp
    note rounded = rnd_inflated [OF rnd positive order_refl range]
    have "1 \<le> burst" using False refill(2) burst(2) by simp
    then have "?tokens - 1 \<le> real (burst - 1)" using refill(2) burst(2) by (simp add: of_nat_diff)
    moreover have "real (burst - 1) \<le> 2 ^ 32" using burst(1) by simp
    with \<open>(2 :: real) ^ 32 - 1 \<le> 2 ^ 128\<close> inflation_bounds(5) have "real (burst - 1) \<le> f64_range" by simp
    ultimately have "rnd (?tokens - 1) \<le> rnd (real (burst - 1))" using rnd positive unfolding f64_rounding_def by blast
    also have "\<dots> = real (burst - 1)" using rnd burst(1) unfolding f64_rounding_def by simp
    finally have "rnd (?tokens - 1) \<le> li_capacity limiter" using burst(2) by simp
    with rounded(1) ok st' have "limiter_ok limiter st'" by (simp add: limiter_ok_def)
    have "inflation * (?tokens - 1) + smallest = ?tokens - 1 + (roundoff * (?tokens - 1) + smallest)"
      by (simp add: inflation_def algebra_simps)
    moreover have "roundoff * (?tokens - 1) + 2 ^ 41 * smallest \<le> 1 / 2 ^ 21"
      by (rule noise [OF positive \<open>?tokens - 1 \<le> 2 ^ 32 - 1\<close>])
    ultimately show ?thesis
      using \<open>limiter_ok limiter st'\<close> refill(3) small st' inflation_bounds(3) rounded(2) by simp
  qed
  then show "limiter_ok limiter st'"
    and "li_tokens st' + (if acquired then 1 else 0) \<le> li_tokens st + ?gain + 1 / 2 ^ 20" by simp_all
qed

lemma granted_bound:
  assumes "f64_rounding rnd" and "limiter_ok limiter st" and "sorted (li_last_refill st # nows)"
    and "\<forall>now \<in> set nows. now - li_last_refill st \<le> 2 ^ 63 * 1000000000"
  shows "real (granted rnd limiter nows st)
    \<le> li_tokens st + inflation ^ 4 * (real_of_int (last (li_last_refill st # nows) - li_last_refill st) / 1000000000
        * li_rate_per_second limiter) + real (length nows) / 2 ^ 20"
  using assms(2-)
proof (induction nows arbitrary: st)
  case Nil
  then show ?case by (simp add: limiter_ok_def)
next
  case (Cons now nows)
  let ?rate = "li_rate_per_second limiter"
  obtain acquired st' where run: "try_acquire rnd limiter now st = (acquired, st')" by (cases "try_acquire rnd limiter now st")
  have "li_last_refill st \<le> now" "now - li_last_refill st \<le> 2 ^ 63 * 1000000000" using Cons.prems by simp_all
  note step = try_acquire_bounds [OF assms(1) Cons.prems(1) this run]
  have "sorted (li_last_refill st' # nows)" "\<forall>n \<in> set nows. n - li_last_refill st' \<le> 2 ^ 63 * 1000000000"
    using Cons.prems(2,3) step(2) by auto
  note rest = Cons.IH [OF step(1) this]
  let ?final = "last (now # nows)"
  have "inflation ^ 4 * (real_of_int (?final - now) / 1000000000 * ?rate)
      + inflation ^ 4 * (real_of_int (now - li_last_refill st) / 1000000000 * ?rate)
    = inflation ^ 4 * (real_of_int (?final - li_last_refill st) / 1000000000 * ?rate)"
    by (simp add: field_simps)
  moreover have "last (li_last_refill st # now # nows) = ?final" by simp
  moreover have "real (granted rnd limiter (now # nows) st) = real (granted rnd limiter nows st') + (if acquired then 1 else 0)"
    using run by simp
  moreover have "real (length (now # nows)) / 2 ^ 20 = real (length nows) / 2 ^ 20 + 1 / 2 ^ 20"
    by (simp add: add_divide_distrib)
  ultimately show ?case using rest step(2,3) by (simp only:)
qed

lemma inflation_power: "inflation ^ 4 \<le> 1 + 1 / 2 ^ 50"
  by (simp add: inflation_def roundoff_def power4_eq_xxxx)

lemma refill_at_once:
  assumes "f64_rounding rnd" and "n \<le> burst" and "burst < 2 ^ 32"
  shows "refill rnd (limiter_new rate burst) now \<lparr>li_tokens = real n, li_last_refill = now\<rparr> = real n"
proof -
  have exact: "rnd (real m) = real m" if "m \<le> 2 ^ 53" for m using assms(1) that unfolding f64_rounding_def by blast
  from exact [of 0] have "rnd 0 = 0" by simp
  moreover from exact [of n] assms(2,3) have "rnd (real n) = real n" by simp
  ultimately show ?thesis using assms(2) by (simp add: refill_def as_secs_f64_def limiter_new_def)
qed

lemma granted_at_once:
  assumes "f64_rounding rnd" and "burst < 2 ^ 32" and "n \<le> burst"
  shows "granted rnd (limiter_new rate burst) (replicate k now) \<lparr>li_tokens = real n, li_last_refill = now\<rparr> = min k n"
  using assms(3)
proof (induction k arbitrary: n)
  case (Suc k)
  show ?case
  proof (cases n)
    case 0
    with Suc.IH [of 0] refill_at_once [OF assms(1) Suc.prems assms(2)] show ?thesis by (simp add: try_acquire_def Let_def)
  next
    case (Suc m)
    have "rnd (real m) = real m" using assms(1,2) Suc Suc.prems unfolding f64_rounding_def by simp
    with Suc Suc.prems Suc.IH [of m] refill_at_once [OF assms(1) Suc.prems assms(2)] show ?thesis
      by (simp add: try_acquire_def Let_def)
  qed
qed simp

lemma f64_rounding_id: "f64_rounding (\<lambda>x. x)"
  by (simp add: f64_rounding_def smallest_def max_def)

section \<open>Property\<close>

text \<open>
  C37. Over any sequence of calls the rate limiter lets through at most the burst, and the rate times the seconds that have
  passed, up to the error of the 64-bit arithmetic: one part in \<open>2\<^sup>5\<^sup>0\<close> of the rate, and one call in every \<open>2\<^sup>2\<^sup>0\<close> that
  are made. The burst is exact: of calls that come together on a fresh limiter, exactly that many are let through.
\<close>

theorem rate_limit_bound:
  assumes "f64_rounding rnd" and "rate < 2 ^ 32" and "burst < 2 ^ 32" and "sorted (start # nows)"
    and "\<forall>now \<in> set nows. now - start \<le> 2 ^ 63 * 1000000000"
  shows "real (granted rnd (limiter_new rate burst) nows (limiter_start burst start))
      \<le> real burst + (1 + 1 / 2 ^ 50) * (real_of_int (last (start # nows) - start) / 1000000000 * real rate)
        + real (length nows) / 2 ^ 20
    \<and> granted rnd (limiter_new rate burst) (replicate k start) (limiter_start burst start) = min k burst"
proof -
  have "limiter_ok (limiter_new rate burst) (limiter_start burst start)"
    using assms(2,3) by (auto simp: limiter_ok_def limiter_new_def limiter_start_def)
  from granted_bound [OF assms(1) this, of nows] assms(4,5) have bound:
    "real (granted rnd (limiter_new rate burst) nows (limiter_start burst start))
      \<le> real burst + inflation ^ 4 * (real_of_int (last (start # nows) - start) / 1000000000 * real rate)
        + real (length nows) / 2 ^ 20"
    by (simp add: limiter_start_def limiter_new_def)
  have "start \<le> last (start # nows)" using assms(4) by (cases nows) (auto dest: last_in_set)
  then have "inflation ^ 4 * (real_of_int (last (start # nows) - start) / 1000000000 * real rate)
      \<le> (1 + 1 / 2 ^ 50) * (real_of_int (last (start # nows) - start) / 1000000000 * real rate)"
    using inflation_power by (intro mult_right_mono) simp_all
  with bound have "real (granted rnd (limiter_new rate burst) nows (limiter_start burst start))
      \<le> real burst + (1 + 1 / 2 ^ 50) * (real_of_int (last (start # nows) - start) / 1000000000 * real rate)
        + real (length nows) / 2 ^ 20"
    by linarith
  with granted_at_once [OF assms(1,3) order_refl] show ?thesis by (simp add: limiter_start_def)
qed

theorem rate_limit_bound_witness:
  "f64_rounding (\<lambda>x. x)
   \<and> real (granted (\<lambda>x. x) (limiter_new 2 1) [0, 0, 1000000000] (limiter_start 1 0))
     \<le> 1 + (1 + 1 / 2 ^ 50) * (real_of_int 1000000000 / 1000000000 * 2) + 3 / 2 ^ 20
   \<and> granted (\<lambda>x. x) (limiter_new 2 1) (replicate 5 0) (limiter_start 1 0) = 1"
  using rate_limit_bound [OF f64_rounding_id, of 2 1 0 "[0, 0, 1000000000]" 5] f64_rounding_id by simp

end
