(* ===== verification/Server.thy ===== *)
theory Server
  imports Interception Browser_Forms Connection Rate_Limit
begin

text \<open>
  The server as a whole, \<open>run\<close> of \<^verbatim>\<open>src/server.rs\<close>: what it builds before it listens, and what it does with a request,
  from the rate limit over the handler of the route to the headers that every answer gets. How axum finds the route
  of a request and takes its arguments apart, and how connectrpc frames a call, is a parameter, \<open>axum\<close>.
\<close>

section \<open>Startup\<close>

datatype startup_error =
  CatalogInvalid catalog_error
| AuthorityFailed tls_error
| TransportTlsFailed tls_error
| ManagedConfigMissing
| StoreFailed connection_error
| AuthenticatorFailed auth_error
| GithubFailed github_error
| PolicyHeaderInvalid
| ConnectorFailed string connector_error
| GoogleFailed string
| ListenFailed string

text \<open>Whether the Google client finds its credentials, and whether an address can be bound.\<close>

record machine_env =
  he_google :: "nat \<Rightarrow> bool"
  he_bind :: "nat \<Rightarrow> string \<Rightarrow> bool"

record interception =
  ic_runtime :: transparent_proxy_runtime
  ic_authority :: proxy_certificate_authority
  ic_transport :: server_config

definition start_interception ::
    "('u, 'c) crates_scheme \<Rightarrow> tls_crates \<Rightarrow> env \<Rightarrow> config \<Rightarrow> ('z io_scheme, startup_error + interception option) act" where
  "start_interception cr tc e config =
    (case cf_transparent_proxy config of
       None \<Rightarrow> act_return (Inr None)
     | Some transparent \<Rightarrow>
         act_try (act_return (map_error CatalogInvalid (from_config cr (cf_proxy_routes config) (cf_proxy_tunnels config)))) (\<lambda>catalog.
         act_try (act_map_err AuthorityFailed (authority_load tc e (tp_ca_certificate_file transparent) (tp_ca_private_key_file transparent))) (\<lambda>authority.
         act_try (act_map_err TransportTlsFailed
           (load_server_config tc e (tp_transport_tls_certificate_file transparent) (tp_transport_tls_private_key_file transparent))) (\<lambda>transport.
           act_return (Inr (Some
             \<lparr>ic_runtime =
                \<lparr>tr_listen = tp_listen transparent, tr_proxy_url = tp_proxy_url transparent,
                 tr_session_ttl = secs (int (tp_session_ttl_seconds transparent)),
                 tr_session_max_lifetime = secs (int (tp_session_max_lifetime_seconds transparent)),
                 tr_catalog = catalog, tr_certificate_pem = pc_certificate_pem authority\<rparr>,
              ic_authority = authority, ic_transport = transport\<rparr>))))))"

text \<open>A managed server connects its store, whose database holds \<open>database\<close>, and may start the task that reloads credentials.\<close>

definition start_store ::
    "('u, 'c) crates_scheme \<Rightarrow> env \<Rightarrow> database_env \<Rightarrow> config \<Rightarrow> store_db
     \<Rightarrow> ('z server_scheme, startup_error + (backend \<times> pool \<times> bytes option \<times> bool) option) act" where
  "start_store cr e de config database =
    (case cf_mode config of
       Static \<Rightarrow> (\<lambda>s. (Inr None, s\<lparr>sv_db := None\<rparr>))
     | Managed \<Rightarrow>
         (case cf_managed config of
            None \<Rightarrow> act_return (Inl ManagedConfigMissing)
          | Some managed \<Rightarrow>
              act_try (act_map_err StoreFailed (store_connect cr e de managed database)) (\<lambda>(be, pool, fingerprint, db, reload) s.
                (Inr (Some (be, pool, fingerprint, reload)), s\<lparr>sv_db := Some db\<rparr>))))"

fun connector_new ::
    "('u, 'c) crates_scheme \<Rightarrow> machine_env \<Rightarrow> string \<Rightarrow> bool \<Rightarrow> connector \<Rightarrow> ('z io_scheme, startup_error + connector) act" where
  "connector_new cr he name allow_insecure_http (InfisicalC config) =
    act_return (map_error (ConnectorFailed name) (infisical_new cr config allow_insecure_http))"
| "connector_new cr he name allow_insecure_http (OpenBaoC config) =
    act_return (map_error (ConnectorFailed name) (openbao_new cr config allow_insecure_http))"
| "connector_new cr he name allow_insecure_http GoogleSecretManagerC =
    tick (\<lambda>n. if he_google he n then Inr GoogleSecretManagerC else Inl (GoogleFailed name))"

fun start_connectors ::
    "('u, 'c) crates_scheme \<Rightarrow> machine_env \<Rightarrow> bool \<Rightarrow> (string \<times> connector) list
     \<Rightarrow> ('z io_scheme, startup_error + (string \<times> connector) list) act" where
  "start_connectors cr he allow_insecure_http [] = act_return (Inr [])"
| "start_connectors cr he allow_insecure_http ((name, config) # configs) =
    act_try (connector_new cr he name allow_insecure_http config) (\<lambda>connector.
    act_try (start_connectors cr he allow_insecure_http configs) (\<lambda>others.
      act_return (Inr ((name, connector) # others))))"

text \<open>What the tasks and the handlers of a running server share; the state they change is the state of the actions.\<close>

record server_setup =
  ss_gateway :: gateway
  ss_github :: "github_browser_auth option"
  ss_interception :: "interception option"
  ss_pool :: "(pool \<times> bytes option \<times> bool) option"
  ss_limiter :: api_rate_limiter
  ss_policy :: header_value

record 'u running_server = "'u browser_server" +
  rn_limit :: api_rate_limit_state
  rn_shutting_down :: bool

definition bind_listener :: "machine_env \<Rightarrow> string \<Rightarrow> ('z io_scheme, startup_error + unit) act" where
  "bind_listener he address = tick (\<lambda>n. if he_bind he n address then Inr () else Inl (ListenFailed address))"

definition start_github ::
    "env \<Rightarrow> github_network \<Rightarrow> config \<Rightarrow> ('z io_scheme, startup_error + github_browser_auth option) act" where
  "start_github e network config =
    (case ac_github (cf_auth config) of
       None \<Rightarrow> act_return (Inr None)
     | Some github \<Rightarrow> act_try (act_map_err GithubFailed (github_new e network github)) (\<lambda>auth. act_return (Inr (Some auth))))"

text \<open>\<open>run\<close> up to the listeners. Nothing is shared with a run before it: no lease, no browser session, a full bucket.\<close>

definition server_start ::
    "('u, 'c) browser_crates_scheme \<Rightarrow> tls_crates \<Rightarrow> env \<Rightarrow> database_env \<Rightarrow> machine_env \<Rightarrow> github_network \<Rightarrow> variables \<Rightarrow> config \<Rightarrow> store_db
     \<Rightarrow> (('u, 'z) running_server_scheme, startup_error + server_setup) act" where
  "server_start cr tc e de he network vars config database =
    act_try (start_interception cr tc e config) (\<lambda>interception.
    act_try (start_store cr e de config database) (\<lambda>store.
    act_try (act_map_err AuthenticatorFailed (authenticator_new cr e (cf_auth config))) (\<lambda>auth.
    act_try (start_github e network config) (\<lambda>github.
    act_try (act_return (ok_or PolicyHeaderInvalid (content_security_policy cr config))) (\<lambda>policy.
    act_try (start_connectors cr he (allow_insecure_connector_http cr vars config) (cf_connectors config)) (\<lambda>connectors.
    act_bind (instant_now e) (\<lambda>now.
    act_bind (\<lambda>s. ((), s\<lparr>rn_limit := limiter_start (cf_api_rate_limit_burst config) now, sv_leases := [], br_pending := [],
        br_sessions := [], rn_shutting_down := False\<rparr>)) (\<lambda>_.
    act_try (case interception of
               None \<Rightarrow> act_return (Inr ())
             | Some interception \<Rightarrow> bind_listener he (tr_listen (ic_runtime interception))) (\<lambda>_.
    act_try (bind_listener he (cf_listen config)) (\<lambda>_.
      act_return (Inr
        \<lparr>ss_gateway =
           \<lparr>gw_config = config, gw_auth = auth, gw_backend = (case store of None \<Rightarrow> Sqlite | Some (be, _) \<Rightarrow> be),
            gw_transparent_proxy = map_option ic_runtime interception\<rparr>,
         ss_github = github, ss_interception = interception,
         ss_pool = map_option snd store,
         ss_limiter = limiter_new (cf_api_rate_limit_per_second config) (cf_api_rate_limit_burst config),
         ss_policy = policy\<rparr>)))))))))))"

section \<open>Calls\<close>

datatype rpc_call =
  ControlCall control_request
| CallAuthConfig
| CallStatus
| CallProfiles
| CallDestinations
| CallEnvironment string string
| CallRenewEnvironment string
| CallRevokeEnvironment string
| CallCreateSession string
| CallRenewSession string
| CallRevokeSession string

datatype rpc_answer =
  ControlAnswer "rpc_error + control_response"
| AuthConfigAnswer rpc_auth_config
| StatusAnswer "rpc_error + public_status"
| ProfilesAnswer "rpc_error + profile_summary list"
| DestinationsAnswer "rpc_error + proxy_destination list"
| EnvironmentAnswer "rpc_error + profile_environment"
| EnvironmentLeaseAnswer "rpc_error + profile_environment_lease"
| ProxySessionAnswer "rpc_error + proxy_session_lease"

text \<open>The two services that \<open>run\<close> registers.\<close>

fun rpc_handle ::
    "('u, 'c) browser_crates_scheme \<Rightarrow> env \<Rightarrow> gateway \<Rightarrow> header_map \<Rightarrow> rpc_call \<Rightarrow> (('u, 'z) browser_server_scheme, rpc_answer) act" where
  "rpc_handle cr e gw headers (ControlCall request) =
    act_bind (authenticated_call cr e gw headers (\<lambda>who. control_handle cr e (gateway_app gw) who request)) (\<lambda>r.
      act_return (ControlAnswer r))"
| "rpc_handle cr e gw headers CallAuthConfig = act_return (AuthConfigAnswer (get_auth_config gw))"
| "rpc_handle cr e gw headers CallStatus = act_bind (get_status cr e gw headers) (\<lambda>r. act_return (StatusAnswer r))"
| "rpc_handle cr e gw headers CallProfiles = act_bind (list_profiles cr e gw headers) (\<lambda>r. act_return (ProfilesAnswer r))"
| "rpc_handle cr e gw headers CallDestinations =
    act_bind (list_proxy_destinations cr e gw headers) (\<lambda>r. act_return (DestinationsAnswer r))"
| "rpc_handle cr e gw headers (CallEnvironment profile executable) =
    act_bind (authenticated_call cr e gw headers (\<lambda>who. get_profile_environment cr e (gateway_app gw) who profile executable)) (\<lambda>r.
      act_return (EnvironmentAnswer r))"
| "rpc_handle cr e gw headers (CallRenewEnvironment handle) =
    act_bind (authenticated_call cr e gw headers (\<lambda>who. renew_profile_environment_lease cr e (gateway_app gw) who handle)) (\<lambda>r.
      act_return (EnvironmentLeaseAnswer r))"
| "rpc_handle cr e gw headers (CallRevokeEnvironment handle) =
    act_bind (authenticated_call cr e gw headers (\<lambda>who. revoke_profile_environment_lease cr e (gateway_app gw) who handle)) (\<lambda>r.
      act_return (EnvironmentLeaseAnswer r))"
| "rpc_handle cr e gw headers (CallCreateSession profile) =
    act_bind (rpc_create_proxy_session cr e gw headers profile) (\<lambda>r. act_return (ProxySessionAnswer r))"
| "rpc_handle cr e gw headers (CallRenewSession session_id) =
    act_bind (rpc_renew_proxy_session cr e gw headers session_id) (\<lambda>r. act_return (ProxySessionAnswer r))"
| "rpc_handle cr e gw headers (CallRevokeSession session_id) =
    act_bind (rpc_revoke_proxy_session cr e gw headers session_id) (\<lambda>r. act_return (ProxySessionAnswer r))"

text \<open>The routes of the router, each with the arguments its handler takes.\<close>

datatype asset = IndexPage | StyleSheet | Script | Htmx

datatype route_call =
  Asset asset
| Health
| Readiness
| AuthConfigCall
| GithubStart
| GithubCallback github_callback_query
| GithubLogout
| StatusCall
| ProfilesCall
| ProfileSecretsCall string
| ProxyCall string string uri string bytes
| UiSessionCall
| UiOwnerCall
| UiFormCall owner_form
| ApiNotFound
| RpcCall rpc_call
| UiNotFound

datatype content = Page nat page | AssetFile asset | RpcContent rpc_answer | Rejection nat

record server_answer =
  sa_headers :: header_map
  sa_content :: content

definition page_answer :: "ui_response \<Rightarrow> server_answer" where
  "page_answer response = \<lparr>sa_headers = ui_headers response, sa_content = Page (ui_status response) (ui_body response)\<rparr>"

text \<open>The files that are compiled in. The index is a page, whose type axum sets.\<close>

fun asset_type :: "asset \<Rightarrow> string option" where
  "asset_type IndexPage = None"
| "asset_type StyleSheet = Some ''text/css; charset=utf-8''"
| "asset_type Script = Some ''text/javascript; charset=utf-8''"
| "asset_type Htmx = Some ''text/javascript; charset=utf-8''"

definition asset_answer :: "asset \<Rightarrow> server_answer" where
  "asset_answer found =
    \<lparr>sa_headers = hm_insert ''x-content-type-options'' (static_value ''nosniff'') (hm_insert ''cache-control'' (static_value ''no-store'')
       (case asset_type found of None \<Rightarrow> hm_new | Some kind \<Rightarrow> hm_insert ''content-type'' (static_value kind) hm_new)),
     sa_content = AssetFile found\<rparr>"

definition page_act :: "('s, ui_response) act \<Rightarrow> ('s, server_answer option) act" where
  "page_act m = act_bind m (\<lambda>response. act_return (Some (page_answer response)))"

definition page_opt_act :: "('s, ui_response option) act \<Rightarrow> ('s, server_answer option) act" where
  "page_opt_act m = act_bind m (\<lambda>response. act_return (map_option page_answer response))"

definition api_not_found :: http_response where
  "api_not_found = full_response 404 (line ''api endpoint not found'')"

text \<open>\<open>None\<close> is a handler that panics, whose connection is closed without an answer.\<close>

fun route_handle ::
    "('u, 'c) browser_crates_scheme \<Rightarrow> env \<Rightarrow> 'u network \<Rightarrow> server_setup \<Rightarrow> header_map \<Rightarrow> route_call
     \<Rightarrow> (('u, 'z) running_server_scheme, server_answer option) act" where
  "route_handle cr e nw srv headers (Asset found) = act_return (Some (asset_answer found))"
| "route_handle cr e nw srv headers Health = act_return (Some (page_answer (ui_raw health)))"
| "route_handle cr e nw srv headers Readiness =
    (\<lambda>s. page_act (act_bind (readiness e (rn_shutting_down s)) (\<lambda>response. act_return (ui_raw response))) s)"
| "route_handle cr e nw srv headers AuthConfigCall = act_return (Some (page_answer (auth_config_page (ss_gateway srv))))"
| "route_handle cr e nw srv headers GithubStart = page_opt_act (github_start cr e (ss_gateway srv) (ss_github srv))"
| "route_handle cr e nw srv headers (GithubCallback query) =
    page_opt_act (github_callback cr e (ss_gateway srv) (ss_github srv) headers query)"
| "route_handle cr e nw srv headers GithubLogout = page_act (github_logout cr (ss_github srv) headers)"
| "route_handle cr e nw srv headers StatusCall = page_act (rest_status cr e (ss_gateway srv) headers)"
| "route_handle cr e nw srv headers ProfilesCall = page_act (rest_profiles cr e (ss_gateway srv) headers)"
| "route_handle cr e nw srv headers (ProfileSecretsCall profile) =
    page_act (act_bind (profile_secrets cr e (ss_gateway srv) headers profile) (\<lambda>response. act_return (ui_raw response)))"
| "route_handle cr e nw srv headers (ProxyCall route path target meth body) =
    page_act (act_bind (proxy cr e nw (ss_gateway srv) route path target meth headers body) (\<lambda>response. act_return (ui_raw response)))"
| "route_handle cr e nw srv headers UiSessionCall = page_act (ui_session cr e (ss_gateway srv) (ss_github srv) headers)"
| "route_handle cr e nw srv headers UiOwnerCall = page_act (ui_owner cr e (ss_gateway srv) (ss_github srv) headers)"
| "route_handle cr e nw srv headers (UiFormCall form) =
    page_act (respond (ui_submit cr e (ss_gateway srv) (ss_github srv) headers form))"
| "route_handle cr e nw srv headers ApiNotFound = act_return (Some (page_answer (ui_raw api_not_found)))"
| "route_handle cr e nw srv headers (RpcCall call) =
    act_bind (rpc_handle cr e (ss_gateway srv) headers call) (\<lambda>answer.
      act_return (Some \<lparr>sa_headers = hm_new, sa_content = RpcContent answer\<rparr>))"
| "route_handle cr e nw srv headers UiNotFound = act_return (Some (page_answer ui_not_found))"

section \<open>A request\<close>

record http_message =
  hq_method :: string
  hq_target :: uri
  hq_headers :: header_map
  hq_body :: bytes

text \<open>
  What axum and connectrpc make of a request: the route with its arguments, or the status of a rejection (no such
  method on the route, a body above the limit of 4 MiB, a form or a query that does not parse), and the headers
  that they put on an answer.
\<close>

record axum =
  ax_route :: "nat \<Rightarrow> http_message \<Rightarrow> nat + route_call"
  ax_headers :: "content \<Rightarrow> header_map \<Rightarrow> header_map"

definition default_body_limit :: nat where
  "default_body_limit = 4 * 1024 * 1024"

definition if_not_present :: "string \<Rightarrow> header_value \<Rightarrow> header_map \<Rightarrow> header_map" where
  "if_not_present name v headers = (if hm_contains_key headers name then headers else hm_insert name v headers)"

definition layers :: "header_value \<Rightarrow> header_map \<Rightarrow> header_map" where
  "layers policy headers =
    if_not_present ''permissions-policy'' (static_value ''camera=(), microphone=(), geolocation=()'')
    (if_not_present ''referrer-policy'' (static_value ''no-referrer'')
    (if_not_present ''x-content-type-options'' (static_value ''nosniff'')
    (if_not_present ''content-security-policy'' policy
    (if_not_present ''cache-control'' (static_value ''no-store'') headers))))"

definition add_layers :: "header_value \<Rightarrow> server_answer \<Rightarrow> server_answer" where
  "add_layers policy answer = answer\<lparr>sa_headers := layers policy (sa_headers answer)\<rparr>"

text \<open>The rate limit on the state of the server; the time is read while the lock is held.\<close>

definition limit_request ::
    "(real \<Rightarrow> real) \<Rightarrow> env \<Rightarrow> server_setup \<Rightarrow> string \<Rightarrow> (('u, 'z) running_server_scheme, http_response option) act" where
  "limit_request rnd e srv path =
    act_bind (instant_now e) (\<lambda>now s.
      case enforce_api_rate_limit rnd (ss_limiter srv) now path (rn_limit s) of
        (refused, st) \<Rightarrow> (refused, s\<lparr>rn_limit := st\<rparr>))"

definition serve_request ::
    "('u, 'c) browser_crates_scheme \<Rightarrow> (real \<Rightarrow> real) \<Rightarrow> axum \<Rightarrow> env \<Rightarrow> 'u network \<Rightarrow> server_setup \<Rightarrow> http_message
     \<Rightarrow> (('u, 'z) running_server_scheme, server_answer option) act" where
  "serve_request cr rnd ax e nw srv request =
    act_bind (limit_request rnd e srv (uri_path (hq_target request))) (\<lambda>refused.
    act_bind
      (case refused of
         Some response \<Rightarrow> act_return (Some (page_answer (ui_raw response)))
       | None \<Rightarrow>
           (case ax_route ax default_body_limit request of
              Inl status \<Rightarrow> act_return (Some \<lparr>sa_headers = hm_new, sa_content = Rejection status\<rparr>)
            | Inr call \<Rightarrow> route_handle cr e nw srv (hq_headers request) call)) (\<lambda>answer.
      act_return (map_option (\<lambda>answer.
        add_layers (ss_policy srv) (answer\<lparr>sa_headers := ax_headers ax (sa_content answer) (sa_headers answer)\<rparr>)) answer)))"

fun serve_requests ::
    "('u, 'c) browser_crates_scheme \<Rightarrow> (real \<Rightarrow> real) \<Rightarrow> axum \<Rightarrow> env \<Rightarrow> 'u network \<Rightarrow> server_setup \<Rightarrow> http_message list
     \<Rightarrow> (('u, 'z) running_server_scheme, server_answer option list) act" where
  "serve_requests cr rnd ax e nw srv [] = act_return []"
| "serve_requests cr rnd ax e nw srv (request # requests) =
    act_bind (serve_request cr rnd ax e nw srv request) (\<lambda>answer.
    act_bind (serve_requests cr rnd ax e nw srv requests) (\<lambda>answers. act_return (answer # answers)))"

text \<open>
  The shutdown: the signal sets the flag, the requests that are still running end, and then the leases of the
  registry are revoked, as many of them as get done before the deadline.
\<close>

definition shutdown :: "(('u, 'z) running_server_scheme, unit) act" where
  "shutdown s = ((), s\<lparr>rn_shutting_down := True\<rparr>)"

definition server_stop ::
    "('u, 'c) browser_crates_scheme \<Rightarrow> (real \<Rightarrow> real) \<Rightarrow> axum \<Rightarrow> env \<Rightarrow> 'u network \<Rightarrow> server_setup \<Rightarrow> http_message list \<Rightarrow> nat
     \<Rightarrow> (('u, 'z) running_server_scheme, server_answer option list) act" where
  "server_stop cr rnd ax e nw srv remaining finished =
    act_bind shutdown (\<lambda>_.
    act_bind (serve_requests cr rnd ax e nw srv remaining) (\<lambda>answers.
    act_bind (revoke_all_dynamic_leases cr e (gateway_app (ss_gateway srv)) finished) (\<lambda>_.
      act_return answers)))"

end
