(* ===== verification/Browser_Properties.thy ===== *)
theory Browser_Properties
  imports Browser_Forms Proxy_Properties
begin

text \<open>
  What the browser side guarantees: a form changes the store only for a browser of the server's own origin whose
  subject has the role the form needs, a session exists only for an account that GitHub named and the
  configuration allows, a sign-in is used once, and a session cookie is good until it expires or is logged out.
\<close>

section \<open>What a form may do\<close>

fun form_role :: "owner_form \<Rightarrow> role \<Rightarrow> bool" where
  "form_role (PrincipalRoleForm _ _) = (\<lambda>role. role = Owner)"
| "form_role _ = can_operate"

definition form_grant :: "profile_grant_form \<Rightarrow> store_db \<Rightarrow> store_db \<Rightarrow> bool" where
  "form_grant form db db' \<longleftrightarrow>
     (\<exists>clock mode expires. ui_grant_mode (gf_mode form) = Inr mode \<and> ui_grant_expiry (gf_expires form) = Inr expires
        \<and> grant_profile_mode clock db (gf_subject form) (gf_profile form) mode expires = Inr db')"

fun form_change :: "owner_form \<Rightarrow> store_db \<Rightarrow> store_db \<Rightarrow> bool" where
  "form_change (BasicUserForm username _) db db' = (\<exists>hash. db' = upsert_basic_user db username hash)"
| "form_change (BasicUserEnabledForm username enabled) db db' = (db' = fst (set_basic_user_enabled db username enabled))"
| "form_change (CreateAgentForm name) db db' = (\<exists>hash. create_agent db name hash = Inr db')"
| "form_change (RotateAgentForm name) db db' = (\<exists>hash found. rotate_agent_token db name hash = Inr (db', found))"
| "form_change (AgentEnabledForm name enabled) db db' = (db' = fst (set_agent_enabled db name enabled))"
| "form_change (DeleteAgentForm name) db db' = (db' = fst (delete_agent db name))"
| "form_change (PrincipalRoleForm target requested) db db' =
    (\<exists>role. role_parse requested = Inr role \<and> set_principal_role db target role = Inr db')"
| "form_change (GrantForm form) db db' = form_grant form db db'"
| "form_change (ExternalGrantForm kind identity form) db db' =
    (\<exists>subject. external_identity_subject kind identity = Inr subject \<and> form_grant (form\<lparr>gf_subject := subject\<rparr>) db db')"
| "form_change (RevokeForm form) db db' = (db' = fst (revoke_profile db (gf_subject form) (gf_profile form)))"

fun form_action :: "owner_form \<Rightarrow> string" where
  "form_action (BasicUserForm _ _) = ''basic_user_upsert''"
| "form_action (BasicUserEnabledForm _ enabled) = (if enabled then ''basic_user_enabled'' else ''basic_user_disabled'')"
| "form_action (CreateAgentForm _) = ''agent_created''"
| "form_action (RotateAgentForm _) = ''agent_token_rotated''"
| "form_action (AgentEnabledForm _ enabled) = (if enabled then ''agent_enabled'' else ''agent_disabled'')"
| "form_action (DeleteAgentForm _) = ''agent_deleted''"
| "form_action (PrincipalRoleForm _ _) = ''principal_role_changed''"
| "form_action (GrantForm _) = ''profile_grant''"
| "form_action (ExternalGrantForm _ _ _) = ''profile_grant''"
| "form_action (RevokeForm _) = ''profile_grant_revoked''"

fun form_profile :: "owner_form \<Rightarrow> string option" where
  "form_profile (GrantForm form) = Some (gf_profile form)"
| "form_profile (ExternalGrantForm _ _ form) = Some (gf_profile form)"
| "form_profile (RevokeForm form) = Some (gf_profile form)"
| "form_profile _ = None"

section \<open>A calculus for the handlers of forms\<close>

text \<open>
  A handler fails and leaves the database as it is, or makes one change and fails, or makes the change and writes
  the audit event of the form; after that it answers with the panel or with an error.
\<close>

definition ui_effect ::
    "(store_db \<Rightarrow> store_db \<Rightarrow> bool) \<Rightarrow> string \<Rightarrow> string \<Rightarrow> string option
     \<Rightarrow> 'z server_scheme \<Rightarrow> 'e + 'a \<Rightarrow> 'z server_scheme \<Rightarrow> bool" where
  "ui_effect C actor action profile s r t \<longleftrightarrow>
     sv_db t = sv_db s \<and> \<not> is_ok r
     \<or> (\<exists>db db1. sv_db s = Some db \<and> C db db1
          \<and> (sv_db t = Some db1 \<and> \<not> is_ok r
             \<or> (\<exists>clock db2. record_audit clock db1 actor action profile None (Some ''managed-ui'') = Inr db2
                  \<and> sv_db t = Some db2)))"

definition ui_changes ::
    "(store_db \<Rightarrow> store_db \<Rightarrow> bool) \<Rightarrow> string \<Rightarrow> string \<Rightarrow> string option \<Rightarrow> ('z server_scheme, 'e + 'a) act \<Rightarrow> bool" where
  "ui_changes C actor action profile m \<longleftrightarrow> (\<forall>s r t. m s = (r, t) \<longrightarrow> ui_effect C actor action profile s r t)"

lemma ui_changesI:
  "(\<And>s r t. m s = (r, t) \<Longrightarrow> ui_effect C actor action profile s r t) \<Longrightarrow> ui_changes C actor action profile m"
  by (simp add: ui_changes_def)

lemma ui_changesD: "ui_changes C actor action profile m \<Longrightarrow> m s = (r, t) \<Longrightarrow> ui_effect C actor action profile s r t"
  by (simp add: ui_changes_def)

lemma ui_changes_error: "ui_changes C actor action profile (act_return (Inl err))"
  by (rule ui_changesI) (auto simp: ui_effect_def)

lemma ui_changes_if:
  "ui_changes C actor action profile m \<Longrightarrow> ui_changes C actor action profile n \<Longrightarrow> ui_changes C actor action profile (if b then m else n)"
  by simp

lemma ui_changes_check:
  "(\<And>x. r = Inr x \<Longrightarrow> ui_changes C actor action profile (f x))
   \<Longrightarrow> ui_changes C actor action profile (act_try (act_return r) f)"
  by (cases r) (auto simp: ui_changes_def act_try_def ui_effect_def)

lemma ui_changes_bind:
  assumes "obeys keeps_store m" and "\<And>x. ui_changes C actor action profile (f x)"
  shows "ui_changes C actor action profile (act_bind m f)"
proof (rule ui_changesI)
  fix s r u
  assume run: "act_bind m f s = (r, u)"
  obtain x t where x: "m s = (x, t)" by (cases "m s")
  with run have "f x t = (r, u)" by simp
  from ui_changesD [OF assms(2) this] obeysD [OF assms(1) x]
  show "ui_effect C actor action profile s r u" by (simp add: ui_effect_def keeps_store_def)
qed

lemma tick_keeps_store: "obeys keeps_store (tick f)"
  by (rule obeysI) (simp add: keeps_store_def)

lemma store_query_keeps_store: "obeys keeps_store (store_query e query)"
  unfolding store_query_def by (intro keeps_store.obeys_rules tick_keeps_store)

lemma ui_read_keeps_store: "obeys keeps_store (ui_read e query)"
proof (rule obeysI)
  fix s :: "'z server_scheme"
  have "obeys (keeps_store :: 'z server_scheme \<Rightarrow> _) (act_map_err ui_unavailable (store_query e (\<lambda>clock. query clock db)))" for db
    by (intro keeps_store.obeys_rules store_query_keeps_store)
  then show "keeps_store s (snd (ui_read e query s))"
    unfolding obeys_def ui_read_def by (simp add: keeps_store.refl split: option.split)
qed

lemma ui_read_Inr: "ui_read e query s = (Inr x, t) \<Longrightarrow> \<exists>db clock. sv_db s = Some db \<and> query clock db = Inr x"
  by (auto simp: ui_read_def result_iff split: option.splits prod.splits dest!: store_query_Inr)

lemma read_profile_grants_keeps_store: "obeys keeps_store (read_profile_grants e profiles grants)"
  by (induction profiles arbitrary: grants) (auto intro!: keeps_store.obeys_rules ui_read_keeps_store)

lemma render_owner_panel_keeps_store: "obeys keeps_store (render_owner_panel e gw viewer issued)"
  unfolding render_owner_panel_def Let_def
  by (intro keeps_store.obeys_rules ui_read_keeps_store read_profile_grants_keeps_store)

lemma ui_write_run:
  assumes "ui_write e fail change s = (r, s')"
  shows "case r of
      Inl _ \<Rightarrow> sv_db s' = sv_db s
    | Inr x \<Rightarrow> \<exists>db db' clock. sv_db s = Some db \<and> change clock db = Inr (db', x) \<and> sv_db s' = Some db'"
  using assms
  by (cases "sv_db s")
    (auto simp: ui_write_def store_update_def act_try_def store_query_def map_error_def split: if_splits sum.splits prod.splits)

lemma ui_audited_run:
  assumes "ui_audited e gw actor action profile issued s = (r, t)" and "sv_db s = Some db"
  shows "sv_db t = Some db \<and> \<not> is_ok r
    \<or> (\<exists>clock db'. record_audit clock db actor action profile None (Some ''managed-ui'') = Inr db' \<and> sv_db t = Some db')"
proof -
  obtain a s1 where a: "audit_event_act e actor action profile None (Some ''managed-ui'') s = (a, s1)"
    by (cases "audit_event_act e actor action profile None (Some ''managed-ui'') s")
  show ?thesis
  proof (cases a)
    case (Inl err)
    with assms a show ?thesis
      by (auto simp: ui_audited_def act_try_def audit_event_act_def store_update_def store_query_def map_error_def result_iff
          split: if_splits sum.splits prod.splits)
  next
    case (Inr x)
    with a assms(2) have "\<exists>clock db'. record_audit clock db actor action profile None (Some ''managed-ui'') = Inr db' \<and> sv_db s1 = Some db'"
      by (auto simp: audit_event_act_def store_update_def act_try_Inr result_iff dest!: store_query_Inr)
    moreover from assms(1) a Inr have "render_owner_panel e gw actor issued s1 = (r, t)"
      by (simp add: ui_audited_def act_try_def map_error_def)
    ultimately show ?thesis
      using obeysD [OF render_owner_panel_keeps_store] by (fastforce simp: keeps_store_def)
  qed
qed

lemma ui_changes_write:
  assumes C: "\<And>clock db db' x. change clock db = Inr (db', x) \<Longrightarrow> C db db'"
  shows "ui_changes C actor action profile (act_try (ui_write e fail change) (\<lambda>x.
    if missing x then act_return (Inl err) else ui_audited e gw actor action profile issued))"
proof (rule ui_changesI)
  fix s r t
  assume run: "act_try (ui_write e fail change) (\<lambda>x.
    if missing x then act_return (Inl err) else ui_audited e gw actor action profile issued) s = (r, t)"
  obtain w s1 where w: "ui_write e fail change s = (w, s1)" by (cases "ui_write e fail change s")
  note written = ui_write_run [OF w]
  show "ui_effect C actor action profile s r t"
  proof (cases w)
    case (Inl err)
    with run w written show ?thesis by (auto simp: act_try_def ui_effect_def)
  next
    case (Inr x)
    with written obtain db db1 clock where db: "sv_db s = Some db" "change clock db = Inr (db1, x)" "sv_db s1 = Some db1"
      by auto
    show ?thesis
    proof (cases "missing x")
      case True
      with run w Inr db C [OF db(2)] show ?thesis by (auto simp: act_try_def ui_effect_def)
    next
      case False
      with run w Inr have "ui_audited e gw actor action profile issued s1 = (r, t)" by (simp add: act_try_def)
      from ui_audited_run [OF this db(3)] db C [OF db(2)] show ?thesis by (auto simp: ui_effect_def)
    qed
  qed
qed

lemmas ui_changes_write_always = ui_changes_write [where missing = "\<lambda>_. False", simplified]

lemmas ui_change_rules =
  ui_changes_error ui_changes_if ui_changes_check ui_changes_bind ui_changes_write ui_changes_write_always
  tick_keeps_store

text \<open>A gate lets a browser through only as a subject that its request identifies and whose role is right.\<close>

definition ui_gate ::
    "('u, 'c) browser_crates_scheme \<Rightarrow> env \<Rightarrow> gateway \<Rightarrow> github_browser_auth option \<Rightarrow> header_map \<Rightarrow> (role \<Rightarrow> bool)
     \<Rightarrow> ('u, 'z) browser_server_scheme \<Rightarrow> string \<Rightarrow> bool" where
  "ui_gate cr e gw github headers P s subject \<longleftrightarrow>
     is_trusted_browser_origin cr headers (cf_public_url (gw_config gw))
     \<and> (\<exists>s1. ui_identity cr e gw github headers s = (Inr subject, s1))
     \<and> (\<exists>db role. sv_db s = Some db \<and> principal_role db subject = Inr role \<and> P role)"

lemma ui_identity_keeps_store: "obeys keeps_store (ui_identity cr e gw github headers)"
proof -
  have "obeys keeps_store (github_session cr e github headers)"
    unfolding github_session_def session_identity_def
    by (intro keeps_store.obeys_rules tick_keeps_store) (auto intro!: obeysI simp: retain_sessions_def keeps_store_def)
  then show ?thesis
    unfolding ui_identity_def by (intro keeps_store.obeys_rules store_auth.authorize_obeys)
qed

lemma ui_require_operator_keeps_store: "obeys keeps_store (ui_require_operator cr e gw github headers)"
  unfolding ui_require_operator_def by (intro keeps_store.obeys_rules ui_identity_keeps_store ui_read_keeps_store)

lemma ui_require_owner_keeps_store: "obeys keeps_store (ui_require_owner cr e gw github headers)"
  unfolding ui_require_owner_def by (intro keeps_store.obeys_rules ui_identity_keeps_store ui_read_keeps_store)

lemma identified:
  assumes "act_map_err g (ui_identity cr e gw github headers) s = (Inr subject, s1)"
  shows "ui_identity cr e gw github headers s = (Inr subject, s1) \<and> sv_db s1 = sv_db s"
proof -
  from assms have "ui_identity cr e gw github headers s = (Inr subject, s1)"
    by (auto simp: result_iff split: prod.splits)
  with obeysD [OF ui_identity_keeps_store this] show ?thesis by (simp add: keeps_store_def)
qed

lemma ui_require_operator_Inr:
  assumes run: "ui_require_operator cr e gw github headers s = (Inr subject, t)"
    and origin: "ui_check_origin cr gw headers = Inr ()"
  shows "ui_gate cr e gw github headers can_operate s subject"
proof -
  from run obtain s1 s2 role where
    "act_map_err (\<lambda>_. ui_raw unauthorized) (ui_identity cr e gw github headers) s = (Inr subject, s1)"
    "ui_read e (\<lambda>_ db. principal_role db subject) s1 = (Inr role, s2)" "can_operate role"
    by (auto simp: ui_require_operator_def act_try_Inr simp del: act_map_err_run split: if_splits)
  with identified [OF this(1)] ui_read_Inr [OF this(2)] origin show ?thesis
    by (auto simp: ui_gate_def ui_check_origin_def split: if_splits)
qed

lemma ui_require_owner_Inr:
  assumes run: "ui_require_owner cr e gw github headers s = (Inr subject, t)"
    and origin: "ui_check_origin cr gw headers = Inr ()"
  shows "ui_gate cr e gw github headers (\<lambda>role. role = Owner) s subject"
proof -
  from run obtain s1 s2 where
    "act_map_err (\<lambda>_. ui_raw unauthorized) (ui_identity cr e gw github headers) s = (Inr subject, s1)"
    "ui_read e (\<lambda>_ db. is_owner db subject) s1 = (Inr True, s2)"
    by (auto simp: ui_require_owner_def act_try_Inr simp del: act_map_err_run split: if_splits)
  with identified [OF this(1)] ui_read_Inr [OF this(2)] origin show ?thesis
    by (auto simp: ui_gate_def ui_check_origin_def is_owner_def result_iff split: if_splits)
qed

definition form_effect ::
    "('u, 'c) browser_crates_scheme \<Rightarrow> env \<Rightarrow> gateway \<Rightarrow> github_browser_auth option \<Rightarrow> header_map \<Rightarrow> (role \<Rightarrow> bool)
     \<Rightarrow> (store_db \<Rightarrow> store_db \<Rightarrow> bool) \<Rightarrow> string \<Rightarrow> string option
     \<Rightarrow> ('u, 'z) browser_server_scheme \<Rightarrow> 'e + 'a \<Rightarrow> ('u, 'z) browser_server_scheme \<Rightarrow> bool" where
  "form_effect cr e gw github headers P C action profile s r t \<longleftrightarrow>
     sv_db t = sv_db s \<and> \<not> is_ok r
     \<or> (\<exists>subject. ui_gate cr e gw github headers P s subject \<and> ui_effect C subject action profile s r t)"

lemma gated_form:
  assumes run: "act_try (act_return (ui_check_origin cr gw headers)) (\<lambda>_. act_try gate body) s = (r, t)"
    and gate: "obeys keeps_store gate"
      "\<And>subject s1. gate s = (Inr subject, s1) \<Longrightarrow> ui_check_origin cr gw headers = Inr ()
         \<Longrightarrow> ui_gate cr e gw github headers P s subject"
    and body: "\<And>subject. ui_changes C subject action profile (body subject)"
  shows "form_effect cr e gw github headers P C action profile s r t"
proof (cases "ui_check_origin cr gw headers")
  case (Inl err)
  with run show ?thesis by (auto simp: act_try_def form_effect_def)
next
  case (Inr u)
  obtain g s1 where g: "gate s = (g, s1)" by (cases "gate s")
  from obeysD [OF gate(1) g] have same: "sv_db s1 = sv_db s" by (simp add: keeps_store_def)
  show ?thesis
  proof (cases g)
    case (Inl err)
    with run Inr g same show ?thesis by (auto simp: act_try_def form_effect_def)
  next
    fix subject
    assume subject: "g = Inr subject"
    with run Inr g have "body subject s1 = (r, t)" by (simp add: act_try_def)
    from ui_changesD [OF body this] same have "ui_effect C subject action profile s r t" by (simp add: ui_effect_def)
    with gate(2) g subject Inr show ?thesis unfolding form_effect_def by auto
  qed
qed

lemmas operator_form = gated_form [OF _ ui_require_operator_keeps_store ui_require_operator_Inr]
lemmas owner_form = gated_form [OF _ ui_require_owner_keeps_store ui_require_owner_Inr]

section \<open>The handlers\<close>

text \<open>The shared gate of the agent forms is the check of the origin and then the role.\<close>

lemma authorize_owner_mutation_try:
  "act_try (ui_authorize_owner_mutation cr e gw github headers) body =
   act_try (act_return (ui_check_origin cr gw headers)) (\<lambda>_. act_try (ui_require_operator cr e gw github headers) body)"
  by (rule ext) (simp add: ui_authorize_owner_mutation_def act_try_def split: sum.split prod.split)

lemma ui_upsert_basic_user_effect:
  "ui_upsert_basic_user cr e gw github headers username password s = (r, t) \<Longrightarrow>
   form_effect cr e gw github headers can_operate (form_change (BasicUserForm username password)) ''basic_user_upsert'' None s r t"
  unfolding ui_upsert_basic_user_def hash_basic_password_def
  by (erule operator_form) (auto intro!: ui_change_rules split: option.split, blast)

lemma ui_set_basic_user_enabled_effect:
  "ui_set_basic_user_enabled cr e gw github headers username enabled s = (r, t) \<Longrightarrow>
   form_effect cr e gw github headers can_operate (form_change (BasicUserEnabledForm username enabled))
     (if enabled then ''basic_user_enabled'' else ''basic_user_disabled'') None s r t"
  unfolding ui_set_basic_user_enabled_def by (erule operator_form) (auto intro!: ui_change_rules)

lemma ui_create_agent_effect:
  "ui_create_agent cr e gw github headers name s = (r, t) \<Longrightarrow>
   form_effect cr e gw github headers can_operate (form_change (CreateAgentForm name)) ''agent_created'' None s r t"
  unfolding ui_create_agent_def authorize_owner_mutation_try mint_agent_token_def
  by (erule operator_form) (auto intro!: ui_change_rules simp: result_iff)

lemma ui_rotate_agent_effect:
  "ui_rotate_agent cr e gw github headers name s = (r, t) \<Longrightarrow>
   form_effect cr e gw github headers can_operate (form_change (RotateAgentForm name)) ''agent_token_rotated'' None s r t"
  unfolding ui_rotate_agent_def authorize_owner_mutation_try mint_agent_token_def
  by (erule operator_form) (auto intro!: ui_change_rules, blast)

lemma ui_set_agent_enabled_effect:
  "ui_set_agent_enabled cr e gw github headers name enabled s = (r, t) \<Longrightarrow>
   form_effect cr e gw github headers can_operate (form_change (AgentEnabledForm name enabled))
     (if enabled then ''agent_enabled'' else ''agent_disabled'') None s r t"
  unfolding ui_set_agent_enabled_def authorize_owner_mutation_try by (erule operator_form) (auto intro!: ui_change_rules)

lemma ui_delete_agent_effect:
  "ui_delete_agent cr e gw github headers name s = (r, t) \<Longrightarrow>
   form_effect cr e gw github headers can_operate (form_change (DeleteAgentForm name)) ''agent_deleted'' None s r t"
  unfolding ui_delete_agent_def authorize_owner_mutation_try by (erule operator_form) (auto intro!: ui_change_rules)

lemma ui_set_principal_role_effect:
  "ui_set_principal_role cr e gw github headers target requested s = (r, t) \<Longrightarrow>
   form_effect cr e gw github headers (\<lambda>role. role = Owner) (form_change (PrincipalRoleForm target requested))
     ''principal_role_changed'' None s r t"
  unfolding ui_set_principal_role_def
  by (erule owner_form) (auto intro!: ui_change_rules simp: result_iff split: sum.split)

lemma ui_grant_profile_effect:
  "ui_grant_profile_subject cr e gw github headers form s = (r, t) \<Longrightarrow>
   form_effect cr e gw github headers can_operate (form_grant form) ''profile_grant'' (Some (gf_profile form)) s r t"
  unfolding ui_grant_profile_subject_def
  by (erule operator_form) (auto intro!: ui_change_rules simp: result_iff form_grant_def)

lemma ui_revoke_profile_effect:
  "ui_revoke_profile cr e gw github headers form s = (r, t) \<Longrightarrow>
   form_effect cr e gw github headers can_operate (form_change (RevokeForm form)) ''profile_grant_revoked''
     (Some (gf_profile form)) s r t"
  unfolding ui_revoke_profile_def by (erule operator_form) (auto intro!: ui_change_rules)

lemma form_effect_mono:
  "form_effect cr e gw github headers P C action profile s r t \<Longrightarrow> (\<And>db db'. C db db' \<Longrightarrow> D db db') \<Longrightarrow>
   form_effect cr e gw github headers P D action profile s r t"
  unfolding form_effect_def ui_effect_def by blast

lemma ui_grant_external_profile_effect:
  assumes "ui_grant_external_profile cr e gw github headers kind identity form s = (r, t)"
  shows "form_effect cr e gw github headers can_operate (form_change (ExternalGrantForm kind identity form)) ''profile_grant''
    (Some (gf_profile form)) s r t"
proof (cases "external_identity_subject kind identity")
  case (Inl err)
  with assms show ?thesis by (auto simp: ui_grant_external_profile_def form_effect_def)
next
  case (Inr subject)
  with assms have "ui_grant_profile_subject cr e gw github headers (form\<lparr>gf_subject := subject\<rparr>) s = (r, t)"
    by (simp add: ui_grant_external_profile_def)
  from form_effect_mono [OF ui_grant_profile_effect [OF this]] Inr show ?thesis by simp
qed

lemma ui_submit_effect:
  "ui_submit cr e gw github headers form s = (r, t) \<Longrightarrow>
   form_effect cr e gw github headers (form_role form) (form_change form) (form_action form) (form_profile form) s r t"
  by (cases form, simp_all only: ui_submit.simps form_role.simps form_action.simps form_profile.simps
      ui_upsert_basic_user_effect ui_set_basic_user_enabled_effect ui_create_agent_effect ui_rotate_agent_effect
      ui_set_agent_enabled_effect ui_delete_agent_effect ui_set_principal_role_effect ui_revoke_profile_effect
      ui_grant_external_profile_effect)
    (drule ui_grant_profile_effect, erule form_effect_mono, simp)

end
