(* ===== verification/Sign_In.thy ===== *)
theory Sign_In
  imports Browser_Properties
begin

text \<open>
  The states that the sign-in can get into: what one callback does, and a step relation with one rule for each
  handler of the browser. A session stands for an account that GitHub named and the configuration allows.
\<close>

section \<open>One sign-in\<close>

text \<open>The configuration names the account, or GitHub said that the token's owner is an active member of an organisation.\<close>

definition github_allowed ::
    "github_browser_auth \<Rightarrow> (github_request \<times> github_reply) list \<Rightarrow> string \<Rightarrow> nat \<Rightarrow> bool" where
  "github_allowed github exchanges access_token user_id \<longleftrightarrow>
     user_id \<in> set (ga_allowed_user_ids github)
     \<or> (\<exists>organization status. organization \<in> set (ga_allowed_organizations github) \<and> \<not> is_error_status status
          \<and> (FetchMembership (github_organization_membership_endpoint organization) access_token,
             Some (status, GithubMembership ''active'')) \<in> set exchanges)"

text \<open>GitHub gave the account to the holder of a token that it issued for a code and a verifier.\<close>

definition github_vouched ::
    "github_browser_auth \<Rightarrow> (github_request \<times> github_reply) list \<Rightarrow> string \<Rightarrow> bool" where
  "github_vouched github exchanges identity \<longleftrightarrow>
     (\<exists>user_id access_token status.
        identity = github_subject user_id \<and> \<not> is_error_status status
        \<and> (FetchUser access_token, Some (status, GithubUser user_id)) \<in> set exchanges
        \<and> github_allowed github exchanges access_token user_id)"

lemma github_allowed_mono:
  "github_allowed github xs token user_id \<Longrightarrow> set xs \<subseteq> set ys \<Longrightarrow> github_allowed github ys token user_id"
  unfolding github_allowed_def by blast

lemma github_vouched_mono: "github_vouched github xs identity \<Longrightarrow> set xs \<subseteq> set ys \<Longrightarrow> github_vouched github ys identity"
  unfolding github_vouched_def by (blast intro: github_allowed_mono)

text \<open>The exchanges with GitHub change nothing but their record, which grows.\<close>

definition github_only :: "('u, 'z) browser_server_scheme \<Rightarrow> ('u, 'z) browser_server_scheme \<Rightarrow> bool" where
  "github_only s t \<longleftrightarrow>
     br_pending t = br_pending s \<and> br_sessions t = br_sessions s \<and> io_ticks t = io_ticks s
     \<and> (\<exists>more. br_github t = br_github s @ more)"

interpretation github_only: frame_relation github_only
  by unfold_locales (auto simp: github_only_def)

lemma github_send_only: "obeys github_only (github_send github request)"
  by (rule obeysI) (simp add: github_send_def github_only_def Let_def)

lemma github_send_run:
  "github_send github request s = (reply, t) \<Longrightarrow> br_github t = br_github s @ [(request, reply)]"
  by (auto simp: github_send_def Let_def)

lemma exchange_code_only: "obeys github_only (exchange_code github code redirect_uri verifier)"
  unfolding exchange_code_def by (intro github_only.obeys_rules github_send_only)

lemma fetch_github_user_only: "obeys github_only (fetch_github_user github access_token)"
  unfolding fetch_github_user_def by (intro github_only.obeys_rules github_send_only)

lemma membership_only: "obeys github_only (has_active_organization_membership github access_token organization)"
  unfolding has_active_organization_membership_def by (intro github_only.obeys_rules github_send_only)

lemma any_active_membership_only: "obeys github_only (any_active_membership github access_token organizations)"
  by (induction organizations) (auto intro!: github_only.obeys_rules membership_only)

lemma is_allowed_user_only: "obeys github_only (is_allowed_user github user_id access_token)"
  unfolding is_allowed_user_def by (intro github_only.obeys_rules any_active_membership_only)

definition code_exchange :: "github_browser_auth \<Rightarrow> string \<Rightarrow> string \<Rightarrow> string \<Rightarrow> github_request" where
  "code_exchange github code redirect_uri verifier =
    ExchangeCode [(''client_id'', ga_client_id github), (''client_secret'', ga_client_secret github), (''code'', code),
      (''redirect_uri'', redirect_uri), (''code_verifier'', verifier)]"

lemma exchange_code_Inr:
  assumes "exchange_code github code redirect_uri verifier s = (Inr access_token, t)"
  shows "\<exists>status. \<not> is_error_status status \<and> br_github t = br_github s @ [(code_exchange github code redirect_uri verifier, Some (status, GithubToken access_token))]"
  using assms
  by (auto simp: exchange_code_def code_exchange_def dest!: github_send_run split: prod.splits option.splits if_splits github_body.splits)

lemma fetch_github_user_Inr:
  assumes "fetch_github_user github access_token s = (Inr user_id, t)"
  shows "\<exists>status. \<not> is_error_status status \<and> br_github t = br_github s @ [(FetchUser access_token, Some (status, GithubUser user_id))]"
  using assms
  by (auto simp: fetch_github_user_def dest!: github_send_run split: prod.splits option.splits if_splits github_body.splits)

lemma membership_Inr:
  assumes "has_active_organization_membership github access_token organization s = (Inr True, t)"
  shows "\<exists>status. \<not> is_error_status status
    \<and> (FetchMembership (github_organization_membership_endpoint organization) access_token,
       Some (status, GithubMembership ''active'')) \<in> set (br_github t)"
  using assms
  by (auto simp: has_active_organization_membership_def dest!: github_send_run
      split: prod.splits option.splits if_splits github_body.splits)

lemma any_active_membership_Inr:
  assumes "any_active_membership github access_token organizations s = (Inr True, t)"
  shows "\<exists>organization status. organization \<in> set organizations \<and> \<not> is_error_status status
    \<and> (FetchMembership (github_organization_membership_endpoint organization) access_token,
       Some (status, GithubMembership ''active'')) \<in> set (br_github t)"
  using assms
proof (induction organizations arbitrary: s)
  case (Cons organization organizations)
  from Cons.prems obtain active s1 where first: "has_active_organization_membership github access_token organization s = (Inr active, s1)"
    and rest: "(if active then act_return (Inr True) else any_active_membership github access_token organizations) s1 = (Inr True, t)"
    by (auto simp: act_try_Inr)
  show ?case
  proof (cases active)
    case True
    with first rest membership_Inr [of github access_token organization s s1] show ?thesis by auto
  next
    case False
    with Cons.IH [of s1] rest show ?thesis by fastforce
  qed
qed simp

lemma is_allowed_user_Inr:
  "is_allowed_user github user_id access_token s = (Inr True, t) \<Longrightarrow> github_allowed github (br_github t) access_token user_id"
  by (auto simp: is_allowed_user_def github_allowed_def split: if_splits dest!: any_active_membership_Inr)

lemma take_pending_Inr:
  assumes "take_pending e state s = (Inr pending, t)"
  shows "map_of (br_pending s) state = Some pending \<and> env_clock e (io_ticks s) < gp_expires_at pending
    \<and> br_pending t = AList.delete state (br_pending s) \<and> br_sessions t = br_sessions s \<and> br_github t = br_github s"
  using assms by (auto simp: take_pending_def Let_def split: option.splits if_splits)

lemma take_pending_state: "br_pending (snd (take_pending e state s)) = AList.delete state (br_pending s)"
  by (auto simp: take_pending_def Let_def split: option.split)

lemma act_try_tail:
  assumes "\<And>x. obeys R (f x)" and "\<And>s. R s s"
  shows "R (snd (m s)) (snd (act_try m f s))"
  using assms by (auto simp: act_try_def obeys_def split: prod.split sum.split)

lemma finish_login_tail:
  "github_only (snd (take_pending e state s)) (snd (github_finish_login e github state code redirect_uri s))"
  unfolding github_finish_login_def
  by (rule act_try_tail [where R = github_only])
    (intro github_only.obeys_rules exchange_code_only fetch_github_user_only is_allowed_user_only github_only.refl)+

lemma finish_login_pending:
  "br_pending (snd (github_finish_login e github state code redirect_uri s)) = AList.delete state (br_pending s)"
  using finish_login_tail [of e state s github code redirect_uri] by (simp add: github_only_def take_pending_state)

lemma login_keeps_sessions:
  "br_sessions (snd (github_finish_login e github state code redirect_uri s)) = br_sessions s
   \<and> (\<exists>more. br_github (snd (github_finish_login e github state code redirect_uri s)) = br_github s @ more)"
proof -
  have "br_sessions (snd (take_pending e state s)) = br_sessions s" "br_github (snd (take_pending e state s)) = br_github s"
    by (auto simp: take_pending_def Let_def split: option.split)
  with finish_login_tail [of e state s github code redirect_uri] show ?thesis by (auto simp: github_only_def)
qed

text \<open>What a login that succeeds has gone through.\<close>

definition login_evidence ::
    "env \<Rightarrow> github_browser_auth \<Rightarrow> string \<Rightarrow> string \<Rightarrow> string \<Rightarrow> string
     \<Rightarrow> ('u, 'z) browser_server_scheme \<Rightarrow> ('u, 'z) browser_server_scheme \<Rightarrow> bool" where
  "login_evidence e github state code redirect_uri identity s t \<longleftrightarrow>
     (\<exists>pending access_token user_id status1 status2 more.
        map_of (br_pending s) state = Some pending \<and> env_clock e (io_ticks s) < gp_expires_at pending
        \<and> br_github t = br_github s
            @ (code_exchange github code redirect_uri (gp_verifier pending),
               Some (status1, GithubToken access_token))
            # (FetchUser access_token, Some (status2, GithubUser user_id)) # more
        \<and> \<not> is_error_status status1 \<and> \<not> is_error_status status2
        \<and> identity = github_subject user_id \<and> github_allowed github (br_github t) access_token user_id)"

lemma finish_login_Inr:
  assumes "github_finish_login e github state code redirect_uri s = (Inr identity, t)"
  shows "login_evidence e github state code redirect_uri identity s t \<and> br_sessions t = br_sessions s"
proof -
  from assms obtain pending s1 access_token s2 user_id s3 where run:
    "take_pending e state s = (Inr pending, s1)"
    "exchange_code github code redirect_uri (gp_verifier pending) s1 = (Inr access_token, s2)"
    "fetch_github_user github access_token s2 = (Inr user_id, s3)"
    "is_allowed_user github user_id access_token s3 = (Inr True, t)" "identity = github_subject user_id"
    by (auto simp: github_finish_login_def act_try_Inr split: if_splits)
  from obeysD [OF is_allowed_user_only run(4)] obtain more where more: "br_github t = br_github s3 @ more"
    by (auto simp: github_only_def)
  have "br_sessions t = br_sessions s"
    using obeysD [OF exchange_code_only run(2)] obeysD [OF fetch_github_user_only run(3)]
      obeysD [OF is_allowed_user_only run(4)] take_pending_Inr [OF run(1)] by (simp add: github_only_def)
  moreover from exchange_code_Inr [OF run(2)] fetch_github_user_Inr [OF run(3)] obtain status1 status2 where
    "\<not> is_error_status status1" "\<not> is_error_status status2"
    "br_github s3 = br_github s1
       @ [(code_exchange github code redirect_uri (gp_verifier pending), Some (status1, GithubToken access_token)),
          (FetchUser access_token, Some (status2, GithubUser user_id))]"
    by auto
  ultimately show ?thesis
    using take_pending_Inr [OF run(1)] is_allowed_user_Inr [OF run(4)] run(5) more
    by (auto simp: login_evidence_def)
qed

lemma login_evidence_vouched:
  assumes "login_evidence e github state code redirect_uri identity s t"
  shows "github_vouched github (br_github t) identity \<and> set (br_github s) \<subseteq> set (br_github t)"
proof -
  from assms obtain user_id access_token status where
    "identity = github_subject user_id" "\<not> is_error_status status"
    "(FetchUser access_token, Some (status, GithubUser user_id)) \<in> set (br_github t)"
    "github_allowed github (br_github t) access_token user_id" "set (br_github s) \<subseteq> set (br_github t)"
    unfolding login_evidence_def by force
  then show ?thesis unfolding github_vouched_def by blast
qed

lemma create_session_run:
  shows create_session_token: "fst (create_session cr e identity s) = base64_url_safe_no_pad cr (env_random e (io_ticks s))"
    and create_session_sessions: "br_sessions (snd (create_session cr e identity s)) =
      AList.update (fst (create_session cr e identity s))
        \<lparr>gs_identity = identity, gs_expires_at = env_clock e (Suc (io_ticks s)) + github_session_ttl\<rparr>
        (filter (\<lambda>(_, session). gs_expires_at session > env_clock e (Suc (io_ticks s))) (br_sessions s))"
    and create_session_github: "br_github (snd (create_session cr e identity s)) = br_github s"
    and create_session_pending: "br_pending (snd (create_session cr e identity s)) = br_pending s"
  by (simp_all add: create_session_def random_browser_token_def retain_sessions_def)

section \<open>What the other handlers leave alone\<close>

text \<open>No sign-in: sessions may end, none begins, and the record of the exchanges stays.\<close>

definition no_sign_in :: "('u, 'z) browser_server_scheme \<Rightarrow> ('u, 'z) browser_server_scheme \<Rightarrow> bool" where
  "no_sign_in s t \<longleftrightarrow>
     set (br_sessions t) \<subseteq> set (br_sessions s) \<and> (distinct (map fst (br_sessions s)) \<longrightarrow> distinct (map fst (br_sessions t)))
     \<and> br_github t = br_github s"

interpretation no_sign_in: frame_relation no_sign_in
  by unfold_locales (auto simp: no_sign_in_def)

lemma tick_browser: "obeys no_sign_in (tick f)"
  by (rule obeysI) (simp add: no_sign_in_def)

lemma store_query_browser: "obeys no_sign_in (store_query e query)"
  unfolding store_query_def by (intro no_sign_in.obeys_rules tick_browser)

lemma store_update_browser: "obeys no_sign_in (store_update e change)"
  unfolding store_update_def
  by (intro no_sign_in.obeys_rules store_query_browser) (auto intro!: obeysI simp: no_sign_in_def split: prod.split)

lemma refresh_browser: "obeys no_sign_in (refresh_jwks e an force)"
  by (rule obeysI)
    (auto simp: no_sign_in_def refresh_jwks_def fetch_jwks_def Let_def split: option.split backend_reply.split reply_body.split)

interpretation browser_auth: authentication_frame no_sign_in e an
  by unfold_locales (auto intro!: tick_browser store_query_browser refresh_browser)

lemma ui_read_browser: "obeys no_sign_in (ui_read e query)"
  using no_sign_in.map_err_obeys [OF store_query_browser]
  by (auto simp: obeys_def ui_read_def no_sign_in.refl split: option.split)

lemma ui_write_browser: "obeys no_sign_in (ui_write e fail change)"
  using no_sign_in.map_err_obeys [OF store_update_browser]
  by (auto simp: obeys_def ui_write_def no_sign_in.refl split: option.split)

lemma audit_browser: "obeys no_sign_in (audit_event_act e actor action profile route executable)"
  using store_update_browser by (auto simp: obeys_def audit_event_act_def no_sign_in.refl split: option.split)

lemma permitted_browser: "obeys no_sign_in (permitted_profile_names e app subject)"
proof (rule obeysI)
  fix s :: "('u, 'z) browser_server_scheme"
  have "obeys (no_sign_in :: ('u, 'z) browser_server_scheme \<Rightarrow> _) (act_try (store_query e (\<lambda>clock. list_allowed_profiles clock db subject)) (\<lambda>names.
      act_return (Inr (filter (\<lambda>p. map_of (app_profiles app) p \<noteq> None) names))))" for db
    by (intro no_sign_in.obeys_rules store_query_browser)
  then show "no_sign_in s (snd (permitted_profile_names e app subject s))"
    by (auto simp: obeys_def permitted_profile_names_def no_sign_in.refl split: option.split)
qed

lemma retain_browser: "obeys no_sign_in (retain_sessions now)"
  by (rule obeysI) (auto simp: retain_sessions_def no_sign_in_def distinct_map_filter)

lemma session_identity_browser: "obeys no_sign_in (session_identity e token)"
  unfolding session_identity_def
  by (intro no_sign_in.obeys_rules tick_browser retain_browser) (simp add: obeys_def no_sign_in.refl)

lemma ui_identity_browser: "obeys no_sign_in (ui_identity cr e gw github headers)"
  unfolding ui_identity_def github_session_def
  by (intro no_sign_in.obeys_rules session_identity_browser browser_auth.authorize_obeys)

lemma read_profile_grants_browser: "obeys no_sign_in (read_profile_grants e profiles grants)"
  by (induction profiles arbitrary: grants) (auto intro!: no_sign_in.obeys_rules ui_read_browser)

lemmas browser_rules =
  no_sign_in.obeys_rules tick_browser ui_read_browser ui_write_browser audit_browser permitted_browser ui_identity_browser
  read_profile_grants_browser

lemma render_owner_panel_browser: "obeys no_sign_in (render_owner_panel e gw viewer issued)"
  unfolding render_owner_panel_def Let_def by (intro browser_rules)

lemma ui_audited_browser: "obeys no_sign_in (ui_audited e gw subject action profile issued)"
  unfolding ui_audited_def by (intro browser_rules render_owner_panel_browser)

lemma gates_browser:
  shows "obeys no_sign_in (ui_require_operator cr e gw github headers)"
    and "obeys no_sign_in (ui_require_owner cr e gw github headers)"
    and "obeys no_sign_in (ui_authorize_owner_mutation cr e gw github headers)"
  unfolding ui_authorize_owner_mutation_def ui_require_operator_def ui_require_owner_def by (intro browser_rules)+

lemma ui_grant_browser: "obeys no_sign_in (ui_grant_profile_subject cr e gw github headers form)"
  unfolding ui_grant_profile_subject_def by (intro browser_rules gates_browser ui_audited_browser)

lemma case_prod_browser: "(\<And>a b. obeys R (f a b)) \<Longrightarrow> obeys R (case p of (a, b) \<Rightarrow> f a b)"
  by (cases p) simp

lemma ui_submit_browser: "obeys no_sign_in (ui_submit cr e gw github headers form)"
  unfolding ui_submit.simps
  by (cases form)
    (simp_all only: ui_submit.simps ui_upsert_basic_user_def ui_set_basic_user_enabled_def ui_create_agent_def ui_rotate_agent_def
      ui_set_agent_enabled_def ui_delete_agent_def ui_set_principal_role_def ui_grant_external_profile_def ui_revoke_profile_def
      hash_basic_password_def mint_agent_token_def,
     (intro browser_rules gates_browser ui_audited_browser ui_grant_browser case_prod_browser)+)

lemma ui_session_browser: "obeys no_sign_in (ui_session cr e gw github headers)"
  unfolding ui_session_def respond_def by (intro browser_rules)

lemma ui_owner_browser: "obeys no_sign_in (ui_owner cr e gw github headers)"
  unfolding ui_owner_def respond_def by (intro browser_rules gates_browser render_owner_panel_browser)

lemma github_logout_browser: "obeys no_sign_in (github_logout cr github headers)"
proof -
  have "obeys no_sign_in (remove_session token)" for token
    by (rule obeysI) (auto simp: remove_session_def no_sign_in_def distinct_map_filter AList.delete_eq)
  note removed = this
  show ?thesis unfolding github_logout_def by (intro removed no_sign_in.obeys_rules)
qed

lemma github_start_browser: "obeys no_sign_in (github_start cr e gw github)"
proof -
  have "obeys no_sign_in (\<lambda>s. ((), s\<lparr>br_pending := f s\<rparr>))" for f :: "('u, 'z) browser_server_scheme \<Rightarrow> _"
    by (simp add: obeys_def no_sign_in_def)
  note pending = this
  have "obeys no_sign_in (github_start_login cr e g redirect_uri)" for g redirect_uri
    unfolding github_start_login_def random_browser_token_def
    by (rule pending tick_browser no_sign_in.bind_obeys no_sign_in.return_obeys)+
  note login = this
  show ?thesis unfolding github_start_def
    by (rule no_sign_in.option_obeys [OF no_sign_in.return_obeys no_sign_in.bind_obeys [OF login no_sign_in.return_obeys]])
qed

end
