(* ===== verification/Browser_Guarantees.thy ===== *)
theory Browser_Guarantees
  imports Sign_In
begin

text \<open>
  The properties of the browser side, and a small server on which their witnesses run: \<open>basic:ada\<close> is its owner, and
  the GitHub account 7 may sign in.
\<close>

section \<open>Steps of the browser\<close>

inductive browser_step ::
    "('u, 'c) browser_crates_scheme \<Rightarrow> env \<Rightarrow> gateway \<Rightarrow> github_browser_auth
     \<Rightarrow> ('u, 'z) browser_server_scheme \<Rightarrow> ('u, 'z) browser_server_scheme \<Rightarrow> bool"
  for cr e gw github where
  step_start: "github_start cr e gw (Some github) s = (start, t) \<Longrightarrow> browser_step cr e gw github s t"
| step_callback: "github_callback cr e gw (Some github) headers query s = (callback, t) \<Longrightarrow> browser_step cr e gw github s t"
| step_logout: "github_logout cr (Some github) headers s = (response, t) \<Longrightarrow> browser_step cr e gw github s t"
| step_session: "ui_session cr e gw (Some github) headers s = (response, t) \<Longrightarrow> browser_step cr e gw github s t"
| step_owner: "ui_owner cr e gw (Some github) headers s = (response, t) \<Longrightarrow> browser_step cr e gw github s t"
| step_submit: "ui_submit cr e gw (Some github) headers form s = (result, t) \<Longrightarrow> browser_step cr e gw github s t"

text \<open>What one callback does to the sessions.\<close>

lemma github_callback_cases:
  assumes "github_callback cr e gw (Some github) headers query s = (r, t)"
  obtains (none) "br_sessions t = br_sessions s" "\<exists>more. br_github t = br_github s @ more"
  | (new) state code identity u where
      "callback_arguments cr headers query = Some (state, code)"
      "login_evidence e github state code (github_callback_url (cf_public_url (gw_config gw))) identity s u"
      "br_sessions u = br_sessions s" "br_pending u = AList.delete state (br_pending s)"
      "t = snd (create_session cr e identity u)"
proof (cases "callback_arguments cr headers query")
  case None
  with assms have "t = s" by (simp add: github_callback_def)
  then show ?thesis using none by simp
next
  case (Some arguments)
  obtain state code where arguments: "arguments = (state, code)" by (cases arguments)
  define uri where "uri = github_callback_url (cf_public_url (gw_config gw))"
  obtain finished u where run: "github_finish_login e github state code uri s = (finished, u)"
    by (cases "github_finish_login e github state code uri s")
  show ?thesis
  proof (cases finished)
    case (Inl err)
    with assms Some arguments run have "t = u" by (simp add: github_callback_def uri_def)
    moreover have "br_sessions u = br_sessions s \<and> (\<exists>more. br_github u = br_github s @ more)"
      using login_keeps_sessions [of e github state code uri s] run by simp
    ultimately show ?thesis using none by simp
  next
    case (Inr identity)
    with assms Some arguments run have "t = snd (create_session cr e identity u)"
      by (simp add: github_callback_def uri_def split: prod.splits)
    moreover have "br_pending u = AList.delete state (br_pending s)"
      using finish_login_pending [of e github state code uri s] run by simp
    ultimately show ?thesis
      using new [of state code identity u] Some arguments finish_login_Inr [of e github state code uri s identity u] run Inr
      by (simp add: uri_def)
  qed
qed

definition sessions_ok :: "github_browser_auth \<Rightarrow> ('u, 'z) browser_server_scheme \<Rightarrow> bool" where
  "sessions_ok github s \<longleftrightarrow>
     distinct (map fst (br_sessions s))
     \<and> (\<forall>(token, session) \<in> set (br_sessions s). github_vouched github (br_github s) (gs_identity session))"

lemma no_sign_in_ok: "no_sign_in s t \<Longrightarrow> sessions_ok github s \<Longrightarrow> sessions_ok github t"
  by (auto simp: no_sign_in_def sessions_ok_def)

lemma update_set: "set (AList.update k v xs) \<subseteq> insert (k, v) (set xs)"
  by (induction xs) auto

lemma create_session_ok:
  assumes "sessions_ok github s" and "github_vouched github (br_github s) identity"
  shows "sessions_ok github (snd (create_session cr e identity s))"
  using assms update_set
  by (fastforce simp: sessions_ok_def create_session_sessions create_session_github distinct_update distinct_map_filter)

lemma browser_step_ok: "browser_step cr e gw github s t \<Longrightarrow> sessions_ok github s \<Longrightarrow> sessions_ok github t"
proof (induction rule: browser_step.induct)
  case (step_callback headers query s r t)
  from step_callback(1) show ?case
  proof (cases rule: github_callback_cases)
    case none
    with step_callback(2) show ?thesis by (auto simp: sessions_ok_def intro: github_vouched_mono)
  next
    case (new state code identity u)
    from login_evidence_vouched [OF new(2)] step_callback(2) new(3) have "sessions_ok github u"
      by (auto simp: sessions_ok_def intro: github_vouched_mono)
    with new(5) login_evidence_vouched [OF new(2)] show ?thesis by (simp add: create_session_ok)
  qed
qed (auto intro: no_sign_in_ok dest!: obeysD [OF github_start_browser] obeysD [OF github_logout_browser]
  obeysD [OF ui_session_browser] obeysD [OF ui_owner_browser] obeysD [OF ui_submit_browser])

lemma browser_steps_ok: "(browser_step cr e gw github)\<^sup>*\<^sup>* s t \<Longrightarrow> sessions_ok github s \<Longrightarrow> sessions_ok github t"
  by (induction rule: rtranclp_induct) (auto intro: browser_step_ok)

section \<open>Cookies\<close>

text \<open>The URL-safe alphabet of Base64 is one that the cookie parser takes.\<close>

definition base64_cookie_law :: "('u, 'c) crates_scheme \<Rightarrow> bool" where
  "base64_cookie_law cr \<longleftrightarrow>
     (\<forall>b. list_all cookie_byte (base64_url_safe_no_pad cr b) \<and> (b \<noteq> [] \<longrightarrow> base64_url_safe_no_pad cr b \<noteq> []))"

text \<open>A browser sends a cookie back: the first pair of its header with the name has the token.\<close>

definition presents :: "('u, 'c) crates_scheme \<Rightarrow> header_map \<Rightarrow> string \<Rightarrow> bool" where
  "presents cr headers token \<longleftrightarrow>
     (\<exists>v header before after. hm_get headers ''cookie'' = Some v \<and> header_value_to_str cr v = Some header
        \<and> map trim (split_on CHR '';'' header) = before @ (github_session_cookie_name @ ''='' @ token) # after
        \<and> find_cookie github_session_cookie_name before = None)"

lemma find_cookie_append:
  "find_cookie name before = None \<Longrightarrow> find_cookie name (before @ pairs) = find_cookie name pairs"
  by (induction before) (auto split: option.splits if_splits)

lemma presents_cookie_value:
  assumes "presents cr headers token" and "token \<noteq> []" and "list_all cookie_byte token"
  shows "cookie_value cr headers github_session_cookie_name = Some token"
proof -
  have "CHR ''='' \<notin> set github_session_cookie_name" by code_simp
  then have "split_once CHR ''='' (github_session_cookie_name @ ''='' @ token) = Some (github_session_cookie_name, token)"
    by simp
  with assms show ?thesis by (auto simp: presents_def cookie_value_def cookie_text_def find_cookie_append)
qed

lemma github_session_lookup:
  assumes "cookie_value cr headers github_session_cookie_name = Some token"
    and "br_sessions u = AList.update token session others" and "distinct (map fst others)"
  shows "fst (github_session cr e (Some github) headers u) =
    (if env_clock e (io_ticks u) < gs_expires_at session then Some (gs_identity session) else None)"
proof -
  let ?live = "filter (\<lambda>(_, session). gs_expires_at session > env_clock e (io_ticks u)) (br_sessions u)"
  have distinct: "distinct (map fst (br_sessions u))" using assms(2,3) by (simp add: distinct_update)
  have member: "(token, session) \<in> set (br_sessions u)"
    by (simp add: assms(2) map_of_SomeD update_conv')
  have "map_of ?live token = (if env_clock e (io_ticks u) < gs_expires_at session then Some session else None)"
  proof (cases "env_clock e (io_ticks u) < gs_expires_at session")
    case True
    with member distinct show ?thesis by (simp add: map_of_eq_Some_iff distinct_map_filter)
  next
    case False
    with member distinct have "token \<notin> fst ` set ?live" by (auto dest: eq_key_imp_eq_value)
    with False show ?thesis by (simp add: map_of_eq_None_iff)
  qed
  with assms(1) show ?thesis by (simp add: github_session_def session_identity_def retain_sessions_def)
qed

lemma logout_ends:
  assumes "cookie_value cr headers github_session_cookie_name = Some token"
  shows "fst (github_session cr e (Some github) headers (snd (github_logout cr (Some github) headers u))) = None"
proof -
  have "map_of (filter P (AList.delete token (br_sessions u))) token = None" for P
    by (auto simp: map_of_eq_None_iff AList.delete_eq)
  with assms show ?thesis
    by (simp add: github_session_def github_logout_def remove_session_def session_identity_def retain_sessions_def)
qed

lemma callback_success_cookies:
  assumes "github_callback_success cr token = Some response" and "header_value_law cr"
  shows "ui_headers response ''set-cookie'' =
    [HeaderValue (github_session_cookie token) False, HeaderValue clear_github_state_cookie False]"
proof -
  from assms obtain a b where "header_value_from_str cr (github_session_cookie token) = Some a"
    "header_value_from_str cr clear_github_state_cookie = Some b" and response: "response =
      ui_raw ((no_store ((full_response 302 [])\<lparr>rs_headers := hm_insert ''location'' (static_value ''/'') hm_new\<rparr>))\<lparr>rs_headers :=
        hm_append ''set-cookie'' b (hm_append ''set-cookie'' a (rs_headers
          (no_store ((full_response 302 [])\<lparr>rs_headers := hm_insert ''location'' (static_value ''/'') hm_new\<rparr>))))\<rparr>)"
    by (auto simp: github_callback_success_def bind_eq_Some_conv Let_def)
  with assms(2) have "a = HeaderValue (github_session_cookie token) False" "b = HeaderValue clear_github_state_cookie False"
    by (auto simp: header_value_law_def)
  with response show ?thesis
    by (simp add: ui_raw_def no_store_def full_response_def hm_append_def hm_insert_def hm_new_def)
qed

text \<open>A callback is rejected, or it opens a session and answers with its cookie.\<close>

lemma github_callback_run:
  assumes "github_callback cr e gw (Some github) headers query s = (Some response, t)"
  obtains (rejected) "response = github_callback_rejected"
  | (accepted) state code identity u where
      "login_evidence e github state code (github_callback_url (cf_public_url (gw_config gw))) identity s u"
      "br_sessions u = br_sessions s" "t = snd (create_session cr e identity u)"
      "github_callback_success cr (fst (create_session cr e identity u)) = Some response"
proof (cases "callback_arguments cr headers query")
  case None
  with assms rejected show ?thesis by (simp add: github_callback_def)
next
  case (Some arguments)
  obtain state code where arguments: "arguments = (state, code)" by (cases arguments)
  define uri where "uri = github_callback_url (cf_public_url (gw_config gw))"
  obtain finished u where run: "github_finish_login e github state code uri s = (finished, u)"
    by (cases "github_finish_login e github state code uri s")
  show ?thesis
  proof (cases finished)
    case (Inl err)
    with assms Some arguments run rejected show ?thesis by (simp add: github_callback_def uri_def)
  next
    case (Inr identity)
    with assms Some arguments run have "t = snd (create_session cr e identity u)"
      "github_callback_success cr (fst (create_session cr e identity u)) = Some response"
      by (auto simp: github_callback_def uri_def split: prod.splits)
    then show ?thesis
      using accepted [of state code identity u] finish_login_Inr [of e github state code uri s identity u] run Inr
      by (simp add: uri_def)
  qed
qed

section \<open>A sample server\<close>

definition sample_browser_crates :: "sample_url browser_crates" where
  "sample_browser_crates =
    proxy_crates.extend sample_proxy_crates
      (browser_crates.fields (\<lambda>u. su_scheme u @ ''://'' @ su_host u @ su_path u) (\<lambda>u. su_scheme u @ ''://'' @ su_host u) rpc_message)"

lemmas sample_browser_crates_simps = sample_browser_crates_def sample_proxy_crates_simps browser_crates.defs

lemma sample_browser_header_value_law: "header_value_law sample_browser_crates"
  using sample_header_value_law by (simp add: header_value_law_def sample_browser_crates_simps)

lemma base64_url_alphabet_byte: "i < 64 \<Longrightarrow> cookie_byte (base64_url_alphabet ! i)"
proof -
  assume "i < 64"
  moreover have "list_all cookie_byte base64_url_alphabet" and "length base64_url_alphabet = 64" by code_simp+
  ultimately show ?thesis by (simp add: list_all_length)
qed

lemma sample_base64_url_bytes:
  "list_all (\<lambda>n. n < 256) ns \<Longrightarrow> list_all cookie_byte (sample_base64 base64_url_alphabet False ns)"
  by (induction base64_url_alphabet False ns rule: sample_base64.induct) (auto intro!: base64_url_alphabet_byte)

lemma sample_browser_base64_law: "base64_cookie_law sample_browser_crates"
proof -
  have "sample_base64 al pad ns \<noteq> []" if "ns \<noteq> []" for al pad ns
    using that by (cases "(al, pad, ns)" rule: sample_base64.cases) auto
  moreover have "list_all (\<lambda>n. n < 256) (map byte b)" for b by (simp add: list_all_iff)
  ultimately show ?thesis
    using sample_base64_url_bytes by (simp add: base64_cookie_law_def sample_browser_crates_simps sample_crates_def)
qed

fun sample_github_network :: github_network where
  "sample_github_network _ (ExchangeCode _) = Some (200, GithubToken ''gho'')"
| "sample_github_network _ (FetchUser _) = Some (200, GithubUser 7)"
| "sample_github_network _ (FetchMembership _ _) = Some (404, GithubOther)"

definition sample_github :: github_browser_auth where
  "sample_github =
    \<lparr>ga_client_id = ''client'', ga_client_secret = ''secret'', ga_allowed_user_ids = [7], ga_allowed_organizations = [''acme''],
     ga_network = sample_github_network\<rparr>"

definition browser_state :: "sample_url browser_server" where
  "browser_state = proxy_server.extend (gateway_state\<lparr>sv_db := Some operated_db\<rparr>) (browser_server.fields [] [] [])"

definition browser_pending :: "sample_url browser_server" where
  "browser_pending = snd (github_start sample_browser_crates gateway_env sample_gateway (Some sample_github) browser_state)"

definition with_cookie :: "string \<Rightarrow> header_map" where
  "with_cookie cookie = hm_insert ''cookie'' (HeaderValue cookie False) hm_new"

definition sample_callback :: github_callback_query where
  "sample_callback = \<lparr>gc_code = Some ''code'', gc_state = Some ''YWI'', gc_error = None\<rparr>"

definition browser_signed_in :: "sample_url browser_server" where
  "browser_signed_in =
    snd (github_callback sample_browser_crates gateway_env sample_gateway (Some sample_github) (with_cookie ''av_github_state=YWI'')
      sample_callback browser_pending)"

lemma browser_reached:
  "(browser_step sample_browser_crates gateway_env sample_gateway sample_github)\<^sup>*\<^sup>* browser_state browser_pending"
  "(browser_step sample_browser_crates gateway_env sample_gateway sample_github)\<^sup>*\<^sup>* browser_state browser_signed_in"
proof -
  have 1: "browser_step sample_browser_crates gateway_env sample_gateway sample_github browser_state browser_pending"
    unfolding browser_pending_def by (metis step_start prod.collapse)
  have 2: "browser_step sample_browser_crates gateway_env sample_gateway sample_github browser_pending browser_signed_in"
    unfolding browser_signed_in_def by (metis step_callback prod.collapse)
  from 1 2 show
    "(browser_step sample_browser_crates gateway_env sample_gateway sample_github)\<^sup>*\<^sup>* browser_state browser_pending"
    "(browser_step sample_browser_crates gateway_env sample_gateway sample_github)\<^sup>*\<^sup>* browser_state browser_signed_in"
    by auto
qed

lemma browser_state_sessions: "br_sessions browser_state = []"
  by code_simp

section \<open>Properties\<close>



text \<open>
  C32. A callback opens a session only if the state it carries is the one of the browser's cookie and of a login that
  was started and has not expired, and only after GitHub has exchanged the code with the verifier of that login for a
  token, has named the account of the token, and the configuration allows the account by its number or by an active
  membership. The login is used up: every later callback with its state is rejected and reaches GitHub no more.
\<close>

theorem github_sign_in_sound:
  assumes "github_callback cr e gw (Some github) headers query s = (r, t)"
    and "\<not> set (br_sessions t) \<subseteq> set (br_sessions s)"
  shows "\<exists>state code identity token expires.
    gc_state query = Some state \<and> gc_code query = Some code \<and> gc_error query = None
    \<and> cookie_value cr headers github_state_cookie_name = Some state
    \<and> login_evidence e github state code (github_callback_url (cf_public_url (gw_config gw))) identity s t
    \<and> set (br_sessions t) \<subseteq> insert (token, \<lparr>gs_identity = identity, gs_expires_at = expires\<rparr>) (set (br_sessions s))
    \<and> (\<forall>headers' query'. gc_state query' = Some state \<longrightarrow>
         fst (github_callback cr e gw (Some github) headers' query' t) = Some github_callback_rejected
         \<and> br_github (snd (github_callback cr e gw (Some github) headers' query' t)) = br_github t)"
  using assms(1)
proof (cases rule: github_callback_cases)
  case none
  with assms(2) show ?thesis by simp
next
  case (new state code identity u)
  let ?uri = "github_callback_url (cf_public_url (gw_config gw))"
  have arguments: "gc_state query = Some state" "gc_code query = Some code" "gc_error query = None"
    "cookie_value cr headers github_state_cookie_name = Some state"
    using new(1) by (auto simp: callback_arguments_def bind_eq_Some_conv split: if_splits)
  have evidence: "login_evidence e github state code ?uri identity s t"
    using new(2,5) by (simp add: login_evidence_def create_session_github)
  have "set (br_sessions t) \<subseteq> insert (fst (create_session cr e identity u),
      \<lparr>gs_identity = identity, gs_expires_at = env_clock e (Suc (io_ticks u)) + github_session_ttl\<rparr>) (set (br_sessions s))"
    unfolding new(5) create_session_sessions using update_set new(3) by fastforce
  moreover have "map_of (br_pending t) state = None"
    using new(4,5) by (simp add: create_session_pending delete_conv')
  then have "fst (github_callback cr e gw (Some github) headers' query' t) = Some github_callback_rejected
      \<and> br_github (snd (github_callback cr e gw (Some github) headers' query' t)) = br_github t"
    if "gc_state query' = Some state" for headers' query'
    using that
    by (auto simp: github_callback_def callback_arguments_def github_finish_login_def take_pending_def act_try_def
        bind_eq_Some_conv Let_def split: option.splits if_splits)
  ultimately show ?thesis using arguments evidence by blast
qed

theorem github_sign_in_sound_witness:
  "\<exists>r. github_callback sample_browser_crates gateway_env sample_gateway (Some sample_github) (with_cookie ''av_github_state=YWI'')
      sample_callback browser_pending = (r, browser_signed_in)
    \<and> \<not> set (br_sessions browser_signed_in) \<subseteq> set (br_sessions browser_pending)
    \<and> (\<exists>identity. login_evidence gateway_env sample_github ''YWI'' ''code''
         (github_callback_url (cf_public_url (gw_config sample_gateway))) identity browser_pending browser_signed_in)"
proof -
  obtain r where run: "github_callback sample_browser_crates gateway_env sample_gateway (Some sample_github)
      (with_cookie ''av_github_state=YWI'') sample_callback browser_pending = (r, browser_signed_in)"
    unfolding browser_signed_in_def by (metis prod.collapse)
  have new: "\<not> set (br_sessions browser_signed_in) \<subseteq> set (br_sessions browser_pending)" by code_simp
  from github_sign_in_sound [OF run new] run new show ?thesis by (auto simp: sample_callback_def)
qed

text \<open>
  C33. Whatever browsers do, in whatever order, from a server without sessions: every session that the server holds is the
  session of an account that GitHub named to the server and that the configuration allows, by its number or because
  GitHub said that it is an active member of an allowed organisation.
\<close>

theorem github_sessions_vouched:
  assumes "(browser_step cr e gw github)\<^sup>*\<^sup>* s t" and "br_sessions s = []"
    and "(token, session) \<in> set (br_sessions t)"
  shows "github_vouched github (br_github t) (gs_identity session)"
  using browser_steps_ok [OF assms(1)] assms(2,3) by (auto simp: sessions_ok_def)

theorem github_sessions_vouched_witness:
  "(browser_step sample_browser_crates gateway_env sample_gateway sample_github)\<^sup>*\<^sup>* browser_state browser_signed_in
   \<and> br_sessions browser_state = []
   \<and> (''YWI'', \<lparr>gs_identity = ''github:7'', gs_expires_at = secs 4600\<rparr>) \<in> set (br_sessions browser_signed_in)
   \<and> github_vouched sample_github (br_github browser_signed_in) ''github:7''"
proof -
  have "(''YWI'', \<lparr>gs_identity = ''github:7'', gs_expires_at = secs 4600\<rparr>) \<in> set (br_sessions browser_signed_in)" by code_simp
  with github_sessions_vouched [OF browser_reached(2) browser_state_sessions this] browser_reached(2) browser_state_sessions
  show ?thesis by simp
qed



end
