(* ===== verification/Connection_Properties.thy ===== *)
theory Connection_Properties
  imports Connection Configuration_Properties Lease_Guarantees
begin

text \<open>
  What the reloading of the database credentials guarantees: the server always has an open pool, made with credentials
  that were read from the file, are within their bounds and were accepted by the database, and it takes up the
  credentials of the file as soon as they work.
\<close>

section \<open>One turn\<close>

text \<open>The replacement that a turn finds, if it finds one.\<close>

definition replacement_found ::
    "('u, 'c) crates_scheme \<Rightarrow> env \<Rightarrow> database_env \<Rightarrow> managed_config \<Rightarrow> 'z reloadable_scheme \<Rightarrow> pool \<Rightarrow> bytes \<Rightarrow> bool" where
  "replacement_found cr e de managed s replacement fingerprint \<longleftrightarrow>
     (\<exists>contents credentials postgres.
        env_file e (io_ticks s) (mg_database_credentials_file managed) = Some contents
        \<and> parse_database_credentials cr de contents = Inr (credentials, fingerprint)
        \<and> rl_fingerprint s \<noteq> Some fingerprint \<and> mg_postgres managed = Some postgres
        \<and> replacement = \<lparr>pl_opened = Suc (io_ticks s), pl_target = credentials_target postgres credentials\<rparr>
        \<and> de_connect de (Suc (io_ticks s)) (pl_target replacement)
        \<and> de_select de (Suc (Suc (io_ticks s))) (pl_target replacement))"

lemma read_database_credentials_run:
  "read_database_credentials cr e de path s =
    (rbind (ok_or CredentialsUnreadable (env_file e (io_ticks s) path)) (parse_database_credentials cr de),
     s\<lparr>io_ticks := Suc (io_ticks s)\<rparr>)"
  by (simp add: read_database_credentials_def)

lemma connect_with_credentials_Inr:
  "connect_postgres_with_credentials de postgres credentials s = (Inr pool, t) \<longleftrightarrow>
     pool = \<lparr>pl_opened = io_ticks s, pl_target = credentials_target postgres credentials\<rparr>
     \<and> de_connect de (io_ticks s) (pl_target pool) \<and> de_select de (Suc (io_ticks s)) (pl_target pool)
     \<and> t = s\<lparr>io_ticks := Suc (Suc (io_ticks s))\<rparr>"
  by (auto simp: connect_postgres_with_credentials_def open_pool_def act_try_Inr split: if_splits)

lemma connect_with_credentials_ticks:
  "\<exists>n > io_ticks s. snd (connect_postgres_with_credentials de postgres credentials s) = s\<lparr>io_ticks := n\<rparr>"
  by (auto simp: connect_postgres_with_credentials_def open_pool_def act_try_def
      intro: exI [of _ "Suc (io_ticks s)"] exI [of _ "Suc (Suc (io_ticks s))"] split: if_splits)

text \<open>A turn rotates to the replacement it finds, or changes nothing but the time.\<close>

lemma reload_turn_cases:
  obtains (same) n where "n > io_ticks s" "snd (reload_turn cr e de managed s) = s\<lparr>io_ticks := n\<rparr>"
      "\<And>replacement fingerprint. \<not> replacement_found cr e de managed s replacement fingerprint"
  | (rotated) replacement fingerprint where "replacement_found cr e de managed s replacement fingerprint"
      "snd (reload_turn cr e de managed s) =
        s\<lparr>io_ticks := Suc (Suc (Suc (io_ticks s))), rl_current := replacement, rl_fingerprint := Some fingerprint,
          rl_generation := rl_generation s + 1, rl_closed := rl_closed s @ [rl_current s]\<rparr>"
proof (cases "rbind (ok_or CredentialsUnreadable (env_file e (io_ticks s) (mg_database_credentials_file managed)))
    (parse_database_credentials cr de)")
  case (Inl err)
  then show ?thesis
    by (intro same [of "Suc (io_ticks s)"])
      (auto simp: reload_turn_def read_database_credentials_run replacement_found_def result_iff)
next
  case (Inr found)
  obtain credentials fingerprint where found: "found = (credentials, fingerprint)" by (cases found)
  let ?s1 = "s\<lparr>io_ticks := Suc (io_ticks s)\<rparr>"
  show ?thesis
  proof (cases "rl_fingerprint s = Some fingerprint \<or> mg_postgres managed = None")
    case True
    with Inr found show ?thesis
      by (intro same [of "Suc (io_ticks s)"])
        (auto simp: reload_turn_def read_database_credentials_run replacement_found_def result_iff split: option.split)
  next
    case False
    then obtain postgres where postgres: "mg_postgres managed = Some postgres" by auto
    obtain connected t where run: "connect_postgres_with_credentials de postgres credentials ?s1 = (connected, t)"
      by (cases "connect_postgres_with_credentials de postgres credentials ?s1")
    show ?thesis
    proof (cases connected)
      case (Inl err)
      have refused: "\<not> (de_connect de (Suc (io_ticks s)) (credentials_target postgres credentials)
          \<and> de_select de (Suc (Suc (io_ticks s))) (credentials_target postgres credentials))"
        using run Inl by (auto simp: connect_postgres_with_credentials_def open_pool_def act_try_def split: if_splits)
      from connect_with_credentials_ticks [of ?s1 de postgres credentials] run obtain n where
        "n > Suc (io_ticks s)" "t = s\<lparr>io_ticks := n\<rparr>" by auto
      with refused Inl run Inr found False postgres show ?thesis
        by (intro same [of n]) (auto simp: reload_turn_def read_database_credentials_run replacement_found_def result_iff)
    next
      case connected: (Inr pool)
      with run have pool: "pool = \<lparr>pl_opened = Suc (io_ticks s), pl_target = credentials_target postgres credentials\<rparr>"
        "de_connect de (Suc (io_ticks s)) (pl_target pool)" "de_select de (Suc (Suc (io_ticks s))) (pl_target pool)"
        "t = s\<lparr>io_ticks := Suc (Suc (Suc (io_ticks s)))\<rparr>"
        by (auto simp: connect_with_credentials_Inr)
      with Inr found False postgres have "replacement_found cr e de managed s pool fingerprint"
        by (auto simp: replacement_found_def result_iff)
      moreover from run connected Inr found False postgres pool(4) have "snd (reload_turn cr e de managed s) =
        s\<lparr>io_ticks := Suc (Suc (Suc (io_ticks s))), rl_current := pool, rl_fingerprint := Some fingerprint,
          rl_generation := rl_generation s + 1, rl_closed := rl_closed s @ [rl_current s]\<rparr>"
        by (simp add: reload_turn_def read_database_credentials_run rotate_def swap_pool_def)
      ultimately show ?thesis by (rule rotated)
    qed
  qed
qed

section \<open>All turns\<close>

definition pool_ok :: "('u, 'c) crates_scheme \<Rightarrow> database_env \<Rightarrow> managed_postgres_config \<Rightarrow> 'z reloadable_scheme \<Rightarrow> bool" where
  "pool_ok cr de postgres s \<longleftrightarrow>
     (\<exists>contents credentials fingerprint.
        parse_database_credentials cr de contents = Inr (credentials, fingerprint)
        \<and> rl_fingerprint s = Some fingerprint \<and> pl_target (rl_current s) = credentials_target postgres credentials
        \<and> (\<exists>n. de_connect de n (pl_target (rl_current s)))
        \<and> pl_opened (rl_current s) < io_ticks s)
     \<and> (\<forall>closed \<in> set (rl_closed s). pl_opened closed < pl_opened (rl_current s))
     \<and> distinct (rl_closed s) \<and> rl_generation s = of_nat (Suc (length (rl_closed s)))"

lemma reload_turn_ok:
  assumes "pool_ok cr de postgres s" and "mg_postgres managed = Some postgres"
  shows "pool_ok cr de postgres (snd (reload_turn cr e de managed s))"
proof (cases rule: reload_turn_cases [of s cr e de managed])
  case (same n)
  with assms(1) show ?thesis by (fastforce simp: pool_ok_def)
next
  case (rotated replacement fingerprint)
  from assms(1) have opened: "pl_opened (rl_current s) < io_ticks s" by (auto simp: pool_ok_def)
  from rotated(1) assms(2) obtain contents credentials where
    "parse_database_credentials cr de contents = Inr (credentials, fingerprint)"
    "replacement = \<lparr>pl_opened = Suc (io_ticks s), pl_target = credentials_target postgres credentials\<rparr>"
    "de_connect de (Suc (io_ticks s)) (pl_target replacement)"
    by (auto simp: replacement_found_def)
  with rotated(2) assms(1) opened show ?thesis by (fastforce simp: pool_ok_def)
qed

lemma reload_turns_ok:
  "pool_ok cr de postgres s \<Longrightarrow> mg_postgres managed = Some postgres \<Longrightarrow> pool_ok cr de postgres (snd (reload_turns cr e de managed n s))"
proof (induction n arbitrary: s)
  case (Suc n)
  from reload_turn_ok [OF Suc.prems] Suc.IH Suc.prems(2) show ?case by (simp add: case_prod_beta)
qed simp

lemma connected_ok:
  assumes "connect_postgres_credentials cr e de managed s = (Inr (pool, fingerprint), t)"
  shows "\<exists>postgres. mg_postgres managed = Some postgres \<and> pool_ok cr de postgres (reloadable_new pool (Some fingerprint) t)"
  using assms
  by (fastforce simp: connect_postgres_credentials_def act_try_Inr read_database_credentials_run connect_with_credentials_Inr
      result_iff pool_ok_def reloadable_new_def io.defs reloadable.defs split: option.splits prod.splits)

lemma parse_credentials_bounded:
  "parse_database_credentials cr de contents = Inr (credentials, fingerprint) \<Longrightarrow>
   credentials_bounded credentials \<and> fingerprint = sha256 cr contents"
  by (auto simp: parse_database_credentials_def result_iff split: if_splits)

lemma validated_role:
  "validate_managed config = Inr () \<Longrightarrow> cf_managed config = Some managed \<Longrightarrow> mg_database_credentials_file managed \<noteq> [] \<Longrightarrow>
   mg_postgres managed = Some postgres \<Longrightarrow> valid_postgres_identifier (mp_role postgres)"
  by (auto simp: validate_managed_def validate_managed_source_def validate_managed_postgres_def reject_if_def Let_def result_iff
      split: config_mode.splits if_splits)

section \<open>Samples\<close>

text \<open>A file whose credentials change once, and a database that accepts both.\<close>

definition rotating_managed :: managed_config where
  "rotating_managed =
    \<lparr>mg_database_url_file = [], mg_database_credentials_file = ''/run/db'',
     mg_postgres = Some \<lparr>mp_host = ''db.example.test'', mp_port = 5432, mp_database = ''av'', mp_ssl_mode = VerifyFull, mp_role = ''av_owner''\<rparr>,
     mg_database_reload_interval_seconds = 30, mg_initial_owner_oidc_subject = ''ada''\<rparr>"

definition rotating_config :: config where
  "rotating_config = sample_config\<lparr>cf_mode := Managed, cf_managed := Some rotating_managed\<rparr>"

definition rotating_env :: env where
  "rotating_env =
    \<lparr>env_clock = (\<lambda>_. 0), env_instant = (\<lambda>_. 0), env_file = (\<lambda>n _. Some (if n < 4 then ''first'' else ''second'')),
     env_random = (\<lambda>_. []), env_store_up = (\<lambda>_. True), env_slot = (\<lambda>_. True), env_backend = (\<lambda>_ _. NoReply),
     env_rfc3339 = (\<lambda>_. None)\<rparr>"

definition accepting_database :: database_env where
  "accepting_database =
    \<lparr>de_credentials_json = (\<lambda>contents. Some \<lparr>dc_username = ''av'', dc_password = contents\<rparr>), de_sqlite_options = (\<lambda>_. True),
     de_connect = (\<lambda>_ _. True), de_select = (\<lambda>_ _. True), de_migrate = (\<lambda>_. True), de_bootstrap = (\<lambda>_. True)\<rparr>"

definition rotating_start :: io where
  "rotating_start = \<lparr>io_ticks = 0, io_sent = [], io_tokens = (\<lambda>_. None)\<rparr>"

definition first_pool :: pool where
  "first_pool =
    \<lparr>pl_opened = 1, pl_target = WithCredentials
      \<lparr>po_host = ''db.example.test'', po_port = 5432, po_database = ''av'', po_username = ''av'', po_password = ''first'',
       po_ssl_mode = VerifyFull\<rparr> ''SET ROLE av_owner''\<rparr>"

section \<open>Properties\<close>



lemma reload_turn_unchanged:
  assumes "env_file e (io_ticks s) (mg_database_credentials_file managed) = Some contents"
    and "parse_database_credentials cr de contents = Inr (credentials, fingerprint)" and "rl_fingerprint s = Some fingerprint"
  shows "snd (reload_turn cr e de managed s) = s\<lparr>io_ticks := Suc (io_ticks s)\<rparr>"
  using assms by (simp add: reload_turn_def read_database_credentials_run ok_or_def rbind_def)

lemma reload_turns_unchanged:
  assumes "\<And>k. env_file e k (mg_database_credentials_file managed) = Some contents"
    and "parse_database_credentials cr de contents = Inr (credentials, fingerprint)" and "rl_fingerprint s = Some fingerprint"
  shows "snd (reload_turns cr e de managed n s) = s\<lparr>io_ticks := n + io_ticks s\<rparr>"
  using assms(3)
proof (induction n arbitrary: s)
  case (Suc n)
  from Suc.IH [of "s\<lparr>io_ticks := Suc (io_ticks s)\<rparr>"] Suc.prems reload_turn_unchanged [OF assms(1,2) Suc.prems]
  show ?case by (simp add: case_prod_beta)
qed simp

text \<open>
  C36. New credentials are taken up: if the file holds credentials that are within their bounds and that the database
  accepts, then one turn later and ever after the server works with them, its pool was replaced once and the old pool
  is closed; and if the file still holds what was read before, the server keeps its pool.
\<close>

theorem reload_takes_up:
  assumes "\<And>k. env_file e k (mg_database_credentials_file managed) = Some contents"
    and "parse_database_credentials cr de contents = Inr (credentials, fingerprint)"
    and "mg_postgres managed = Some postgres"
    and "\<And>k. de_connect de k (credentials_target postgres credentials) \<and> de_select de k (credentials_target postgres credentials)"
  shows "rl_fingerprint (snd (reload_turns cr e de managed (Suc n) s)) = Some fingerprint
    \<and> (if rl_fingerprint s = Some fingerprint
       then rl_current (snd (reload_turns cr e de managed (Suc n) s)) = rl_current s
         \<and> rl_closed (snd (reload_turns cr e de managed (Suc n) s)) = rl_closed s
       else pl_target (rl_current (snd (reload_turns cr e de managed (Suc n) s))) = credentials_target postgres credentials
         \<and> rl_closed (snd (reload_turns cr e de managed (Suc n) s)) = rl_closed s @ [rl_current s])"
proof (cases "rl_fingerprint s = Some fingerprint")
  case True
  then show ?thesis using reload_turns_unchanged [OF assms(1,2) True, of "Suc n"] by simp
next
  case False
  let ?pool = "\<lparr>pl_opened = Suc (io_ticks s), pl_target = credentials_target postgres credentials\<rparr>"
  have found: "replacement_found cr e de managed s ?pool fingerprint"
    using assms False by (auto simp: replacement_found_def)
  show ?thesis
  proof (cases rule: reload_turn_cases [of s cr e de managed])
    case same
    with found show ?thesis by blast
  next
    case (rotated replacement digest)
    from rotated(1) assms have "replacement = ?pool" "digest = fingerprint"
      by (auto simp: replacement_found_def)
    with False rotated(2) reload_turns_unchanged [OF assms(1,2), of "snd (reload_turn cr e de managed s)" n]
    show ?thesis by (simp add: case_prod_beta)
  qed
qed

theorem reload_takes_up_witness:
  "rl_fingerprint (snd (reload_turns sample_crates (rotating_env\<lparr>env_file := \<lambda>_ _. Some ''second''\<rparr>) accepting_database
     rotating_managed (Suc 4) (reloadable_new first_pool (Some (sha256 sample_crates ''first'')) rotating_start)))
   = Some (sha256 sample_crates ''second'')"
proof -
  have "parse_database_credentials sample_crates accepting_database ''second''
      = Inr (\<lparr>dc_username = ''av'', dc_password = ''second''\<rparr>, sha256 sample_crates ''second'')"
    by code_simp
  moreover have "env_file (rotating_env\<lparr>env_file := \<lambda>_ _. Some ''second''\<rparr>) k (mg_database_credentials_file rotating_managed)
      = Some ''second''" for k
    by simp
  moreover have "mg_postgres rotating_managed = Some (the (mg_postgres rotating_managed))" by (simp add: rotating_managed_def)
  moreover have "de_connect accepting_database k target \<and> de_select accepting_database k target" for k target
    by (simp add: accepting_database_def)
  ultimately show ?thesis using reload_takes_up by blast
qed

end
