(* ===== verification/Interception_Properties.thy ===== *)
theory Interception_Properties
  imports Interception Proxy_Properties
begin

text \<open>
  What a whole connection to the transparent proxy can do: its tunnel has a certificate for the authorised host
  alone, and what the requests in it send goes to the origin of the authorised route. The transport certificate is
  always one that was loaded completely.
\<close>

section \<open>Certificates\<close>

lemma issue_server_config_Inr:
  assumes "issue_server_config cr tc e authority host s = (Inr config, t)"
  shows "\<exists>certificate canonical. canonical_tunnel_host cr host = Inr canonical
    \<and> sc_certificates config = [certificate]
    \<and> tc_signed_by tc (leaf_for host (env_clock e (io_ticks s))) (sc_private_key config) (pc_issuer authority) = Some certificate"
  using assms
  by (auto simp: issue_server_config_def validate_leaf_host_def act_try_Inr result_iff split: if_splits)

lemma issue_server_config_more: "obeys keeps_more (issue_server_config cr tc e authority host)"
  unfolding issue_server_config_def by (intro more_rules)

section \<open>The connection\<close>

lemma obeys_more: "obeys keeps_more m \<Longrightarrow> server.more (snd (m s)) = server.more s"
  by (simp add: obeys_def keeps_more_def)

lemma connect_first_more: "obeys keeps_more (connect_first nw addresses)"
  by (rule keeps_moreI, induction addresses) (simp_all split: connect_outcome.split)

lemma connect_credentialless_more: "obeys keeps_more (connect_credentialless_upstream nw host allow)"
  by (rule keeps_moreI)
    (simp add: connect_credentialless_upstream_def Let_def connect_first_more [THEN obeys_more] split: option.split)

lemma transparent_connect_more: "obeys keeps_more (transparent_connect_response cr e nw runtime meth target headers)"
  unfolding transparent_connect_response_def open_destination_def
  by (intro more_rules connect_credentialless_more) (auto intro!: more_rules connect_credentialless_more
      split: option.split bool.split transparent_destination.split)

lemma serve_connects_more: "obeys keeps_more (serve_connects cr e nw runtime connects)"
proof (induction connects)
  case (Cons request connects)
  then show ?case
    unfolding serve_connects.simps by (intro more.obeys_rules transparent_connect_more) auto
qed (simp add: more.obeys_rules)

lemma serve_connects_tunnel:
  assumes "serve_connects cr e nw runtime connects s = (answers, t)" and "answers \<noteq> []"
    and "ca_tunnel (last answers) = Some (InjectingTunnel route_name host token_hash session_id)"
  shows "\<exists>request authorized. request \<in> set connects
    \<and> authorize_connect_request cr (cn_method request) (cn_target request) (cn_headers request) (tr_catalog runtime) = Inr authorized
    \<and> td_name (ac_destination authorized) = route_name \<and> ac_host authorized = host \<and> ac_token_hash authorized = token_hash"
  using assms
proof (induction connects arbitrary: s t answers)
  case (Cons request connects)
  obtain answer s1 where first: "transparent_connect_response cr e nw runtime (cn_method request) (cn_target request)
      (cn_headers request) s = (answer, s1)"
    by (cases "transparent_connect_response cr e nw runtime (cn_method request) (cn_target request) (cn_headers request) s")
  show ?case
  proof (cases "ca_tunnel answer")
    case None
    obtain rest s2 where rest: "serve_connects cr e nw runtime connects s1 = (rest, s2)"
      by (cases "serve_connects cr e nw runtime connects s1")
    with Cons.prems(1) first None have answers: "answers = answer # rest" by simp
    with Cons.prems(3) None have "rest \<noteq> []" by auto
    with Cons.IH [OF rest] Cons.prems(3) answers show ?thesis by auto
  next
    case (Some tunnel)
    with Cons.prems(1) first have "answers = [answer]" by simp
    with Cons.prems(3) have tunnel: "ca_tunnel answer = Some (InjectingTunnel route_name host token_hash session_id)" by simp
    from connect_chain [OF first] tunnel obtain authorized session where
      "authorize_connect_request cr (cn_method request) (cn_target request) (cn_headers request) (tr_catalog runtime) = Inr authorized"
      "tunnel_serves nw authorized session (InjectingTunnel route_name host token_hash session_id)" by auto
    then show ?thesis
      by (intro exI [of _ request] exI [of _ authorized]) (auto simp: tunnel_serves_def split: transparent_destination.splits)
  qed
qed simp

text \<open>The origin of a request is the one of the base URL of a route.\<close>

definition route_origin :: "('u, 'c) crates_scheme \<Rightarrow> proxy_route_config \<Rightarrow> 'u \<Rightarrow> bool" where
  "route_origin cr route target \<longleftrightarrow>
    (case url_parse cr (rt_base_url route) of
       None \<Rightarrow> False
     | Some base \<Rightarrow>
         url_scheme cr target = url_scheme cr base \<and> url_host_str cr target = url_host_str cr base
         \<and> url_port_or_known_default cr target = url_port_or_known_default cr base)"

lemma build_target_url_route_origin:
  "url_edit_law cr \<Longrightarrow> build_target_url cr route validated = Inr target \<Longrightarrow> route_origin cr route target"
  using target_url_origin_fixed [of cr route validated target] by (auto simp: route_origin_def)

lemma serve_tunnel_requests_sent:
  assumes "serve_tunnel_requests cr e nw gw route_name token_hash session_id requests s = (responses, t)" and law: "url_edit_law cr"
  shows "\<exists>new. px_sent t = px_sent s @ new \<and> length new \<le> length requests
    \<and> (new \<noteq> [] \<longrightarrow> (\<exists>route. map_of (cf_proxy_routes (gw_config gw)) route_name = Some route \<and> list_all (\<lambda>sent. route_origin cr route (ob_target sent)) new))"
  using assms(1)
proof (induction requests arbitrary: s t responses)
  case (Cons request requests)
  obtain response s1 where first: "transparent_tunnel_response cr e nw gw route_name token_hash session_id request s = (response, s1)"
    by (cases "transparent_tunnel_response cr e nw gw route_name token_hash session_id request s")
  obtain rest s2 where rest: "serve_tunnel_requests cr e nw gw route_name token_hash session_id requests s1 = (rest, s2)"
    by (cases "serve_tunnel_requests cr e nw gw route_name token_hash session_id requests s1")
  with Cons.prems first have t: "t = s2" by simp
  from Cons.IH [OF rest] obtain new where new: "px_sent s2 = px_sent s1 @ new" "length new \<le> length requests"
    "new \<noteq> [] \<longrightarrow> (\<exists>route. map_of (cf_proxy_routes (gw_config gw)) route_name = Some route \<and> list_all (\<lambda>sent. route_origin cr route (ob_target sent)) new)"
    by blast
  show ?case
  proof (cases "px_sent s1 = px_sent s")
    case True
    with new t show ?thesis by (intro exI [of _ new]) simp
  next
    case False
    from tunnel_request_chain [OF first False] obtain route validated sent where
      "map_of (cf_proxy_routes (gw_config gw)) route_name = Some route" "px_sent s1 = px_sent s @ [sent]"
      "build_target_url cr route validated = Inr (ob_target sent)" by blast
    with new t show ?thesis by (intro exI [of _ "sent # new"]) (auto intro: build_target_url_route_origin [OF law])
  qed
qed simp

lemma tls_tunnel_sent:
  assumes "serve_transparent_tls_tunnel cr tc e nw gw authority handshake route_name host token_hash session_id requests s = (served, t)"
    and law: "url_edit_law cr" and changed: "px_sent t \<noteq> px_sent s"
  shows "\<exists>config responses certificate now new route.
    served = Inr (config, responses) \<and> handshake config \<and> sc_certificates config = [certificate]
    \<and> tc_signed_by tc (leaf_for host now) (sc_private_key config) (pc_issuer authority) = Some certificate
    \<and> px_sent t = px_sent s @ new \<and> length new \<le> length requests
    \<and> map_of (cf_proxy_routes (gw_config gw)) route_name = Some route
    \<and> list_all (\<lambda>sent. route_origin cr route (ob_target sent)) new"
proof -
  obtain issued s1 where issued: "issue_server_config cr tc e authority host s = (issued, s1)"
    by (cases "issue_server_config cr tc e authority host s")
  note same = keeps_more_sent [OF obeysD [OF issue_server_config_more issued]]
  from assms(1) issued same changed obtain config where config: "issued = Inr config" "handshake config"
    by (cases issued) (auto simp: serve_transparent_tls_tunnel_def act_try_def act_map_err_def split: if_splits)
  obtain responses s2 where run: "serve_tunnel_requests cr e nw gw route_name token_hash session_id requests s1 = (responses, s2)"
    by (cases "serve_tunnel_requests cr e nw gw route_name token_hash session_id requests s1")
  with assms(1) issued config have served: "served = Inr (config, responses)" "t = s2"
    by (auto simp: serve_transparent_tls_tunnel_def act_try_def act_map_err_def)
  from issue_server_config_Inr [OF issued [unfolded config(1)]] obtain certificate where
    "sc_certificates config = [certificate]"
    "tc_signed_by tc (leaf_for host (env_clock e (io_ticks s))) (sc_private_key config) (pc_issuer authority) = Some certificate"
    by blast
  moreover from serve_tunnel_requests_sent [OF run law] obtain new where "px_sent s2 = px_sent s1 @ new"
    "length new \<le> length requests" "new \<noteq> [] \<longrightarrow> (\<exists>route. map_of (cf_proxy_routes (gw_config gw)) route_name = Some route
      \<and> list_all (\<lambda>sent. route_origin cr route (ob_target sent)) new)" by blast
  ultimately show ?thesis using served config same changed
    by (metis append_Nil2)
qed


definition sample_tls :: tls_crates where
  "sample_tls =
    \<lparr>tc_key_pair_from_pem = (\<lambda>_. Some ''key''), tc_issuer_from_ca_cert_pem = (\<lambda>_ _. Some ''issuer''),
     tc_certificate_params = (\<lambda>_. True), tc_key_pair_generate = (\<lambda>_. Some ''leaf key''),
     tc_signed_by = (\<lambda>params key issuer. Some (concat (lf_names params))),
     tc_certificates_from_pem = (\<lambda>pem. Some [pem]), tc_private_key_from_pem = Some,
     tc_with_single_cert = (\<lambda>_ _. True), tc_provider_installed = True\<rparr>"

definition sample_authority :: proxy_certificate_authority where
  "sample_authority = \<lparr>pc_issuer = ''issuer'', pc_certificate_pem = ''certificate''\<rparr>"

definition sample_connects :: "connect_message list" where
  "sample_connects =
    [\<lparr>cn_method = ''GET'', cn_target = sample_connect_target, cn_headers = (\<lambda>_. [])\<rparr>,
     \<lparr>cn_method = ''CONNECT'', cn_target = sample_connect_target, cn_headers = connect_with ''capability''\<rparr>]"

lemma sample_proxy_url_edit_law: "url_edit_law sample_proxy_crates"
  by (simp add: url_edit_law_def sample_proxy_crates_simps sample_known_port_def sample_extend_pairs_def)


section \<open>The transport certificate\<close>

definition usable_config :: "tls_crates \<Rightarrow> server_config \<Rightarrow> bool" where
  "usable_config tc config \<longleftrightarrow> sc_certificates config \<noteq> [] \<and> tc_with_single_cert tc (sc_certificates config) (sc_private_key config)"

lemma load_server_config_usable:
  "load_server_config tc e certificate_path private_key_path s = (Inr config, t) \<Longrightarrow> usable_config tc config"
  by (auto simp: load_server_config_def usable_config_def act_try_Inr result_iff split: if_splits)

lemma load_server_config_current:
  "load_server_config tc e certificate_path private_key_path s = (r, t) \<Longrightarrow> ts_current t = ts_current s"
  by (auto simp: load_server_config_def act_try_def split: if_splits sum.splits)

lemma acceptor_run:
  assumes "acceptor tc e certificate_path private_key_path s = ((config, failure), t)" and "usable_config tc (ts_current s)"
  shows "ts_current t = config" and "usable_config tc config" and "failure \<noteq> None \<Longrightarrow> config = ts_current s"
  using assms load_server_config_usable load_server_config_current
  by (fastforce simp: acceptor_def split: prod.splits sum.splits)+

text \<open>
  Once the transport certificate has been loaded, every connection of any sequence is accepted with a certificate chain
  that is not empty and matches its key, however the files change and whatever is in them in between; when the
  files cannot be used, the connection is accepted with the configuration of the one before.
\<close>

lemma transport_certificate_usable:
  assumes "usable_config tc (ts_current s)"
    and "acceptors tc e certificate_path private_key_path n s = (given, t)"
  shows "length given = n \<and> list_all (\<lambda>(config, _). usable_config tc config) given \<and> usable_config tc (ts_current t)
    \<and> (\<forall>i < n. snd (given ! i) \<noteq> None \<longrightarrow> fst (given ! i) = (ts_current s # map fst given) ! i)"
  using assms
proof (induction n arbitrary: s given)
  case (Suc n)
  obtain config failure s1 where first: "acceptor tc e certificate_path private_key_path s = ((config, failure), s1)"
    by (cases "acceptor tc e certificate_path private_key_path s") auto
  obtain rest s2 where rest: "acceptors tc e certificate_path private_key_path n s1 = (rest, s2)"
    by (cases "acceptors tc e certificate_path private_key_path n s1")
  note run = acceptor_run [OF first Suc.prems(1)]
  from Suc.prems(2) first rest have given: "given = (config, failure) # rest" "t = s2" by auto
  with Suc.IH [of s1 rest] rest run have "length rest = n" "list_all (\<lambda>(config, _). usable_config tc config) rest"
    "usable_config tc (ts_current t)"
    "\<forall>i < n. snd (rest ! i) \<noteq> None \<longrightarrow> fst (rest ! i) = (config # map fst rest) ! i" by auto
  with given run show ?case by (auto simp: less_Suc_eq_0_disj)
qed simp

end
