(* ===== verification/Server_Properties.thy ===== *)
theory Server_Properties
  imports Server Browser_Guarantees Connection_Properties Interception_Properties
begin

text \<open>
  Properties of the whole server: a configuration that loads gives a server that starts unless something outside of it
  fails, and a request has an effect only once its caller is identified.
\<close>

section \<open>Requests without an effect\<close>

text \<open>
  The store, the leases, what was sent upstream and what was sent to the backends of the secrets stay as they are;
  the keys of the identity provider may have been fetched.
\<close>

definition secret_request :: "backend_request \<Rightarrow> bool" where
  "secret_request request = (case request of OidcDiscovery _ \<Rightarrow> False | OidcKeys _ \<Rightarrow> False | _ \<Rightarrow> True)"

definition idle :: "('u, 'z) proxy_server_scheme \<Rightarrow> ('u, 'z) proxy_server_scheme \<Rightarrow> bool" where
  "idle s t \<longleftrightarrow> sv_db t = sv_db s \<and> sv_leases t = sv_leases s \<and> px_sent t = px_sent s
     \<and> filter secret_request (io_sent t) = filter secret_request (io_sent s)"

interpretation idle: frame_relation idle
  by unfold_locales (auto simp: idle_def)

lemma tick_idle: "obeys idle (tick f)"
  by (rule obeysI) (simp add: idle_def)

lemma store_query_idle: "obeys idle (store_query e query)"
  unfolding store_query_def by (intro idle.obeys_rules tick_idle)

lemma refresh_idle: "obeys idle (refresh_jwks e an force)"
  by (rule obeysI)
    (auto simp: idle_def refresh_jwks_def fetch_jwks_def Let_def secret_request_def
      split: option.split backend_reply.split reply_body.split)

interpretation idle_auth: authentication_frame idle e an
  by unfold_locales (auto intro!: tick_idle store_query_idle refresh_idle)

lemmas authorize_idle = idle_auth.authorize_obeys [THEN obeysD]

lemma ui_identity_idle: "obeys idle (ui_identity cr e gw github headers)"
proof -
  have "obeys idle (github_session cr e github headers)"
    unfolding github_session_def session_identity_def
    by (intro idle.obeys_rules tick_idle) (auto intro!: obeysI simp: retain_sessions_def idle_def)
  then show ?thesis
    unfolding ui_identity_def by (intro idle.obeys_rules idle_auth.authorize_obeys)
qed

section \<open>Calls of nobody\<close>

lemma control_handle_nobody: "snd (control_handle cr e app None request s) = s"
  by (cases request)
    (simp_all add: rpc_list_basic_users_def rpc_upsert_basic_user_def rpc_set_basic_user_enabled_def rpc_list_agents_def
      rpc_create_agent_def rpc_rotate_agent_def rpc_set_agent_enabled_def rpc_delete_agent_def rpc_list_principal_roles_def
      rpc_set_principal_role_def rpc_list_audit_events_def rpc_list_profile_grants_def rpc_grant_profile_def rpc_revoke_profile_def
      require_owner_def require_operator_def require_auditor_def authorize_connect_def act_try_def)

lemma environment_nobody:
  "snd (get_profile_environment cr e app None profile executable s) = s"
  "snd (renew_profile_environment_lease cr e app None handle s) = s"
  "snd (revoke_profile_environment_lease cr e app None handle s) = s"
  by (simp_all add: get_profile_environment_def renew_profile_environment_lease_def revoke_profile_environment_lease_def
      authorize_connect_def act_try_def)

lemma rpc_handle_nobody:
  assumes "authorize cr e (gw_auth gw) headers s = (Inl err, t)"
  shows "snd (rpc_handle cr e gw headers call s) \<in> {s, t}"
  using assms
  by (cases call)
    (simp_all add: authenticated_call_def authenticate_def act_try_def act_map_err_def get_status_def list_profiles_def
      list_proxy_destinations_def rpc_create_proxy_session_def rpc_renew_proxy_session_def rpc_revoke_proxy_session_def
      control_handle_nobody environment_nobody prod.case_eq_if)

lemma page_act_run: "snd (page_act m s) = snd (m s)" "snd (page_opt_act n s) = snd (n s)" "snd (respond f s) = snd (f s)"
  by (simp_all add: page_act_def page_opt_act_def respond_def prod.case_eq_if)

lemma rest_nobody:
  assumes "authorize cr e (gw_auth gw) headers s = (Inl err, t)"
  shows "snd (rest_status cr e gw headers s) = t" "snd (rest_profiles cr e gw headers s) = t"
    "snd (profile_secrets cr e gw headers profile s) = t" "snd (proxy cr e nw gw route path target meth headers body s) = t"
  using assms
  by (simp_all add: page_act_run rest_status_def rest_profiles_def profile_secrets_def proxy_def act_try_def act_map_err_def)

text \<open>The pages and the forms: a form whose origin is not trusted is answered before anything else.\<close>

lemma gates_nobody:
  assumes "ui_identity cr e gw github headers s = (Inl err, t)"
  shows "\<exists>answer. ui_require_operator cr e gw github headers s = (Inl answer, t)"
    and "\<exists>answer. ui_require_owner cr e gw github headers s = (Inl answer, t)"
    and "\<exists>answer. ui_authorize_owner_mutation cr e gw github headers s \<in> {(Inl answer, s), (Inl answer, t)}"
  using assms
  by (auto simp: ui_require_operator_def ui_require_owner_def ui_authorize_owner_mutation_def act_try_def act_map_err_def
      split: sum.split)

lemma pages_nobody:
  assumes "ui_identity cr e gw github headers s = (Inl err, t)"
  shows "snd (ui_session cr e gw github headers s) = t" "snd (ui_owner cr e gw github headers s) = t"
    "snd (ui_submit cr e gw github headers form s) \<in> {s, t}"
proof -
  show "snd (ui_session cr e gw github headers s) = t"
    using assms by (simp add: page_act_run ui_session_def act_try_def act_map_err_def)
  show "snd (ui_owner cr e gw github headers s) = t"
    using gates_nobody(1) [OF assms] by (auto simp: page_act_run ui_owner_def act_try_def)
  show "snd (ui_submit cr e gw github headers form s) \<in> {s, t}"
    using gates_nobody [OF assms]
    by (cases form)
      (auto simp: ui_upsert_basic_user_def ui_set_basic_user_enabled_def ui_create_agent_def ui_rotate_agent_def ui_set_agent_enabled_def
        ui_delete_agent_def ui_set_principal_role_def ui_grant_profile_subject_def ui_grant_external_profile_def ui_revoke_profile_def
        act_try_def split: sum.split)
qed

section \<open>The router\<close>

fun ui_call :: "route_call \<Rightarrow> bool" where
  "ui_call UiSessionCall = True"
| "ui_call UiOwnerCall = True"
| "ui_call (UiFormCall _) = True"
| "ui_call _ = False"

text \<open>The caller of a route: for a page or a form also the account of a browser session.\<close>

definition identified ::
    "('u, 'c) browser_crates_scheme \<Rightarrow> env \<Rightarrow> server_setup \<Rightarrow> header_map \<Rightarrow> route_call \<Rightarrow> string
     \<Rightarrow> ('u, 'z) browser_server_scheme \<Rightarrow> bool" where
  "identified cr e srv headers call subject s \<longleftrightarrow>
     (if ui_call call then fst (ui_identity cr e (ss_gateway srv) (ss_github srv) headers s) = Inr subject
      else fst (authorize cr e (gw_auth (ss_gateway srv)) headers s) = Inr subject)"

lemma sign_in_idle:
  "obeys idle (github_send auth request)" "obeys idle (take_pending e state)" "obeys idle (create_session cr e identity)"
  "obeys idle (remove_session token)" "obeys idle (github_start_login cr e auth redirect_uri)"
  by (rule obeysI, simp add: github_send_def take_pending_def create_session_def remove_session_def github_start_login_def
      random_browser_token_def retain_sessions_def idle_def Let_def split: option.split)+

lemma membership_idle: "obeys idle (any_active_membership auth access_token organizations)"
  unfolding has_active_organization_membership_def
  by (induction organizations) (auto simp: has_active_organization_membership_def intro!: idle.obeys_rules sign_in_idle)

lemma finish_login_idle: "obeys idle (github_finish_login e auth state code redirect_uri)"
  unfolding github_finish_login_def exchange_code_def fetch_github_user_def is_allowed_user_def
  by (intro idle.obeys_rules sign_in_idle membership_idle)

lemma github_idle:
  "obeys idle (github_start cr e gw github)" "obeys idle (github_logout cr github headers)"
  "obeys idle (github_callback cr e gw github headers query)"
  unfolding github_start_def github_logout_def github_callback_def prod.case_eq_if
  by (intro idle.obeys_rules sign_in_idle finish_login_idle)+

lemma readiness_idle: "obeys idle (readiness e down)"
  by (rule obeysI) (simp add: readiness_def store_query_def idle_def split: option.split)

lemma obeys_run: "obeys R m \<Longrightarrow> R s (snd (m s))"
  by (simp add: obeys_def)

lemma route_handle_nobody:
  assumes "\<And>subject. \<not> identified cr e srv headers call subject s"
  shows "idle s (snd (route_handle cr e nw srv headers call s))"
proof -
  let ?authorized = "authorize cr e (gw_auth (ss_gateway srv)) headers s"
  let ?identity = "ui_identity cr e (ss_gateway srv) (ss_github srv) headers s"
  have api: "\<exists>err t. ?authorized = (Inl err, t) \<and> idle s t" if "\<not> ui_call call"
    using assms that authorize_idle [of cr e "gw_auth (ss_gateway srv)" headers s]
    by (cases ?authorized; cases "fst ?authorized") (auto simp: identified_def)
  have page: "\<exists>err t. ?identity = (Inl err, t) \<and> idle s t" if "ui_call call"
    using assms that obeysD [OF ui_identity_idle, of cr e "ss_gateway srv" "ss_github srv" headers s]
    by (cases ?identity; cases "fst ?identity") (auto simp: identified_def)
  show ?thesis
  proof (cases call)
    case (RpcCall rpc)
    with api obtain err t where run: "?authorized = (Inl err, t)" "idle s t" by auto
    from rpc_handle_nobody [OF run(1), of rpc] run(2) RpcCall show ?thesis by (auto simp: prod.case_eq_if idle.refl)
  next
    case (UiFormCall form)
    with page obtain err t where run: "?identity = (Inl err, t)" "idle s t" by auto
    from pages_nobody(3) [OF run(1), of form] run(2) UiFormCall show ?thesis by (auto simp: page_act_run idle.refl)
  next
    case GithubStart
    then show ?thesis by (simp add: page_act_run obeys_run [OF github_idle(1)])
  next
    case (GithubCallback query)
    then show ?thesis by (simp add: page_act_run obeys_run [OF github_idle(3)])
  next
    case GithubLogout
    then show ?thesis by (simp add: page_act_run obeys_run [OF github_idle(2)])
  next
    case Readiness
    then show ?thesis by (simp add: page_act_run obeys_run [OF readiness_idle] prod.case_eq_if)
  qed (use api page rest_nobody pages_nobody in \<open>fastforce simp: page_act_run prod.case_eq_if idle.refl\<close>)+
qed

lemma limit_request_idle: "obeys idle (limit_request rnd e srv path)"
  by (rule obeysI) (auto simp: limit_request_def idle_def prod.case_eq_if)

text \<open>An effect has a caller.\<close>

lemma serve_request_effect:
  assumes "serve_request cr rnd ax e nw srv request s = (answer, t)" and "\<not> idle s t"
  shows "\<exists>s1 call subject. limit_request rnd e srv (uri_path (hq_target request)) s = (None, s1)
    \<and> ax_route ax default_body_limit request = Inr call \<and> identified cr e srv (hq_headers request) call subject s1"
proof -
  obtain refused s1 where limit: "limit_request rnd e srv (uri_path (hq_target request)) s = (refused, s1)"
    by (cases "limit_request rnd e srv (uri_path (hq_target request)) s")
  note first = obeysD [OF limit_request_idle limit]
  show ?thesis
  proof (cases "refused = None \<and> (\<exists>call. ax_route ax default_body_limit request = Inr call)")
    case False
    with assms(1) limit have "t = s1"
      by (auto simp: serve_request_def split: option.splits sum.splits)
    with first assms(2) show ?thesis by simp
  next
    case True
    then obtain call where call: "refused = None" "ax_route ax default_body_limit request = Inr call" by blast
    with assms(1) limit have t: "t = snd (route_handle cr e nw srv (hq_headers request) call s1)"
      by (auto simp: serve_request_def prod.case_eq_if)
    have "\<exists>subject. identified cr e srv (hq_headers request) call subject s1"
      using route_handle_nobody [of cr e srv "hq_headers request" call s1 nw] idle.trans [OF first] assms(2) t by blast
    with limit call show ?thesis by blast
  qed
qed

section \<open>Headers\<close>

lemma if_not_present_contains:
  "hm_contains_key (if_not_present name v headers) other \<longleftrightarrow> other = name \<or> hm_contains_key headers other"
  by (auto simp: if_not_present_def hm_defs)

text \<open>No answer lacks one of the headers, also no rejection and no refusal by the rate limit.\<close>

lemma answers_have_headers:
  assumes "fst (serve_request cr rnd ax e nw srv request s) = Some answer"
    and "name \<in> {''cache-control'', ''content-security-policy'', ''x-content-type-options'', ''referrer-policy'', ''permissions-policy''}"
  shows "hm_contains_key (sa_headers answer) name"
proof -
  have "\<exists>inner. sa_headers answer = layers (ss_policy srv) inner"
    using assms(1) by (auto simp: serve_request_def add_layers_def prod.case_eq_if)
  with assms(2) show ?thesis by (auto simp: layers_def if_not_present_contains)
qed

section \<open>Startup\<close>

text \<open>The errors that a configuration cannot have been checked for: files, the network, the database, the host.\<close>

fun outside_error :: "startup_error \<Rightarrow> bool" where
  "outside_error (CatalogInvalid _) = False"
| "outside_error ManagedConfigMissing = False"
| "outside_error PolicyHeaderInvalid = False"
| "outside_error (ConnectorFailed _ _) = False"
| "outside_error (StoreFailed err) = (err \<noteq> PostgresMetadataMissing \<and> err \<noteq> ReloadUnsupported)"
| "outside_error _ = True"

text \<open>
  What \<open>HeaderValue::from_str\<close> and the origin of a URL promise: a text of visible ASCII characters and spaces is a header
  value, and the text of an origin is one.
\<close>

definition printable :: "string \<Rightarrow> bool" where
  "printable content \<longleftrightarrow> list_all (\<lambda>c. 32 \<le> byte c \<and> byte c < 127) content"

definition policy_text_law :: "('u, 'c) browser_crates_scheme \<Rightarrow> bool" where
  "policy_text_law cr \<longleftrightarrow> (\<forall>content. printable content \<longrightarrow> header_value_from_str cr content \<noteq> None) \<and> (\<forall>u. printable (url_origin_text cr u))"

lemma printable_append [simp]: "printable (a @ b) \<longleftrightarrow> printable a \<and> printable b"
  by (simp add: printable_def)

lemma policy_loads:
  assumes "policy_text_law cr" and "ac_mode (cf_auth config) \<in> {Oidc, OidcOrBasic} \<Longrightarrow> url_parse cr (ac_issuer (cf_auth config)) \<noteq> None"
  shows "content_security_policy cr config \<noteq> None"
proof -
  define before where "before = ''default-src '' @ quoted ''self'' @ ''; connect-src ''"
  define after where "after = ''; script-src '' @ quoted ''self'' @ ''; style-src '' @ quoted ''self''
    @ ''; img-src '' @ quoted ''self'' @ '' data:; base-uri '' @ quoted ''none''
    @ ''; frame-ancestors '' @ quoted ''none'' @ ''; form-action '' @ quoted ''self''"
  have fixed: "printable before" "printable after" unfolding before_def after_def by code_simp+
  have "printable (quoted ''self'')" "printable '' ''" by code_simp+
  have "\<exists>source. printable source \<and> content_security_policy cr config = header_value_from_str cr (before @ source @ after)"
  proof (cases "ac_mode (cf_auth config) \<in> {Oidc, OidcOrBasic}")
    case True
    then obtain u where u: "url_parse cr (ac_issuer (cf_auth config)) = Some u" using assms(2) by auto
    have "content_security_policy cr config
        = header_value_from_str cr (before @ (quoted ''self'' @ '' '' @ url_origin_text cr u) @ after)"
      by (simp only: content_security_policy_def before_def after_def True u if_True option.map bind.bind_lunit append_assoc)
    moreover have "printable (url_origin_text cr u)" using assms(1) by (simp add: policy_text_law_def)
    ultimately show ?thesis using \<open>printable (quoted ''self'')\<close> \<open>printable '' ''\<close> printable_append by blast
  next
    case False
    have "content_security_policy cr config = header_value_from_str cr (before @ quoted ''self'' @ after)"
      by (simp only: content_security_policy_def before_def after_def False if_False bind.bind_lunit append_assoc)
    with \<open>printable (quoted ''self'')\<close> show ?thesis by blast
  qed
  with fixed assms(1) show ?thesis by (auto simp: policy_text_law_def)
qed

lemma open_store_postgres:
  "open_store cr e de managed s = (Inr (be, pool, fingerprint), t) \<Longrightarrow> mg_database_credentials_file managed \<noteq> [] \<Longrightarrow> be = Postgres"
  by (auto simp: open_store_def act_try_def split: prod.splits sum.splits)

lemma credentials_error:
  "rbind (ok_or CredentialsUnreadable contents) (parse_database_credentials cr de) = Inl err \<Longrightarrow> err \<notin> {PostgresMetadataMissing, ReloadUnsupported}"
  by (cases contents) (auto simp: parse_database_credentials_def ok_or_def rbind_def split: if_splits option.splits sum.splits)

lemma open_store_error:
  "open_store cr e de managed s = (Inl err, t) \<Longrightarrow> validate_managed_source managed = Inr () \<Longrightarrow> err \<notin> {PostgresMetadataMissing, ReloadUnsupported}"
  by (auto simp: open_store_def connect_postgres_credentials_def read_database_credentials_def parse_database_credentials_def
      connect_postgres_with_credentials_def read_database_url_def open_pool_def validate_managed_source_def act_try_def Let_def
      reject_if_def result_iff dest: credentials_error split: prod.splits sum.splits option.splits if_splits)

lemma store_connect_error:
  assumes "store_connect cr e de managed db s = (Inl err, t)" and valid: "validate_managed_source managed = Inr ()"
  shows "err \<notin> {PostgresMetadataMissing, ReloadUnsupported}"
proof -
  obtain opened s1 where opened: "open_store cr e de managed s = (opened, s1)" by (cases "open_store cr e de managed s")
  show ?thesis
  proof (cases opened)
    case (Inl failure)
    with assms(1) opened have "err = failure" by (simp add: store_connect_def act_try_def)
    with open_store_error [OF opened [unfolded Inl] valid] show ?thesis by simp
  next
    case (Inr found)
    obtain be pool fingerprint where found: "found = (be, pool, fingerprint)" by (cases found)
    have "0 < mg_database_reload_interval_seconds managed \<Longrightarrow> be = Postgres"
      using valid open_store_postgres [OF opened [unfolded Inr found]]
      by (auto simp: validate_managed_source_def Let_def reject_if_def result_iff split: if_splits)
    with assms(1) opened Inr found show ?thesis
      by (auto simp: store_connect_def act_try_def split: if_splits sum.splits)
  qed
qed

lemma connector_new_valid:
  assumes "validate_connector cr allow name connector = Inr ()"
  shows "fst (connector_new cr he name allow connector s) \<in> {Inr connector, Inl (GoogleFailed name)}"
  using assms
  by (cases connector)
    (auto simp: validate_connector_def infisical_new_def openbao_new_def reject_if_def result_iff split: if_splits option.splits)

lemma start_connectors_valid:
  assumes "\<forall>(name, connector) \<in> set connectors. validate_connector cr allow name connector = Inr ()"
  shows "(\<exists>name. fst (start_connectors cr he allow connectors s) = Inl (GoogleFailed name))
    \<or> fst (start_connectors cr he allow connectors s) = Inr connectors"
  using assms
proof (induction connectors arbitrary: s)
  case (Cons entry connectors)
  obtain name connector where entry: "entry = (name, connector)" by (cases entry)
  obtain r s1 where run: "connector_new cr he name allow connector s = (r, s1)" by (cases "connector_new cr he name allow connector s")
  from Cons.prems entry have "validate_connector cr allow name connector = Inr ()" by simp
  from connector_new_valid [OF this, of he s] run have r: "r = Inr connector \<or> r = Inl (GoogleFailed name)" by simp
  obtain rest s2 where rest: "start_connectors cr he allow connectors s1 = (rest, s2)" by (cases "start_connectors cr he allow connectors s1")
  from Cons.prems have "\<forall>(name, connector) \<in> set connectors. validate_connector cr allow name connector = Inr ()" by simp
  from Cons.IH [OF this, of s1] rest have "(\<exists>name. rest = Inl (GoogleFailed name)) \<or> rest = Inr connectors" by simp
  with r run rest entry show ?case by (auto simp: act_try_def)
qed simp

text \<open>Actions that fail only for a reason outside of the configuration.\<close>

definition fails_outside :: "('s, startup_error + 'a) act \<Rightarrow> bool" where
  "fails_outside m \<longleftrightarrow> (\<forall>s err t. m s = (Inl err, t) \<longrightarrow> outside_error err)"

lemma fails_outsideD: "fails_outside m \<Longrightarrow> m s = (Inl err, t) \<Longrightarrow> outside_error err"
  unfolding fails_outside_def by blast

lemma fails_outside_return: "(\<And>err. r = Inl err \<Longrightarrow> outside_error err) \<Longrightarrow> fails_outside (act_return r)"
  by (simp add: fails_outside_def)

lemma fails_outside_tick: "(\<And>n err. f n = Inl err \<Longrightarrow> outside_error err) \<Longrightarrow> fails_outside (tick f)"
  by (auto simp: fails_outside_def)

lemma fails_outside_map: "(\<And>err. outside_error (f err)) \<Longrightarrow> fails_outside (act_map_err f m)"
  by (auto simp: fails_outside_def map_error_def split: prod.splits sum.splits)

lemma fails_outside_try: "fails_outside m \<Longrightarrow> (\<And>x. fails_outside (f x)) \<Longrightarrow> fails_outside (act_try m f)"
  by (fastforce simp: fails_outside_def act_try_def split: prod.splits sum.splits)

lemma fails_outside_bind: "(\<And>x. fails_outside (f x)) \<Longrightarrow> fails_outside (act_bind m f)"
  by (fastforce simp: fails_outside_def split: prod.splits)

lemma fails_outside_option:
  "fails_outside m \<Longrightarrow> (\<And>x. fails_outside (f x)) \<Longrightarrow> fails_outside (case x of None \<Rightarrow> m | Some y \<Rightarrow> f y)"
  by (cases x) simp_all

lemma fails_outside_Inr: "fails_outside (act_return (Inr x))"
  by (simp add: fails_outside_def)

lemmas fails_outside_rules = fails_outside_Inr fails_outside_try fails_outside_bind fails_outside_option

lemma parts_outside:
  "fails_outside (bind_listener he address)" "fails_outside (start_github e network config)"
  "fails_outside (act_map_err AuthenticatorFailed m)"
proof -
  show "fails_outside (bind_listener he address)"
    unfolding bind_listener_def by (rule fails_outside_tick) (auto split: if_splits)
  show "fails_outside (start_github e network config)"
    unfolding start_github_def by (intro fails_outside_rules fails_outside_map) simp
  show "fails_outside (act_map_err AuthenticatorFailed m)" by (rule fails_outside_map) simp
qed

lemma start_store_outside:
  assumes "validate_managed config = Inr ()"
  shows "fails_outside (start_store cr e de config database)"
proof -
  have "outside_error err" if "start_store cr e de config database s = (Inl err, t)" for s err t
    using that assms store_connect_error [of cr e de _ database s]
    by (auto simp: start_store_def validate_managed_def act_try_def map_error_def
        split: config_mode.splits option.splits prod.splits sum.splits)
  then show ?thesis unfolding fails_outside_def by blast
qed

lemma start_interception_outside:
  assumes "\<And>transparent. cf_transparent_proxy config = Some transparent \<Longrightarrow> validate_transparent_proxy cr config transparent = Inr ()"
  shows "fails_outside (start_interception cr tc e config)"
proof (cases "cf_transparent_proxy config")
  case None
  then show ?thesis by (auto simp: start_interception_def intro!: fails_outside_return)
next
  case (Some transparent)
  from assms [OF this] obtain catalog where catalog: "from_config cr (cf_proxy_routes config) (cf_proxy_tunnels config) = Inr catalog"
    by (auto simp: validate_transparent_proxy_def Let_def result_iff)
  show ?thesis
    unfolding start_interception_def Some option.case catalog map_error_simps
    by (intro fails_outside_rules fails_outside_map) simp_all
qed

lemma loaded_issuer_parses:
  assumes "validate_auth cr vars config public_url = Inr ()" and "ac_mode (cf_auth config) \<in> {Oidc, OidcOrBasic}"
  shows "url_parse cr (ac_issuer (cf_auth config)) \<noteq> None"
proof -
  from assms(1) have "validate_auth_mode cr vars config public_url = Inr ()"
    by (auto simp: validate_auth_def Let_def result_iff)
  with assms(2) have "validate_oidc cr (cf_auth config) = Inr ()" by (auto simp: validate_auth_mode_def)
  then show ?thesis by (auto simp: validate_oidc_def result_iff split: if_splits)
qed

lemma server_start_outside:
  assumes "config_load cr vars parsed = Inr config" and "policy_text_law cr"
  shows "fails_outside (server_start cr tc e de he network vars config database :: (('a, 'b) running_server_scheme, _) act)"
proof -
  obtain public_url where valid: "validate_managed config = Inr ()"
    "validate_auth cr vars config public_url = Inr ()"
    "\<forall>(name, connector)\<in>set (cf_connectors config).
       validate_connector cr (allow_insecure_connector_http cr vars config) name connector = Inr ()"
    "\<forall>transparent. cf_transparent_proxy config = Some transparent \<longrightarrow> validate_transparent_proxy cr config transparent = Inr ()"
    by (rule config_load_Inr [OF assms(1)]) (rule that; assumption)
  have "outside_error err" if "start_connectors cr he (allow_insecure_connector_http cr vars config) (cf_connectors config) s = (Inl err, t)"
    for s :: "('a, 'b) running_server_scheme" and err t
    using start_connectors_valid [OF valid(3), of he s] that by auto
  then have connectors: "fails_outside (start_connectors cr he (allow_insecure_connector_http cr vars config) (cf_connectors config)
      :: (('a, 'b) running_server_scheme, _) act)"
    unfolding fails_outside_def by blast
  have "url_parse cr (ac_issuer (cf_auth config)) \<noteq> None" if "ac_mode (cf_auth config) \<in> {Oidc, OidcOrBasic}"
    using loaded_issuer_parses [OF valid(2) that] .
  with policy_loads [OF assms(2)] have "content_security_policy cr config \<noteq> None" by blast
  then have policy: "fails_outside (act_return (ok_or PolicyHeaderInvalid (content_security_policy cr config)))"
    by (auto intro!: fails_outside_return)
  have interception: "fails_outside (start_interception cr tc e config)"
    using valid(4) by (intro start_interception_outside) simp
  show ?thesis
    unfolding server_start_def
    by (intro fails_outside_rules parts_outside connectors policy interception start_store_outside [OF valid(1)])
qed

text \<open>What a server has when it starts to listen.\<close>

definition configured ::
    "('u, 'c) crates_scheme \<Rightarrow> config \<Rightarrow> store_db \<Rightarrow> server_setup \<Rightarrow> ('u, 'z) running_server_scheme \<Rightarrow> bool" where
  "configured cr config database srv t \<longleftrightarrow>
     gw_config (ss_gateway srv) = config \<and> an_config (gw_auth (ss_gateway srv)) = cf_auth config
     \<and> sv_db t = (case cf_mode config of
          Static \<Rightarrow> None
        | Managed \<Rightarrow> map_option (\<lambda>managed.
            connect_database (gw_backend (ss_gateway srv)) (mg_initial_owner_oidc_subject managed) database) (cf_managed config))
     \<and> (sv_db t = None \<longleftrightarrow> cf_mode config = Static)
     \<and> (ac_mode (cf_auth config) \<in> {Oidc, OidcOrBasic} \<longleftrightarrow> an_discovery (gw_auth (ss_gateway srv)) \<noteq> None)
     \<and> (\<forall>discovery. an_discovery (gw_auth (ss_gateway srv)) = Some discovery
          \<longrightarrow> trim_end_matches CHR ''/'' (di_issuer discovery) = trim_end_matches CHR ''/'' (ac_issuer (cf_auth config)))
     \<and> (ss_github srv \<noteq> None \<longleftrightarrow> ac_mode (cf_auth config) = GithubOrBasic)
     \<and> (gw_transparent_proxy (ss_gateway srv) \<noteq> None \<longleftrightarrow> cf_transparent_proxy config \<noteq> None)
     \<and> (\<forall>runtime. gw_transparent_proxy (ss_gateway srv) = Some runtime
          \<longrightarrow> from_config cr (cf_proxy_routes config) (cf_proxy_tunnels config) = Inr (tr_catalog runtime))
     \<and> sv_leases t = [] \<and> br_sessions t = [] \<and> br_pending t = []"

lemma authenticator_new_keeps_store: "obeys keeps_store (authenticator_new cr e config)"
proof -
  have "obeys keeps_store (load_basic_credentials cr e users)" for users
  proof (induction users)
    case (Cons user users)
    show ?case unfolding load_basic_credentials.simps by (intro keeps_store.obeys_rules tick_keeps_store Cons)
  qed (simp add: keeps_store.obeys_rules)
  moreover have "obeys keeps_store (fetch_discovery e config)"
    unfolding fetch_discovery_def
    by (rule obeysI) (simp add: keeps_store_def split: backend_reply.split reply_body.split)
  moreover have "obeys keeps_store (\<lambda>s. ((), s\<lparr>au_jwks := None, au_last_attempt := None\<rparr>))"
    by (rule obeysI) (simp add: keeps_store_def)
  ultimately show ?thesis
    unfolding authenticator_new_def Let_def by (intro keeps_store.obeys_rules refresh_keeps_store)
qed

lemma start_parts_keep_store:
  "obeys keeps_store (start_github e network config)" "obeys keeps_store (start_connectors cr he allow connectors)"
proof -
  show "obeys keeps_store (start_github e network config)"
    unfolding start_github_def github_new_def by (intro keeps_store.obeys_rules tick_keeps_store)
  have new: "obeys keeps_store (connector_new cr he name allow connector)" for name connector
    by (cases connector) (auto simp: tick_keeps_store intro!: keeps_store.obeys_rules)
  show "obeys keeps_store (start_connectors cr he allow connectors)"
  proof (induction connectors)
    case (Cons entry connectors)
    show ?case by (cases entry) (auto intro!: keeps_store.obeys_rules new Cons)
  qed (simp add: keeps_store.obeys_rules)
qed

lemma fetch_discovery_Inr:
  assumes "fetch_discovery e config s = (Inr discovery, t)"
  shows "trim_end_matches CHR ''/'' (di_issuer discovery) = trim_end_matches CHR ''/'' (ac_issuer config)"
proof -
  define url where "url = trim_end_matches CHR ''/'' (ac_issuer config) @ ''/.well-known/openid-configuration''"
  obtain status body where reply: "env_backend e (io_sent s) (OidcDiscovery url) = Reply status body" "is_success status"
    using assms by (cases "env_backend e (io_sent s) (OidcDiscovery url)")
      (auto simp: fetch_discovery_def url_def [symmetric] split: if_splits)
  with assms show ?thesis
    by (cases body) (auto simp: fetch_discovery_def url_def [symmetric] split: if_splits)
qed

lemma authenticator_new_Inr:
  "authenticator_new cr e config s = (Inr auth, t) \<Longrightarrow> an_config auth = config
    \<and> (ac_mode config \<in> {Oidc, OidcOrBasic} \<longleftrightarrow> an_discovery auth \<noteq> None)
    \<and> (\<forall>discovery. an_discovery auth = Some discovery
         \<longrightarrow> trim_end_matches CHR ''/'' (di_issuer discovery) = trim_end_matches CHR ''/'' (ac_issuer config))"
  by (auto simp: authenticator_new_def act_try_Inr Let_def dest: fetch_discovery_Inr split: if_splits)

lemma start_store_Inr:
  assumes "start_store cr e de config database s = (Inr store, t)"
  shows "sv_db t = (case cf_mode config of
      Static \<Rightarrow> None
    | Managed \<Rightarrow> map_option (\<lambda>managed. connect_database (case store of None \<Rightarrow> Sqlite | Some (be, _) \<Rightarrow> be)
        (mg_initial_owner_oidc_subject managed) database) (cf_managed config))"
    and "sv_db t = None \<longleftrightarrow> cf_mode config = Static"
proof -
  have connected: "db = connect_database be (mg_initial_owner_oidc_subject managed) database"
    if "store_connect cr e de managed database s = (Inr (be, pool, fingerprint, db, reload), u)" for managed be pool fingerprint db reload u
    using that by (auto simp: store_connect_def act_try_Inr split: if_splits prod.splits)
  show "sv_db t = (case cf_mode config of
      Static \<Rightarrow> None
    | Managed \<Rightarrow> map_option (\<lambda>managed. connect_database (case store of None \<Rightarrow> Sqlite | Some (be, _) \<Rightarrow> be)
        (mg_initial_owner_oidc_subject managed) database) (cf_managed config))"
    and "sv_db t = None \<longleftrightarrow> cf_mode config = Static"
    using assms connected
    by (auto simp: start_store_def act_try_Inr map_error_Inr_iff split: config_mode.splits option.splits prod.splits)
qed

lemma start_interception_Inr:
  "start_interception cr tc e config s = (Inr interception, t) \<Longrightarrow> (interception \<noteq> None \<longleftrightarrow> cf_transparent_proxy config \<noteq> None)
    \<and> (\<forall>found. interception = Some found
         \<longrightarrow> from_config cr (cf_proxy_routes config) (cf_proxy_tunnels config) = Inr (tr_catalog (ic_runtime found)))"
  by (auto simp: start_interception_def act_try_Inr map_error_Inr_iff split: option.splits prod.splits)

lemma start_github_Inr:
  "start_github e network config s = (Inr github, t) \<Longrightarrow> (github \<noteq> None \<longleftrightarrow> ac_github (cf_auth config) \<noteq> None)"
  by (auto simp: start_github_def act_try_Inr split: option.splits)

lemma github_when_configured:
  assumes "validate_auth cr vars config public_url = Inr ()"
  shows "ac_github (cf_auth config) \<noteq> None \<longleftrightarrow> ac_mode (cf_auth config) = GithubOrBasic"
  using assms
  by (auto simp: validate_auth_def validate_auth_mode_def validate_github_def Let_def reject_if_def result_iff split: if_splits)

lemma bind_listener_Inr: "bind_listener he address s = (Inr u, t) \<Longrightarrow> \<exists>n. t = s\<lparr>io_ticks := n\<rparr>"
  by (auto simp: bind_listener_def split: if_splits)

lemma bind_option_Inr:
  "(case found of None \<Rightarrow> act_return (Inr ()) | Some x \<Rightarrow> bind_listener he (address x)) s = (Inr u, t) \<Longrightarrow> \<exists>n. t = s\<lparr>io_ticks := n\<rparr>"
  by (cases found) (auto dest: bind_listener_Inr intro: exI [of _ "io_ticks s"])

lemma server_start_configured:
  assumes "validate_auth cr vars config public_url = Inr ()"
    and "server_start cr tc e de he network vars config database s = (Inr srv, t)"
  shows "configured cr config database srv t"
proof -
  from assms(2) obtain interception store auth github connectors s1 s2 s3 s4 s5 where run:
    "start_interception cr tc e config s = (Inr interception, s1)"
    "start_store cr e de config database s1 = (Inr store, s2)"
    "authenticator_new cr e (cf_auth config) s2 = (Inr auth, s3)"
    "start_github e network config s3 = (Inr github, s4)"
    "start_connectors cr he (allow_insecure_connector_http cr vars config) (cf_connectors config) s4 = (Inr connectors, s5)"
    "sv_db t = sv_db s5" "sv_leases t = []" "br_sessions t = []" "br_pending t = []"
    "ss_gateway srv = \<lparr>gw_config = config, gw_auth = auth, gw_backend = (case store of None \<Rightarrow> Sqlite | Some (be, _) \<Rightarrow> be),
       gw_transparent_proxy = map_option ic_runtime interception\<rparr>"
    "ss_github srv = github"
    by (auto simp: server_start_def act_try_Inr act_map_err_Inr simp del: act_map_err_run
        dest!: bind_listener_Inr bind_option_Inr)
  have "sv_db t = sv_db s2"
    using run(6) obeysD [OF authenticator_new_keeps_store run(3)] obeysD [OF start_parts_keep_store(1) run(4)]
      obeysD [OF start_parts_keep_store(2) run(5)] by (simp add: keeps_store_def)
  have backend: "gw_backend (ss_gateway srv) = (case store of None \<Rightarrow> Sqlite | Some (be, _) \<Rightarrow> be)" using run(10) by simp
  have "sv_db t = (case cf_mode config of
      Static \<Rightarrow> None
    | Managed \<Rightarrow> map_option (\<lambda>managed.
        connect_database (gw_backend (ss_gateway srv)) (mg_initial_owner_oidc_subject managed) database) (cf_managed config))"
    and "sv_db t = None \<longleftrightarrow> cf_mode config = Static"
    using start_store_Inr [OF run(2)] \<open>sv_db t = sv_db s2\<close> unfolding backend by simp_all
  moreover have "an_config auth = cf_auth config"
    "ac_mode (cf_auth config) \<in> {Oidc, OidcOrBasic} \<longleftrightarrow> an_discovery auth \<noteq> None"
    "\<forall>discovery. an_discovery auth = Some discovery
       \<longrightarrow> trim_end_matches CHR ''/'' (di_issuer discovery) = trim_end_matches CHR ''/'' (ac_issuer (cf_auth config))"
    using authenticator_new_Inr [OF run(3)] by blast+
  moreover have "ss_github srv \<noteq> None \<longleftrightarrow> ac_mode (cf_auth config) = GithubOrBasic"
    using start_github_Inr [OF run(4)] github_when_configured [OF assms(1)] run(11) by simp
  moreover have "gw_transparent_proxy (ss_gateway srv) \<noteq> None \<longleftrightarrow> cf_transparent_proxy config \<noteq> None"
    "\<forall>runtime. gw_transparent_proxy (ss_gateway srv) = Some runtime
       \<longrightarrow> from_config cr (cf_proxy_routes config) (cf_proxy_tunnels config) = Inr (tr_catalog runtime)"
    using start_interception_Inr [OF run(1)] run(10) by auto
  moreover have "gw_config (ss_gateway srv) = config" "gw_auth (ss_gateway srv) = auth" using run(10) by simp_all
  ultimately show ?thesis unfolding configured_def using run(7,8,9) by blast
qed

lemma configured_store:
  assumes "configured cr config database srv t" and "store_inv database" and "sv_db t = Some db"
  shows "store_inv db"
proof -
  have "sv_db t = (case cf_mode config of
      Static \<Rightarrow> None
    | Managed \<Rightarrow> map_option (\<lambda>managed.
        connect_database (gw_backend (ss_gateway srv)) (mg_initial_owner_oidc_subject managed) database) (cf_managed config))"
    using assms(1) unfolding configured_def by blast
  with assms(3) connect_database_inv [OF assms(2)] show ?thesis by (auto split: config_mode.splits)
qed

section \<open>A sample server\<close>

definition startup_crates :: "sample_url browser_crates" where
  "startup_crates = sample_browser_crates\<lparr>url_origin_text := (\<lambda>u. filter (\<lambda>c. 32 \<le> byte c \<and> byte c < 127) (su_scheme u @ ''://'' @ su_host u))\<rparr>"

lemma startup_policy_text_law: "policy_text_law startup_crates"
proof -
  have "header_value_from_str startup_crates content \<noteq> None" if "printable content" for content
    using that by (induction content) (auto simp: printable_def startup_crates_def sample_browser_crates_simps sample_header_value_def split: if_splits)
  moreover have "printable (url_origin_text startup_crates u)" for u
    by (auto simp: printable_def startup_crates_def list_all_iff)
  ultimately show ?thesis by (simp add: policy_text_law_def)
qed

definition startup_config :: config where
  "startup_config = sample_config
    \<lparr>cf_mode := Managed,
     cf_managed := Some \<lparr>mg_database_url_file = ''/run/url'', mg_database_credentials_file = [], mg_postgres = None,
       mg_database_reload_interval_seconds = 0, mg_initial_owner_oidc_subject = ''alice''\<rparr>\<rparr>"

definition startup_loaded :: config where
  "startup_loaded = startup_config\<lparr>cf_provider_operations := [], cf_proxy_routes := cf_proxy_routes sample_loaded\<rparr>"

definition startup_env :: env where
  "startup_env = gateway_env\<lparr>env_file := (\<lambda>_ path. Some (if path = ''/run/url'' then ''sqlite:av.db'' else ''$argon2id$correcthorse ''))\<rparr>"

definition willing_host :: machine_env where
  "willing_host = \<lparr>he_google = (\<lambda>_. True), he_bind = (\<lambda>_ _. True)\<rparr>"

definition running_state :: "sample_url running_server" where
  "running_state = browser_server.extend browser_state
    (running_server.fields \<lparr>li_tokens = 1, li_last_refill = 0\<rparr> False)"

definition running_setup :: server_setup where
  "running_setup =
    \<lparr>ss_gateway = sample_gateway, ss_github = Some sample_github, ss_interception = None, ss_pool = None,
     ss_limiter = \<lparr>li_rate_per_second = 1, li_capacity = 1\<rparr>, ss_policy = HeaderValue ''policy'' False\<rparr>"

definition form_axum :: axum where
  "form_axum = \<lparr>ax_route = (\<lambda>_ _. Inr (UiFormCall (BasicUserEnabledForm ''ada'' False))), ax_headers = (\<lambda>_ headers. headers)\<rparr>"

definition form_request :: http_message where
  "form_request =
    \<lparr>hq_method = ''POST'', hq_target = \<lparr>uri_scheme = None, uri_authority = None, uri_path = ''/ui/owner/basic-users/enabled'', uri_query = None\<rparr>,
     hq_headers = ada, hq_body = []\<rparr>"

end
