(* ===== verification/Spec2Isabelle.thy ===== *)
theory Spec2Isabelle
  imports Session_Properties Client_Properties Tunnel_Address Server_Properties
begin

text \<open>
  A verification development for \<^verbatim>\<open>av\<close>, a broker that gives agents and people the use of secrets without
  giving them the secrets. A server holds policies and connects to secret backends; a command line client runs a
  child with the values of a profile, behind a proxy that injects credentials, or in a container without a network.
  All paths below are relative to the root of the repository's sources.

  \<^bold>\<open>Parts and how they interact.\<close>
  The server reads its configuration (\<^verbatim>\<open>src/config.rs\<close>), opens its store (\<^verbatim>\<open>src/store.rs\<close>) and listens (\<open>run\<close> in
  \<^verbatim>\<open>src/server.rs\<close>). A request passes the rate limit and reaches a handler: of the control service (users, agents, roles,
  grants), of the session service (environments with dynamic leases, proxy sessions), of the browser interface, or of the
  explicit proxy. Every handler identifies its caller (\<^verbatim>\<open>src/auth.rs\<close>, or a browser session), asks the store for a role or a
  grant, and records what it does. Secrets come from a connector (\<^verbatim>\<open>src/connector.rs\<close>, \<^verbatim>\<open>src/openbao.rs\<close>,
  \<^verbatim>\<open>src/infisical.rs\<close>, \<^verbatim>\<open>src/google_secret_manager.rs\<close>). A second listener takes CONNECT requests with the capability of a proxy
  session; a tunnel to a route is opened with a certificate made for its host, and each request in it is checked
  against the policy of the route, gets its credential, and has its answer redacted (crate \<^verbatim>\<open>av-credential-proxy\<close>). The
  client (\<^verbatim>\<open>src/main.rs\<close>, \<^verbatim>\<open>src/keyring.rs\<close>) calls these services and gives back what it was given.

  \<^bold>\<open>How the code is modelled.\<close>
  A struct is a record, an enum a datatype, an error a constructor of a sum; the names are those of the sources. An
  operation with effects is an action: a function from a state to a result and the state after it. The states extend
  each other in the order of the layers: \<open>io\<close> (clock ticks, requests sent, cached tokens), \<open>server\<close> (lease registry,
  database), \<open>auth_server\<close> (signing keys), \<open>proxy_server\<close> (requests sent upstream), \<open>browser_server\<close> (logins and sessions),
  \<open>running_server\<close> (rate limit, shutdown flag). The client has the state \<open>host\<close>. Code outside the repository is an
  argument: crates in the records \<open>crates\<close>, \<open>auth_crates\<close>, \<open>proxy_crates\<close>, \<open>browser_crates\<close>, \<open>client_crates\<close>, \<open>tls_crates\<close> and
  \<open>axum\<close>, the outside world in \<open>env\<close>, \<open>network\<close>, \<open>github_network\<close>, \<open>database_env\<close>, \<open>machine_env\<close> and \<open>host_env\<close>. Every reading
  of a clock, a file or the network is indexed, so each may differ from the one before and each may fail. What a property
  needs of a crate is a law with a name (\<open>url_edit_law\<close>, \<open>header_value_law\<close>, \<open>sha256_law\<close> and others) that a sample instance
  satisfies.

  \<^bold>\<open>Theories.\<close>
  \<^item> \<open>AV_Prelude\<close>, \<open>AV_Crates\<close>, \<open>Environment\<close>: bytes and texts, results, crates and their laws, actions, and the locales
    \<open>invariant_system\<close> (invariants of runs) and \<open>frame_relation\<close> (what an action leaves alone). \<open>Sample_Crates\<close> and
    \<open>Proxy_Samples\<close> are the instances that the witnesses run on.
  \<^item> \<open>Redaction\<close>, \<open>Policy\<close>, \<open>Policy_Properties\<close>, \<open>Tunnel_Host\<close>, \<open>Catalog\<close>, \<open>Tunnel_Address\<close>: the crate
    \<^verbatim>\<open>crates/av-credential-proxy/src\<close> (\<^verbatim>\<open>redaction.rs\<close>, \<^verbatim>\<open>policy.rs\<close>, \<^verbatim>\<open>catalog.rs\<close>). The streaming redactor gives what the buffered one
    gives for every division into chunks, and both keep the contract \<open>response_redactor\<close>; an admitted request stays within
    its route; a CONNECT is authorised for one destination of the catalog; addresses are classified as the ranges say.
  \<^item> \<open>Store\<close>, \<open>Store_Properties\<close>, \<open>Store_Guarantees\<close>: the tables and transactions of \<^verbatim>\<open>src/store.rs\<close>, their invariant over all runs,
    and where the last-owner test of two PostgreSQL transactions can race. \<open>Connection\<close>, \<open>Connection_Properties\<close>: how the
    database is opened and new credentials are taken up.
  \<^item> \<open>Connectors\<close>, \<open>Connector_Properties\<close>, \<open>Leases\<close>, \<open>Lease_Properties\<close>, \<open>Lease_Guarantees\<close>: the backends and the registry of
    dynamic leases. A lease leaves the registry only when it was revoked, except on the named path of a renewal; it is used
    only by its subject; shutdown revokes what is left.
  \<^item> \<open>Net_Text\<close>, \<open>Configuration\<close>, \<open>Configuration_Properties\<close>: \<^verbatim>\<open>src/config.rs\<close> from the parsed document on.
  \<^item> \<open>Auth\<close>, \<open>Auth_Properties\<close>: \<^verbatim>\<open>src/auth.rs\<close>. The locale \<open>authentication_frame\<close> says what an authentication leaves alone.
  \<^item> \<open>Control\<close>, \<open>Control_Properties\<close>, \<open>Sessions\<close>, \<open>Session_Properties\<close>: the two services of \<^verbatim>\<open>src/server.rs\<close>.
  \<^item> \<open>Proxy\<close>, \<open>Proxy_Properties\<close>, \<open>WebSocket\<close>, \<open>Interception\<close>, \<open>Interception_Properties\<close>: the explicit proxy, CONNECT, the requests
    of a tunnel, the relay of a WebSocket, the certificates (\<^verbatim>\<open>ca.rs\<close>, \<^verbatim>\<open>src/transport_tls.rs\<close>) and a whole connection.
  \<^item> \<open>Browser\<close>, \<open>Browser_UI\<close>, \<open>Browser_Forms\<close>, \<open>Browser_Properties\<close>, \<open>Sign_In\<close>, \<open>Browser_Guarantees\<close>: the sign-in with GitHub,
    the pages, the owner panel and its forms.
  \<^item> \<open>Rate_Limit\<close>: the token bucket with rounded arithmetic.
  \<^item> \<open>Server\<close>, \<open>Server_Properties\<close> and this theory: \<open>run\<close> as a whole. An effect needs an identified caller, and a
    configuration that loads gives the server it describes.
  \<^item> \<open>Client_Host\<close>, \<open>Client_Calls\<close>, \<open>Local_Proxy\<close>, \<open>Client_Run\<close>, \<open>Container\<close>, \<open>Client_Frames\<close>, \<open>Client_Properties\<close>: the client. What
    every command keeps is proved once in the locale \<open>client_frame\<close>.

  \<^bold>\<open>Bounds.\<close>
  Loops over data are structural recursion. A loop that waits (the relay of a WebSocket, a run of the client, the reload of
  credentials, the polls of the device login) takes the list of the events, or the number of the turns, that it sees, and
  its properties hold for every such list; where it has to end, a property says within which number of steps. The
  choice of a lease handle is tried eight times, as in the code. Integers of a fixed width are words or carry their range
  check where the code can reach its end: times are nanoseconds with checked addition, the pool generation is a 64-bit word,
  addresses are words. A call runs to its end before the next one starts, except where two transactions are
  interleaved on purpose; between its own steps everything outside may change.

  \<^bold>\<open>Not modelled.\<close>
  The decoding of JSON and of forms by serde, the command line parser, TLS and HTTP framing, the accept loops and the copy of
  bytes between two sockets are code of libraries: what they deliver is an argument. Logging and the texts of most errors have
  no effect on a caller and are left out. The wiping of secrets from memory cannot be seen in values. Templates, style and
  scripts of the browser, the installation scripts, the Helm chart and the tests are not the program. The selection of the
  crypto provider (\<^verbatim>\<open>src/proxy_ca.rs\<close>) is one parameter, whether it succeeded.
\<close>

section \<open>The whole server\<close>

text \<open>
  C39. A request to the server changes the store or the leases, or sends anything upstream or to a backend of secrets,
  only if the rate limit let it through, it has a route, and its headers identify a caller at that moment: a
  password, a token of the identity provider or of an agent, or for a page or a form a browser session. Everything
  else the server does without knowing the caller leaves them as they are.
\<close>

theorem effects_need_identity:
  assumes "serve_request cr rnd ax e nw srv request s = (answer, t)"
    and "sv_db t \<noteq> sv_db s \<or> sv_leases t \<noteq> sv_leases s \<or> px_sent t \<noteq> px_sent s
      \<or> filter secret_request (io_sent t) \<noteq> filter secret_request (io_sent s)"
  shows "\<exists>s1 call subject. limit_request rnd e srv (uri_path (hq_target request)) s = (None, s1)
    \<and> ax_route ax default_body_limit request = Inr call \<and> identified cr e srv (hq_headers request) call subject s1"
  using serve_request_effect [OF assms(1)] assms(2) by (auto simp: idle_def)

theorem effects_need_identity_witness:
  "\<exists>subject s1. sv_db (snd (serve_request sample_browser_crates (\<lambda>x. x) form_axum gateway_env sample_network running_setup form_request
      running_state)) \<noteq> sv_db running_state
    \<and> identified sample_browser_crates gateway_env running_setup ada (UiFormCall (BasicUserEnabledForm ''ada'' False)) subject
      (s1 :: sample_url running_server)"
proof -
  let ?run = "serve_request sample_browser_crates (\<lambda>x. x) form_axum gateway_env sample_network running_setup form_request running_state"
  have changed: "sv_db (snd ?run) \<noteq> sv_db running_state" by code_simp
  with effects_need_identity [OF prod.collapse [symmetric, of ?run]] show ?thesis
    by (auto simp: form_axum_def form_request_def)
qed

text \<open>
  C40. A server that is given a configuration that loads either listens, and is what the configuration says (the store is
  there exactly in managed mode, connected and migrated with its initial owner; the provider of OIDC is the configured
  one; the sign-in with GitHub is there exactly in its mode; the transparent proxy has the catalog of the routes and
  tunnels; there is no lease and no browser session), or it stops for a reason outside the configuration: a file, a
  service, the database or an address. No route, connector, header or database setting stops it at that point.
\<close>

theorem server_starts_as_configured:
  assumes "config_load cr vars parsed = Inr config" and "policy_text_law cr" and "store_inv database"
    and "server_start cr tc e de he network vars config database s = (r, t)"
  shows "case r of
      Inl err \<Rightarrow> outside_error err
    | Inr srv \<Rightarrow> configured cr config database srv t \<and> (\<forall>db. sv_db t = Some db \<longrightarrow> store_inv db)"
proof (cases r)
  case (Inl err)
  with fails_outsideD [OF server_start_outside [OF assms(1,2)]] assms(4) show ?thesis by simp
next
  case (Inr srv)
  obtain public_url where "validate_auth cr vars config public_url = Inr ()"
    by (rule config_load_Inr [OF assms(1)])
  from server_start_configured [OF this assms(4) [unfolded Inr]] have started: "configured cr config database srv t" .
  with configured_store [OF started assms(3)] Inr show ?thesis by simp
qed

theorem server_starts_as_configured_witness:
  "\<exists>srv t. server_start startup_crates sample_tls startup_env accepting_database willing_host sample_github_network (\<lambda>_. None)
      startup_loaded empty_db running_state = (Inr srv, t)
    \<and> configured startup_crates startup_loaded empty_db srv t \<and> sv_db t \<noteq> None"
proof -
  let ?run = "server_start startup_crates sample_tls startup_env accepting_database willing_host sample_github_network (\<lambda>_. None)
      startup_loaded empty_db running_state"
  have "is_ok (fst ?run)" by code_simp
  then obtain srv t where run: "?run = (Inr srv, t)" by (metis is_ok_iff prod.collapse)
  have "config_load startup_crates (\<lambda>_. None) startup_config = Inr startup_loaded" by code_simp
  from server_starts_as_configured [OF this startup_policy_text_law empty_db_inv run]
  have started: "configured startup_crates startup_loaded empty_db srv t" by simp
  then have "sv_db t = None \<longleftrightarrow> cf_mode startup_loaded = Static" unfolding configured_def by blast
  moreover have "cf_mode startup_loaded = Managed" by code_simp
  ultimately have "sv_db t \<noteq> None" by simp
  with run started show ?thesis by blast
qed

end
